(* ===== verification/Prelude.thy ===== *)
theory Prelude
  imports Main "HOL-Library.Word"
begin

section \<open>Prelude: shared vocabulary and lemmas\<close>

text \<open>
  What the component theories share: the names of the model's basic types, the two shapes in which
  Go's \<^verbatim>\<open>if err != nil { return err }\<close> occurs (a check followed by the rest of the function, and a
  check inside a loop that returns at the first failure), and the generic facts on lists, sums and
  finite orders the component proofs rest on. A Go \<^verbatim>\<open>error\<close> result is an \<open>option\<close> (\<open>None\<close> is
  \<^verbatim>\<open>nil\<close>); a pair \<^verbatim>\<open>(T, error)\<close> of which one half is meaningful is a sum (\<open>Inl\<close> the error).
\<close>

type_synonym uint64 = "64 word"
type_synonym rune = nat

text \<open>A duration is a number of nanoseconds.\<close>

definition millisecond :: int where "millisecond = 1000000"

named_theorems err_simps \<open>when a checked sequence of operations succeeds\<close>
named_theorems spec_simps \<open>declarative characterisations of executable predicates\<close>

subsection \<open>Early returns\<close>

fun orElse :: "'e option \<Rightarrow> 'e option \<Rightarrow> 'e option" where
  "orElse None k = k"
| "orElse (Some e) k = Some e"

fun checkAll :: "(nat \<Rightarrow> 'a \<Rightarrow> 'e option) \<Rightarrow> nat \<Rightarrow> 'a list \<Rightarrow> 'e option" where
  "checkAll f i [] = None"
| "checkAll f i (x # xs) = orElse (f i x) (checkAll f (Suc i) xs)"

fun andThen :: "'e + 'a \<Rightarrow> ('a \<Rightarrow> 'e + 'b) \<Rightarrow> 'e + 'b" where
  "andThen (Inl e) k = Inl e"
| "andThen (Inr x) k = k x"

lemma orElse_None [simp, err_simps]: "orElse a b = None \<longleftrightarrow> a = None \<and> b = None"
  by (cases a) auto

lemma orElse_Some [err_simps]: "orElse a b = Some e \<longleftrightarrow> a = Some e \<or> a = None \<and> b = Some e"
  by (cases a) auto

lemma orElse_right_None [simp]: "orElse a None = a"
  by (cases a) auto

lemma checkAll_None [err_simps]:
  "checkAll f i xs = None \<longleftrightarrow> (\<forall>j < length xs. f (i + j) (xs ! j) = None)"
proof (induction xs arbitrary: i)
  case Nil
  then show ?case by simp
next
  case (Cons x xs)
  have "(\<forall>j < length (x # xs). f (i + j) ((x # xs) ! j) = None) \<longleftrightarrow>
      f i x = None \<and> (\<forall>j < length xs. f (Suc i + j) (xs ! j) = None)"
    by (auto simp: nth_Cons less_Suc_eq_0_disj split: nat.splits)
  with Cons.IH [of "Suc i"] show ?case by simp
qed

lemma checkAll_None_uniform:
  assumes "\<And>i x. f i x = None \<longleftrightarrow> P x"
  shows "checkAll f i xs = None \<longleftrightarrow> (\<forall>x \<in> set xs. P x)"
  by (induction xs arbitrary: i) (auto simp: assms)

lemma checkAll_Some:
  "checkAll f i xs = Some e \<Longrightarrow> \<exists>j < length xs. f (i + j) (xs ! j) = Some e"
proof (induction xs arbitrary: i)
  case Nil
  then show ?case by simp
next
  case (Cons x xs)
  show ?case
  proof (cases "f i x")
    case None
    with Cons.prems have "checkAll f (Suc i) xs = Some e" by simp
    then obtain j where "j < length xs" "f (Suc i + j) (xs ! j) = Some e"
      using Cons.IH by blast
    then show ?thesis by (intro exI [of _ "Suc j"]) simp
  next
    case (Some e')
    with Cons.prems show ?thesis by (intro exI [of _ 0]) simp
  qed
qed

lemma andThen_Inr [err_simps]: "andThen r k = Inr y \<longleftrightarrow> (\<exists>x. r = Inr x \<and> k x = Inr y)"
  by (cases r) auto

lemma andThen_Inl [err_simps]:
  "andThen r k = Inl e \<longleftrightarrow> r = Inl e \<or> (\<exists>x. r = Inr x \<and> k x = Inl e)"
  by (cases r) auto

subsection \<open>Lists\<close>

lemma set_take_subset_drop: "set xs = set (take n xs) \<union> set (drop n xs)"
  by (metis append_take_drop_id set_append)

lemma ex_maximal_above:
  fixes le :: "'a \<Rightarrow> 'a \<Rightarrow> bool"
  assumes fin: "finite A" and x: "x \<in> A"
    and refl: "\<And>a. le a a"
    and trans: "\<And>a b c. le a b \<Longrightarrow> le b c \<Longrightarrow> le a c"
    and antisym: "\<And>a b. le a b \<Longrightarrow> le b a \<Longrightarrow> a = b"
  shows "\<exists>m \<in> A. le x m \<and> (\<forall>y \<in> A. le m y \<longrightarrow> y = m)"
  using x
proof (induction "card {y \<in> A. le x y \<and> y \<noteq> x}" arbitrary: x rule: less_induct)
  case less
  let ?up = "\<lambda>x. {y \<in> A. le x y \<and> y \<noteq> x}"
  show ?case
  proof (cases "?up x = {}")
    case True
    then show ?thesis using less.prems refl by blast
  next
    case False
    then obtain y where y: "y \<in> A" "le x y" "y \<noteq> x" by blast
    have "?up y \<subset> ?up x"
      using y trans antisym by blast
    then have "card (?up y) < card (?up x)"
      using fin by (intro psubset_card_mono) auto
    from less.hyps [OF this y(1)] show ?thesis
      using y trans by blast
  qed
qed

end
