(* ===== verification/GoStrings.thy ===== *)
theory GoStrings
  imports Prelude UnicodeTables
begin

section \<open>Go strings\<close>

text \<open>
  A Go \<^verbatim>\<open>string\<close> is a sequence of bytes, here an Isabelle \<^typ>\<open>string\<close> (a list of 8-bit characters).
  \<^verbatim>\<open>for _, r := range s\<close> decodes UTF-8: \<open>decodeRune\<close> is one step of that decoder, which yields
  U+FFFD with width 1 on a malformed byte, and \<open>runes\<close> the whole sequence. On top of it stand the
  functions of the packages \<^verbatim>\<open>strings\<close>, \<^verbatim>\<open>strconv\<close>, \<^verbatim>\<open>unicode\<close> and \<^verbatim>\<open>utf8\<close> the sources call.
  The lemmas say what the subject grammar needs: a byte below 128 occurs in a string exactly when
  the rune of that value does, and splitting at a separator inverts joining by it.
\<close>

subsection \<open>UTF-8\<close>

abbreviation RuneError :: rune where
  "RuneError \<equiv> 65533"

abbreviation bytesOf :: "string \<Rightarrow> nat list" where
  "bytesOf s \<equiv> map of_char s"

definition within :: "nat \<Rightarrow> nat \<Rightarrow> nat \<Rightarrow> bool" where
  "within lo hi b \<longleftrightarrow> lo \<le> b \<and> b \<le> hi"

text \<open>The bytes accepted after a first byte, as in the table of package \<^verbatim>\<open>utf8\<close>.\<close>

definition second3 :: "nat \<Rightarrow> nat \<Rightarrow> bool" where
  "second3 b0 b1 \<longleftrightarrow> (if b0 = 0xE0 then within 0xA0 0xBF b1
     else if b0 = 0xED then within 0x80 0x9F b1 else within 0x80 0xBF b1)"

definition second4 :: "nat \<Rightarrow> nat \<Rightarrow> bool" where
  "second4 b0 b1 \<longleftrightarrow> (if b0 = 0xF0 then within 0x90 0xBF b1
     else if b0 = 0xF4 then within 0x80 0x8F b1 else within 0x80 0xBF b1)"

fun decode2 :: "nat \<Rightarrow> nat list \<Rightarrow> rune \<times> nat" where
  "decode2 b0 (b1 # _) = (if within 0x80 0xBF b1
     then ((b0 - 0xC0) * 64 + (b1 - 0x80), 2) else (RuneError, 1))"
| "decode2 b0 [] = (RuneError, 1)"

fun decode3 :: "nat \<Rightarrow> nat list \<Rightarrow> rune \<times> nat" where
  "decode3 b0 (b1 # b2 # _) = (if second3 b0 b1 \<and> within 0x80 0xBF b2
     then ((b0 - 0xE0) * 4096 + (b1 - 0x80) * 64 + (b2 - 0x80), 3) else (RuneError, 1))"
| "decode3 b0 _ = (RuneError, 1)"

fun decode4 :: "nat \<Rightarrow> nat list \<Rightarrow> rune \<times> nat" where
  "decode4 b0 (b1 # b2 # b3 # _) =
     (if second4 b0 b1 \<and> within 0x80 0xBF b2 \<and> within 0x80 0xBF b3
      then ((b0 - 0xF0) * 262144 + (b1 - 0x80) * 4096 + (b2 - 0x80) * 64 + (b3 - 0x80), 4)
      else (RuneError, 1))"
| "decode4 b0 _ = (RuneError, 1)"

definition decodeRune :: "nat \<Rightarrow> nat list \<Rightarrow> rune \<times> nat" where
  "decodeRune b0 bs =
     (if b0 < 0x80 then (b0, 1)
      else if within 0xC2 0xDF b0 then decode2 b0 bs
      else if within 0xE0 0xEF b0 then decode3 b0 bs
      else if within 0xF0 0xF4 b0 then decode4 b0 bs
      else (RuneError, 1))"

text \<open>The runes of a byte sequence, each with the number of bytes it took.\<close>

fun decodeAll :: "nat list \<Rightarrow> (rune \<times> nat) list" where
  "decodeAll [] = []"
| "decodeAll (b # bs) = (let rw = decodeRune b bs in rw # decodeAll (drop (snd rw - 1) bs))"

definition runes :: "string \<Rightarrow> rune list" where
  "runes s = map fst (decodeAll (bytesOf s))"

definition encodeRune :: "rune \<Rightarrow> nat list" where
  "encodeRune r =
     (if r < 0x80 then [r]
      else if r < 0x800 then [0xC0 + r div 64, 0x80 + r mod 64]
      else if within 0xD800 0xDFFF r \<or> 0x10FFFF < r then [0xEF, 0xBF, 0xBD]
      else if r < 0x10000 then [0xE0 + r div 4096, 0x80 + r div 64 mod 64, 0x80 + r mod 64]
      else [0xF0 + r div 262144, 0x80 + r div 4096 mod 64, 0x80 + r div 64 mod 64, 0x80 + r mod 64])"

definition runeString :: "rune \<Rightarrow> string" where
  "runeString r = map char_of (encodeRune r)"

subsection \<open>Character classes\<close>

definition IsSpace :: "rune \<Rightarrow> bool" where
  "IsSpace r \<longleftrightarrow> (if r \<le> 0xFF then r \<in> {9, 10, 11, 12, 13, 32, 0x85, 0xA0}
     else r = 0x1680 \<or> within 0x2000 0x200A r \<or> r \<in> {0x2028, 0x2029, 0x202F, 0x205F, 0x3000})"

definition IsPrint :: "rune \<Rightarrow> bool" where
  "IsPrint r \<longleftrightarrow> (if r \<le> 0xFF then within 0x20 0x7E r \<or> within 0xA1 0xFF r \<and> r \<noteq> 0xAD
     else list_ex (\<lambda>(lo, hi). within lo hi r) printRanges)"

definition toUpperRune :: "rune \<Rightarrow> rune" where
  "toUpperRune r =
     (case find (\<lambda>(lo, hi, step, d). within lo hi r \<and> (r - lo) mod step = 0) upperRanges of
        None \<Rightarrow> r
      | Some (lo, hi, step, d) \<Rightarrow> nat (int r + d))"

subsection \<open>Packages strings and strconv\<close>

fun Split :: "char \<Rightarrow> string \<Rightarrow> string list" where
  "Split c [] = [[]]"
| "Split c (x # xs) = (if x = c then [] # Split c xs
     else (case Split c xs of [] \<Rightarrow> [[x]] | p # ps \<Rightarrow> (x # p) # ps))"

fun Join :: "string list \<Rightarrow> string \<Rightarrow> string" where
  "Join [] sep = []"
| "Join [p] sep = p"
| "Join (p # ps) sep = p @ sep @ Join ps sep"

fun HasPrefix :: "string \<Rightarrow> string \<Rightarrow> bool" where
  "HasPrefix s [] = True"
| "HasPrefix [] (p # ps) = False"
| "HasPrefix (x # xs) (p # ps) = (x = p \<and> HasPrefix xs ps)"

definition HasSuffix :: "string \<Rightarrow> string \<Rightarrow> bool" where
  "HasSuffix s t = HasPrefix (rev s) (rev t)"

fun Contains :: "string \<Rightarrow> string \<Rightarrow> bool" where
  "Contains [] t = (t = [])"
| "Contains (x # xs) t = (HasPrefix (x # xs) t \<or> Contains xs t)"

definition TrimChar :: "string \<Rightarrow> char \<Rightarrow> string" where
  "TrimChar s c = rev (dropWhile (\<lambda>x. x = c) (rev (dropWhile (\<lambda>x. x = c) s)))"

definition ToUpper :: "string \<Rightarrow> string" where
  "ToUpper s = concat (map (runeString \<circ> toUpperRune) (runes s))"

text \<open>
  A replacer with two pairs scans left to right; at each position the first pair whose old string
  is a prefix of the rest applies, and the scan goes on after it.
\<close>

function Replace2 :: "string \<Rightarrow> string \<Rightarrow> string \<Rightarrow> string \<Rightarrow> string \<Rightarrow> string" where
  "Replace2 o1 n1 o2 n2 s =
     (case s of [] \<Rightarrow> []
      | x # xs \<Rightarrow>
          if o1 \<noteq> [] \<and> HasPrefix s o1 then n1 @ Replace2 o1 n1 o2 n2 (drop (length o1) s)
          else if o2 \<noteq> [] \<and> HasPrefix s o2 then n2 @ Replace2 o1 n1 o2 n2 (drop (length o2) s)
          else x # Replace2 o1 n1 o2 n2 xs)"
  by pat_completeness auto
termination
  by (relation "measure (\<lambda>(o1, n1, o2, n2, s). length s)") auto

declare Replace2.simps [simp del]

fun itoaAux :: "nat \<Rightarrow> string" where
  "itoaAux n = (if n < 10 then [char_of (48 + n)] else itoaAux (n div 10) @ [char_of (48 + n mod 10)])"

declare itoaAux.simps [simp del]

definition Itoa :: "int \<Rightarrow> string" where
  "Itoa i = (if i < 0 then CHR ''-'' # itoaAux (nat (- i)) else itoaAux (nat i))"

definition hexDigit :: "nat \<Rightarrow> char" where
  "hexDigit n = (if n < 10 then char_of (48 + n) else char_of (87 + n))"

fun hexFixed :: "nat \<Rightarrow> nat \<Rightarrow> string" where
  "hexFixed 0 n = []"
| "hexFixed (Suc k) n = hexFixed k (n div 16) @ [hexDigit (n mod 16)]"

definition escapes :: "(nat \<times> string) list" where
  "escapes = [(7, ''a''), (8, ''b''), (12, ''f''), (10, ''n''), (13, ''r''), (9, ''t''), (11, ''v'')]"

text \<open>One rune of a quoted string or rune literal, with the quote character that delimits it.\<close>

definition quoteRune :: "nat \<Rightarrow> rune \<Rightarrow> string" where
  "quoteRune q r =
     (if r = q \<or> r = 92 then [char_of (92::nat), char_of r]
      else if IsPrint r then runeString r
      else case map_of escapes r of
        Some e \<Rightarrow> char_of (92::nat) # e
      | None \<Rightarrow>
          if r < 32 \<or> r = 127 then [char_of (92::nat), CHR ''x''] @ hexFixed 2 r
          else if r < 0x10000 then [char_of (92::nat), CHR ''u''] @ hexFixed 4 r
          else [char_of (92::nat), CHR ''U''] @ hexFixed 8 r)"

fun quoteAll :: "nat list \<Rightarrow> (rune \<times> nat) list \<Rightarrow> string" where
  "quoteAll bs [] = []"
| "quoteAll bs ((r, w) # rs) =
     (if r = RuneError \<and> w = 1 then [char_of (92::nat), CHR ''x''] @ hexFixed 2 (hd bs)
      else quoteRune 34 r) @ quoteAll (drop w bs) rs"

definition Quote :: "string \<Rightarrow> string" where
  "Quote s = [char_of (34::nat)] @ quoteAll (bytesOf s) (decodeAll (bytesOf s)) @ [char_of (34::nat)]"

definition QuoteRune :: "rune \<Rightarrow> string" where
  "QuoteRune r = [char_of (39::nat)] @ quoteRune 39 r @ [char_of (39::nat)]"

subsection \<open>Decoding and ASCII\<close>

lemma decode2_cont:
  assumes "decode2 b bs = (r, w)"
  shows "0 < w \<and> (\<forall>x \<in> set (take (w - 1) bs). 128 \<le> x)"
  using assms by (cases "(b, bs)" rule: decode2.cases) (auto simp: within_def split: if_splits)

lemma decode3_cont:
  assumes "decode3 b bs = (r, w)"
  shows "0 < w \<and> (\<forall>x \<in> set (take (w - 1) bs). 128 \<le> x)"
  using assms
  by (cases "(b, bs)" rule: decode3.cases)
    (auto simp: within_def second3_def numeral_2_eq_2 split: if_splits)

lemma decode4_cont:
  assumes "decode4 b bs = (r, w)"
  shows "0 < w \<and> (\<forall>x \<in> set (take (w - 1) bs). 128 \<le> x)"
  using assms
  by (cases "(b, bs)" rule: decode4.cases)
    (auto simp: within_def second4_def numeral_3_eq_3 split: if_splits)

lemma decodeRune_cont:
  assumes "decodeRune b bs = (r, w)"
  shows "0 < w \<and> (\<forall>x \<in> set (take (w - 1) bs). 128 \<le> x)"
  using assms decode2_cont decode3_cont decode4_cont
  by (auto simp: decodeRune_def split: if_splits)

lemma decodeRune_ascii: "b < 128 \<Longrightarrow> decodeRune b bs = (b, 1)"
  by (simp add: decodeRune_def)

text \<open>A multi-byte sequence never decodes to an ASCII rune (no overlong forms).\<close>

lemma decode2_big: "within 0xC2 0xDF b \<Longrightarrow> decode2 b bs = (r, w) \<Longrightarrow> 128 \<le> r"
  by (cases "(b, bs)" rule: decode2.cases) (auto simp: within_def split: if_splits)

lemma decode3_big: "within 0xE0 0xEF b \<Longrightarrow> decode3 b bs = (r, w) \<Longrightarrow> 128 \<le> r"
  by (cases "(b, bs)" rule: decode3.cases) (auto simp: within_def second3_def split: if_splits)

lemma decode4_big: "within 0xF0 0xF4 b \<Longrightarrow> decode4 b bs = (r, w) \<Longrightarrow> 128 \<le> r"
  by (cases "(b, bs)" rule: decode4.cases) (auto simp: within_def second4_def split: if_splits)

lemma decodeRune_big: "128 \<le> b \<Longrightarrow> decodeRune b bs = (r, w) \<Longrightarrow> 128 \<le> r"
  using decode2_big decode3_big decode4_big by (auto simp: decodeRune_def split: if_splits)

lemma decodeAll_ascii_iff:
  "c < 128 \<Longrightarrow> c \<in> set (map fst (decodeAll bs)) \<longleftrightarrow> c \<in> set bs"
proof (induction bs rule: decodeAll.induct)
  case 1
  then show ?case by simp
next
  case (2 b bs)
  obtain r w where rw: "decodeRune b bs = (r, w)" by fastforce
  have bs: "set bs = set (take (w - 1) bs) \<union> set (drop (w - 1) bs)"
    by (rule set_take_subset_drop)
  have "c \<notin> set (take (w - 1) bs)"
    using decodeRune_cont [OF rw] 2(2) by fastforce
  moreover have "c = r \<longleftrightarrow> c = b"
    using decodeRune_big [OF _ rw] decodeRune_ascii [of b bs] rw 2(2)
    by (cases "b < 128") (auto simp: not_less)
  ultimately show ?case
    using 2(1) [OF refl 2(2)] bs rw by auto
qed

lemma runes_ascii_iff: "(c::nat) < 128 \<Longrightarrow> c \<in> set (runes s) \<longleftrightarrow> char_of c \<in> set s"
  by (simp add: runes_def decodeAll_ascii_iff del: set_map)
    (force simp: image_iff)

subsection \<open>Upper case\<close>

lemma upperRanges_tail: "list_all (\<lambda>(lo, hi, step, d). 128 \<le> lo) (tl upperRanges)"
  unfolding upperRanges_def by (simp only: list.sel list.pred_inject prod.case) simp

lemma upperRanges_hd: "upperRanges = (97, 122, 1, -32) # tl upperRanges"
  unfolding upperRanges_def by (simp only: list.sel)

lemma toUpperRune_ascii: "r < 128 \<Longrightarrow> toUpperRune r = (if within 97 122 r then r - 32 else r)"
proof -
  assume r: "r < 128"
  have "find (\<lambda>(lo, hi, step, d). within lo hi r \<and> (r - lo) mod step = 0) (tl upperRanges) = None"
    using upperRanges_tail r by (auto simp: find_None_iff within_def list_all_iff)
  then show ?thesis
    unfolding toUpperRune_def by (subst upperRanges_hd) (auto simp: within_def)
qed

definition upperChar :: "char \<Rightarrow> char" where
  "upperChar c = (if within 97 122 (of_char c) then char_of (of_char c - 32 :: nat) else c)"

lemma decodeAll_all_ascii: "\<forall>b \<in> set bs. b < 128 \<Longrightarrow> decodeAll bs = map (\<lambda>b. (b, 1)) bs"
  by (induction bs) (auto simp: decodeRune_ascii)

lemma runes_all_ascii: "\<forall>c \<in> set s. of_char c < (128::nat) \<Longrightarrow> runes s = bytesOf s"
  by (simp add: runes_def decodeAll_all_ascii comp_def)

text \<open>On ASCII strings upper-casing acts on each byte, the fast path of \<^verbatim>\<open>strings.ToUpper\<close>.\<close>

lemma ToUpper_ascii:
  assumes "\<forall>c \<in> set s. of_char c < (128::nat)"
  shows "ToUpper s = map upperChar s"
proof -
  have "runeString (toUpperRune (of_char c)) = [upperChar c]" if "c \<in> set s" for c
    using assms that
    by (auto simp: toUpperRune_ascii runeString_def encodeRune_def upperChar_def)
  then show ?thesis
    by (simp add: ToUpper_def runes_all_ascii [OF assms] comp_def concat_map_singleton cong: map_cong)
qed

subsection \<open>Split and Join\<close>

lemma Split_nonempty [simp]: "Split c s \<noteq> []"
  by (cases s) (auto split: list.splits)

lemma Split_no_sep [simp]: "c \<notin> set s \<Longrightarrow> Split c s = [s]"
  by (induction s) auto

lemma Split_append_sep: "c \<notin> set p \<Longrightarrow> Split c (p @ c # s) = p # Split c s"
  by (induction p) auto

lemma Split_Join:
  "ps \<noteq> [] \<Longrightarrow> \<forall>p \<in> set ps. c \<notin> set p \<Longrightarrow> Split c (Join ps [c]) = ps"
  by (induction ps "[c]" rule: Join.induct) (auto simp: Split_append_sep)

lemma Join_Split: "Join (Split c s) [c] = s"
proof (induction s)
  case Nil
  then show ?case by simp
next
  case (Cons x s)
  obtain p ps where "Split c s = p # ps" by (meson Split_nonempty list.exhaust)
  with Cons show ?case by (cases ps) auto
qed

declare Join.simps [simp del]

lemma Split_parts_no_sep: "p \<in> set (Split c s) \<Longrightarrow> c \<notin> set p"
  by (induction s arbitrary: p) (auto split: if_splits list.splits)

lemma Split_inj: "Split c s = Split c t \<Longrightarrow> s = t"
  by (metis Join_Split)

subsection \<open>Prefixes and suffixes\<close>

lemma HasPrefix_iff: "HasPrefix s p \<longleftrightarrow> (\<exists>t. s = p @ t)"
  by (induction s p rule: HasPrefix.induct) auto

lemma HasSuffix_iff: "HasSuffix s p \<longleftrightarrow> (\<exists>t. s = t @ p)"
  by (auto simp: HasSuffix_def HasPrefix_iff) (metis rev_append rev_rev_ident)

lemma Contains_iff: "Contains s t \<longleftrightarrow> (\<exists>u v. s = u @ t @ v)"
proof (induction s)
  case Nil
  then show ?case by simp
next
  case (Cons x s)
  show ?case
    using Cons.IH by (auto simp: HasPrefix_iff append_eq_Cons_conv Cons_eq_append_conv)
qed

subsection \<open>Decimal numbers\<close>

lemma itoaAux_digits: "d \<in> set (bytesOf (itoaAux n)) \<Longrightarrow> 48 \<le> d \<and> d \<le> (57::nat)"
proof (induction n rule: itoaAux.induct)
  case (1 n)
  then show ?case by (subst (asm) itoaAux.simps) (auto split: if_splits simp: of_char_of)
qed

lemma itoaAux_value:
  "foldl (\<lambda>acc d. acc * 10 + (d - 48)) 0 (bytesOf (itoaAux n)) = (n :: nat)"
proof (induction n rule: itoaAux.induct)
  case (1 n)
  show ?case
  proof (cases "n < 10")
    case True
    then show ?thesis by (subst itoaAux.simps) (simp add: of_char_of)
  next
    case False
    have "bytesOf (itoaAux n) = bytesOf (itoaAux (n div 10)) @ [48 + n mod 10]"
      using False by (subst itoaAux.simps) (simp add: of_char_of)
    with "1.IH" [OF False] show ?thesis by simp
  qed
qed

lemma itoaAux_nonempty [simp]: "itoaAux n \<noteq> []"
  by (subst itoaAux.simps) simp

lemma itoaAux_inj: "itoaAux m = itoaAux n \<Longrightarrow> m = n"
  by (metis itoaAux_value)

lemma Itoa_inj_nonneg: "0 \<le> i \<Longrightarrow> 0 \<le> j \<Longrightarrow> Itoa i = Itoa j \<longleftrightarrow> i = j"
  using itoaAux_inj by (auto simp: Itoa_def) (metis nat_eq_iff)

end
