(* ===== verification/Contracts.thy ===== *)
theory Contracts
  imports GoStrings
begin

section \<open>Domain contracts\<close>

text \<open>
  The interfaces of \<^verbatim>\<open>src/contracts.go\<close> and the \<^verbatim>\<open>Subject\<close> struct of \<^verbatim>\<open>src/subject.go\<close>. A Go
  interface value is modelled by what its methods return: one interface embedding another is a record
  extending another, so \<^verbatim>\<open>AggregateRef\<close> is the root, and \<open>Event\<close> and \<open>Command\<close> extend a
  message record that also holds the dynamic type (what \<^verbatim>\<open>reflect.TypeOf\<close> returns), the result of
  the optional \<^verbatim>\<open>MessageKindOverride\<close> interface (\<open>None\<close> when the value does not implement it) and
  the remaining contents of the value, of a type \<open>'v\<close> the application chooses.
\<close>

datatype gotype = GoNamed string | GoPtr gotype | GoIface string

record AggregateRef =
  AggregateScope :: string
  AggregateType :: string
  AggregateID :: string

record 'v Message = AggregateRef +
  MessageKindOverride :: "string option"
  TypeOf :: gotype
  Val :: 'v

record 'v Event = "'v Message" +
  EventName :: string

record 'v Command = "'v Message" +
  CommandName :: string

definition DefaultSnapshotEventName :: string where
  "DefaultSnapshotEventName = ''snapshot''"

text \<open>A type that embeds \<^verbatim>\<open>SnapshotEventBase\<close> takes its event name from it.\<close>

definition SnapshotEventBase :: "'v Event \<Rightarrow> 'v Event" where
  "SnapshotEventBase e = e\<lparr>EventName := DefaultSnapshotEventName\<rparr>"

type_synonym MessageKind = string

definition KindEvent :: MessageKind where "KindEvent = ''event''"
definition KindCommand :: MessageKind where "KindCommand = ''command''"
definition KindQuery :: MessageKind where "KindQuery = ''query''"

lemmas kind_defs = KindEvent_def KindCommand_def KindQuery_def

record Subject =
  Scope :: string
  Kind :: MessageKind
  AggType :: string
  AggID :: string
  Name :: string

definition zeroSubject :: Subject where
  "zeroSubject = \<lparr>Scope = [], Kind = [], AggType = [], AggID = [], Name = []\<rparr>"

end
