(* ===== verification/GoJson.thy ===== *)
theory GoJson
  imports GoStrings
begin

section \<open>Byte slices and JSON\<close>

text \<open>
  The sources treat a payload \<^verbatim>\<open>[]byte\<close> in two ways: as opaque bytes, and as JSON text handed to
  \<^verbatim>\<open>encoding/json\<close>. A payload is therefore represented by what the JSON parser makes of it: \<open>Json j\<close>
  is a text whose value is \<open>j\<close>, \<open>Raw s\<close> a byte string that is not JSON, the empty slice among
  them. Numbers are restricted to integers, which is all the sources decode.
\<close>

datatype json =
    JNull
  | JBool bool
  | JNum int
  | JStr string
  | JArr "json list"
  | JObj "(string \<times> json) list"

datatype payload = Json json | Raw string

definition emptyPayload :: payload where
  "emptyPayload = Raw []"

text \<open>
  \<^verbatim>\<open>json.Unmarshal\<close> into a struct assigns each member of an object, in order, to the field whose name
  the key equals up to case folding. The folding is that of simple upper-casing, with the Kelvin sign
  folded to K.
\<close>

definition foldRune :: "rune \<Rightarrow> rune" where
  "foldRune r = (if r = 0x212A then 75 else toUpperRune r)"

definition foldName :: "string \<Rightarrow> rune list" where
  "foldName s = map foldRune (runes s)"

definition membersOf :: "string \<Rightarrow> (string \<times> json) list \<Rightarrow> json list" where
  "membersOf name ms = map snd (filter (\<lambda>(k, v). k = name \<or> foldName k = foldName name) ms)"

text \<open>
  Assigning the members found for a field of type string or bool, one after the other: null leaves
  the field as it is, a value of another type is an error.
\<close>

fun stringField :: "json list \<Rightarrow> string \<Rightarrow> string option" where
  "stringField [] s = Some s"
| "stringField (JNull # js) s = stringField js s"
| "stringField (JStr t # js) s = stringField js t"
| "stringField (_ # js) s = None"

fun boolField :: "json list \<Rightarrow> bool \<Rightarrow> bool option" where
  "boolField [] b = Some b"
| "boolField (JNull # js) b = boolField js b"
| "boolField (JBool c # js) b = boolField js c"
| "boolField (_ # js) b = None"

text \<open>A field of type \<^verbatim>\<open>json.RawMessage\<close> keeps the text of the last member, null included.\<close>

definition rawField :: "json list \<Rightarrow> payload" where
  "rawField js = (if js = [] then emptyPayload else Json (last js))"

end
