(* ===== verification/Errors.thy ===== *)
theory Errors
  imports Contracts GoJson
begin

section \<open>Errors\<close>

text \<open>
  The error values of \<^verbatim>\<open>src/errors.go\<close>, \<^verbatim>\<open>src/subject.go\<close> and \<^verbatim>\<open>src/nats/read.go\<close>, the sentinel
  errors of the packages the sources call, and wrapping. An error of the NATS client is \<open>Foreign\<close>:
  which sentinel it is, and the text the client gives it, or an API error with its code, description
  and text. \<open>Errorf pre e post\<close> is what
  \<^verbatim>\<open>fmt.Errorf\<close> makes of a format with one \<^verbatim>\<open>%w\<close>: the text before it, the wrapped error, the text
  after it; \<open>ErrorString\<close> is an error known only by its text (\<^verbatim>\<open>errors.New\<close>, a format without
  \<^verbatim>\<open>%w\<close>, an error of a foreign package). \<open>errorsIs\<close> follows \<^verbatim>\<open>errors.Is\<close>: equality, then the
  \<^verbatim>\<open>Is\<close> method, then the wrapped error. The code asks it for sentinel targets only, where equality
  of values and identity of pointers agree.
\<close>

datatype sentinel = NatsNoResponders | JSStreamNotFound | JSConsumerNotFound | JSMsgNotFound

datatype goerror =
    ErrConflict
  | ErrNoResponders
  | ErrInvalidResultType
  | ErrClosed
  | ErrInvalidName
  | errStreamNotFound
  | errStopStream
  | ConflictError uint64 uint64
  | UnknownEventError string string string
  | UnknownCommandError string string string
  | SubscriptionError Subject string uint64 bool bool "goerror option"
  | ResponseError payload
  | Errorf string goerror string
  | ErrorString string
  | ContextCanceled
  | ContextDeadlineExceeded
  | Foreign sentinel string
  | JSAPIError nat string string

text \<open>The sentinel errors of the NATS client, as targets of \<^verbatim>\<open>errors.Is\<close>.\<close>

abbreviation gonatsErrNoResponders :: goerror where
  "gonatsErrNoResponders \<equiv> Foreign NatsNoResponders []"
abbreviation jetstreamErrStreamNotFound :: goerror where
  "jetstreamErrStreamNotFound \<equiv> Foreign JSStreamNotFound []"
abbreviation jetstreamErrConsumerNotFound :: goerror where
  "jetstreamErrConsumerNotFound \<equiv> Foreign JSConsumerNotFound []"
abbreviation jetstreamErrMsgNotFound :: goerror where
  "jetstreamErrMsgNotFound \<equiv> Foreign JSMsgNotFound []"

subsection \<open>Wrapping\<close>

fun Unwrap :: "goerror \<Rightarrow> goerror option" where
  "Unwrap (Errorf pre e post) = Some e"
| "Unwrap (SubscriptionError subj q n exh tr err) = err"
| "Unwrap _ = None"

text \<open>The \<^verbatim>\<open>Is\<close> methods.\<close>

fun errIs :: "goerror \<Rightarrow> goerror \<Rightarrow> bool" where
  "errIs (ConflictError ex ac) target = (target = ErrConflict)"
| "errIs (UnknownEventError s a n) target = (case target of UnknownEventError _ _ _ \<Rightarrow> True | _ \<Rightarrow> False)"
| "errIs (UnknownCommandError s a n) target = (case target of UnknownCommandError _ _ _ \<Rightarrow> True | _ \<Rightarrow> False)"
| "errIs _ target = False"

primrec errorsIs :: "goerror \<Rightarrow> goerror \<Rightarrow> bool"
  and errorsIsOpt :: "goerror option \<Rightarrow> goerror \<Rightarrow> bool"
where
  "errorsIs ErrConflict t = (ErrConflict = t)"
| "errorsIs ErrNoResponders t = (ErrNoResponders = t)"
| "errorsIs ErrInvalidResultType t = (ErrInvalidResultType = t)"
| "errorsIs ErrClosed t = (ErrClosed = t)"
| "errorsIs ErrInvalidName t = (ErrInvalidName = t)"
| "errorsIs errStreamNotFound t = (errStreamNotFound = t)"
| "errorsIs errStopStream t = (errStopStream = t)"
| "errorsIs (ConflictError a b) t = (ConflictError a b = t \<or> errIs (ConflictError a b) t)"
| "errorsIs (UnknownEventError s a n) t =
     (UnknownEventError s a n = t \<or> errIs (UnknownEventError s a n) t)"
| "errorsIs (UnknownCommandError s a n) t =
     (UnknownCommandError s a n = t \<or> errIs (UnknownCommandError s a n) t)"
| "errorsIs (SubscriptionError subj q n exh tr err) t =
     (SubscriptionError subj q n exh tr err = t \<or> errorsIsOpt err t)"
| "errorsIs (ResponseError p) t = (ResponseError p = t)"
| "errorsIs (Errorf pre e post) t = (Errorf pre e post = t \<or> errorsIs e t)"
| "errorsIs (ErrorString s) t = (ErrorString s = t)"
| "errorsIs ContextCanceled t = (ContextCanceled = t)"
| "errorsIs ContextDeadlineExceeded t = (ContextDeadlineExceeded = t)"
| "errorsIs (Foreign k s) t = (case t of Foreign k' _ \<Rightarrow> k = k' | _ \<Rightarrow> False)"
| "errorsIs (JSAPIError c d s) t = (JSAPIError c d s = t)"
| "errorsIsOpt None t = False"
| "errorsIsOpt (Some e) t = errorsIs e t"

text \<open>\<^verbatim>\<open>errors.As\<close> for a target of type \<^verbatim>\<open>*UnknownEventError\<close> and of type \<^verbatim>\<open>*jetstream.APIError\<close>.\<close>

function asUnknownEvent :: "goerror \<Rightarrow> bool" where
  "asUnknownEvent e = (case e of
     UnknownEventError _ _ _ \<Rightarrow> True
   | _ \<Rightarrow> (case Unwrap e of None \<Rightarrow> False | Some e' \<Rightarrow> asUnknownEvent e'))"
  by pat_completeness auto
termination
proof (relation "measure size")
  fix e e' :: goerror
  assume "Unwrap e = Some e'"
  then show "(e', e) \<in> measure size"
    by (cases e) auto
qed auto

declare asUnknownEvent.simps [simp del]

function asAPIError :: "goerror \<Rightarrow> (nat \<times> string) option" where
  "asAPIError e = (case e of
     JSAPIError c d s \<Rightarrow> Some (c, d)
   | _ \<Rightarrow> (case Unwrap e of None \<Rightarrow> None | Some e' \<Rightarrow> asAPIError e'))"
  by pat_completeness auto
termination
proof (relation "measure size")
  fix e e' :: goerror
  assume "Unwrap e = Some e'"
  then show "(e', e) \<in> measure size"
    by (cases e) auto
qed auto

declare asAPIError.simps [simp del]

subsection \<open>Texts\<close>

text \<open>
  The \<^verbatim>\<open>Error\<close> method of \<^verbatim>\<open>ResponseError\<close>: the member detail, or else message, of the payload.
\<close>

definition responseErrorText :: "payload \<Rightarrow> string" where
  "responseErrorText p = (case p of
     Json (JObj ms) \<Rightarrow>
       (case (stringField (membersOf ''detail'' ms) [], stringField (membersOf ''message'' ms) []) of
          (Some detail, Some message) \<Rightarrow>
            if detail \<noteq> [] then detail else if message \<noteq> [] then message else ''operation failed''
        | _ \<Rightarrow> ''operation failed'')
   | _ \<Rightarrow> ''operation failed'')"

primrec Error :: "goerror \<Rightarrow> string"
  and ErrorOpt :: "goerror option \<Rightarrow> string"
where
  "Error ErrConflict = ''event version conflict''"
| "Error ErrNoResponders = ''no responders available''"
| "Error ErrInvalidResultType = ''invalid query result type''"
| "Error ErrClosed = ''bus is closed''"
| "Error ErrInvalidName = ''invalid message name''"
| "Error errStreamNotFound = ''event stream not found''"
| "Error errStopStream = ''stop stream''"
| "Error (ConflictError expected actual) =
     ''event version conflict: expected '' @ Itoa (uint expected) @ '', got '' @ Itoa (uint actual)"
| "Error (UnknownEventError scope aggType name) =
     ''unknown event type: '' @ scope @ ''.'' @ aggType @ ''.'' @ name"
| "Error (UnknownCommandError scope aggType name) =
     ''unknown command type: '' @ scope @ ''.'' @ aggType @ ''.'' @ name"
| "Error (SubscriptionError subj q n exh tr err) = ErrorOpt err"
| "Error (ResponseError p) = responseErrorText p"
| "Error (Errorf pre e post) = pre @ Error e @ post"
| "Error (ErrorString s) = s"
| "Error ContextCanceled = ''context canceled''"
| "Error ContextDeadlineExceeded = ''context deadline exceeded''"
| "Error (Foreign k s) = s"
| "Error (JSAPIError c d s) = s"
| "ErrorOpt None = ''subscription error''"
| "ErrorOpt (Some e) = Error e"

subsection \<open>Facts\<close>

lemma errorsIs_refl [simp]: "errorsIs e e"
  by (cases e) auto

lemma errorsIs_wrap: "errorsIs e t \<Longrightarrow> errorsIs (Errorf pre e post) t"
  by simp

lemma errorsIs_conflict_iff:
  "errorsIs e ErrConflict \<longleftrightarrow>
     e = ErrConflict \<or> (\<exists>ex ac. e = ConflictError ex ac) \<or>
     (\<exists>e'. Unwrap e = Some e' \<and> errorsIs e' ErrConflict)"
  by (cases e) (simp_all split: option.splits, metis errorsIsOpt.simps not_None_eq option.inject)

lemma asUnknownEvent_simps [simp]:
  "asUnknownEvent (UnknownEventError s a n)"
  "asUnknownEvent (Errorf pre e post) = asUnknownEvent e"
  "\<not> asUnknownEvent (ErrorString t)"
  "\<not> asUnknownEvent ErrInvalidName"
  by (simp_all add: asUnknownEvent.simps)

lemma asAPIError_simps [simp]:
  "asAPIError (JSAPIError c d s) = Some (c, d)"
  "asAPIError (Errorf pre e post) = asAPIError e"
  "asAPIError (ErrorString t) = None"
  by (simp_all add: asAPIError.simps)

end
