(* ===== verification/Subjects.thy ===== *)
theory Subjects
  imports Errors
begin

section \<open>Subjects\<close>

text \<open>
  \<^verbatim>\<open>src/subject.go\<close>: the delivery subject of a message, its string form and its validation. The lemmas
  characterise the token grammar: a valid token is not empty and holds none of the bytes that have a
  meaning on the wire, so a valid subject has exactly five tokens.
\<close>

definition messageKind :: "('v, 'z) Message_scheme \<Rightarrow> MessageKind \<Rightarrow> MessageKind" where
  "messageKind msg defaultKind =
     (case MessageKindOverride msg of
        Some kind \<Rightarrow> if kind \<noteq> [] then kind else defaultKind
      | None \<Rightarrow> defaultKind)"

definition EventSubject :: "'v Event \<Rightarrow> Subject" where
  "EventSubject evt =
     \<lparr>Scope = AggregateScope evt, Kind = messageKind evt KindEvent, AggType = AggregateType evt,
      AggID = AggregateID evt, Name = EventName evt\<rparr>"

definition CommandSubject :: "'v Command \<Rightarrow> Subject" where
  "CommandSubject cmd =
     \<lparr>Scope = AggregateScope cmd, Kind = messageKind cmd KindCommand, AggType = AggregateType cmd,
      AggID = AggregateID cmd, Name = CommandName cmd\<rparr>"

definition QuerySubject :: "'v Command \<Rightarrow> Subject" where
  "QuerySubject query =
     \<lparr>Scope = AggregateScope query, Kind = messageKind query KindQuery, AggType = AggregateType query,
      AggID = AggregateID query, Name = CommandName query\<rparr>"

definition SubjectString :: "Subject \<Rightarrow> string" where
  "SubjectString s = Join [Scope s, Kind s, AggType s, AggID s, Name s] ''.''"

definition reservedRune :: "rune \<Rightarrow> bool" where
  "reservedRune r \<longleftrightarrow> r = 46 \<or> r = 42 \<or> r = 62 \<or> r = 47 \<or> r = 92 \<or> IsSpace r \<or> \<not> IsPrint r"

definition ValidateToken :: "string \<Rightarrow> string \<Rightarrow> goerror option" where
  "ValidateToken label token =
     (if token = [] then Some (Errorf [] ErrInvalidName ('': '' @ label @ '' is empty''))
      else case find reservedRune (runes token) of
        Some r \<Rightarrow> Some (Errorf [] ErrInvalidName
          ('': '' @ label @ '' '' @ Quote token @ '' contains reserved character '' @ QuoteRune r))
      | None \<Rightarrow> None)"

definition SubjectValidate :: "Subject \<Rightarrow> goerror option" where
  "SubjectValidate s =
     orElse (ValidateToken ''scope'' (Scope s))
    (orElse (ValidateToken ''kind'' (Kind s))
    (orElse (ValidateToken ''aggregate type'' (AggType s))
    (orElse (ValidateToken ''aggregate id'' (AggID s))
            (ValidateToken ''name'' (Name s)))))"

subsection \<open>Valid tokens\<close>

definition validToken :: "string \<Rightarrow> bool" where
  "validToken t \<longleftrightarrow> t \<noteq> [] \<and> (\<forall>r \<in> set (runes t). \<not> reservedRune r)"

lemma ValidateToken_None [simp, err_simps]: "ValidateToken label t = None \<longleftrightarrow> validToken t"
  by (auto simp: ValidateToken_def validToken_def find_None_iff find_Some_iff split: option.splits)

lemma ValidateToken_valid [simp]: "validToken t \<Longrightarrow> ValidateToken label t = None"
  by simp

lemma ValidateToken_Some_invalid_name:
  "ValidateToken label t = Some e \<Longrightarrow> errorsIs e ErrInvalidName"
  by (auto simp: ValidateToken_def split: if_splits option.splits)

lemma validToken_no_reserved:
  assumes "validToken t" and "reservedRune (of_char c)" and "of_char c < (128::nat)"
  shows "c \<notin> set t"
  using assms runes_ascii_iff [of "of_char c" t] by (auto simp: validToken_def)

lemma reserved_ascii:
  "reservedRune 46" "reservedRune 42" "reservedRune 62" "reservedRune 47" "reservedRune 92"
  "reservedRune 32"
  by (simp_all add: reservedRune_def IsSpace_def)

lemma validToken_bytes:
  assumes "validToken t"
  shows "CHR ''.'' \<notin> set t" "CHR ''*'' \<notin> set t" "CHR ''>'' \<notin> set t" "CHR ''/'' \<notin> set t"
    "CHR '' '' \<notin> set t"
  using validToken_no_reserved [OF assms] reserved_ascii by (auto simp: reservedRune_def)

lemma validToken_not_wildcard [simp]: "\<not> validToken ''*''" "\<not> validToken ''>''" "\<not> validToken []"
  using validToken_bytes(2) [of "''*''"] validToken_bytes(3) [of "''>''"]
  by (auto simp: validToken_def)

text \<open>An ASCII token is checked byte by byte; this evaluates concrete tokens.\<close>

definition plainChar :: "char \<Rightarrow> bool" where
  "plainChar c \<longleftrightarrow> within 33 126 (of_char c) \<and> of_char c \<notin> {46, 42, 62, 47, 92 :: nat}"

lemma plainChar_not_reserved: "plainChar c \<Longrightarrow> \<not> reservedRune (of_char c)"
  by (auto simp: plainChar_def reservedRune_def within_def IsSpace_def IsPrint_def)

lemma validToken_plain: "t \<noteq> [] \<Longrightarrow> list_all plainChar t \<Longrightarrow> validToken t"
proof -
  assume t: "t \<noteq> []" "list_all plainChar t"
  have "\<forall>c \<in> set t. of_char c < (128::nat)"
    using t(2) by (auto simp: list_all_iff plainChar_def within_def)
  then have "runes t = bytesOf t" by (rule runes_all_ascii)
  with t show ?thesis
    by (auto simp: validToken_def list_all_iff plainChar_not_reserved)
qed

subsection \<open>Valid subjects\<close>

definition validSubject :: "Subject \<Rightarrow> bool" where
  "validSubject s \<longleftrightarrow> validToken (Scope s) \<and> validToken (Kind s) \<and> validToken (AggType s) \<and>
     validToken (AggID s) \<and> validToken (Name s)"

lemma SubjectValidate_None [simp, err_simps]: "SubjectValidate s = None \<longleftrightarrow> validSubject s"
  by (auto simp: SubjectValidate_def validSubject_def)

lemma SubjectValidate_valid [simp]: "validSubject s \<Longrightarrow> SubjectValidate s = None"
  by simp

lemma SubjectValidate_Some_invalid_name:
  "SubjectValidate s = Some e \<Longrightarrow> errorsIs e ErrInvalidName"
  unfolding SubjectValidate_def
  by (auto simp: orElse_Some dest: ValidateToken_Some_invalid_name)

lemma Split_SubjectString:
  "validSubject s \<Longrightarrow>
     Split CHR ''.'' (SubjectString s) = [Scope s, Kind s, AggType s, AggID s, Name s]"
  unfolding SubjectString_def
  by (rule Split_Join) (auto simp: validSubject_def validToken_bytes)

lemma SubjectString_inj:
  assumes "validSubject s" "validSubject t" "SubjectString s = SubjectString t"
  shows "s = t"
  using Split_SubjectString [OF assms(1)] Split_SubjectString [OF assms(2)] assms(3)
  by (intro Subject.equality) auto

lemma messageKind_nonempty [simp]: "d \<noteq> [] \<Longrightarrow> messageKind m d \<noteq> []"
  by (simp add: messageKind_def split: option.splits)

lemma messageKind_default [simp]:
  "MessageKindOverride m = None \<Longrightarrow> messageKind m d = d"
  by (simp add: messageKind_def)

end
