(* ===== verification/PubSub.thy ===== *)
theory PubSub
  imports Subjects
begin

section \<open>Subscription configurations\<close>

text \<open>
  \<^verbatim>\<open>src/pubsub.go\<close>: the configurations a bus hands to a transport, and their validation. A callback
  of a configuration acts on the state of the component that made it, so it is a function on a world
  \<open>'w\<close>; a nil callback is \<open>None\<close>. A nil cursor is \<open>None\<close>, which the code distinguishes from an
  empty one. The lemmas state both validations declaratively.
\<close>

datatype CursorBootPolicy = CursorBootNew | CursorBootAll

record EventSubscriptionFilter =
  FilterKind :: MessageKind
  FilterIDs :: "string list"
  FilterNames :: "string list"

record 'w EventSubscriptionConfig =
  EvScope :: string
  EvKind :: MessageKind
  EvTypes :: "string list"
  EvIDs :: "string list"
  EvNames :: "string list"
  EvFilters :: "EventSubscriptionFilter list"
  Queue :: string
  ConsumerName :: string
  MaxRetries :: int
  Cursor :: "string option"
  BootPolicy :: CursorBootPolicy
  CaughtUp :: "('w \<Rightarrow> 'w) option"
  OnError :: "(goerror \<Rightarrow> 'w \<Rightarrow> bool \<times> 'w) option"

record CommandSubscriptionConfig =
  CmdScope :: string
  CmdKind :: MessageKind
  CmdTypes :: "string list"
  CmdIDs :: "string list"
  CmdNames :: "string list"
  CmdQueue :: string

definition indexed :: "string \<Rightarrow> nat \<Rightarrow> string" where
  "indexed label i = label @ ''['' @ Itoa (int i) @ '']''"

definition failWhen :: "bool \<Rightarrow> string \<Rightarrow> goerror option" where
  "failWhen b msg = (if b then Some (ErrorString msg) else None)"

definition validateFilter :: "nat \<Rightarrow> EventSubscriptionFilter \<Rightarrow> goerror option" where
  "validateFilter i f =
     orElse (if FilterKind f \<noteq> []
             then ValidateToken (indexed ''event filter'' i @ '' kind'') (FilterKind f) else None)
    (orElse (checkAll (\<lambda>j v. ValidateToken (indexed ''event filter'' i @ indexed '' aggregate id'' j) v)
               0 (FilterIDs f))
            (checkAll (\<lambda>j v. ValidateToken (indexed ''event filter'' i @ indexed '' event name'' j) v)
               0 (FilterNames f)))"

definition EventConfigValidate :: "'w EventSubscriptionConfig \<Rightarrow> goerror option" where
  "EventConfigValidate c =
     orElse (failWhen (EvTypes c \<noteq> [] \<and> EvScope c = [])
       ''invalid event subscription: aggregate scope is required when aggregate types are set'')
    (orElse (if EvFilters c \<noteq> [] then
        orElse (failWhen (EvKind c \<noteq> [] \<or> EvIDs c \<noteq> [] \<or> EvNames c \<noteq> [])
          ''invalid event subscription: event filters cannot be combined with kind, aggregate IDs, or event names'')
        (failWhen (length (EvTypes c) \<noteq> 1)
          ''invalid event subscription: event filters require exactly one aggregate type'')
      else None)
    (orElse (if EvKind c \<noteq> [] then ValidateToken ''kind'' (EvKind c) else None)
    (orElse (checkAll (\<lambda>i v. ValidateToken (indexed ''aggregate type'' i) v) 0 (EvTypes c))
    (orElse (failWhen (EvIDs c \<noteq> [] \<and> length (EvTypes c) \<noteq> 1)
       ''invalid event subscription: aggregate IDs require exactly one aggregate type'')
    (orElse (checkAll (\<lambda>i v. ValidateToken (indexed ''aggregate id'' i) v) 0 (EvIDs c))
    (orElse (failWhen (EvNames c \<noteq> [] \<and> length (EvTypes c) \<noteq> 1)
       ''invalid event subscription: event names require exactly one aggregate type'')
    (orElse (checkAll (\<lambda>i v. ValidateToken (indexed ''event name'' i) v) 0 (EvNames c))
    (orElse (checkAll validateFilter 0 (EvFilters c))
            (if EvScope c \<noteq> [] then ValidateToken ''scope'' (EvScope c) else None)))))))))"

definition CommandConfigValidate :: "CommandSubscriptionConfig \<Rightarrow> goerror option" where
  "CommandConfigValidate c =
     orElse (failWhen (CmdTypes c \<noteq> [] \<and> CmdScope c = [])
       ''invalid command subscription: aggregate scope is required when aggregate types are set'')
    (orElse (if CmdKind c \<noteq> [] then ValidateToken ''kind'' (CmdKind c) else None)
    (orElse (checkAll (\<lambda>i v. ValidateToken (indexed ''aggregate type'' i) v) 0 (CmdTypes c))
    (orElse (failWhen (CmdIDs c \<noteq> [] \<and> length (CmdTypes c) \<noteq> 1)
       ''invalid command subscription: aggregate IDs require exactly one aggregate type'')
    (orElse (checkAll (\<lambda>i v. ValidateToken (indexed ''aggregate id'' i) v) 0 (CmdIDs c))
    (orElse (failWhen (CmdNames c \<noteq> [] \<and> length (CmdTypes c) \<noteq> 1)
       ''invalid command subscription: command names require exactly one aggregate type'')
    (orElse (checkAll (\<lambda>i v. ValidateToken (indexed ''command name'' i) v) 0 (CmdNames c))
            (if CmdScope c \<noteq> [] then ValidateToken ''scope'' (CmdScope c) else None)))))))"

subsection \<open>What the validations accept\<close>

definition optToken :: "string \<Rightarrow> bool" where
  "optToken s \<longleftrightarrow> s = [] \<or> validToken s"

lemma failWhen_None [simp, err_simps]: "failWhen b msg = None \<longleftrightarrow> \<not> b"
  by (simp add: failWhen_def)

lemma optional_token_None [simp, err_simps]:
  "(if s \<noteq> [] then ValidateToken l s else None) = None \<longleftrightarrow> optToken s"
  by (auto simp: optToken_def)

lemma tokens_None [simp, err_simps]:
  "checkAll (\<lambda>i v. ValidateToken (l i) v) k vs = None \<longleftrightarrow> list_all validToken vs"
  unfolding list_all_iff by (rule checkAll_None_uniform) simp

definition validFilter :: "EventSubscriptionFilter \<Rightarrow> bool" where
  "validFilter f \<longleftrightarrow> optToken (FilterKind f) \<and> list_all validToken (FilterIDs f) \<and>
     list_all validToken (FilterNames f)"

lemma validateFilter_None [simp]: "validateFilter i f = None \<longleftrightarrow> validFilter f"
  by (simp only: validateFilter_def orElse_None optional_token_None tokens_None validFilter_def)

lemma filters_None [simp]: "checkAll validateFilter k fs = None \<longleftrightarrow> list_all validFilter fs"
  unfolding list_all_iff by (rule checkAll_None_uniform) simp

definition validEventConfig :: "'w EventSubscriptionConfig \<Rightarrow> bool" where
  "validEventConfig c \<longleftrightarrow>
     optToken (EvScope c) \<and> optToken (EvKind c) \<and> list_all validToken (EvTypes c) \<and>
     list_all validToken (EvIDs c) \<and> list_all validToken (EvNames c) \<and>
     list_all validFilter (EvFilters c) \<and>
     (EvTypes c \<noteq> [] \<longrightarrow> EvScope c \<noteq> []) \<and>
     (EvIDs c \<noteq> [] \<or> EvNames c \<noteq> [] \<or> EvFilters c \<noteq> [] \<longrightarrow> length (EvTypes c) = 1) \<and>
     (EvFilters c \<noteq> [] \<longrightarrow> EvKind c = [] \<and> EvIDs c = [] \<and> EvNames c = [])"

lemma EventConfigValidate_None [err_simps]:
  "EventConfigValidate c = None \<longleftrightarrow> validEventConfig c"
proof -
  have "EventConfigValidate c = None \<longleftrightarrow>
      \<not> (EvTypes c \<noteq> [] \<and> EvScope c = []) \<and>
      (EvFilters c \<noteq> [] \<longrightarrow> \<not> (EvKind c \<noteq> [] \<or> EvIDs c \<noteq> [] \<or> EvNames c \<noteq> []) \<and>
        length (EvTypes c) = 1) \<and>
      optToken (EvKind c) \<and> list_all validToken (EvTypes c) \<and>
      \<not> (EvIDs c \<noteq> [] \<and> length (EvTypes c) \<noteq> 1) \<and> list_all validToken (EvIDs c) \<and>
      \<not> (EvNames c \<noteq> [] \<and> length (EvTypes c) \<noteq> 1) \<and> list_all validToken (EvNames c) \<and>
      list_all validFilter (EvFilters c) \<and> optToken (EvScope c)"
    unfolding EventConfigValidate_def orElse_None tokens_None optional_token_None filters_None
      failWhen_None by simp
  then show ?thesis unfolding validEventConfig_def by blast
qed

definition validCommandConfig :: "CommandSubscriptionConfig \<Rightarrow> bool" where
  "validCommandConfig c \<longleftrightarrow>
     optToken (CmdScope c) \<and> optToken (CmdKind c) \<and> list_all validToken (CmdTypes c) \<and>
     list_all validToken (CmdIDs c) \<and> list_all validToken (CmdNames c) \<and>
     (CmdTypes c \<noteq> [] \<longrightarrow> CmdScope c \<noteq> []) \<and>
     (CmdIDs c \<noteq> [] \<or> CmdNames c \<noteq> [] \<longrightarrow> length (CmdTypes c) = 1)"

lemma CommandConfigValidate_None [err_simps]:
  "CommandConfigValidate c = None \<longleftrightarrow> validCommandConfig c"
  unfolding CommandConfigValidate_def orElse_None tokens_None optional_token_None failWhen_None
    validCommandConfig_def by blast

end
