(* ===== verification/Compaction.thy ===== *)
theory Compaction
  imports Prelude "HOL-Library.List_Lexorder" "HOL-Library.Char_ord"
begin

section \<open>Compaction of subscription filters\<close>

text \<open>
  \<^verbatim>\<open>compactEventFilterSpecs\<close> (\<^verbatim>\<open>src/bus.go\<close>) and \<^verbatim>\<open>compactSubjectFilters\<close>
  (\<^verbatim>\<open>src/nats/subjects.go\<close>) run the same algorithm on two types of filters: drop repeated filters
  keeping the first of each, drop every filter that a different one covers, and sort. The two loops
  are modelled once here; the locale states what the algorithm needs of a covering relation (a
  partial order that only widens what is matched) and proves what both callers rely on. The two
  covering relations interpret it in theories \<open>BusFilters\<close> and \<open>NatsSubjects\<close>.
\<close>

fun dedupe :: "'a list \<Rightarrow> 'a list \<Rightarrow> 'a list" where
  "dedupe seen [] = []"
| "dedupe seen (f # fs) =
     (if f \<in> set seen then dedupe seen fs else f # dedupe (f # seen) fs)"

definition uncovered :: "('a \<Rightarrow> 'a \<Rightarrow> bool) \<Rightarrow> 'a list \<Rightarrow> 'a list" where
  "uncovered covers deduped =
     filter (\<lambda>f. \<not> list_ex (\<lambda>candidate. candidate \<noteq> f \<and> covers candidate f) deduped) deduped"

lemma set_dedupe: "set (dedupe seen fs) = set fs - set seen"
  by (induction seen fs rule: dedupe.induct) auto

lemma distinct_dedupe: "distinct (dedupe seen fs)"
  by (induction seen fs rule: dedupe.induct) (auto simp: set_dedupe)

lemma set_uncovered:
  "set (uncovered covers fs) = {f \<in> set fs. \<forall>c \<in> set fs. covers c f \<longrightarrow> c = f}"
  by (auto simp: uncovered_def list_ex_iff)

locale covering =
  fixes covers :: "'a::linorder \<Rightarrow> 'a \<Rightarrow> bool"
    and matches :: "'a \<Rightarrow> 's \<Rightarrow> bool"
  assumes covers_refl: "covers f f"
    and covers_trans: "covers f g \<Longrightarrow> covers g h \<Longrightarrow> covers f h"
    and covers_antisym: "covers f g \<Longrightarrow> covers g f \<Longrightarrow> f = g"
    and covers_matches: "covers f g \<Longrightarrow> matches g s \<Longrightarrow> matches f s"
begin

lemma compact_subset: "set (sort (uncovered covers (dedupe [] fs))) \<subseteq> set fs"
  by (auto simp: set_uncovered set_dedupe)

lemma compact_sorted: "sorted (sort (uncovered covers (dedupe [] fs)))"
  by simp

lemma compact_distinct: "distinct (sort (uncovered covers (dedupe [] fs)))"
  by (simp add: uncovered_def distinct_dedupe)

lemma compact_irredundant:
  "g \<in> set (sort (uncovered covers (dedupe [] fs))) \<Longrightarrow>
   h \<in> set (sort (uncovered covers (dedupe [] fs))) \<Longrightarrow> covers g h \<Longrightarrow> g = h"
  by (auto simp: set_uncovered)

lemma compact_covers:
  assumes "f \<in> set fs"
  shows "\<exists>g \<in> set (sort (uncovered covers (dedupe [] fs))). covers g f"
proof -
  have "\<exists>m \<in> set fs. covers m f \<and> (\<forall>y \<in> set fs. covers y m \<longrightarrow> y = m)"
    using ex_maximal_above [of "set fs" f "\<lambda>a b. covers b a"] assms
      covers_refl covers_trans covers_antisym by blast
  then show ?thesis by (auto simp: set_uncovered set_dedupe)
qed

lemma compact_matches:
  "(\<exists>g \<in> set (sort (uncovered covers (dedupe [] fs))). matches g s) \<longleftrightarrow>
   (\<exists>f \<in> set fs. matches f s)"
  using compact_subset compact_covers covers_matches by (meson subsetD)

text \<open>The result depends on the set of filters only, so not on the order they were collected in.\<close>

lemma compact_cong:
  assumes "set fs = set gs"
  shows "sort (uncovered covers (dedupe [] fs)) = sort (uncovered covers (dedupe [] gs))"
  by (rule sorted_distinct_set_unique [OF compact_sorted compact_distinct compact_sorted compact_distinct])
    (simp add: set_uncovered set_dedupe assms)

end

end
