(* ===== verification/BusFilters.thy ===== *)
theory BusFilters
  imports PubSub Compaction "HOL-Library.AList" "HOL-Library.Multiset"
begin

section \<open>Event groups: filters and dispatch\<close>

text \<open>
  The part of \<^verbatim>\<open>src/bus.go\<close> that turns the handlers of a group into subscription filters and that
  hands a delivered event to them. A handler is an interface value of type \<open>'h\<close>; calling its
  \<^verbatim>\<open>HandleEvent\<close> method is the parameter \<open>handleEvent\<close>, which acts on a world \<open>'w\<close>. Go iterates a
  map in an unspecified order: a range loop over the map of handlers takes the order as a parameter
  \<open>rng\<close>, of which the lemmas assume only that it permutes what it is given (\<open>rangeOrder\<close>).
\<close>

subsection \<open>Filter specifications\<close>

datatype eventFilterSpec = eventFilterSpec (specKind: string) (specID: string) (specName: string)

definition strCompare :: "string \<Rightarrow> string \<Rightarrow> int" where
  "strCompare a b = (if a = b then 0 else if a < b then -1 else 1)"

definition compareSpecs :: "eventFilterSpec \<Rightarrow> eventFilterSpec \<Rightarrow> int" where
  "compareSpecs a b =
     (if specKind a \<noteq> specKind b then strCompare (specKind a) (specKind b)
      else if specID a \<noteq> specID b then strCompare (specID a) (specID b)
      else strCompare (specName a) (specName b))"

instantiation eventFilterSpec :: linorder
begin

definition less_eq_eventFilterSpec :: "eventFilterSpec \<Rightarrow> eventFilterSpec \<Rightarrow> bool" where
  "less_eq_eventFilterSpec a b \<longleftrightarrow> compareSpecs a b \<le> 0"

definition less_eventFilterSpec :: "eventFilterSpec \<Rightarrow> eventFilterSpec \<Rightarrow> bool" where
  "less_eventFilterSpec a b \<longleftrightarrow> compareSpecs a b < 0"

instance
proof
  fix a b c :: eventFilterSpec
  show "a < b \<longleftrightarrow> a \<le> b \<and> \<not> b \<le> a"
    by (auto simp: less_eq_eventFilterSpec_def less_eventFilterSpec_def compareSpecs_def strCompare_def)
  show "a \<le> a"
    by (simp add: less_eq_eventFilterSpec_def compareSpecs_def strCompare_def)
  show "a \<le> b \<Longrightarrow> b \<le> c \<Longrightarrow> a \<le> c"
    by (auto simp: less_eq_eventFilterSpec_def compareSpecs_def strCompare_def split: if_splits)
  show "a \<le> b \<Longrightarrow> b \<le> a \<Longrightarrow> a = b"
    by (cases a; cases b)
      (auto simp: less_eq_eventFilterSpec_def compareSpecs_def strCompare_def split: if_splits)
  show "a \<le> b \<or> b \<le> a"
    by (auto simp: less_eq_eventFilterSpec_def compareSpecs_def strCompare_def)
qed

end

definition eventFilterSpecCovers :: "eventFilterSpec \<Rightarrow> eventFilterSpec \<Rightarrow> bool" where
  "eventFilterSpecCovers candidate flt \<longleftrightarrow>
     specKind candidate = specKind flt \<and>
     (specID candidate = [] \<or> specID candidate = specID flt) \<and>
     (specName candidate = [] \<or> specName candidate = specName flt)"

definition compactEventFilterSpecs :: "eventFilterSpec list \<Rightarrow> eventFilterSpec list" where
  "compactEventFilterSpecs filters = sort (uncovered eventFilterSpecCovers (dedupe [] filters))"

subsection \<open>Groups\<close>

record 'h registeredEventHandler =
  eventKind :: MessageKind
  eventName :: string
  aggregateIDs :: "string list"
  handler :: 'h

record ('h, 'sub) eventGroup =
  grpOrdered :: bool
  grpScope :: string
  grpKind :: MessageKind
  grpAgg :: string
  grpQueue :: string
  handlers :: "(uint64 \<times> 'h registeredEventHandler) list"
  grpSub :: "'sub option"

type_synonym 'a rangeFn = "'a list \<Rightarrow> 'a list"

definition groupHandlers :: "('h, 'sub) eventGroup \<Rightarrow> 'h registeredEventHandler list" where
  "groupHandlers g = map snd (handlers g)"

definition addGroupHandler ::
  "'h registeredEventHandler \<Rightarrow> ('h, 'sub) eventGroup \<Rightarrow> ('h, 'sub) eventGroup" where
  "addGroupHandler h g =
     g\<lparr>handlers := AList.update (of_nat (length (handlers g) + 1)) h (handlers g)\<rparr>"

definition handlerSpecs :: "'h registeredEventHandler \<Rightarrow> eventFilterSpec list" where
  "handlerSpecs h =
     (if aggregateIDs h = [] then [eventFilterSpec (eventKind h) [] (eventName h)]
      else map (\<lambda>i. eventFilterSpec (eventKind h) i (eventName h)) (aggregateIDs h))"

definition specFilter :: "eventFilterSpec \<Rightarrow> EventSubscriptionFilter" where
  "specFilter spec =
     \<lparr>FilterKind = specKind spec,
      FilterIDs = (if specID spec \<noteq> [] then [specID spec] else []),
      FilterNames = (if specName spec \<noteq> [] then [specName spec] else [])\<rparr>"

definition groupEventFilters ::
  "'h registeredEventHandler rangeFn \<Rightarrow> ('h, 'sub) eventGroup \<Rightarrow> EventSubscriptionFilter list" where
  "groupEventFilters rng g =
     map specFilter (compactEventFilterSpecs (concat (map handlerSpecs (rng (groupHandlers g)))))"

subsection \<open>Dispatch\<close>

type_synonym ('h, 'v, 'w) handleFn = "'h \<Rightarrow> 'v Event \<Rightarrow> string option \<Rightarrow> 'w \<Rightarrow> goerror option \<times> 'w"

definition skipsHandler :: "'h registeredEventHandler \<Rightarrow> MessageKind \<Rightarrow> 'v Event \<Rightarrow> bool" where
  "skipsHandler h evtKind evt \<longleftrightarrow>
     eventKind h \<noteq> [] \<and> eventKind h \<noteq> evtKind \<or>
     eventName h \<noteq> [] \<and> eventName h \<noteq> EventName evt \<or>
     length (aggregateIDs h) > 0 \<and> \<not> List.member (aggregateIDs h) (AggregateID evt)"

fun dispatchLoop ::
  "('h, 'v, 'w) handleFn \<Rightarrow> 'h registeredEventHandler list \<Rightarrow> MessageKind \<Rightarrow> 'v Event \<Rightarrow> string option \<Rightarrow>
   goerror option \<Rightarrow> 'w \<Rightarrow> goerror option \<times> 'w" where
  "dispatchLoop handleEvent [] evtKind evt cursor firstErr w = (firstErr, w)"
| "dispatchLoop handleEvent (h # hs) evtKind evt cursor firstErr w =
     (if skipsHandler h evtKind evt then dispatchLoop handleEvent hs evtKind evt cursor firstErr w
      else let (err, w') = handleEvent (handler h) evt cursor w in
        dispatchLoop handleEvent hs evtKind evt cursor
          (if err \<noteq> None \<and> firstErr = None then err else firstErr) w')"

definition dispatchEventGroup ::
  "('h, 'v, 'w) handleFn \<Rightarrow> 'h registeredEventHandler rangeFn \<Rightarrow> ('h, 'sub) eventGroup \<Rightarrow> 'v Event \<Rightarrow>
   string option \<Rightarrow> 'w \<Rightarrow> goerror option \<times> 'w" where
  "dispatchEventGroup handleEvent rng g evt cursor w =
     dispatchLoop handleEvent (rng (groupHandlers g)) (Kind (EventSubject evt)) evt cursor None w"

subsection \<open>Compaction of specifications\<close>

definition specMatches :: "eventFilterSpec \<Rightarrow> Subject \<Rightarrow> bool" where
  "specMatches spec s \<longleftrightarrow> specKind spec = Kind s \<and> (specID spec = [] \<or> specID spec = AggID s) \<and>
     (specName spec = [] \<or> specName spec = Name s)"

interpretation spec_filters: covering eventFilterSpecCovers specMatches
proof
  fix f g h :: eventFilterSpec and s :: Subject
  show "eventFilterSpecCovers f f" by (simp add: eventFilterSpecCovers_def)
  show "eventFilterSpecCovers f g \<Longrightarrow> eventFilterSpecCovers g h \<Longrightarrow> eventFilterSpecCovers f h"
    by (auto simp: eventFilterSpecCovers_def)
  show "eventFilterSpecCovers f g \<Longrightarrow> eventFilterSpecCovers g f \<Longrightarrow> f = g"
    by (cases f; cases g) (auto simp: eventFilterSpecCovers_def)
  show "eventFilterSpecCovers f g \<Longrightarrow> specMatches g s \<Longrightarrow> specMatches f s"
    by (auto simp: eventFilterSpecCovers_def specMatches_def)
qed

subsection \<open>What the filters of a group accept\<close>

definition rangeOrder :: "'a rangeFn \<Rightarrow> bool" where
  "rangeOrder rng \<longleftrightarrow> (\<forall>xs. mset (rng xs) = mset xs)"

lemma rangeOrder_set [simp]: "rangeOrder rng \<Longrightarrow> set (rng xs) = set xs"
  using mset_eq_setD by (auto simp: rangeOrder_def)

definition filterAccepts :: "EventSubscriptionFilter \<Rightarrow> Subject \<Rightarrow> bool" where
  "filterAccepts f s \<longleftrightarrow> FilterKind f = Kind s \<and> (FilterIDs f = [] \<or> AggID s \<in> set (FilterIDs f)) \<and>
     (FilterNames f = [] \<or> Name s \<in> set (FilterNames f))"

lemma filterAccepts_spec [simp]: "filterAccepts (specFilter spec) s = specMatches spec s"
  by (auto simp: filterAccepts_def specFilter_def specMatches_def)

lemma groupEventFilters_accept:
  assumes "rangeOrder rng"
  shows "(\<exists>f \<in> set (groupEventFilters rng g). filterAccepts f s) \<longleftrightarrow>
     (\<exists>h \<in> set (groupHandlers g). \<exists>spec \<in> set (handlerSpecs h). specMatches spec s)"
proof -
  have "(\<exists>f \<in> set (groupEventFilters rng g). filterAccepts f s) \<longleftrightarrow>
      (\<exists>spec \<in> set (concat (map handlerSpecs (rng (groupHandlers g)))). specMatches spec s)"
    using spec_filters.compact_matches [of _ s]
    by (simp add: groupEventFilters_def compactEventFilterSpecs_def)
  then show ?thesis using assms by simp
qed

text \<open>A handler as the code registers it: a kind, which \<^verbatim>\<open>messageKind\<close> never leaves empty.\<close>

lemma handlerSpecs_match:
  assumes "eventKind h \<noteq> []" "[] \<notin> set (aggregateIDs h)"
  shows "(\<exists>spec \<in> set (handlerSpecs h). specMatches spec (EventSubject evt)) \<longleftrightarrow>
     \<not> skipsHandler h (Kind (EventSubject evt)) evt"
  using assms
  by (auto simp: handlerSpecs_def specMatches_def skipsHandler_def EventSubject_def)

lemma handlerSpecs_no_loss:
  assumes "eventKind h \<noteq> []" "\<not> skipsHandler h (Kind (EventSubject evt)) evt"
  shows "\<exists>spec \<in> set (handlerSpecs h). specMatches spec (EventSubject evt)"
  using assms
  by (auto simp: handlerSpecs_def specMatches_def skipsHandler_def EventSubject_def)

subsection \<open>Running the handlers of a group\<close>

text \<open>The reference: run every handler of a list in order, whatever the earlier ones returned.\<close>

fun runHandlers ::
  "('h, 'v, 'w) handleFn \<Rightarrow> 'h registeredEventHandler list \<Rightarrow> 'v Event \<Rightarrow> string option \<Rightarrow> 'w \<Rightarrow>
   goerror option list \<times> 'w" where
  "runHandlers handleEvent [] evt cursor w = ([], w)"
| "runHandlers handleEvent (h # hs) evt cursor w =
     (let (err, w1) = handleEvent (handler h) evt cursor w;
          (errs, w2) = runHandlers handleEvent hs evt cursor w1
      in (err # errs, w2))"

fun firstError :: "goerror option list \<Rightarrow> goerror option" where
  "firstError [] = None"
| "firstError (err # errs) = orElse err (firstError errs)"

lemma dispatchLoop_runs:
  "dispatchLoop handleEvent hs k evt cursor firstErr w =
     (let (errs, w') = runHandlers handleEvent (filter (\<lambda>h. \<not> skipsHandler h k evt) hs) evt cursor w
      in (orElse firstErr (firstError errs), w'))"
proof (induction hs arbitrary: firstErr w)
  case (Cons h hs)
  obtain err w1 where "handleEvent (handler h) evt cursor w = (err, w1)" by fastforce
  then show ?case
    by (cases firstErr; cases err) (auto simp: Cons.IH split: prod.splits)
qed (cases firstErr; simp)

lemma firstError_None: "firstError errs = None \<longleftrightarrow> (\<forall>err \<in> set errs. err = None)"
  by (induction errs) auto

subsection \<open>Properties\<close>

definition exHandler :: "unit registeredEventHandler" where
  "exHandler = \<lparr>eventKind = ''event'', eventName = ''opened'', aggregateIDs = [''a1'', ''a2''], handler = ()\<rparr>"

definition exWideHandler :: "unit registeredEventHandler" where
  "exWideHandler = \<lparr>eventKind = ''event'', eventName = ''opened'', aggregateIDs = [], handler = ()\<rparr>"

definition exGroup :: "(unit, nat) eventGroup" where
  "exGroup = addGroupHandler exWideHandler (addGroupHandler exHandler
     \<lparr>grpOrdered = True, grpScope = ''bank'', grpKind = ''event'', grpAgg = ''account'', grpQueue = [],
      handlers = [], grpSub = None\<rparr>)"

lemmas ex_group_defs = exHandler_def exWideHandler_def exGroup_def addGroupHandler_def groupHandlers_def

text \<open>The filters a group subscribes with accept exactly the events that dispatch hands to a
  handler of the group: for every order in which Go ranges over the map of handlers, when no handler
  was given an empty aggregate id, an event passes one of the filters if and only if some registered
  handler is not skipped for it. So no handled event is lost by compaction and no event is delivered
  that nobody handles.\<close>

theorem group_filters_exact:
  assumes "rangeOrder rng"
    and "\<forall>h \<in> set (groupHandlers g). eventKind h \<noteq> [] \<and> [] \<notin> set (aggregateIDs h)"
  shows "(\<exists>f \<in> set (groupEventFilters rng g). filterAccepts f (EventSubject evt)) \<longleftrightarrow>
     (\<exists>h \<in> set (groupHandlers g). \<not> skipsHandler h (Kind (EventSubject evt)) evt)"
  using assms by (auto simp: groupEventFilters_accept handlerSpecs_match)

definition exOpened :: "string \<Rightarrow> unit Event" where
  "exOpened i = \<lparr>AggregateScope = ''bank'', AggregateType = ''account'', AggregateID = i,
     MessageKindOverride = None, TypeOf = GoNamed ''Opened'', Val = (), EventName = ''opened''\<rparr>"

theorem group_filters_exact_witness:
  "\<exists>f \<in> set (groupEventFilters rev exGroup). filterAccepts f (EventSubject (exOpened ''a3''))"
proof -
  have "rangeOrder (rev :: unit registeredEventHandler list \<Rightarrow> _)" by (simp add: rangeOrder_def)
  moreover have "\<forall>h \<in> set (groupHandlers exGroup). eventKind h \<noteq> [] \<and> [] \<notin> set (aggregateIDs h)"
    by (simp add: ex_group_defs)
  moreover have "\<exists>h \<in> set (groupHandlers exGroup).
      \<not> skipsHandler h (Kind (EventSubject (exOpened ''a3''))) (exOpened ''a3'')"
    by (simp add: ex_group_defs skipsHandler_def EventSubject_def exOpened_def messageKind_def KindEvent_def)
  ultimately show ?thesis using group_filters_exact [of rev exGroup "exOpened ''a3''"] by blast
qed

text \<open>C20. The filters of a group do not depend on the order in which Go ranges over its handlers:
  connecting twice with the same handlers subscribes with the same list of filters. (A durable consumer
  is named and updated after them.)\<close>

theorem group_filters_deterministic:
  assumes "rangeOrder rng" "rangeOrder rng'"
  shows "groupEventFilters rng g = groupEventFilters rng' g"
proof -
  have "compactEventFilterSpecs (concat (map handlerSpecs (rng (groupHandlers g)))) =
      compactEventFilterSpecs (concat (map handlerSpecs (rng' (groupHandlers g))))"
    unfolding compactEventFilterSpecs_def
    by (rule spec_filters.compact_cong) (use assms in simp)
  then show ?thesis by (simp add: groupEventFilters_def)
qed

theorem group_filters_deterministic_witness:
  "groupEventFilters rev exGroup = groupEventFilters (\<lambda>hs. hs) exGroup"
  by (rule group_filters_deterministic) (simp_all add: rangeOrder_def)

text \<open>C19. Dispatching an event runs every handler of the group that is not skipped for it, each once
  and in the order of the range loop, even after a failure, and returns the first error among their
  results.\<close>

theorem dispatchEventGroup_runs:
  "dispatchEventGroup handleEvent rng g evt cursor w =
     (let (errs, w') = runHandlers handleEvent
            (filter (\<lambda>h. \<not> skipsHandler h (Kind (EventSubject evt)) evt) (rng (groupHandlers g)))
            evt cursor w
      in (firstError errs, w'))"
  by (simp add: dispatchEventGroup_def dispatchLoop_runs)

end
