(* ===== verification/Registry.thy ===== *)
theory Registry
  imports Subjects
begin

section \<open>The type registry\<close>

text \<open>
  \<^verbatim>\<open>src/registry.go\<close>: the maps from (scope, kind, aggregate type, name) to the Go type that decodes such
  a message. What \<^verbatim>\<open>reflect\<close> knows of the application's types is a parameter \<open>reflect\<close> of the
  operations: the values \<^verbatim>\<open>reflect.New(t)\<close> and \<^verbatim>\<open>reflect.Zero(t)\<close> as the interface the registry
  stores, and whether the pointer type to \<open>t\<close> implements that interface; likewise
  \<^verbatim>\<open>json.Unmarshal\<close> into such a value. A prototype passed as \<^verbatim>\<open>any\<close> is what its two type assertions
  give. Every map access happens under the registry's mutex, so an operation is one step.
\<close>

subsection \<open>State\<close>

record typeKey =
  KeyScope :: string
  KeyKind :: MessageKind
  KeyAgg :: string
  KeyName :: string

record 'a registeredType =
  RegType :: gotype
  factory :: "unit \<Rightarrow> 'a"

record 'v registry =
  events :: "typeKey \<rightharpoonup> 'v Event registeredType"
  commands :: "typeKey \<rightharpoonup> 'v Command registeredType"

record 'a reflect =
  New :: "gotype \<Rightarrow> 'a"
  Zero :: "gotype \<Rightarrow> 'a"
  PtrImplements :: "gotype \<Rightarrow> bool"

record 'v any =
  AsEvent :: "'v Event option"
  AsCommand :: "'v Command option"
  AnyType :: string

definition newRegistry :: "'v registry" where
  "newRegistry = \<lparr>events = Map.empty, commands = Map.empty\<rparr>"

subsection \<open>Operations\<close>

fun typeString :: "gotype \<Rightarrow> string" where
  "typeString (GoNamed n) = n"
| "typeString (GoPtr t) = CHR ''*'' # typeString t"
| "typeString (GoIface n) = n"

definition newTypedValue :: "'a reflect \<Rightarrow> gotype \<Rightarrow> goerror + 'a" where
  "newTypedValue rt typ =
     (case typ of
        GoIface n \<Rightarrow> Inl (ErrorString (''typed registration requires a concrete type, got '' @ n))
      | GoPtr t \<Rightarrow> Inr (New rt t)
      | GoNamed n \<Rightarrow> Inr (Zero rt typ))"

definition factoryFor :: "'a reflect \<Rightarrow> gotype \<Rightarrow> 'a registeredType" where
  "factoryFor rt typ =
     (case typ of
        GoPtr t \<Rightarrow> \<lparr>RegType = typ, factory = (\<lambda>_. New rt t)\<rparr>
      | _ \<Rightarrow>
          if PtrImplements rt typ then \<lparr>RegType = GoPtr typ, factory = (\<lambda>_. New rt typ)\<rparr>
          else \<lparr>RegType = typ, factory = (\<lambda>_. Zero rt typ)\<rparr>)"

definition registerType ::
  "(typeKey \<rightharpoonup> 'a registeredType) \<Rightarrow> typeKey \<Rightarrow> 'a registeredType \<Rightarrow>
   goerror option \<times> (typeKey \<rightharpoonup> 'a registeredType)" where
  "registerType m key reg =
     (case m key of
        Some existing \<Rightarrow>
          if RegType existing \<noteq> RegType reg then
            (Some (ErrorString (''type '' @ KeyScope key @ ''.'' @ KeyKind key @ ''.'' @ KeyAgg key @
               ''.'' @ KeyName key @ '' already registered as '' @ typeString (RegType existing) @
               '', got '' @ typeString (RegType reg))), m)
          else (None, m)
      | None \<Rightarrow> (None, m(key \<mapsto> reg)))"

definition validateTypeKey :: "typeKey \<Rightarrow> bool \<Rightarrow> goerror option" where
  "validateTypeKey key allowEmptyName =
     orElse (ValidateToken ''scope'' (KeyScope key))
    (orElse (ValidateToken ''kind'' (KeyKind key))
    (orElse (ValidateToken ''aggregate type'' (KeyAgg key))
       (if KeyName key = [] then
          (if allowEmptyName then None
           else Some (Errorf [] ErrInvalidName '': name is empty''))
        else ValidateToken ''name'' (KeyName key))))"

definition eventKey :: "'v Event \<Rightarrow> MessageKind \<Rightarrow> typeKey" where
  "eventKey e kind = \<lparr>KeyScope = AggregateScope e, KeyKind = kind, KeyAgg = AggregateType e,
     KeyName = EventName e\<rparr>"

definition commandKey :: "'v Command \<Rightarrow> MessageKind \<Rightarrow> typeKey" where
  "commandKey c kind = \<lparr>KeyScope = AggregateScope c, KeyKind = kind, KeyAgg = AggregateType c,
     KeyName = CommandName c\<rparr>"

definition registerEvent ::
  "'v Event reflect \<Rightarrow> 'v registry \<Rightarrow> 'v Event \<Rightarrow> MessageKind \<Rightarrow> goerror option \<times> 'v registry" where
  "registerEvent rt c prototype kind =
     (let key = eventKey prototype kind in
      case validateTypeKey key True of
        Some e \<Rightarrow> (Some e, c)
      | None \<Rightarrow>
          (let (err, m) = registerType (events c) key (factoryFor rt (TypeOf prototype))
           in (err, c\<lparr>events := m\<rparr>)))"

definition registerCommand ::
  "'v Command reflect \<Rightarrow> 'v registry \<Rightarrow> 'v Command \<Rightarrow> MessageKind \<Rightarrow> goerror option \<times> 'v registry" where
  "registerCommand rt c prototype kind =
     (let key = commandKey prototype kind in
      case validateTypeKey key False of
        Some e \<Rightarrow> (Some e, c)
      | None \<Rightarrow>
          (let (err, m) = registerType (commands c) key (factoryFor rt (TypeOf prototype))
           in (err, c\<lparr>commands := m\<rparr>)))"

definition RegisterMessageType ::
  "'v Event reflect \<Rightarrow> 'v Command reflect \<Rightarrow> 'v registry \<Rightarrow> 'v any \<Rightarrow> goerror option \<times> 'v registry" where
  "RegisterMessageType rte rtc c prototype =
     (case AsEvent prototype of
        Some evt \<Rightarrow> registerEvent rte c evt (messageKind evt KindEvent)
      | None \<Rightarrow>
        (case AsCommand prototype of
           Some cmd \<Rightarrow>
             (let kind = messageKind cmd KindCommand; (err, c') = registerCommand rtc c cmd kind in
              if err \<noteq> None then (err, c')
              else if MessageKindOverride cmd = None \<and> kind = KindCommand
                   then registerCommand rtc c' cmd KindQuery
                   else (None, c'))
         | None \<Rightarrow>
             (Some (ErrorString (''message type '' @ AnyType prototype @
                '' must implement event.Event or event.Command'')), c)))"

text \<open>An event passed as \<^verbatim>\<open>any\<close>: its first type assertion succeeds, the second is not made.\<close>

definition anyEvent :: "'v Event \<Rightarrow> 'v any" where
  "anyEvent e = \<lparr>AsEvent = Some e, AsCommand = None, AnyType = typeString (TypeOf e)\<rparr>"

text \<open>The generic functions: a prototype of a type, and its registration; the second one panics.\<close>

definition RegisterMessageTypeT ::
  "'p reflect \<Rightarrow> gotype \<Rightarrow> ('p \<Rightarrow> 'r \<Rightarrow> goerror option \<times> 'r) \<Rightarrow> 'r \<Rightarrow> goerror option \<times> 'r" where
  "RegisterMessageTypeT rt typ register target =
     (case newTypedValue rt typ of
        Inl e \<Rightarrow> (Some e, target)
      | Inr prototype \<Rightarrow> register prototype target)"

definition NewEvent :: "'v registry \<Rightarrow> MessageKind \<Rightarrow> string \<Rightarrow> string \<Rightarrow> string \<Rightarrow> goerror + 'v Event" where
  "NewEvent c kind scope aggregateType name =
     (case events c \<lparr>KeyScope = scope, KeyKind = kind, KeyAgg = aggregateType, KeyName = name\<rparr> of
        Some reg \<Rightarrow> Inr (factory reg ())
      | None \<Rightarrow>
        (case events c \<lparr>KeyScope = scope, KeyKind = kind, KeyAgg = aggregateType, KeyName = []\<rparr> of
           Some reg \<Rightarrow> Inr (factory reg ())
         | None \<Rightarrow> Inl (UnknownEventError scope aggregateType name)))"

definition NewCommand :: "'v registry \<Rightarrow> MessageKind \<Rightarrow> string \<Rightarrow> string \<Rightarrow> string \<Rightarrow> goerror + 'v Command" where
  "NewCommand c kind scope aggregateType name =
     (case commands c \<lparr>KeyScope = scope, KeyKind = kind, KeyAgg = aggregateType, KeyName = name\<rparr> of
        Some reg \<Rightarrow> Inr (factory reg ())
      | None \<Rightarrow> Inl (UnknownCommandError scope aggregateType name))"

definition DecodeEvent ::
  "(payload \<Rightarrow> 'v Event \<Rightarrow> goerror + 'v Event) \<Rightarrow> 'v registry \<Rightarrow> Subject \<Rightarrow> payload \<Rightarrow> goerror + 'v Event" where
  "DecodeEvent unmarshal c subj data =
     andThen (NewEvent c (Kind subj) (Scope subj) (AggType subj) (Name subj)) (\<lambda>evt.
       case unmarshal data evt of
         Inl e \<Rightarrow> Inl (Errorf (''decode event '' @ SubjectString subj @ '': '') e [])
       | Inr evt' \<Rightarrow> Inr evt')"

definition DecodeCommand ::
  "(payload \<Rightarrow> 'v Command \<Rightarrow> goerror + 'v Command) \<Rightarrow> 'v registry \<Rightarrow> Subject \<Rightarrow> payload \<Rightarrow> goerror + 'v Command" where
  "DecodeCommand unmarshal c subj data =
     andThen (NewCommand c (Kind subj) (Scope subj) (AggType subj) (Name subj)) (\<lambda>cmd.
       case unmarshal data cmd of
         Inl e \<Rightarrow> Inl (Errorf (''decode command '' @ SubjectString subj @ '': '') e [])
       | Inr cmd' \<Rightarrow> Inr cmd')"

subsection \<open>The contract of a typed map\<close>

text \<open>
  What a client of the registry relies on: a registration that succeeds makes its key answer with the
  registered type and leaves every other key and every earlier answer alone; one that fails changes
  nothing. The client registers a list of types one after the other and stops at the first error, as
  \<^verbatim>\<open>eventRegistryFor\<close> does.
\<close>

locale typed_map =
  fixes lookup :: "'m \<Rightarrow> 'k \<Rightarrow> 'a registeredType option"
    and register :: "'m \<Rightarrow> 'k \<Rightarrow> 'a registeredType \<Rightarrow> goerror option \<times> 'm"
  assumes register_answers:
      "register m k v = (None, m') \<Longrightarrow> \<exists>w. lookup m' k = Some w \<and> RegType w = RegType v"
    and register_other: "register m k v = (err, m') \<Longrightarrow> k' \<noteq> k \<Longrightarrow> lookup m' k' = lookup m k'"
    and register_keeps: "register m k v = (err, m') \<Longrightarrow> lookup m k' = Some w \<Longrightarrow> lookup m' k' = Some w"
    and register_fails: "register m k v = (Some e, m') \<Longrightarrow> m' = m"
begin

fun registerAll :: "'m \<Rightarrow> ('k \<times> 'a registeredType) list \<Rightarrow> goerror option \<times> 'm" where
  "registerAll m [] = (None, m)"
| "registerAll m ((k, v) # kvs) =
     (let (err, m') = register m k v
      in if err \<noteq> None then (err, m') else registerAll m' kvs)"

lemma registerAll_keeps:
  "registerAll m kvs = (err, m') \<Longrightarrow> lookup m k = Some w \<Longrightarrow> lookup m' k = Some w"
proof (induction m kvs rule: registerAll.induct)
  case (2 m k v kvs)
  then show ?case
    by (auto split: prod.splits if_splits dest: register_keeps)
qed simp

lemma registerAll_answers:
  "registerAll m kvs = (None, m') \<Longrightarrow> (k, v) \<in> set kvs \<Longrightarrow>
   \<exists>w. lookup m' k = Some w \<and> RegType w = RegType v"
proof (induction m kvs rule: registerAll.induct)
  case (2 m k' v' kvs)
  obtain err m1 where r: "register m k' v' = (err, m1)" by fastforce
  with "2.prems"(1) have err: "err = None" and rest: "registerAll m1 kvs = (None, m')"
    by (auto split: if_splits)
  show ?case
  proof (cases "(k, v) = (k', v')")
    case True
    with r err obtain w where "lookup m1 k = Some w" "RegType w = RegType v"
      using register_answers by blast
    with registerAll_keeps [OF rest] show ?thesis by blast
  next
    case False
    with "2.prems"(2) have "(k, v) \<in> set kvs" by auto
    with "2.IH" [OF r [symmetric] refl] err rest show ?thesis by simp
  qed
qed simp

lemma registerAll_consistent:
  "registerAll m kvs = (None, m') \<Longrightarrow> (k, v) \<in> set kvs \<Longrightarrow> (k, v') \<in> set kvs \<Longrightarrow>
   RegType v = RegType v'"
  using registerAll_answers [of m kvs m' k v] registerAll_answers [of m kvs m' k v'] by auto

end

interpretation type_map: typed_map "\<lambda>m k. m k" registerType
  by unfold_locales (auto simp: registerType_def split: option.splits if_splits)

subsection \<open>Registered types are returned\<close>

text \<open>What the documentation of \<^verbatim>\<open>reflect\<close> says of the values it makes.\<close>

definition reflectLaws :: "('v, 'z) Message_scheme reflect \<Rightarrow> bool" where
  "reflectLaws rt \<longleftrightarrow> (\<forall>t. TypeOf (New rt t) = GoPtr t) \<and> (\<forall>t. TypeOf (Zero rt t) = t)"

definition goodReg :: "('v, 'z) Message_scheme registeredType \<Rightarrow> bool" where
  "goodReg r \<longleftrightarrow> TypeOf (factory r ()) = RegType r"

lemma goodReg_factoryFor: "reflectLaws rt \<Longrightarrow> goodReg (factoryFor rt typ)"
  by (auto simp: reflectLaws_def goodReg_def factoryFor_def split: gotype.split)

definition goodKey :: "bool \<Rightarrow> typeKey \<Rightarrow> bool" where
  "goodKey allowEmpty key \<longleftrightarrow> validToken (KeyScope key) \<and> validToken (KeyKind key) \<and>
     validToken (KeyAgg key) \<and> (allowEmpty \<and> KeyName key = [] \<or> validToken (KeyName key))"

lemma validateTypeKey_None [simp, err_simps]: "validateTypeKey key b = None \<longleftrightarrow> goodKey b key"
  by (auto simp: validateTypeKey_def goodKey_def)

lemma validateTypeKey_good [simp]: "goodKey b key \<Longrightarrow> validateTypeKey key b = None"
  by simp

definition registryInv :: "'v registry \<Rightarrow> bool" where
  "registryInv c \<longleftrightarrow>
     (\<forall>k r. events c k = Some r \<longrightarrow> goodKey True k \<and> goodReg r) \<and>
     (\<forall>k r. commands c k = Some r \<longrightarrow> goodKey False k \<and> goodReg r)"

lemma registryInv_new: "registryInv newRegistry"
  by (simp add: registryInv_def newRegistry_def)

lemma registerType_inv:
  assumes "registerType m key reg = (err, m')" "goodReg reg" "P key"
    and "\<And>k r. m k = Some r \<Longrightarrow> P k \<and> goodReg r"
  shows "m' k = Some r \<Longrightarrow> P k \<and> goodReg r"
  using assms by (auto simp: registerType_def split: option.splits if_splits)

lemma registerEvent_inv:
  assumes "reflectLaws rt" "registryInv c" "registerEvent rt c e kind = (err, c')"
  shows "registryInv c'"
proof (cases "goodKey True (eventKey e kind)")
  case True
  obtain er m where m: "registerType (events c) (eventKey e kind) (factoryFor rt (TypeOf e)) = (er, m)"
    by fastforce
  with True assms(3) have c': "c' = c\<lparr>events := m\<rparr>"
    by (auto simp: registerEvent_def Let_def)
  have old: "events c k = Some r \<Longrightarrow> goodKey True k \<and> goodReg r" for k r
    using assms(2) by (simp add: registryInv_def)
  have "m k = Some r \<Longrightarrow> goodKey True k \<and> goodReg r" for k r
    by (rule registerType_inv [where P = "goodKey True", OF m goodReg_factoryFor [OF assms(1)] True old])
  with assms(2) c' show ?thesis by (simp add: registryInv_def)
next
  case False
  with assms show ?thesis
    by (auto simp: registerEvent_def Let_def split: option.splits)
qed

lemma registerCommand_inv:
  assumes "reflectLaws rt" "registryInv c" "registerCommand rt c e kind = (err, c')"
  shows "registryInv c'"
proof (cases "goodKey False (commandKey e kind)")
  case True
  obtain er m where m: "registerType (commands c) (commandKey e kind) (factoryFor rt (TypeOf e)) = (er, m)"
    by fastforce
  with True assms(3) have c': "c' = c\<lparr>commands := m\<rparr>"
    by (auto simp: registerCommand_def Let_def)
  have old: "commands c k = Some r \<Longrightarrow> goodKey False k \<and> goodReg r" for k r
    using assms(2) by (simp add: registryInv_def)
  have "m k = Some r \<Longrightarrow> goodKey False k \<and> goodReg r" for k r
    by (rule registerType_inv [where P = "goodKey False", OF m goodReg_factoryFor [OF assms(1)] True old])
  with assms(2) c' show ?thesis by (simp add: registryInv_def)
next
  case False
  with assms show ?thesis
    by (auto simp: registerCommand_def Let_def split: option.splits)
qed

lemma RegisterMessageType_inv:
  assumes "reflectLaws rte" "reflectLaws rtc" "registryInv c"
    and "RegisterMessageType rte rtc c p = (err, c')"
  shows "registryInv c'"
proof (cases "AsEvent p")
  case None
  show ?thesis
  proof (cases "AsCommand p")
    case (Some cmd)
    obtain er c1 where c1: "registerCommand rtc c cmd (messageKind cmd KindCommand) = (er, c1)"
      by fastforce
    have "registryInv c1" by (rule registerCommand_inv [OF assms(2,3) c1])
    with None Some c1 assms show ?thesis
      by (auto simp: RegisterMessageType_def Let_def split: if_splits dest: registerCommand_inv)
  qed (use None assms in \<open>simp add: RegisterMessageType_def\<close>)
qed (use assms registerEvent_inv in \<open>simp add: RegisterMessageType_def\<close>)

text \<open>The registries a sequence of registrations can produce.\<close>

inductive builtRegistry :: "'v Event reflect \<Rightarrow> 'v Command reflect \<Rightarrow> 'v registry \<Rightarrow> bool"
  for rte rtc where
  built_new: "builtRegistry rte rtc newRegistry"
| built_register: "builtRegistry rte rtc c \<Longrightarrow> RegisterMessageType rte rtc c p = (err, c') \<Longrightarrow>
     builtRegistry rte rtc c'"

lemma builtRegistry_inv:
  assumes "builtRegistry rte rtc c" "reflectLaws rte" "reflectLaws rtc"
  shows "registryInv c"
  using assms
  by (induction rule: builtRegistry.induct) (auto intro: registryInv_new RegisterMessageType_inv)

lemma registerEvent_None:
  assumes "registerEvent rt c e kind = (None, c')"
  shows "goodKey True (eventKey e kind) \<and>
    registerType (events c) (eventKey e kind) (factoryFor rt (TypeOf e)) = (None, events c') \<and>
    commands c' = commands c"
  using assms by (auto simp: registerEvent_def Let_def split: option.splits prod.splits)

lemma registerCommand_None:
  assumes "registerCommand rt c e kind = (None, c')"
  shows "goodKey False (commandKey e kind) \<and>
    registerType (commands c) (commandKey e kind) (factoryFor rt (TypeOf e)) = (None, commands c') \<and>
    events c' = events c"
  using assms by (auto simp: registerCommand_def Let_def split: option.splits prod.splits)

lemma NewEvent_exact:
  "events c \<lparr>KeyScope = sc, KeyKind = k, KeyAgg = a, KeyName = n\<rparr> = Some r \<Longrightarrow>
   NewEvent c k sc a n = Inr (factory r ())"
  by (simp add: NewEvent_def)

subsection \<open>Properties\<close>

definition exReflect :: "unit Event reflect" where
  "exReflect = \<lparr>New = (\<lambda>t. \<lparr>AggregateScope = ''sales'', AggregateType = ''order'', AggregateID = [],
       MessageKindOverride = None, TypeOf = GoPtr t, Val = (), EventName = ''created''\<rparr>),
     Zero = (\<lambda>t. \<lparr>AggregateScope = ''sales'', AggregateType = ''order'', AggregateID = [],
       MessageKindOverride = None, TypeOf = t, Val = (), EventName = ''created''\<rparr>),
     PtrImplements = (\<lambda>t. True)\<rparr>"

definition exCmdReflect :: "unit Command reflect" where
  "exCmdReflect = \<lparr>New = (\<lambda>t. \<lparr>AggregateScope = ''sales'', AggregateType = ''order'', AggregateID = [],
       MessageKindOverride = None, TypeOf = GoPtr t, Val = (), CommandName = ''create''\<rparr>),
     Zero = (\<lambda>t. \<lparr>AggregateScope = ''sales'', AggregateType = ''order'', AggregateID = [],
       MessageKindOverride = None, TypeOf = t, Val = (), CommandName = ''create''\<rparr>),
     PtrImplements = (\<lambda>t. True)\<rparr>"

definition exAnyEvent :: "unit any" where
  "exAnyEvent = \<lparr>AsEvent = Some (New exReflect (GoNamed ''OrderCreated'')), AsCommand = None,
     AnyType = ''*OrderCreated''\<rparr>"

definition exAnyEvent2 :: "unit any" where
  "exAnyEvent2 = \<lparr>AsEvent = Some (New exReflect (GoNamed ''OrderMade'')), AsCommand = None,
     AnyType = ''*OrderMade''\<rparr>"

definition exAnyCommand :: "unit any" where
  "exAnyCommand = \<lparr>AsEvent = None, AsCommand = Some (New exCmdReflect (GoNamed ''OrderCreate'')),
     AnyType = ''*OrderCreate''\<rparr>"

lemmas ex_defs = exReflect_def exCmdReflect_def exAnyEvent_def exAnyEvent2_def exAnyCommand_def

lemma ex_reflectLaws: "reflectLaws exReflect" "reflectLaws exCmdReflect"
  by (simp_all add: reflectLaws_def ex_defs)

lemma ex_tokens:
  "validToken ''sales''" "validToken ''order''" "validToken ''created''" "validToken ''event''"
  "validToken ''create''" "validToken ''command''" "validToken ''query''"
  by (simp_all add: validToken_plain plainChar_def within_def)

lemma ex_register:
  "RegisterMessageType exReflect exCmdReflect newRegistry exAnyEvent =
     (None, newRegistry\<lparr>events := [eventKey (New exReflect (GoNamed ''OrderCreated'')) KindEvent \<mapsto>
        factoryFor exReflect (GoPtr (GoNamed ''OrderCreated''))]\<rparr>)"
  by (simp add: RegisterMessageType_def registerEvent_def newRegistry_def ex_defs goodKey_def eventKey_def
      ex_tokens kind_defs registerType_def Let_def)

text \<open>C29. What a registry answers after a registration that succeeds: when \<^verbatim>\<open>RegisterMessageType\<close>
  returns nil for an event prototype, on a registry built by registrations, \<^verbatim>\<open>NewEvent\<close> makes, for the
  prototype's scope, kind, aggregate type and name, a fresh value of exactly the type \<^verbatim>\<open>factoryFor\<close>
  chose; a prototype with the empty name also answers for every name of its scope, kind and aggregate
  type that is not registered itself. For every other message \<^verbatim>\<open>NewEvent\<close> answers as before.\<close>

theorem registered_event_answers:
  assumes "reflectLaws rte" "reflectLaws rtc" "builtRegistry rte rtc c"
    and "RegisterMessageType rte rtc c p = (None, c')" and "AsEvent p = Some evt"
  shows "\<exists>v. TypeOf v = RegType (factoryFor rte (TypeOf evt)) \<and>
     (\<forall>kind scope agg name. NewEvent c' kind scope agg name =
        (if kind = messageKind evt KindEvent \<and> scope = AggregateScope evt \<and> agg = AggregateType evt \<and>
            (name = EventName evt \<or> EventName evt = [] \<and>
               events c \<lparr>KeyScope = scope, KeyKind = kind, KeyAgg = agg, KeyName = name\<rparr> = None)
         then Inr v else NewEvent c kind scope agg name))"
proof -
  let ?k = "eventKey evt (messageKind evt KindEvent)"
  have reg: "registerType (events c) ?k (factoryFor rte (TypeOf evt)) = (None, events c')"
    using assms(4,5) registerEvent_None by (fastforce simp: RegisterMessageType_def)
  then obtain r where r: "events c' ?k = Some r" "RegType r = RegType (factoryFor rte (TypeOf evt))"
    using type_map.register_answers by blast
  have "registryInv c'"
    by (rule builtRegistry_inv [OF built_register [OF assms(3,4)] assms(1,2)])
  then have "TypeOf (factory r ()) = RegType r"
    using r(1) by (auto simp: registryInv_def goodReg_def)
  moreover have other: "events c' k = (if k = ?k then Some r else events c k)" for k
    using r(1) type_map.register_other [OF reg] by simp
  have "NewEvent c' kind scope agg name =
      (if kind = messageKind evt KindEvent \<and> scope = AggregateScope evt \<and> agg = AggregateType evt \<and>
          (name = EventName evt \<or> EventName evt = [] \<and>
             events c \<lparr>KeyScope = scope, KeyKind = kind, KeyAgg = agg, KeyName = name\<rparr> = None)
       then Inr (factory r ()) else NewEvent c kind scope agg name)" for kind scope agg name
    by (auto simp: NewEvent_def other eventKey_def split: option.split)
  ultimately show ?thesis using r(2) by (intro exI [of _ "factory r ()"]) simp
qed

theorem registered_event_answers_witness:
  "\<exists>v c'. RegisterMessageType exReflect exCmdReflect newRegistry exAnyEvent = (None, c') \<and>
     TypeOf v = GoPtr (GoNamed ''OrderCreated'') \<and>
     NewEvent c' ''event'' ''sales'' ''order'' ''created'' = Inr v \<and>
     NewEvent c' ''event'' ''sales'' ''order'' ''paid'' = Inl (UnknownEventError ''sales'' ''order'' ''paid'')"
proof -
  let ?evt = "New exReflect (GoNamed ''OrderCreated'')"
  from registered_event_answers [OF ex_reflectLaws built_new ex_register, where evt = ?evt]
  obtain v where v: "TypeOf v = GoPtr (GoNamed ''OrderCreated'')"
    and new: "NewEvent (snd (RegisterMessageType exReflect exCmdReflect newRegistry exAnyEvent)) kind scope agg name =
      (if kind = ''event'' \<and> scope = ''sales'' \<and> agg = ''order'' \<and> name = ''created'' then Inr v
       else NewEvent newRegistry kind scope agg name)" for kind scope agg name
    unfolding ex_register by (force simp: ex_defs kind_defs factoryFor_def)
  have "NewEvent (newRegistry :: unit registry) ''event'' ''sales'' ''order'' ''paid'' =
      Inl (UnknownEventError ''sales'' ''order'' ''paid'')"
    by (simp add: NewEvent_def newRegistry_def)
  with v new [of "''event''" "''sales''" "''order''" "''created''"] new [of "''event''" "''sales''" "''order''" "''paid''"]
  show ?thesis using ex_register by (intro exI [of _ v]) simp
qed

text \<open>A key that belongs to another Go type.\<close>

definition clash :: "(typeKey \<rightharpoonup> 'a registeredType) \<Rightarrow> typeKey \<Rightarrow> 'a registeredType \<Rightarrow> bool" where
  "clash m key reg \<longleftrightarrow> (case m key of None \<Rightarrow> False | Some existing \<Rightarrow> RegType existing \<noteq> RegType reg)"

lemma registerType_clash:
  "clash m key reg \<Longrightarrow> \<exists>e. registerType m key reg = (Some e, m)"
  "\<not> clash m key reg \<Longrightarrow> registerType m key reg = (None, if m key = None then m(key \<mapsto> reg) else m)"
  by (auto simp: clash_def registerType_def split: option.splits)

lemma registerEvent_cases:
  fixes rt and c :: "'v registry" and e kind
  defines "key \<equiv> eventKey e kind" and "reg \<equiv> factoryFor rt (TypeOf e)"
  shows "\<not> goodKey True key \<or> clash (events c) key reg \<Longrightarrow> \<exists>er. registerEvent rt c e kind = (Some er, c)"
    and "goodKey True key \<Longrightarrow> \<not> clash (events c) key reg \<Longrightarrow> \<exists>c'. registerEvent rt c e kind = (None, c')"
  using registerType_clash [of "events c" key reg] validateTypeKey_None [of key True]
  by (auto simp: registerEvent_def Let_def key_def reg_def simp del: validateTypeKey_None split: option.split)

lemma registerCommand_cases:
  fixes rt and c :: "'v registry" and e kind
  defines "key \<equiv> commandKey e kind" and "reg \<equiv> factoryFor rt (TypeOf e)"
  shows "\<not> goodKey False key \<or> clash (commands c) key reg \<Longrightarrow> \<exists>er. registerCommand rt c e kind = (Some er, c)"
    and "goodKey False key \<Longrightarrow> \<not> clash (commands c) key reg \<Longrightarrow> registerCommand rt c e kind =
      (None, if commands c key = None then c\<lparr>commands := (commands c)(key \<mapsto> reg)\<rparr> else c)"
  using registerType_clash [of "commands c" key reg] validateTypeKey_None [of key False]
  by (auto simp: registerCommand_def Let_def key_def reg_def simp del: validateTypeKey_None split: option.split)

text \<open>C30. Two Go types cannot claim one message: registering an event, or a command under its own kind,
  whose key already belongs to another type fails and leaves the registry as it was. One registration
  that fails does leave a trace, and only this one: a command type without a kind override whose key
  is free under the kind command and belongs to another type under the kind query stays registered
  for commands although \<^verbatim>\<open>RegisterMessageType\<close> returns an error.\<close>

theorem register_other_type_fails:
  assumes "RegisterMessageType rte rtc c p = (err, c')"
  shows "(AsEvent p = Some evt \<and> clash (events c) (eventKey evt (messageKind evt KindEvent)) (factoryFor rte (TypeOf evt)) \<longrightarrow>
       err \<noteq> None \<and> c' = c) \<and>
     (AsEvent p = None \<and> AsCommand p = Some cmd \<and>
       clash (commands c) (commandKey cmd (messageKind cmd KindCommand)) (factoryFor rtc (TypeOf cmd)) \<longrightarrow>
       err \<noteq> None \<and> c' = c) \<and>
     (AsEvent p = None \<and> AsCommand p = Some cmd \<and> MessageKindOverride cmd = None \<and>
       clash (commands c) (commandKey cmd KindQuery) (factoryFor rtc (TypeOf cmd)) \<longrightarrow> err \<noteq> None) \<and>
     (err \<noteq> None \<and> c' \<noteq> c \<longleftrightarrow>
       AsEvent p = None \<and> (\<exists>cmd. AsCommand p = Some cmd \<and> MessageKindOverride cmd = None \<and>
         goodKey False (commandKey cmd KindCommand) \<and> commands c (commandKey cmd KindCommand) = None \<and>
         clash (commands c) (commandKey cmd KindQuery) (factoryFor rtc (TypeOf cmd)) \<and>
         c' = c\<lparr>commands := (commands c)(commandKey cmd KindCommand \<mapsto> factoryFor rtc (TypeOf cmd))\<rparr>))"
  (is "?E \<and> ?C \<and> ?Q \<and> ?X")
proof (cases "AsEvent p")
  case (Some e)
  have "registerEvent rte c e (messageKind e KindEvent) = (err, c')"
    using assms Some by (simp add: RegisterMessageType_def)
  with registerEvent_cases [of e "messageKind e KindEvent" c rte] Some show ?thesis by fastforce
next
  case None
  show ?thesis
  proof (cases "AsCommand p")
    case none: None
    with None assms show ?thesis by (auto simp: RegisterMessageType_def)
  next
    case (Some d)
    let ?kind = "messageKind d KindCommand"
    let ?reg = "factoryFor rtc (TypeOf d)"
    let ?c1 = "if commands c (commandKey d ?kind) = None then c\<lparr>commands := (commands c)(commandKey d ?kind \<mapsto> ?reg)\<rparr> else c"
    have query: "goodKey False (commandKey d KindQuery) \<longleftrightarrow> goodKey False (commandKey d KindCommand)"
      using ex_tokens by (auto simp: goodKey_def commandKey_def kind_defs)
    have keys: "commandKey d KindQuery \<noteq> commandKey d KindCommand" by (simp add: commandKey_def kind_defs)
    have changed: "c\<lparr>commands := (commands c)(k \<mapsto> ?reg)\<rparr> \<noteq> c" if "commands c k = None" for k
    proof
      assume "c\<lparr>commands := (commands c)(k \<mapsto> ?reg)\<rparr> = c"
      from arg_cong [OF this, of "\<lambda>x. commands x k"] that show False by simp
    qed
    consider (bad) er where "\<not> goodKey False (commandKey d ?kind) \<or> clash (commands c) (commandKey d ?kind) ?reg"
        "registerCommand rtc c d ?kind = (Some er, c)"
      | (good) "goodKey False (commandKey d ?kind)" "\<not> clash (commands c) (commandKey d ?kind) ?reg"
        "registerCommand rtc c d ?kind = (None, ?c1)"
      using registerCommand_cases [of d ?kind c rtc] by blast
    then show ?thesis
    proof cases
      case bad
      with None Some assms show ?thesis by (auto simp: RegisterMessageType_def Let_def clash_def)
    next
      case good
      have clash1: "clash (commands ?c1) (commandKey d KindQuery) ?reg \<longleftrightarrow> clash (commands c) (commandKey d KindQuery) ?reg"
        if "MessageKindOverride d = None"
        using keys that by (simp add: clash_def)
      show ?thesis
      proof (cases "MessageKindOverride d = None \<and> clash (commands c) (commandKey d KindQuery) ?reg")
        case True
        then obtain er where "registerCommand rtc ?c1 d KindQuery = (Some er, ?c1)"
          using registerCommand_cases(1) [of d KindQuery ?c1 rtc] clash1 by blast
        with True good None Some assms show ?thesis
          by (auto simp: RegisterMessageType_def Let_def changed split: if_splits)
      next
        case False
        then have "MessageKindOverride d = None \<Longrightarrow> \<exists>c2. registerCommand rtc ?c1 d KindQuery = (None, c2)"
          using registerCommand_cases(2) [of d KindQuery ?c1 rtc] clash1 query good(1) by simp
        with False good None Some assms show ?thesis
          by (auto simp: RegisterMessageType_def Let_def split: if_splits)
      qed
    qed
  qed
qed

definition exTakenQuery :: "unit registry" where
  "exTakenQuery = newRegistry\<lparr>commands := [commandKey (New exCmdReflect (GoNamed ''OrderFind'')) KindQuery \<mapsto>
     factoryFor exCmdReflect (GoPtr (GoNamed ''OrderFind''))]\<rparr>"

theorem register_other_type_fails_witness:
  "fst (RegisterMessageType exReflect exCmdReflect exTakenQuery exAnyCommand) \<noteq> None \<and>
   (\<exists>e. RegisterMessageType exReflect exCmdReflect
      (snd (RegisterMessageType exReflect exCmdReflect newRegistry exAnyEvent)) exAnyEvent2
    = (Some e, snd (RegisterMessageType exReflect exCmdReflect newRegistry exAnyEvent)))"
proof -
  let ?c = "snd (RegisterMessageType exReflect exCmdReflect newRegistry exAnyEvent)"
  obtain err c' where run: "RegisterMessageType exReflect exCmdReflect exTakenQuery exAnyCommand = (err, c')" by fastforce
  have "clash (commands exTakenQuery) (commandKey (New exCmdReflect (GoNamed ''OrderCreate'')) KindQuery)
      (factoryFor exCmdReflect (TypeOf (New exCmdReflect (GoNamed ''OrderCreate''))))"
    by (simp add: exTakenQuery_def clash_def ex_defs commandKey_def factoryFor_def newRegistry_def)
  with register_other_type_fails [OF run, of _ "New exCmdReflect (GoNamed ''OrderCreate'')"] have "err \<noteq> None"
    by (simp add: ex_defs)
  moreover obtain err2 c2 where run2: "RegisterMessageType exReflect exCmdReflect ?c exAnyEvent2 = (err2, c2)" by fastforce
  have "clash (events ?c) (eventKey (New exReflect (GoNamed ''OrderMade'')) KindEvent)
      (factoryFor exReflect (TypeOf (New exReflect (GoNamed ''OrderMade''))))"
    unfolding ex_register by (simp add: clash_def ex_defs eventKey_def factoryFor_def newRegistry_def)
  with register_other_type_fails [OF run2, of "New exReflect (GoNamed ''OrderMade'')"] have "err2 \<noteq> None \<and> c2 = ?c"
    by (simp add: ex_defs)
  ultimately show ?thesis using run run2 by auto
qed

text \<open>\<^verbatim>\<open>NewEvent\<close> fails exactly when neither the event's own name nor the wildcard prototype with
  the empty name is registered for its scope, kind and aggregate type; the error is then
  \<^verbatim>\<open>UnknownEventError\<close> for that message, which the replay and subscription paths recognise through
  wrapping.\<close>

theorem NewEvent_unknown_iff:
  "NewEvent c kind scope agg name = Inl e \<longleftrightarrow>
     events c \<lparr>KeyScope = scope, KeyKind = kind, KeyAgg = agg, KeyName = name\<rparr> = None \<and>
     events c \<lparr>KeyScope = scope, KeyKind = kind, KeyAgg = agg, KeyName = []\<rparr> = None \<and>
     e = UnknownEventError scope agg name \<and> asUnknownEvent (Errorf pre e post)"
  by (auto simp: NewEvent_def split: option.splits)

text \<open>A command type without a kind override serves both commands and queries: when its registration
  succeeds, \<^verbatim>\<open>NewCommand\<close> answers with the chosen type under the kind command and under the kind
  query.\<close>

theorem registered_command_answers_both:
  assumes "reflectLaws rte" "reflectLaws rtc" "builtRegistry rte rtc c"
    and "RegisterMessageType rte rtc c p = (None, c')" and "AsEvent p = None" and "AsCommand p = Some cmd"
    and "MessageKindOverride cmd = None" and "kind = KindCommand \<or> kind = KindQuery"
  shows "\<exists>v. NewCommand c' kind (AggregateScope cmd) (AggregateType cmd) (CommandName cmd) = Inr v \<and>
     TypeOf v = RegType (factoryFor rtc (TypeOf cmd))"
proof -
  let ?reg = "factoryFor rtc (TypeOf cmd)"
  obtain c1 where c1: "registerCommand rtc c cmd KindCommand = (None, c1)"
    and c2: "registerCommand rtc c1 cmd KindQuery = (None, c')"
    using assms(4-7) by (auto simp: RegisterMessageType_def Let_def split: prod.splits if_splits)
  have r1: "registerType (commands c) (commandKey cmd KindCommand) ?reg = (None, commands c1)"
    and r2: "registerType (commands c1) (commandKey cmd KindQuery) ?reg = (None, commands c')"
    using registerCommand_None [OF c1] registerCommand_None [OF c2] by blast+
  have "\<exists>w. commands c' (commandKey cmd kind) = Some w \<and> RegType w = RegType ?reg"
    using assms(8)
  proof
    assume k: "kind = KindCommand"
    show ?thesis
      using type_map.register_answers [OF r1] type_map.register_keeps [OF r2] unfolding k by blast
  next
    assume k: "kind = KindQuery"
    show ?thesis using type_map.register_answers [OF r2] unfolding k .
  qed
  then obtain w where w: "commands c' (commandKey cmd kind) = Some w" "RegType w = RegType ?reg"
    by blast
  have "registryInv c'"
    by (rule builtRegistry_inv [OF built_register [OF assms(3,4)] assms(1,2)])
  with w have "TypeOf (factory w ()) = RegType ?reg"
    by (auto simp: registryInv_def goodReg_def)
  with w(1) show ?thesis by (simp add: NewCommand_def commandKey_def)
qed

theorem registered_command_answers_both_witness:
  "\<exists>v c'. RegisterMessageType exReflect exCmdReflect newRegistry exAnyCommand = (None, c') \<and>
     NewCommand c' ''query'' ''sales'' ''order'' ''create'' = Inr v \<and>
     TypeOf v = GoPtr (GoNamed ''OrderCreate'')"
proof -
  have "\<exists>c'. RegisterMessageType exReflect exCmdReflect newRegistry exAnyCommand = (None, c')"
    by (simp add: RegisterMessageType_def registerCommand_def newRegistry_def ex_defs goodKey_def
        commandKey_def ex_tokens kind_defs registerType_def Let_def)
  then obtain c' where c': "RegisterMessageType exReflect exCmdReflect newRegistry exAnyCommand = (None, c')"
    by blast
  show ?thesis
    using registered_command_answers_both [OF ex_reflectLaws built_new c',
        where cmd = "New exCmdReflect (GoNamed ''OrderCreate'')" and kind = KindQuery] c'
    by (auto simp: ex_defs kind_defs factoryFor_def)
qed

end
