(* ===== verification/Sha1.thy ===== *)
theory Sha1
  imports GoStrings
begin

section \<open>SHA-1 and hexadecimal encoding\<close>

text \<open>
  The functions of \<^verbatim>\<open>crypto/sha1\<close> and \<^verbatim>\<open>encoding/hex\<close> that \<^verbatim>\<open>sanitizeName\<close> calls (FIPS 180-4): the
  padding of the message to blocks of 64 bytes, the schedule of 80 words of a block, the 80 rounds,
  and the digest as 20 bytes. Only the length of the digest matters to the development's theorems.
\<close>

unbundle bit_operations_syntax

type_synonym u32 = "32 word"

fun beBytes :: "nat \<Rightarrow> nat \<Rightarrow> nat list" where
  "beBytes 0 n = []"
| "beBytes (Suc k) n = beBytes k (n div 256) @ [n mod 256]"

definition sha1Pad :: "nat list \<Rightarrow> nat list" where
  "sha1Pad bs = bs @ [128] @ replicate ((119 - length bs mod 64) mod 64) 0 @ beBytes 8 (8 * length bs)"

fun chunksOf :: "nat \<Rightarrow> nat list \<Rightarrow> nat list list" where
  "chunksOf n [] = []"
| "chunksOf n (x # xs) = (x # take (n - 1) xs) # chunksOf n (drop (n - 1) xs)"

definition beWord :: "nat list \<Rightarrow> u32" where
  "beWord bs = of_nat (foldl (\<lambda>acc b. acc * 256 + b) 0 bs)"

fun sha1Extend :: "nat \<Rightarrow> u32 list \<Rightarrow> u32 list" where
  "sha1Extend 0 ws = ws"
| "sha1Extend (Suc k) ws = (let t = length ws in
     sha1Extend k (ws @ [word_rotl 1 (ws ! (t - 3) XOR ws ! (t - 8) XOR ws ! (t - 14) XOR ws ! (t - 16))]))"

definition sha1F :: "nat \<Rightarrow> u32 \<Rightarrow> u32 \<Rightarrow> u32 \<Rightarrow> u32 \<times> u32" where
  "sha1F t b c d =
     (if t < 20 then ((b AND c) OR (NOT b AND d), 0x5A827999)
      else if t < 40 then (b XOR c XOR d, 0x6ED9EBA1)
      else if t < 60 then ((b AND c) OR (b AND d) OR (c AND d), 0x8F1BBCDC)
      else (b XOR c XOR d, 0xCA62C1D6))"

fun sha1Rounds :: "nat \<Rightarrow> u32 list \<Rightarrow> u32 \<times> u32 \<times> u32 \<times> u32 \<times> u32 \<Rightarrow> u32 \<times> u32 \<times> u32 \<times> u32 \<times> u32" where
  "sha1Rounds t [] s = s"
| "sha1Rounds t (w # ws) (a, b, c, d, e) =
     (let (f, k) = sha1F t b c d
      in sha1Rounds (Suc t) ws (word_rotl 5 a + f + e + k + w, a, word_rotl 30 b, c, d))"

definition sha1Block :: "u32 \<times> u32 \<times> u32 \<times> u32 \<times> u32 \<Rightarrow> nat list \<Rightarrow> u32 \<times> u32 \<times> u32 \<times> u32 \<times> u32" where
  "sha1Block s block =
     (let (h0, h1, h2, h3, h4) = s;
          (a, b, c, d, e) = sha1Rounds 0 (sha1Extend 64 (map beWord (chunksOf 4 block))) s
      in (h0 + a, h1 + b, h2 + c, h3 + d, h4 + e))"

definition sha1Sum :: "string \<Rightarrow> nat list" where
  "sha1Sum s =
     (let (h0, h1, h2, h3, h4) =
            foldl sha1Block (0x67452301, 0xEFCDAB89, 0x98BADCFE, 0x10325476, 0xC3D2E1F0)
              (chunksOf 64 (sha1Pad (bytesOf s)))
      in concat (map (\<lambda>h. beBytes 4 (unat h)) [h0, h1, h2, h3, h4]))"

definition hexEncode :: "nat list \<Rightarrow> string" where
  "hexEncode bs = concat (map (hexFixed 2) bs)"

lemma length_beBytes [simp]: "length (beBytes k n) = k"
  by (induction k arbitrary: n) auto

lemma length_sha1Sum [simp]: "length (sha1Sum s) = 20"
  by (simp add: sha1Sum_def split: prod.split)

lemma length_hexFixed [simp]: "length (hexFixed k n) = k"
  by (induction k arbitrary: n) auto

lemma length_hexEncode [simp]: "length (hexEncode bs) = 2 * length bs"
  by (induction bs) (auto simp: hexEncode_def)

lemma hexDigit_range: "n < 16 \<Longrightarrow> of_char (hexDigit n) \<in> {48..57} \<union> {97..102 :: nat}"
  by (auto simp: hexDigit_def)

lemma hexFixed_range: "c \<in> set (hexFixed k n) \<Longrightarrow> of_char c \<in> {48..57} \<union> {97..102 :: nat}"
proof (induction k arbitrary: n)
  case (Suc k)
  have "of_char (hexDigit (n mod 16)) \<in> {48..57} \<union> {97..102 :: nat}"
    by (rule hexDigit_range) simp
  with Suc show ?case by auto
qed simp

lemma hexEncode_range: "c \<in> set (hexEncode bs) \<Longrightarrow> of_char c \<in> {48..57} \<union> {97..102 :: nat}"
  unfolding hexEncode_def using hexFixed_range by fastforce

end
