(* ===== verification/CursorStore.thy ===== *)
theory CursorStore
  imports Errors Sha1
begin

section \<open>Cursors\<close>

text \<open>
  \<^verbatim>\<open>src/cursor_store.go\<close> (the in-memory cursor store) and \<^verbatim>\<open>src/nats/cursor.go\<close> (a stream sequence as
  a cursor of eight bytes, most significant first). A byte slice is an option: \<open>None\<close> is nil, which
  \<^verbatim>\<open>append([]byte(nil), c...)\<close> also yields for an empty \<open>c\<close>. The state of the context is a
  parameter: the error \<^verbatim>\<open>ctx.Err()\<close> returns. The locale is the contract a bus relies on, and its
  client is the wrapper that saves the cursor of an event after the handler has succeeded; the memory
  store interprets it.
\<close>

subsection \<open>The memory store\<close>

record MemoryCursorStore =
  cursors :: "string \<Rightarrow> string option"

definition NewMemoryCursorStore :: MemoryCursorStore where
  "NewMemoryCursorStore = \<lparr>cursors = (\<lambda>_. None)\<rparr>"

definition copySlice :: "string option \<Rightarrow> string option" where
  "copySlice c = (case c of Some (b # bs) \<Rightarrow> Some (b # bs) | _ \<Rightarrow> None)"

definition LoadCursor :: "goerror option \<Rightarrow> MemoryCursorStore \<Rightarrow> string \<Rightarrow> goerror + string option" where
  "LoadCursor ctxErr s stream =
     (case ctxErr of
        Some err \<Rightarrow> Inl err
      | None \<Rightarrow> (case cursors s stream of
            None \<Rightarrow> Inr None
          | Some cursor \<Rightarrow> Inr (copySlice (Some cursor))))"

definition SaveCursor ::
  "goerror option \<Rightarrow> MemoryCursorStore \<Rightarrow> string \<Rightarrow> string option \<Rightarrow> goerror option \<times> MemoryCursorStore" where
  "SaveCursor ctxErr s stream cursor =
     (case ctxErr of
        Some err \<Rightarrow> (Some err, s)
      | None \<Rightarrow> (None, s\<lparr>cursors := (cursors s)(stream := copySlice cursor)\<rparr>))"

subsection \<open>Sequences as cursors\<close>

definition cursorFromSeq :: "uint64 \<Rightarrow> string" where
  "cursorFromSeq seq = map char_of (beBytes 8 (unat seq))"

definition cursorToSeq :: "string \<Rightarrow> uint64" where
  "cursorToSeq cursor =
     (if length cursor \<noteq> 8 then 0 else of_nat (foldl (\<lambda>acc b. acc * 256 + b) 0 (bytesOf cursor)))"

subsection \<open>The contract of a cursor store and the wrapper that uses it\<close>

text \<open>
  \<^verbatim>\<open>startOrderedGroup\<close> wraps the handler of an ordered group: the cursor is saved only after the
  handler has returned nil, and the error of the save is the handler's result. The handler acts on
  the world \<open>'w\<close> of the application, the save on the store \<open>'s\<close>.
\<close>

definition savingHandler ::
  "('s \<Rightarrow> string \<Rightarrow> string option \<Rightarrow> goerror option \<times> 's) \<Rightarrow> string \<Rightarrow>
   ('e \<Rightarrow> string option \<Rightarrow> 'w \<Rightarrow> goerror option \<times> 'w) \<Rightarrow> 'e \<Rightarrow> string option \<Rightarrow> 'w \<times> 's \<Rightarrow>
   goerror option \<times> 'w \<times> 's" where
  "savingHandler save stream next evt cursor st =
     (let (err, w') = next evt cursor (fst st) in
      if err \<noteq> None then (err, w', snd st)
      else let (err', s') = save (snd st) stream cursor in (err', w', s'))"

text \<open>Delivering events in order, each with its cursor; the log keeps what the handler answered.\<close>

fun deliverAll ::
  "('s \<Rightarrow> string \<Rightarrow> string option \<Rightarrow> goerror option \<times> 's) \<Rightarrow> string \<Rightarrow>
   ('e \<Rightarrow> string option \<Rightarrow> 'w \<Rightarrow> goerror option \<times> 'w) \<Rightarrow> ('e \<times> string) list \<Rightarrow> 'w \<times> 's \<Rightarrow>
   goerror option list \<times> 'w \<times> 's" where
  "deliverAll save stream next [] s = ([], s)"
| "deliverAll save stream next ((evt, cursor) # rest) s =
     (let (err, s1) = savingHandler save stream next evt (Some cursor) s;
          (errs, s2) = deliverAll save stream next rest s1
      in (err # errs, s2))"

fun lastHandled :: "goerror option list \<Rightarrow> ('e \<times> string) list \<Rightarrow> string option \<Rightarrow> string option" where
  "lastHandled (err # errs) ((evt, cursor) # rest) c =
     lastHandled errs rest (if err = None then Some cursor else c)"
| "lastHandled _ _ c = c"

locale cursor_store =
  fixes load :: "'s \<Rightarrow> string \<Rightarrow> goerror + string option"
    and save :: "'s \<Rightarrow> string \<Rightarrow> string option \<Rightarrow> goerror option \<times> 's"
  assumes load_saved: "save s k (Some (b # bs)) = (None, s') \<Longrightarrow> load s' k = Inr (Some (b # bs))"
    and load_other: "save s k c = (err, s') \<Longrightarrow> k' \<noteq> k \<Longrightarrow> load s' k' = load s k'"
    and save_failed: "save s k c = (Some e, s') \<Longrightarrow> load s' k' = load s k'"
begin

lemma deliver_step:
  assumes "savingHandler save stream next evt (Some cursor) s = (err, s')" "cursor \<noteq> []"
  shows "load (snd s') stream = (if err = None then Inr (Some cursor) else load (snd s) stream)"
  using assms load_saved save_failed
  by (cases cursor) (auto simp: savingHandler_def Let_def split: prod.splits if_splits)

lemma deliverAll_cursor:
  assumes "deliverAll save stream next evs s = (errs, s')" "\<forall>(evt, cursor) \<in> set evs. cursor \<noteq> []"
    and "load (snd s) stream = Inr c"
  shows "load (snd s') stream = Inr (lastHandled errs evs c)"
  using assms
proof (induction evs arbitrary: s c errs)
  case Nil
  then show ?case by simp
next
  case (Cons p evs)
  obtain evt cursor where p: "p = (evt, cursor)" by fastforce
  obtain err s1 where h: "savingHandler save stream next evt (Some cursor) s = (err, s1)" 
    by (metis surj_pair)
  obtain errs1 where rest: "deliverAll save stream next evs s1 = (errs1, s')" and errs: "errs = err # errs1"
    using Cons.prems(1) h p by (auto split: prod.splits)
  have "load (snd s1) stream = Inr (if err = None then Some cursor else c)"
    using deliver_step [OF h] Cons.prems p by auto
  from Cons.IH [OF rest _ this] Cons.prems(2) show ?case by (simp add: errs p)
qed

lemma deliverAll_other:
  "deliverAll save stream next evs s = (errs, s') \<Longrightarrow> k \<noteq> stream \<Longrightarrow>
   load (snd s') k = load (snd s) k"
proof (induction evs arbitrary: s errs)
  case (Cons p evs)
  then show ?case
    by (cases p) (auto simp: savingHandler_def Let_def load_other split: prod.splits if_splits)
qed simp

end

interpretation memory_cursors: cursor_store "LoadCursor None" "SaveCursor ctxErr" for ctxErr
  by unfold_locales
    (auto simp: LoadCursor_def SaveCursor_def copySlice_def split: option.splits)

subsection \<open>Bytes of a number\<close>

lemma foldl_base256_shift:
  "foldl (\<lambda>acc b. acc * 256 + b) a bs = a * 256 ^ length bs + foldl (\<lambda>acc b. acc * 256 + b) (0::nat) bs"
  by (induction bs rule: rev_induct) (auto simp: algebra_simps)

lemma foldl_beBytes: "foldl (\<lambda>acc b. acc * 256 + b) (0::nat) (beBytes k n) = n mod 256 ^ k"
proof (induction k arbitrary: n)
  case (Suc k)
  have "n mod 256 ^ Suc k = n div 256 mod 256 ^ k * 256 + n mod 256"
    by (simp add: mod_mult2_eq [of n 256 "256 ^ k"] ac_simps)
  with Suc show ?case by simp
qed simp

lemma beBytes_foldl:
  "\<forall>b \<in> set bs. b < 256 \<Longrightarrow> beBytes (length bs) (foldl (\<lambda>acc b. acc * 256 + b) 0 bs) = bs"
  by (induction bs rule: rev_induct) auto

lemma foldl_base256_less:
  "\<forall>b \<in> set bs. b < 256 \<Longrightarrow> foldl (\<lambda>acc b. acc * 256 + b) (0::nat) bs < 256 ^ length bs"
proof (induction bs rule: rev_induct)
  case (snoc b bs)
  then have "foldl (\<lambda>acc b. acc * 256 + b) 0 bs \<le> 256 ^ length bs - 1" "b \<le> 255" by auto
  then have "foldl (\<lambda>acc b. acc * 256 + b) 0 bs * 256 + b \<le> (256 ^ length bs - 1) * 256 + 255"
    by (intro add_mono mult_right_mono) auto
  also have "\<dots> < 256 ^ length (bs @ [b])" by (simp add: algebra_simps)
  finally show ?case by simp
qed simp

lemma beBytes_less: "b \<in> set (beBytes k n) \<Longrightarrow> b < 256"
  by (induction k arbitrary: n) auto

lemma bytesOf_cursorFromSeq: "bytesOf (cursorFromSeq s) = beBytes 8 (unat s)"
  using beBytes_less by (auto simp: cursorFromSeq_def of_char_of intro!: map_idI)

lemma cursorToSeq_FromSeq: "cursorToSeq (cursorFromSeq s) = s"
proof -
  have "unat s < 256 ^ 8" using unsigned_less [of s, where ?'a = nat] by simp
  then have "foldl (\<lambda>acc b. acc * 256 + b) 0 (beBytes 8 (unat s)) = unat s"
    by (simp add: foldl_beBytes)
  then show ?thesis
    unfolding cursorToSeq_def bytesOf_cursorFromSeq by (simp add: cursorFromSeq_def)
qed

lemma cursorFromSeq_ToSeq:
  assumes "length c = 8"
  shows "cursorFromSeq (cursorToSeq c) = c"
proof -
  let ?n = "foldl (\<lambda>acc b. acc * 256 + b) 0 (bytesOf c)"
  have small: "\<forall>b \<in> set (bytesOf c). b < 256" by auto
  then have "?n < 256 ^ 8" using foldl_base256_less [of "bytesOf c"] assms by simp
  then have "unat (of_nat ?n :: uint64) = ?n"
    by (simp add: unat_of_nat)
  moreover have "beBytes 8 ?n = bytesOf c"
    using beBytes_foldl [OF small] assms by simp
  ultimately show ?thesis by (simp add: cursorFromSeq_def cursorToSeq_def assms comp_def)
qed

lemma length_cursorFromSeq [simp]: "length (cursorFromSeq s) = 8"
  by (simp add: cursorFromSeq_def)

lemma cursorFromSeq_nonempty [simp]: "cursorFromSeq s \<noteq> []"
  by (simp flip: length_0_conv)

subsection \<open>Properties\<close>

text \<open>C34. A cursor is a stream position and nothing else: encoding a sequence and decoding it gives the
  sequence back, decoding any eight bytes and encoding them gives the bytes back, and a byte string of
  another length decodes to 0.\<close>

theorem cursor_roundtrip:
  "cursorToSeq (cursorFromSeq seq) = seq \<and> length (cursorFromSeq seq) = 8 \<and>
   (if length cursor = 8 then cursorFromSeq (cursorToSeq cursor) = cursor else cursorToSeq cursor = 0)"
  using cursorToSeq_FromSeq cursorFromSeq_ToSeq
  by (cases "length cursor = 8") (simp, simp add: cursorToSeq_def [of cursor])

text \<open>C33. The cursor a memory store holds for a stream after any series of deliveries through the saving
  handler is that of the last delivery that was handled and saved without error, or the cursor held
  before if there was none; the cursors of other streams are untouched.\<close>

theorem memory_cursor_after_deliveries:
  assumes "deliverAll (SaveCursor ctxErr) stream next evs s = (errs, s')"
    and "\<forall>(evt, cursor) \<in> set evs. cursor \<noteq> []" and "LoadCursor None (snd s) stream = Inr c"
  shows "LoadCursor None (snd s') stream = Inr (lastHandled errs evs c) \<and>
    (other \<noteq> stream \<longrightarrow> LoadCursor None (snd s') other = LoadCursor None (snd s) other)"
  using memory_cursors.deliverAll_cursor [OF assms] memory_cursors.deliverAll_other [OF assms(1)] by blast

theorem memory_cursor_after_deliveries_witness:
  "LoadCursor None (snd (snd (deliverAll (SaveCursor None) ''s''
      (\<lambda>e c w. (if e = ''bad'' then Some ErrClosed else None, ()))
      [(''a'', ''x''), (''b'', ''y''), (''bad'', ''z'')] ((), NewMemoryCursorStore)))) ''s'' = Inr (Some ''y'')"
  using memory_cursor_after_deliveries [of None "''s''" "\<lambda>e c w. (if e = ''bad'' then Some ErrClosed else None, ())"
      "[(''a'', ''x''), (''b'', ''y''), (''bad'', ''z'')]" "((), NewMemoryCursorStore)"
      "[None, None, Some ErrClosed]" _ None "''t''"]
  by (simp add: savingHandler_def SaveCursor_def LoadCursor_def
      NewMemoryCursorStore_def copySlice_def)

end
