(* ===== verification/Bus.thy ===== *)
theory Bus
  imports BusFilters Registry CursorStore
begin

section \<open>The bus: state and operations\<close>

text \<open>
  \<^verbatim>\<open>src/bus.go\<close>. The fields of the \<^verbatim>\<open>Bus\<close> struct that are set once, in \<^verbatim>\<open>NewBus\<close>, are the record
  \<open>busEnv\<close>; those that change are the record \<open>Bus\<close>. The transports, the cursor store, the logger and
  the error callback of the application are fields of \<open>busEnv\<close>, that is parameters: a nil one is
  \<open>None\<close>. They and the handlers act on the application's world \<open>'w\<close>; the cursor store has a state
  \<open>'cs\<close> of its own. A group is a pointer in the code: closures that hold one hold its key here and
  look the group up in the bus when they run. Every section between \<^verbatim>\<open>b.mu.Lock()\<close> and
  \<^verbatim>\<open>b.mu.Unlock()\<close> is a function of its own, so that theory \<open>BusLifecycle\<close> can interleave them. A
  function that panics returns \<open>Inl\<close> with the panic value.
\<close>

subsection \<open>Types\<close>

type_synonym ('v, 'w) eventFn = "'v Event \<Rightarrow> string option \<Rightarrow> 'w \<Rightarrow> goerror option \<times> 'w"
type_synonym ('v, 'w) commandFn = "'v Command \<Rightarrow> 'w \<Rightarrow> goerror option \<times> 'w"
type_synonym ('v, 'w, 'r) queryFn = "'v Command \<Rightarrow> 'w \<Rightarrow> ('r \<times> goerror option) \<times> 'w"

record orderedKey =
  okScope :: string
  okKind :: MessageKind
  okAgg :: string

record queueKey =
  qkScope :: string
  qkAgg :: string
  qkQueue :: string

record ('v, 'w, 'sub) commandRegistration =
  cmdCfg :: CommandSubscriptionConfig
  cmdHandler :: "('v, 'w) commandFn"
  cmdSub :: "'sub option"

record ('v, 'w, 'r, 'sub) queryRegistration =
  qryCfg :: CommandSubscriptionConfig
  qryHandler :: "('v, 'w, 'r) queryFn"
  qrySub :: "'sub option"

text \<open>
  \<open>goroutines\<close> counts the calls \<^verbatim>\<open>go func() { _ = b.Disconnect() }()\<close> that have not run yet, \<open>caughtUp\<close>
  the tokens in the channel that \<^verbatim>\<open>Connect\<close> makes; \<open>doneCh\<close> and \<open>doneClosed\<close> are the done channel.
\<close>

record ('v, 'w, 'r, 'sub) Bus =
  registryOf :: "'v registry"
  running :: bool
  closed :: bool
  hasCancel :: bool
  runCtxDone :: bool
  orderedGroups :: "(orderedKey \<times> (('v, 'w) eventFn, 'sub) eventGroup) list"
  queueGroups :: "(queueKey \<times> (('v, 'w) eventFn, 'sub) eventGroup) list"
  commandsRegs :: "('v, 'w, 'sub) commandRegistration list"
  queryRegs :: "('v, 'w, 'r, 'sub) queryRegistration list"
  doneCh :: "goerror list"
  doneClosed :: bool
  doneOnce :: bool
  stopErr :: "goerror option"
  goroutines :: nat
  caughtUp :: nat

record ('v, 'w, 'r) Dispatcher =
  dispDispatchCommand :: "'v Command \<Rightarrow> 'w \<Rightarrow> goerror option \<times> 'w"
  dispDispatchQuery :: "'v Command \<Rightarrow> 'r \<Rightarrow> 'w \<Rightarrow> goerror option \<times> 'r \<times> 'w"

record 'cs CursorStoreOps =
  csLoad :: "'cs \<Rightarrow> string \<Rightarrow> goerror + string option"
  csSave :: "'cs \<Rightarrow> string \<Rightarrow> string option \<Rightarrow> goerror option \<times> 'cs"

text \<open>
  A transport acts on the whole system, the bus included: while a call of it is under way other
  goroutines may run, call the callbacks of a configuration or disconnect the bus.
\<close>

type_synonym ('v, 'w, 'r, 'sub, 'cs) sys = "('v, 'w, 'r, 'sub) Bus \<times> 'w \<times> 'cs"
type_synonym ('v, 'w, 'r, 'sub, 'cs) sinkFn =
  "'v Event \<Rightarrow> string option \<Rightarrow> ('v, 'w, 'r, 'sub, 'cs) sys \<Rightarrow> goerror option \<times> ('v, 'w, 'r, 'sub, 'cs) sys"
type_synonym ('v, 'w, 'r, 'sub, 'cs) subscribed = "(goerror + 'sub) \<times> ('v, 'w, 'r, 'sub, 'cs) sys"

text \<open>
  The registry of a transport adapter is a reference: to a registry of its own or, once bound, to the
  one of the bus, so that later registrations on the bus reach it. \<open>commandsBinder\<close> and \<open>eventsBinder\<close>
  say whether the transport implements \<^verbatim>\<open>registryBinder\<close>.
\<close>

datatype 'v registryRef = OwnRegistry "'v registry" | BusRegistry

record ('v, 'w, 'r, 'sub, 'cs) busEnv =
  dispatcher :: "('v, 'w, 'r) Dispatcher option"
  publisher :: "('v Event list \<Rightarrow> 'w \<Rightarrow> goerror option \<times> 'w) option"
  commandSubscriber :: "(('v, 'w) commandFn \<Rightarrow> CommandSubscriptionConfig \<Rightarrow> ('v, 'w, 'r, 'sub, 'cs) sys \<Rightarrow>
     ('v, 'w, 'r, 'sub, 'cs) subscribed) option"
  querySubscriber :: "(('v, 'w, 'r) queryFn \<Rightarrow> CommandSubscriptionConfig \<Rightarrow> ('v, 'w, 'r, 'sub, 'cs) sys \<Rightarrow>
     ('v, 'w, 'r, 'sub, 'cs) subscribed) option"
  eventSubscriber :: "(('v, 'w, 'r, 'sub, 'cs) sinkFn \<Rightarrow> ('v, 'w, 'r, 'sub, 'cs) sys EventSubscriptionConfig \<Rightarrow>
     ('v, 'w, 'r, 'sub, 'cs) sys \<Rightarrow> ('v, 'w, 'r, 'sub, 'cs) subscribed) option"
  commandsBinder :: bool
  commandsRegistry :: "'v registryRef"
  eventsBinder :: bool
  eventsRegistry :: "'v registryRef"
  stopSub :: "'sub \<Rightarrow> ('v, 'w, 'r, 'sub, 'cs) sys \<Rightarrow> goerror option \<times> ('v, 'w, 'r, 'sub, 'cs) sys"
  queue :: string
  logger :: "string \<Rightarrow> Subject option \<Rightarrow> goerror option \<Rightarrow> 'w \<Rightarrow> 'w"
  cursorStore :: "'cs CursorStoreOps option"
  cursorBootPolicy :: CursorBootPolicy
  onSubscriptionError :: "(goerror \<Rightarrow> 'w \<Rightarrow> bool \<times> 'w) option"
  queueMaxRetries :: int
  commandConflictRetries :: int
  excludeCommandDebugNames :: "string \<Rightarrow> bool"
  handlerRange :: "('v, 'w) eventFn registeredEventHandler rangeFn"
  orderedRange :: "orderedKey rangeFn"
  queueRange :: "queueKey rangeFn"

record ('w, 'cs) BusOptions =
  optQueue :: string
  optQueueMaxRetries :: int
  optLogger :: "(string \<Rightarrow> Subject option \<Rightarrow> goerror option \<Rightarrow> 'w \<Rightarrow> 'w) option"
  optCursorStore :: "'cs CursorStoreOps option"
  optCursorBootPolicy :: CursorBootPolicy
  optOnSubscriptionError :: "(goerror \<Rightarrow> 'w \<Rightarrow> bool \<times> 'w) option"
  optCommandConflictRetries :: int
  optExcludeCommandDebugNames :: "string \<Rightarrow> bool"

subsection \<open>Construction\<close>

text \<open>
  The transports come as an environment whose option fields are still open; \<^verbatim>\<open>slog.Default()\<close> is a
  parameter. \<^verbatim>\<open>bindRegistry\<close> makes an adapter that can be bound refer to the registry of the bus;
  \<open>derefRegistry\<close> is the registry an adapter decodes with, which theories \<open>Subscriber\<close> and
  \<open>CommandBus\<close> take as a field of their environments.
\<close>

definition bindRegistry :: "bool \<Rightarrow> 'v registryRef \<Rightarrow> 'v registryRef" where
  "bindRegistry isBinder target = (if isBinder then BusRegistry else target)"


definition NewBus ::
  "(string \<Rightarrow> Subject option \<Rightarrow> goerror option \<Rightarrow> 'w \<Rightarrow> 'w) \<Rightarrow> ('v, 'w, 'r, 'sub, 'cs) busEnv \<Rightarrow> ('w, 'cs) BusOptions \<Rightarrow>
   ('v, 'w, 'r, 'sub, 'cs) busEnv \<times> ('v, 'w, 'r, 'sub) Bus" where
  "NewBus slogDefault transports opts =
     (transports\<lparr>
        commandsRegistry := bindRegistry (commandsBinder transports) (commandsRegistry transports),
        eventsRegistry := bindRegistry (eventsBinder transports) (eventsRegistry transports),
        queue := optQueue opts,
        logger := (case optLogger opts of None \<Rightarrow> slogDefault | Some l \<Rightarrow> l),
        cursorStore := optCursorStore opts,
        cursorBootPolicy := optCursorBootPolicy opts,
        onSubscriptionError := optOnSubscriptionError opts,
        queueMaxRetries := optQueueMaxRetries opts,
        commandConflictRetries :=
          (if optCommandConflictRetries opts = 0 then 5 else optCommandConflictRetries opts),
        excludeCommandDebugNames := optExcludeCommandDebugNames opts\<rparr>,
      \<lparr>registryOf = newRegistry, running = False, closed = False, hasCancel = False, runCtxDone = False,
       orderedGroups = [], queueGroups = [], commandsRegs = [], queryRegs = [],
       doneCh = [], doneClosed = False, doneOnce = False, stopErr = None, goroutines = 0, caughtUp = 0\<rparr>)"

subsection \<open>Registration\<close>

definition mustAllowRegistrationLocked :: "('v, 'w, 'r, 'sub) Bus \<Rightarrow> goerror option" where
  "mustAllowRegistrationLocked b =
     (if closed b then Some ErrClosed
      else if running b then Some (ErrorString ''bus is connected'')
      else None)"

definition bus_RegisterMessageType ::
  "'v Event reflect \<Rightarrow> 'v Command reflect \<Rightarrow> 'v any \<Rightarrow> ('v, 'w, 'r, 'sub) Bus \<Rightarrow>
   goerror + goerror option \<times> ('v, 'w, 'r, 'sub) Bus" where
  "bus_RegisterMessageType rte rtc prototype b =
     (case mustAllowRegistrationLocked b of
        Some p \<Rightarrow> Inl p
      | None \<Rightarrow>
          (let (err, reg) = RegisterMessageType rte rtc (registryOf b) prototype
           in Inr (err, b\<lparr>registryOf := reg\<rparr>)))"

type_synonym HandlerOption = "string list \<Rightarrow> string list"

definition WithAggregateIDs :: "string list \<Rightarrow> HandlerOption" where
  "WithAggregateIDs ids = (\<lambda>_. ids)"

definition collectHandlerOptions :: "HandlerOption list \<Rightarrow> string list" where
  "collectHandlerOptions opts = fold (\<lambda>opt out. opt out) opts []"

definition addOrderedHandler ::
  "MessageKind \<Rightarrow> string \<Rightarrow> string \<Rightarrow> string \<Rightarrow> string list \<Rightarrow> ('v, 'w) eventFn \<Rightarrow> ('v, 'w, 'r, 'sub) Bus \<Rightarrow>
   goerror + ('v, 'w, 'r, 'sub) Bus" where
  "addOrderedHandler kind scope agg name ids h b =
     (let key = \<lparr>okScope = scope, okKind = kind, okAgg = agg\<rparr> in
      case mustAllowRegistrationLocked b of
        Some p \<Rightarrow> Inl p
      | None \<Rightarrow>
        (let group = (case map_of (orderedGroups b) key of
               Some g \<Rightarrow> g
             | None \<Rightarrow> \<lparr>grpOrdered = True, grpScope = scope, grpKind = kind, grpAgg = agg, grpQueue = [],
                 handlers = [], grpSub = None\<rparr>);
             reg = \<lparr>eventKind = kind, eventName = name, aggregateIDs = ids, handler = h\<rparr>
         in Inr (b\<lparr>orderedGroups := AList.update key (addGroupHandler reg group) (orderedGroups b)\<rparr>)))"

definition addQueueHandler ::
  "('v, 'w, 'r, 'sub, 'cs) busEnv \<Rightarrow> MessageKind \<Rightarrow> string \<Rightarrow> string \<Rightarrow> string \<Rightarrow> string list \<Rightarrow> ('v, 'w) eventFn \<Rightarrow>
   ('v, 'w, 'r, 'sub) Bus \<Rightarrow> goerror + ('v, 'w, 'r, 'sub) Bus" where
  "addQueueHandler env kind scope agg name ids h b =
     (if queue env = [] then Inl (ErrorString ''queue event handler requires BusOptions.Queue'')
      else
      let key = \<lparr>qkScope = scope, qkAgg = agg, qkQueue = queue env\<rparr> in
      case mustAllowRegistrationLocked b of
        Some p \<Rightarrow> Inl p
      | None \<Rightarrow>
        (let group = (case map_of (queueGroups b) key of
               Some g \<Rightarrow> g
             | None \<Rightarrow> \<lparr>grpOrdered = False, grpScope = scope, grpKind = kind, grpAgg = agg,
                 grpQueue = queue env, handlers = [], grpSub = None\<rparr>);
             reg = \<lparr>eventKind = kind, eventName = name, aggregateIDs = ids, handler = h\<rparr>
         in Inr (b\<lparr>queueGroups := AList.update key (addGroupHandler reg group) (queueGroups b)\<rparr>)))"

subsection \<open>Command handlers: logging and retry on conflict\<close>

definition withCommandLogging ::
  "('v, 'w, 'r, 'sub, 'cs) busEnv \<Rightarrow> ('v, 'w) commandFn \<Rightarrow> ('v, 'w) commandFn" where
  "withCommandLogging env next cmd w =
     (let w1 = (if excludeCommandDebugNames env (CommandName cmd) then w
                else logger env ''handle command'' (Some (CommandSubject cmd)) None w);
          (err, w2) = next cmd w1
      in (err, if err \<noteq> None then logger env ''command failed'' (Some (CommandSubject cmd)) err w2 else w2))"

definition withQueryLogging ::
  "('v, 'w, 'r, 'sub, 'cs) busEnv \<Rightarrow> ('v, 'w, 'r) queryFn \<Rightarrow> ('v, 'w, 'r) queryFn" where
  "withQueryLogging env next query w =
     (let w1 = logger env ''handle query'' (Some (QuerySubject query)) None w;
          ((result, err), w2) = next query w1
      in ((result, err), if err \<noteq> None then logger env ''query failed'' (Some (QuerySubject query)) err w2 else w2))"

text \<open>\<open>n\<close> is the number of attempts left; a negative bound leaves none.\<close>

fun conflictRetryLoop ::
  "nat \<Rightarrow> ('v, 'w) commandFn \<Rightarrow> 'v Command \<Rightarrow> goerror option \<Rightarrow> 'w \<Rightarrow> goerror option \<times> 'w" where
  "conflictRetryLoop 0 next cmd lastErr w = (lastErr, w)"
| "conflictRetryLoop (Suc n) next cmd lastErr w =
     (case next cmd w of
        (None, w') \<Rightarrow> (None, w')
      | (Some err, w') \<Rightarrow>
          if \<not> errorsIs err ErrConflict then (Some err, w')
          else conflictRetryLoop n next cmd (Some err) w')"

definition withCommandConflictRetry ::
  "('v, 'w, 'r, 'sub, 'cs) busEnv \<Rightarrow> ('v, 'w) commandFn \<Rightarrow> ('v, 'w) commandFn" where
  "withCommandConflictRetry env next cmd w =
     conflictRetryLoop (nat (commandConflictRetries env)) next cmd None w"

definition addCommandHandler ::
  "('v, 'w, 'r, 'sub, 'cs) busEnv \<Rightarrow> MessageKind \<Rightarrow> string \<Rightarrow> string \<Rightarrow> string \<Rightarrow> string list \<Rightarrow> ('v, 'w) commandFn \<Rightarrow>
   ('v, 'w, 'r, 'sub) Bus \<Rightarrow> goerror + ('v, 'w, 'r, 'sub) Bus" where
  "addCommandHandler env kind scope agg name ids h b =
     (let reg = \<lparr>cmdCfg = \<lparr>CmdScope = scope, CmdKind = kind, CmdTypes = [agg], CmdIDs = ids, CmdNames = [name],
            CmdQueue = queue env\<rparr>,
          cmdHandler = withCommandConflictRetry env (withCommandLogging env h), cmdSub = None\<rparr> in
      case mustAllowRegistrationLocked b of
        Some p \<Rightarrow> Inl p
      | None \<Rightarrow> Inr (b\<lparr>commandsRegs := commandsRegs b @ [reg]\<rparr>))"

definition addQueryHandler ::
  "('v, 'w, 'r, 'sub, 'cs) busEnv \<Rightarrow> MessageKind \<Rightarrow> string \<Rightarrow> string \<Rightarrow> string \<Rightarrow> ('v, 'w, 'r) queryFn \<Rightarrow>
   ('v, 'w, 'r, 'sub) Bus \<Rightarrow> goerror + ('v, 'w, 'r, 'sub) Bus" where
  "addQueryHandler env kind scope agg name h b =
     (let reg = \<lparr>qryCfg = \<lparr>CmdScope = scope, CmdKind = kind, CmdTypes = [agg], CmdIDs = [], CmdNames = [name],
            CmdQueue = queue env\<rparr>,
          qryHandler = withQueryLogging env h, qrySub = None\<rparr> in
      case mustAllowRegistrationLocked b of
        Some p \<Rightarrow> Inl p
      | None \<Rightarrow> Inr (b\<lparr>queryRegs := queryRegs b @ [reg]\<rparr>))"

subsection \<open>The generic registration functions\<close>

text \<open>
  \<open>typ\<close> is the type argument \<^verbatim>\<open>T\<close>; the type assertion on a delivered message succeeds when its
  dynamic type is \<^verbatim>\<open>T\<close>. What the prototype of a command is as an \<^verbatim>\<open>any\<close> is a parameter, because
  its type may implement the event interface too.
\<close>

definition typedEvent :: "gotype \<Rightarrow> 'v Event \<Rightarrow> ('v Event \<Rightarrow> 'w \<Rightarrow> goerror option \<times> 'w) \<Rightarrow> ('v, 'w) eventFn" where
  "typedEvent typ prototype h evt cursor w =
     (if TypeOf evt \<noteq> typ then
        (Some (ErrorString (''event type mismatch: expected '' @ typeString (TypeOf prototype) @
           '', got '' @ typeString (TypeOf evt))), w)
      else h evt w)"

definition typedCommand :: "gotype \<Rightarrow> 'v Command \<Rightarrow> ('v Command \<Rightarrow> 'w \<Rightarrow> goerror option \<times> 'w) \<Rightarrow> ('v, 'w) commandFn" where
  "typedCommand typ prototype h cmd w =
     (if TypeOf cmd \<noteq> typ then
        (Some (ErrorString (''command type mismatch: expected '' @ typeString (TypeOf prototype) @
           '', got '' @ typeString (TypeOf cmd))), w)
      else h cmd w)"

definition typedQuery :: "gotype \<Rightarrow> 'v Command \<Rightarrow> 'r \<Rightarrow> ('v, 'w, 'r) queryFn \<Rightarrow> ('v, 'w, 'r) queryFn" where
  "typedQuery typ prototype nilResult h query w =
     (if TypeOf query \<noteq> typ then
        ((nilResult, Some (ErrorString (''query type mismatch: expected '' @ typeString (TypeOf prototype) @
           '', got '' @ typeString (TypeOf query)))), w)
      else h query w)"

definition registerPrototype ::
  "'v Event reflect \<Rightarrow> 'v Command reflect \<Rightarrow> 'v any \<Rightarrow> ('v, 'w, 'r, 'sub) Bus \<Rightarrow> goerror + ('v, 'w, 'r, 'sub) Bus" where
  "registerPrototype rte rtc prototype b =
     (case bus_RegisterMessageType rte rtc prototype b of
        Inl p \<Rightarrow> Inl p
      | Inr (Some err, b') \<Rightarrow> Inl err
      | Inr (None, b') \<Rightarrow> Inr b')"

definition HandleEvent ::
  "'v Event reflect \<Rightarrow> 'v Command reflect \<Rightarrow> gotype \<Rightarrow> ('v Event \<Rightarrow> 'w \<Rightarrow> goerror option \<times> 'w) \<Rightarrow> HandlerOption list \<Rightarrow>
   ('v, 'w, 'r, 'sub) Bus \<Rightarrow> goerror + ('v, 'w, 'r, 'sub) Bus" where
  "HandleEvent rte rtc typ h opts b =
     andThen (newTypedValue rte typ) (\<lambda>prototype.
     andThen (registerPrototype rte rtc (anyEvent prototype) b) (\<lambda>b'.
       addOrderedHandler (messageKind prototype KindEvent) (AggregateScope prototype) (AggregateType prototype)
         (EventName prototype) (collectHandlerOptions opts) (typedEvent typ prototype h) b'))"

definition HandleQueueEvent ::
  "('v, 'w, 'r, 'sub, 'cs) busEnv \<Rightarrow> 'v Event reflect \<Rightarrow> 'v Command reflect \<Rightarrow> gotype \<Rightarrow>
   ('v Event \<Rightarrow> 'w \<Rightarrow> goerror option \<times> 'w) \<Rightarrow> HandlerOption list \<Rightarrow>
   ('v, 'w, 'r, 'sub) Bus \<Rightarrow> goerror + ('v, 'w, 'r, 'sub) Bus" where
  "HandleQueueEvent env rte rtc typ h opts b =
     andThen (newTypedValue rte typ) (\<lambda>prototype.
     andThen (registerPrototype rte rtc (anyEvent prototype) b) (\<lambda>b'.
       addQueueHandler env (messageKind prototype KindEvent) (AggregateScope prototype) (AggregateType prototype)
         (EventName prototype) (collectHandlerOptions opts) (typedEvent typ prototype h) b'))"

definition HandleCommand ::
  "('v, 'w, 'r, 'sub, 'cs) busEnv \<Rightarrow> 'v Event reflect \<Rightarrow> 'v Command reflect \<Rightarrow> ('v Command \<Rightarrow> 'v any) \<Rightarrow> gotype \<Rightarrow>
   ('v Command \<Rightarrow> 'w \<Rightarrow> goerror option \<times> 'w) \<Rightarrow> HandlerOption list \<Rightarrow>
   ('v, 'w, 'r, 'sub) Bus \<Rightarrow> goerror + ('v, 'w, 'r, 'sub) Bus" where
  "HandleCommand env rte rtc anyCommand typ h opts b =
     andThen (newTypedValue rtc typ) (\<lambda>prototype.
     andThen (registerPrototype rte rtc (anyCommand prototype) b) (\<lambda>b'.
       addCommandHandler env (messageKind prototype KindCommand) (AggregateScope prototype)
         (AggregateType prototype) (CommandName prototype) (collectHandlerOptions opts)
         (typedCommand typ prototype h) b'))"

definition HandleQuery ::
  "('v, 'w, 'r, 'sub, 'cs) busEnv \<Rightarrow> 'v Command reflect \<Rightarrow> 'r \<Rightarrow> gotype \<Rightarrow> ('v, 'w, 'r) queryFn \<Rightarrow>
   ('v, 'w, 'r, 'sub) Bus \<Rightarrow> goerror + ('v, 'w, 'r, 'sub) Bus" where
  "HandleQuery env rtc nilResult typ h b =
     andThen (newTypedValue rtc typ) (\<lambda>prototype.
       let kind = messageKind prototype KindQuery in
       case mustAllowRegistrationLocked b of
         Some p \<Rightarrow> Inl p
       | None \<Rightarrow>
         (case registerCommand rtc (registryOf b) prototype kind of
            (Some err, _) \<Rightarrow> Inl err
          | (None, reg) \<Rightarrow>
              addQueryHandler env kind (AggregateScope prototype) (AggregateType prototype)
                (CommandName prototype) (typedQuery typ prototype nilResult h) (b\<lparr>registryOf := reg\<rparr>)))"

subsection \<open>Dispatching and publishing\<close>

definition DispatchCommand ::
  "('v, 'w, 'r, 'sub, 'cs) busEnv \<Rightarrow> 'v Command \<Rightarrow> 'w \<Rightarrow> goerror option \<times> 'w" where
  "DispatchCommand env cmd w =
     (case dispatcher env of
        None \<Rightarrow> (Some ErrNoResponders, w)
      | Some d \<Rightarrow>
          dispDispatchCommand d cmd
            (if excludeCommandDebugNames env (CommandName cmd) then w
             else logger env ''dispatch command'' (Some (CommandSubject cmd)) None w))"

definition DispatchQuery ::
  "('v, 'w, 'r, 'sub, 'cs) busEnv \<Rightarrow> 'v Command \<Rightarrow> 'r \<Rightarrow> 'w \<Rightarrow> goerror option \<times> 'r \<times> 'w" where
  "DispatchQuery env query result w =
     (case dispatcher env of
        None \<Rightarrow> (Some ErrNoResponders, result, w)
      | Some d \<Rightarrow>
          dispDispatchQuery d query result (logger env ''dispatch query'' (Some (QuerySubject query)) None w))"

text \<open>\<^verbatim>\<open>Ask\<close> of \<^verbatim>\<open>src/pubsub.go\<close>, for a result type with the zero value \<open>zero\<close>.\<close>

definition Ask :: "('v, 'w, 'r) Dispatcher \<Rightarrow> 'r \<Rightarrow> 'v Command \<Rightarrow> 'w \<Rightarrow> ('r \<times> goerror option) \<times> 'w" where
  "Ask d zero query w = (let (err, result, w') = dispDispatchQuery d query zero w in ((result, err), w'))"

definition bus_Publish ::
  "('v, 'w, 'r, 'sub, 'cs) busEnv \<Rightarrow> 'v Event list \<Rightarrow> 'w \<Rightarrow> goerror option \<times> 'w" where
  "bus_Publish env evs w =
     (case publisher env of None \<Rightarrow> (Some ErrNoResponders, w) | Some publish \<Rightarrow> publish evs w)"

subsection \<open>Stopping\<close>

definition subTransport :: "goerror \<Rightarrow> bool" where
  "subTransport e = (case e of SubscriptionError _ _ _ _ transport _ \<Rightarrow> transport | _ \<Rightarrow> False)"

definition makeOnError ::
  "('v, 'w, 'r, 'sub, 'cs) busEnv \<Rightarrow> bool \<Rightarrow> goerror \<Rightarrow> ('v, 'w, 'r, 'sub, 'cs) sys \<Rightarrow>
   bool \<times> ('v, 'w, 'r, 'sub, 'cs) sys" where
  "makeOnError env isQueue err st =
     (case st of (b, w, cs) \<Rightarrow>
      let stop = (\<lambda>w'. (False, b\<lparr>stopErr := Some err, goroutines := goroutines b + 1\<rparr>, w', cs)) in
      if subTransport err \<and> onSubscriptionError env = None then
        (True, b, logger env ''transport subscription error'' None (Some err) w, cs)
      else if \<not> isQueue \<and> onSubscriptionError env = None then
        (True, b, logger env ''ordered handler error'' None (Some err) w, cs)
      else case onSubscriptionError env of
        Some f \<Rightarrow> (let (handled, w') = f err w in if handled then (True, b, w', cs) else stop w')
      | None \<Rightarrow> stop w)"

definition signalDone :: "goerror option \<Rightarrow> ('v, 'w, 'r, 'sub) Bus \<Rightarrow> ('v, 'w, 'r, 'sub) Bus" where
  "signalDone err b =
     (if doneOnce b then b
      else let err' = (if stopErr b \<noteq> None then stopErr b else err) in
        b\<lparr>doneOnce := True,
          doneCh := (case err' of Some e \<Rightarrow> doneCh b @ [e] | None \<Rightarrow> doneCh b),
          doneClosed := True\<rparr>)"

text \<open>The subscriptions \<^verbatim>\<open>Disconnect\<close> takes out of the bus, and the bus without them.\<close>

definition groupSubs :: "('k \<times> ('h, 'sub) eventGroup) list \<Rightarrow> 'k list \<Rightarrow> 'sub list" where
  "groupSubs gs ks = concat (map (\<lambda>k. case map_of gs k of
     Some g \<Rightarrow> (case grpSub g of Some sub \<Rightarrow> [sub] | None \<Rightarrow> []) | None \<Rightarrow> []) ks)"

definition optList :: "'a option \<Rightarrow> 'a list" where
  "optList x = (case x of Some a \<Rightarrow> [a] | None \<Rightarrow> [])"

definition heldSubs ::
  "orderedKey rangeFn \<Rightarrow> queueKey rangeFn \<Rightarrow> ('v, 'w, 'r, 'sub) Bus \<Rightarrow> 'sub list" where
  "heldSubs rngO rngQ b =
     groupSubs (orderedGroups b) (rngO (map fst (orderedGroups b))) @
     groupSubs (queueGroups b) (rngQ (map fst (queueGroups b))) @
     concat (map (\<lambda>reg. optList (cmdSub reg)) (commandsRegs b)) @
     concat (map (\<lambda>reg. optList (qrySub reg)) (queryRegs b))"

definition disconnectEntry ::
  "orderedKey rangeFn \<Rightarrow> queueKey rangeFn \<Rightarrow> ('v, 'w, 'r, 'sub) Bus \<Rightarrow>
   ('sub list \<times> bool \<times> ('v, 'w, 'r, 'sub) Bus) option" where
  "disconnectEntry rngO rngQ b =
     (if closed b then None
      else Some (heldSubs rngO rngQ b, hasCancel b,
        b\<lparr>closed := True, running := False, hasCancel := False,
          orderedGroups := map (\<lambda>(k, g). (k, g\<lparr>grpSub := None\<rparr>)) (orderedGroups b),
          queueGroups := map (\<lambda>(k, g). (k, g\<lparr>grpSub := None\<rparr>)) (queueGroups b),
          commandsRegs := map (\<lambda>reg. reg\<lparr>cmdSub := None\<rparr>) (commandsRegs b),
          queryRegs := map (\<lambda>reg. reg\<lparr>qrySub := None\<rparr>) (queryRegs b)\<rparr>))"

fun stopAll ::
  "('sub \<Rightarrow> 's \<Rightarrow> goerror option \<times> 's) \<Rightarrow> 'sub list \<Rightarrow> goerror option \<Rightarrow> 's \<Rightarrow> goerror option \<times> 's" where
  "stopAll stop [] firstErr st = (firstErr, st)"
| "stopAll stop (sub # subs) firstErr st =
     (let (err, st') = stop sub st
      in stopAll stop subs (if err \<noteq> None \<and> firstErr = None then err else firstErr) st')"

definition cancelRunCtx :: "bool \<Rightarrow> ('v, 'w, 'r, 'sub) Bus \<Rightarrow> ('v, 'w, 'r, 'sub) Bus" where
  "cancelRunCtx cancel b = (if cancel then b\<lparr>runCtxDone := True\<rparr> else b)"

definition Disconnect ::
  "('v, 'w, 'r, 'sub, 'cs) busEnv \<Rightarrow> ('v, 'w, 'r, 'sub, 'cs) sys \<Rightarrow> goerror option \<times> ('v, 'w, 'r, 'sub, 'cs) sys" where
  "Disconnect env st =
     (case st of (b, w, cs) \<Rightarrow>
      case disconnectEntry (orderedRange env) (queueRange env) b of
        None \<Rightarrow> (None, st)
      | Some (subs, cancel, b1) \<Rightarrow>
          (let (firstErr, (b2, rest)) = stopAll (stopSub env) subs None (cancelRunCtx cancel b1, w, cs)
           in (firstErr, signalDone firstErr b2, rest)))"

subsection \<open>Starting subscriptions\<close>

definition groupStream :: "('h, 'sub) eventGroup \<Rightarrow> string" where
  "groupStream g = grpScope g @ ''.'' @ grpKind g @ ''.'' @ grpAgg g"

text \<open>The handler of a group, run against the group its key names when the event arrives.\<close>

definition groupSink ::
  "('v, 'w, 'r, 'sub, 'cs) busEnv \<Rightarrow> (('v, 'w, 'r, 'sub) Bus \<Rightarrow> (('v, 'w) eventFn, 'sub) eventGroup option) \<Rightarrow>
   ('v, 'w, 'r, 'sub) Bus \<Rightarrow> ('v, 'w) eventFn" where
  "groupSink env lookup b evt cursor w =
     (case lookup b of
        None \<Rightarrow> (None, w)
      | Some g \<Rightarrow> dispatchEventGroup (\<lambda>h. h) (handlerRange env) g evt cursor w)"

definition orderedSink ::
  "('v, 'w, 'r, 'sub, 'cs) busEnv \<Rightarrow> orderedKey \<Rightarrow> string \<Rightarrow> ('v, 'w, 'r, 'sub, 'cs) sinkFn" where
  "orderedSink env key stream evt cursor st =
     (case st of (b, w, cs) \<Rightarrow>
      let dispatch = groupSink env (\<lambda>b. map_of (orderedGroups b) key) b in
      case cursorStore env of
        None \<Rightarrow> (let (err, w') = dispatch evt cursor w in (err, b, w', cs))
      | Some ops \<Rightarrow> (let (err, w', cs') = savingHandler (csSave ops) stream dispatch evt cursor (w, cs)
                    in (err, b, w', cs')))"

definition queueSink ::
  "('v, 'w, 'r, 'sub, 'cs) busEnv \<Rightarrow> queueKey \<Rightarrow> ('v, 'w, 'r, 'sub, 'cs) sinkFn" where
  "queueSink env key evt cursor st =
     (case st of (b, w, cs) \<Rightarrow>
      let (err, w') = groupSink env (\<lambda>b. map_of (queueGroups b) key) b evt cursor w in (err, b, w', cs))"

definition orderedConfig ::
  "('v, 'w, 'r, 'sub, 'cs) busEnv \<Rightarrow> (('v, 'w) eventFn, 'sub) eventGroup \<Rightarrow> string option \<Rightarrow>
   ('v, 'w, 'r, 'sub, 'cs) sys EventSubscriptionConfig" where
  "orderedConfig env g cursor =
     \<lparr>EvScope = grpScope g, EvKind = [], EvTypes = [grpAgg g], EvIDs = [], EvNames = [],
      EvFilters = groupEventFilters (handlerRange env) g, Queue = [], ConsumerName = [], MaxRetries = 0,
      Cursor = cursor, BootPolicy = cursorBootPolicy env,
      CaughtUp = Some (\<lambda>(b, w, cs). (b\<lparr>caughtUp := caughtUp b + 1\<rparr>, w, cs)),
      OnError = Some (makeOnError env False)\<rparr>"

definition queueConfig ::
  "('v, 'w, 'r, 'sub, 'cs) busEnv \<Rightarrow> (('v, 'w) eventFn, 'sub) eventGroup \<Rightarrow>
   ('v, 'w, 'r, 'sub, 'cs) sys EventSubscriptionConfig" where
  "queueConfig env g =
     \<lparr>EvScope = grpScope g, EvKind = [], EvTypes = [grpAgg g], EvIDs = [], EvNames = [],
      EvFilters = groupEventFilters (handlerRange env) g, Queue = grpQueue g, ConsumerName = grpQueue g,
      MaxRetries = queueMaxRetries env, Cursor = None, BootPolicy = CursorBootNew, CaughtUp = None,
      OnError = Some (makeOnError env True)\<rparr>"

text \<open>The locked section that keeps a new subscription, \<open>None\<close> when it has to be stopped instead.\<close>

definition keepGroupSub :: "bool \<Rightarrow> 'sub \<Rightarrow> ('h, 'sub) eventGroup \<Rightarrow> ('h, 'sub) eventGroup option" where
  "keepGroupSub isRunning sub g =
     (if \<not> isRunning \<or> handlers g = [] \<or> grpSub g \<noteq> None then None else Some (g\<lparr>grpSub := Some sub\<rparr>))"

definition storeOrderedSub ::
  "orderedKey \<Rightarrow> 'sub \<Rightarrow> ('v, 'w, 'r, 'sub) Bus \<Rightarrow> ('v, 'w, 'r, 'sub) Bus option" where
  "storeOrderedSub key sub b =
     (case map_of (orderedGroups b) key of
        None \<Rightarrow> None
      | Some g \<Rightarrow> map_option (\<lambda>g'. b\<lparr>orderedGroups := AList.update key g' (orderedGroups b)\<rparr>)
          (keepGroupSub (running b) sub g))"

definition storeQueueSub ::
  "queueKey \<Rightarrow> 'sub \<Rightarrow> ('v, 'w, 'r, 'sub) Bus \<Rightarrow> ('v, 'w, 'r, 'sub) Bus option" where
  "storeQueueSub key sub b =
     (case map_of (queueGroups b) key of
        None \<Rightarrow> None
      | Some g \<Rightarrow> map_option (\<lambda>g'. b\<lparr>queueGroups := AList.update key g' (queueGroups b)\<rparr>)
          (keepGroupSub (running b) sub g))"

definition storeCommandSub :: "nat \<Rightarrow> 'sub \<Rightarrow> ('v, 'w, 'r, 'sub) Bus \<Rightarrow> ('v, 'w, 'r, 'sub) Bus" where
  "storeCommandSub i sub b =
     b\<lparr>commandsRegs := (commandsRegs b)[i := (commandsRegs b ! i)\<lparr>cmdSub := Some sub\<rparr>]\<rparr>"

definition storeQuerySub :: "nat \<Rightarrow> 'sub \<Rightarrow> ('v, 'w, 'r, 'sub) Bus \<Rightarrow> ('v, 'w, 'r, 'sub) Bus" where
  "storeQuerySub i sub b =
     b\<lparr>queryRegs := (queryRegs b)[i := (queryRegs b ! i)\<lparr>qrySub := Some sub\<rparr>]\<rparr>"

definition keepOrStop ::
  "('v, 'w, 'r, 'sub, 'cs) busEnv \<Rightarrow> ('v, 'w, 'r, 'sub) Bus option \<Rightarrow> 'sub \<Rightarrow> ('v, 'w, 'r, 'sub, 'cs) sys \<Rightarrow>
   goerror option \<times> ('v, 'w, 'r, 'sub, 'cs) sys" where
  "keepOrStop env stored sub st =
     (case stored of
        None \<Rightarrow> stopSub env sub st
      | Some b' \<Rightarrow> (None, b', snd st))"

definition startOrderedGroup ::
  "('v, 'w, 'r, 'sub, 'cs) busEnv \<Rightarrow> orderedKey \<Rightarrow> (('v, 'w) eventFn, 'sub) eventGroup \<Rightarrow> ('v, 'w, 'r, 'sub, 'cs) sys \<Rightarrow>
   goerror option \<times> ('v, 'w, 'r, 'sub, 'cs) sys" where
  "startOrderedGroup env key g st =
     (case eventSubscriber env of
        None \<Rightarrow> (Some ErrNoResponders, st)
      | Some subscribe \<Rightarrow>
        (let stream = groupStream g;
             loaded = (case cursorStore env of None \<Rightarrow> Inr None | Some ops \<Rightarrow> csLoad ops (snd (snd st)) stream)
         in case loaded of
           Inl err \<Rightarrow> (Some (Errorf (''load cursor '' @ stream @ '': '') err []), st)
         | Inr cursor \<Rightarrow>
           (case subscribe (orderedSink env key stream) (orderedConfig env g cursor) st of
              (Inl err, st') \<Rightarrow>
                (Some (Errorf (''start ordered event subscription '' @ grpScope g @ ''.'' @ grpAgg g @ '': '') err []), st')
            | (Inr sub, st') \<Rightarrow> keepOrStop env (storeOrderedSub key sub (fst st')) sub st')))"

definition startQueueGroup ::
  "('v, 'w, 'r, 'sub, 'cs) busEnv \<Rightarrow> queueKey \<Rightarrow> (('v, 'w) eventFn, 'sub) eventGroup \<Rightarrow> ('v, 'w, 'r, 'sub, 'cs) sys \<Rightarrow>
   goerror option \<times> ('v, 'w, 'r, 'sub, 'cs) sys" where
  "startQueueGroup env key g st =
     (case eventSubscriber env of
        None \<Rightarrow> (Some ErrNoResponders, st)
      | Some subscribe \<Rightarrow>
        (case subscribe (queueSink env key) (queueConfig env g) st of
           (Inl err, st') \<Rightarrow>
             (Some (Errorf (''start queue event subscription '' @ grpQueue g @ '': '') err []), st')
         | (Inr sub, st') \<Rightarrow> keepOrStop env (storeQueueSub key sub (fst st')) sub st'))"

definition startCommand ::
  "('v, 'w, 'r, 'sub, 'cs) busEnv \<Rightarrow> nat \<Rightarrow> ('v, 'w, 'r, 'sub, 'cs) sys \<Rightarrow> goerror option \<times> ('v, 'w, 'r, 'sub, 'cs) sys" where
  "startCommand env i st =
     (case commandSubscriber env of
        None \<Rightarrow> (Some ErrNoResponders, st)
      | Some subscribe \<Rightarrow>
        (let reg = commandsRegs (fst st) ! i in
         case subscribe (cmdHandler reg) (cmdCfg reg) st of
           (Inl err, st') \<Rightarrow> (Some err, st')
         | (Inr sub, st') \<Rightarrow> (None, storeCommandSub i sub (fst st'), snd st')))"

definition startQuery ::
  "('v, 'w, 'r, 'sub, 'cs) busEnv \<Rightarrow> nat \<Rightarrow> ('v, 'w, 'r, 'sub, 'cs) sys \<Rightarrow> goerror option \<times> ('v, 'w, 'r, 'sub, 'cs) sys" where
  "startQuery env i st =
     (case querySubscriber env of
        None \<Rightarrow> (Some ErrNoResponders, st)
      | Some subscribe \<Rightarrow>
        (let reg = queryRegs (fst st) ! i in
         case subscribe (qryHandler reg) (qryCfg reg) st of
           (Inl err, st') \<Rightarrow> (Some err, st')
         | (Inr sub, st') \<Rightarrow> (None, storeQuerySub i sub (fst st'), snd st')))"

subsection \<open>Connecting\<close>

definition connectEntry :: "('v, 'w, 'r, 'sub) Bus \<Rightarrow> goerror option option \<times> ('v, 'w, 'r, 'sub) Bus" where
  "connectEntry b =
     (if closed b then (Some (Some ErrClosed), b)
      else if running b then (Some None, b)
      else (None, b\<lparr>hasCancel := True, runCtxDone := False, running := True, caughtUp := 0\<rparr>))"

text \<open>A loop of \<^verbatim>\<open>Connect\<close>: run an action for every element, stop at the first error.\<close>

fun startAll :: "('a \<Rightarrow> 's \<Rightarrow> goerror option \<times> 's) \<Rightarrow> 'a list \<Rightarrow> 's \<Rightarrow> goerror option \<times> 's" where
  "startAll start [] st = (None, st)"
| "startAll start (x # xs) st =
     (case start x st of
        (Some err, st') \<Rightarrow> (Some err, st')
      | (None, st') \<Rightarrow> startAll start xs st')"

text \<open>
  The select of the loop that waits for the ordered groups is the parameter \<open>await\<close>: it returns nil
  after receiving a token, or the error of the context, once one of the two is possible, which takes
  steps of other goroutines. The loops run over what the first locked section copied.
\<close>

definition connectLoops ::
  "('v, 'w, 'r, 'sub, 'cs) busEnv \<Rightarrow>
   (('v, 'w, 'r, 'sub, 'cs) sys \<Rightarrow> goerror option \<times> ('v, 'w, 'r, 'sub, 'cs) sys) \<Rightarrow>
   ('v, 'w, 'r, 'sub) Bus \<Rightarrow>
   (('v, 'w, 'r, 'sub, 'cs) sys \<Rightarrow> goerror option \<times> ('v, 'w, 'r, 'sub, 'cs) sys) list" where
  "connectLoops env await b =
     (let ordered = orderedRange env (map fst (orderedGroups b));
          queues = queueRange env (map fst (queueGroups b))
      in [startAll (\<lambda>k. startOrderedGroup env k (the (map_of (orderedGroups b) k))) ordered,
          startAll (\<lambda>k. await) ordered,
          startAll (startCommand env) [0..<length (commandsRegs b)],
          startAll (startQuery env) [0..<length (queryRegs b)],
          startAll (\<lambda>k. startQueueGroup env k (the (map_of (queueGroups b) k))) queues])"

definition Connect ::
  "('v, 'w, 'r, 'sub, 'cs) busEnv \<Rightarrow>
   (('v, 'w, 'r, 'sub, 'cs) sys \<Rightarrow> goerror option \<times> ('v, 'w, 'r, 'sub, 'cs) sys) \<Rightarrow>
   ('v, 'w, 'r, 'sub, 'cs) sys \<Rightarrow> goerror option \<times> ('v, 'w, 'r, 'sub, 'cs) sys" where
  "Connect env await st =
     (case connectEntry (fst st) of
        (Some result, _) \<Rightarrow> (result, st)
      | (None, b1) \<Rightarrow>
        (case startAll (\<lambda>loop. loop) (connectLoops env await b1) (b1, snd st) of
           (None, st') \<Rightarrow> (None, st')
         | (Some err, st') \<Rightarrow> (Some err, snd (Disconnect env st'))))"

subsection \<open>Facts on the operations\<close>

lemma conflictRetry_trace:
  "conflictRetryLoop n next cmd lastErr w =
     (if n = 0 then (lastErr, w)
      else case next cmd w of
        (Some err, w') \<Rightarrow> if errorsIs err ErrConflict
          then conflictRetryLoop (n - 1) next cmd (Some err) w' else (Some err, w')
      | (None, w') \<Rightarrow> (None, w'))"
  by (cases n) (auto split: prod.splits option.splits)

lemma signalDone_doneClosed [simp]: "doneClosed (signalDone err b) \<longleftrightarrow> doneOnce b \<and> doneClosed b \<or> \<not> doneOnce b"
  by (auto simp: signalDone_def Let_def)

lemma disconnectEntry_closes:
  "disconnectEntry rngO rngQ b = Some (subs, cancel, b') \<Longrightarrow>
     closed b' \<and> \<not> running b' \<and> (\<forall>(k, g) \<in> set (orderedGroups b') . grpSub g = None) \<and>
     (\<forall>(k, g) \<in> set (queueGroups b'). grpSub g = None) \<and>
     (\<forall>reg \<in> set (commandsRegs b'). cmdSub reg = None) \<and> (\<forall>reg \<in> set (queryRegs b'). qrySub reg = None)"
  by (auto simp: disconnectEntry_def split: if_splits)

lemma registration_blocked:
  "closed b \<or> running b \<Longrightarrow> \<exists>p. mustAllowRegistrationLocked b = Some p"
  by (auto simp: mustAllowRegistrationLocked_def)

lemma registerPrototype_event:
  assumes "registerPrototype rte rtc (anyEvent e) b = Inr b'"
  shows "\<exists>reg. registerEvent rte (registryOf b) e (messageKind e KindEvent) = (None, reg) \<and>
     b' = b\<lparr>registryOf := reg\<rparr>"
  using assms
  by (auto simp: registerPrototype_def bus_RegisterMessageType_def RegisterMessageType_def anyEvent_def
      split: option.splits prod.splits sum.splits)

lemma HandleEvent_Inr:
  assumes "HandleEvent rte rtc typ h opts b = Inr b'"
  obtains prototype reg where
    "newTypedValue rte typ = Inr prototype"
    "registerEvent rte (registryOf b) prototype (messageKind prototype KindEvent) = (None, reg)"
    "addOrderedHandler (messageKind prototype KindEvent) (AggregateScope prototype) (AggregateType prototype)
       (EventName prototype) (collectHandlerOptions opts) (typedEvent typ prototype h) (b\<lparr>registryOf := reg\<rparr>)
     = Inr b'"
  using assms registerPrototype_event unfolding HandleEvent_def andThen_Inr by metis

lemma addOrderedHandler_Inr:
  assumes "addOrderedHandler kind scope agg name ids h b = Inr b'"
  shows "registryOf b' = registryOf b \<and>
    (\<exists>g. map_of (orderedGroups b') \<lparr>okScope = scope, okKind = kind, okAgg = agg\<rparr> = Some g \<and>
       \<lparr>eventKind = kind, eventName = name, aggregateIDs = ids, handler = h\<rparr> \<in> set (groupHandlers g))"
proof -
  have upd: "v \<in> set (map snd (AList.update k v xs))" for k :: uint64 and v :: "'x" and xs
    by (induction xs) auto
  show ?thesis
    using assms
    by (auto simp: addOrderedHandler_def Let_def update_conv' addGroupHandler_def groupHandlers_def
        simp del: set_map split: option.splits intro!: upd)
qed



lemma addOrderedHandler_new:
  assumes "addOrderedHandler kind scope agg name ids h b = Inr b'"
    and "map_of (orderedGroups b) \<lparr>okScope = scope, okKind = kind, okAgg = agg\<rparr> = None"
  shows "\<exists>g. map_of (orderedGroups b') \<lparr>okScope = scope, okKind = kind, okAgg = agg\<rparr> = Some g \<and>
    groupHandlers g = [\<lparr>eventKind = kind, eventName = name, aggregateIDs = ids, handler = h\<rparr>]"
  using assms
  by (auto simp: addOrderedHandler_def Let_def update_conv' addGroupHandler_def groupHandlers_def split: option.splits)

text \<open>\<^verbatim>\<open>json.Unmarshal\<close> fills the value behind a pointer and never changes its dynamic type.\<close>

definition unmarshalLaw :: "(payload \<Rightarrow> 'v Event \<Rightarrow> goerror + 'v Event) \<Rightarrow> bool" where
  "unmarshalLaw unmarshal \<longleftrightarrow> (\<forall>data e e'. unmarshal data e = Inr e' \<longrightarrow> TypeOf e' = TypeOf e)"

lemma registered_type_of:
  assumes "reflectLaws rte" "registryInv c" "registerEvent rte c e kind = (None, c')"
  shows "\<exists>v. NewEvent c' kind (AggregateScope e) (AggregateType e) (EventName e) = Inr v \<and>
     TypeOf v = RegType (factoryFor rte (TypeOf e))"
proof -
  obtain r where r: "events c' (eventKey e kind) = Some r" "RegType r = RegType (factoryFor rte (TypeOf e))"
    using registerEvent_None [OF assms(3)] type_map.register_answers by blast
  have "TypeOf (factory r ()) = RegType r"
    using registerEvent_inv [OF assms] r(1) by (auto simp: registryInv_def goodReg_def)
  with r show ?thesis by (auto simp: eventKey_def NewEvent_exact)
qed

lemma decoded_type_of:
  assumes "reflectLaws rte" "registryInv c" "registerEvent rte c e (Kind subj) = (None, c')" "unmarshalLaw unmarshal"
    and "Scope subj = AggregateScope e" "AggType subj = AggregateType e" "Name subj = EventName e"
    and "DecodeEvent unmarshal c' subj data = Inr evt"
  shows "TypeOf evt = RegType (factoryFor rte (TypeOf e))"
proof -
  obtain v where "NewEvent c' (Kind subj) (AggregateScope e) (AggregateType e) (EventName e) = Inr v"
    "TypeOf v = RegType (factoryFor rte (TypeOf e))"
    using registered_type_of [OF assms(1-3)] by blast
  with assms(4-8) show ?thesis by (auto simp: DecodeEvent_def unmarshalLaw_def split: sum.splits)
qed

text \<open>The states of the world a handler is called in, when it is called again and again.\<close>

fun callWorld :: "('v, 'w) commandFn \<Rightarrow> 'v Command \<Rightarrow> nat \<Rightarrow> 'w \<Rightarrow> 'w" where
  "callWorld next cmd 0 w = w"
| "callWorld next cmd (Suc k) w = callWorld next cmd k (snd (next cmd w))"

definition conflicts :: "goerror option \<Rightarrow> bool" where
  "conflicts err \<longleftrightarrow> (case err of Some e \<Rightarrow> errorsIs e ErrConflict | None \<Rightarrow> False)"

lemma conflictRetryLoop_calls:
  "0 < n \<Longrightarrow> \<exists>k < n. conflictRetryLoop n next cmd lastErr w = next cmd (callWorld next cmd k w) \<and>
     (\<forall>j < k. conflicts (fst (next cmd (callWorld next cmd j w)))) \<and>
     (Suc k = n \<or> \<not> conflicts (fst (next cmd (callWorld next cmd k w))))"
proof (induction n arbitrary: lastErr w)
  case (Suc n)
  obtain err w' where call: "next cmd w = (err, w')" by fastforce
  show ?case
  proof (cases "conflicts err \<and> 0 < n")
    case True
    then obtain e where err: "err = Some e" "errorsIs e ErrConflict"
      by (auto simp: conflicts_def split: option.splits)
    from Suc.IH [of "Some e" w'] True obtain k where k: "k < n"
      "conflictRetryLoop n next cmd (Some e) w' = next cmd (callWorld next cmd k w')"
      "\<forall>j < k. conflicts (fst (next cmd (callWorld next cmd j w')))"
      "Suc k = n \<or> \<not> conflicts (fst (next cmd (callWorld next cmd k w')))" by blast
    have "\<forall>j < Suc k. conflicts (fst (next cmd (callWorld next cmd j w)))"
      using k(3) True call by (auto simp: less_Suc_eq_0_disj)
    with k call err show ?thesis by (intro exI [of _ "Suc k"]) auto
  next
    case False
    with call show ?thesis
      by (intro exI [of _ 0]) (auto simp: conflicts_def split: option.splits)
  qed
qed simp

subsection \<open>Properties\<close>

text \<open>After \<^verbatim>\<open>Connect\<close> or \<^verbatim>\<open>Disconnect\<close> nothing can be registered any more: on a bus that runs or is
  closed each of the five registration functions panics, whatever its arguments, so the handlers of a
  group never change while its subscription is live.\<close>

theorem registration_panics_when_connected:
  assumes "closed b \<or> running b"
  shows "(\<exists>p. bus_RegisterMessageType rte rtc proto b = Inl p) \<and>
    (\<exists>p. HandleEvent rte rtc typ h opts b = Inl p) \<and>
    (\<exists>p. HandleQueueEvent env rte rtc typ h opts b = Inl p) \<and>
    (\<exists>p. HandleCommand env rte rtc anyCommand typ hc opts b = Inl p) \<and>
    (\<exists>p. HandleQuery env rtc nilResult typ hq b = Inl p)"
  using registration_blocked [OF assms]
  by (auto simp: bus_RegisterMessageType_def HandleEvent_def HandleQueueEvent_def HandleCommand_def
      HandleQuery_def registerPrototype_def andThen_Inl Let_def split: sum.splits;
      metis sum.exhaust)

definition exTransports :: "(unit, nat, unit, nat, unit) busEnv" where
  "exTransports = \<lparr>dispatcher = None, publisher = None, commandSubscriber = None, querySubscriber = None,
     eventSubscriber = None, commandsBinder = True, commandsRegistry = OwnRegistry newRegistry, eventsBinder = True,
     eventsRegistry = OwnRegistry newRegistry, stopSub = (\<lambda>sub st. (None, st)), queue = [], logger = (\<lambda>msg subj err w. w),
     cursorStore = None, cursorBootPolicy = CursorBootNew, onSubscriptionError = None, queueMaxRetries = 0,
     commandConflictRetries = 0, excludeCommandDebugNames = (\<lambda>_. False), handlerRange = (\<lambda>hs. hs),
     orderedRange = (\<lambda>ks. ks), queueRange = (\<lambda>ks. ks)\<rparr>"

definition exOptions :: "(nat, unit) BusOptions" where
  "exOptions = \<lparr>optQueue = ''workers'', optQueueMaxRetries = 3, optLogger = None, optCursorStore = None,
     optCursorBootPolicy = CursorBootNew, optOnSubscriptionError = None, optCommandConflictRetries = 0,
     optExcludeCommandDebugNames = (\<lambda>_. False)\<rparr>"

definition exBus :: "(unit, nat, unit, nat) Bus" where
  "exBus = snd (NewBus (\<lambda>msg subj err w. w) exTransports exOptions)"

theorem registration_panics_when_connected_witness:
  "\<exists>p. HandleEvent exReflect exCmdReflect (GoPtr (GoNamed ''OrderCreated'')) (\<lambda>e w. (None, w)) []
     (snd (connectEntry exBus)) = Inl p"
  by (rule registration_panics_when_connected [THEN conjunct2, THEN conjunct1])
    (simp add: connectEntry_def exBus_def NewBus_def)



lemma ex_value_bus: "\<exists>b'. HandleEvent exReflect exCmdReflect (GoNamed ''OrderCreated'') h [] exBus = Inr b'"
  by (simp add: HandleEvent_def newTypedValue_def registerPrototype_def bus_RegisterMessageType_def exBus_def
      NewBus_def mustAllowRegistrationLocked_def addOrderedHandler_def anyEvent_def
      RegisterMessageType_def Let_def registerEvent_def newRegistry_def ex_defs goodKey_def eventKey_def
      ex_tokens kind_defs registerType_def)

lemma ex_bus_registry: "registryInv (registryOf exBus)"
  by (simp add: exBus_def NewBus_def registryInv_new)

lemma ex_decodes:
  assumes "HandleEvent exReflect exCmdReflect typ h [] exBus = Inr b'" "typ = GoPtr (GoNamed n) \<or> typ = GoNamed n"
  shows "DecodeEvent (\<lambda>_. Inr) (registryOf b') (EventSubject (New exReflect (GoNamed n))\<lparr>AggID := ''o1''\<rparr>) data =
    Inr (New exReflect (GoNamed n))"
proof -
  from assms(1) obtain prototype reg where p: "newTypedValue exReflect typ = Inr prototype"
    and r: "registerEvent exReflect (registryOf exBus) prototype (messageKind prototype KindEvent) = (None, reg)"
    and a: "addOrderedHandler (messageKind prototype KindEvent) (AggregateScope prototype)
       (AggregateType prototype) (EventName prototype) (collectHandlerOptions [])
       (typedEvent typ prototype h) (exBus\<lparr>registryOf := reg\<rparr>) = Inr b'"
    by (rule HandleEvent_Inr)
  have "registryOf b' = reg" using addOrderedHandler_Inr [OF a] by simp
  with p registerEvent_None [OF r] assms(2)
  have "events (registryOf b') = [\<lparr>KeyScope = ''sales'', KeyKind = KindEvent, KeyAgg = ''order'', KeyName = ''created''\<rparr> \<mapsto>
      factoryFor exReflect (GoPtr (GoNamed n))]"
    by (auto simp: exBus_def NewBus_def newRegistry_def registerType_def newTypedValue_def
        eventKey_def exReflect_def factoryFor_def messageKind_def)
  then show ?thesis
    by (simp add: DecodeEvent_def NewEvent_def EventSubject_def exReflect_def factoryFor_def messageKind_def)
qed


text \<open>C38. A handler registered for a value type never runs on a decoded event: \<^verbatim>\<open>newTypedValue\<close> and the
  type assertion use the value type, but the registry decodes into a pointer whenever the pointer type
  implements the interface, which Go guarantees for every value type that does. When the handler is
  the first of its group, dispatching a decoded event of its kind and name to the group that
  \<^verbatim>\<open>HandleEvent\<close> stored in the bus returns the type mismatch between the value type and the pointer
  type, and the world is as it was.\<close>

theorem HandleEvent_value_type_mismatch:
  assumes "reflectLaws rte" "registryInv (registryOf b)" "PtrImplements rte (GoNamed n)"
    and "HandleEvent rte rtc (GoNamed n) h opts b = Inr b'"
    and "unmarshalLaw unmarshal" "rangeOrder rng"
    and "subj = EventSubject (Zero rte (GoNamed n))\<lparr>AggID := i\<rparr>"
    and "map_of (orderedGroups b) \<lparr>okScope = Scope subj, okKind = Kind subj, okAgg = AggType subj\<rparr> = None"
    and "DecodeEvent unmarshal (registryOf b') subj data = Inr evt"
    and "Kind (EventSubject evt) = Kind subj" "EventName evt = Name subj"
    and "collectHandlerOptions opts = [] \<or> AggregateID evt \<in> set (collectHandlerOptions opts)"
  shows "\<exists>g. map_of (orderedGroups b') \<lparr>okScope = Scope subj, okKind = Kind subj, okAgg = AggType subj\<rparr> = Some g \<and>
     dispatchEventGroup (\<lambda>f. f) rng g evt cursor w =
       (Some (ErrorString (''event type mismatch: expected '' @ n @ '', got *'' @ n)), w)"
proof -
  let ?z = "Zero rte (GoNamed n)"
  let ?k = "messageKind ?z KindEvent"
  from assms(4) obtain prototype reg where p: "newTypedValue rte (GoNamed n) = Inr prototype"
    and r: "registerEvent rte (registryOf b) prototype (messageKind prototype KindEvent) = (None, reg)"
    and a: "addOrderedHandler (messageKind prototype KindEvent) (AggregateScope prototype)
       (AggregateType prototype) (EventName prototype) (collectHandlerOptions opts)
       (typedEvent (GoNamed n) prototype h) (b\<lparr>registryOf := reg\<rparr>) = Inr b'"
    by (rule HandleEvent_Inr)
  have proto: "prototype = ?z" using p by (simp add: newTypedValue_def)
  note subj = assms(7) EventSubject_def [of ?z]
  let ?rh = "\<lparr>eventKind = ?k, eventName = EventName ?z, aggregateIDs = collectHandlerOptions opts,
    handler = typedEvent (GoNamed n) ?z h\<rparr>"
  obtain g where g: "map_of (orderedGroups b') \<lparr>okScope = AggregateScope ?z, okKind = ?k, okAgg = AggregateType ?z\<rparr> = Some g"
    "groupHandlers g = [?rh]"
    using addOrderedHandler_new [OF a] assms(8) unfolding proto by (auto simp: subj)
  have "registryOf b' = reg" using addOrderedHandler_Inr [OF a] by simp
  with decoded_type_of [OF assms(1,2) _ assms(5) _ _ _ assms(9), of prototype] r assms(1,3)
  have "TypeOf evt = GoPtr (GoNamed n)"
    by (simp add: subj proto reflectLaws_def factoryFor_def)
  moreover have "\<not> skipsHandler ?rh (Kind (EventSubject evt)) evt"
    using assms(10-12) by (auto simp: skipsHandler_def subj)
  moreover have "rng [?rh] = [?rh]"
    using assms(6) unfolding rangeOrder_def by (metis mset_single_iff mset_single_iff_right mset.simps(1,2))
  moreover have "TypeOf ?z = GoNamed n" using assms(1) by (simp add: reflectLaws_def)
  ultimately show ?thesis using g by (simp add: subj dispatchEventGroup_def typedEvent_def)
qed

theorem HandleEvent_value_type_mismatch_witness:
  "\<exists>b' g. HandleEvent exReflect exCmdReflect (GoNamed ''OrderCreated'') (\<lambda>e w. (None, w + 1)) [] exBus = Inr b' \<and>
     map_of (orderedGroups b') \<lparr>okScope = ''sales'', okKind = ''event'', okAgg = ''order''\<rparr> = Some g \<and>
     dispatchEventGroup (\<lambda>f. f) rev g (New exReflect (GoNamed ''OrderCreated'')) None 7 =
       (Some (ErrorString ''event type mismatch: expected OrderCreated, got *OrderCreated''), 7 :: nat)"
proof -
  obtain b' where b': "HandleEvent exReflect exCmdReflect (GoNamed ''OrderCreated'')
      (\<lambda>e w. (None, w + 1)) [] exBus = Inr b'" using ex_value_bus by blast
  have law: "unmarshalLaw (\<lambda>_. Inr)" by (simp add: unmarshalLaw_def)
  have rng: "rangeOrder (rev :: (unit, nat) eventFn registeredEventHandler rangeFn)" by (simp add: rangeOrder_def)
  have ptr: "PtrImplements exReflect (GoNamed ''OrderCreated'')" by (simp add: exReflect_def)
  have same: "EventSubject (Zero exReflect (GoNamed ''OrderCreated'')) = EventSubject (New exReflect (GoNamed ''OrderCreated''))"
    by (simp add: EventSubject_def exReflect_def messageKind_def)
  have dec: "DecodeEvent (\<lambda>_. Inr) (registryOf b') (EventSubject (Zero exReflect (GoNamed ''OrderCreated''))\<lparr>AggID := ''o1''\<rparr>)
      (Json (JObj [])) = Inr (New exReflect (GoNamed ''OrderCreated''))"
    using ex_decodes [OF b'] by (simp add: same)
  from HandleEvent_value_type_mismatch [OF ex_reflectLaws(1) ex_bus_registry ptr b' law rng refl _ dec, of None 7] b'
  show ?thesis
    by (auto simp: EventSubject_def exReflect_def messageKind_def kind_defs collectHandlerOptions_def exBus_def NewBus_def)
qed

text \<open>C28. The retry wrapper of command handlers: with a positive bound it calls the handler between once
  and that many times, each time in the world the previous call left, goes on only after a version
  conflict, and returns exactly what the last call returned.\<close>

theorem conflict_retry_calls:
  assumes "0 < commandConflictRetries env"
  shows "\<exists>k. int k < commandConflictRetries env \<and>
     withCommandConflictRetry env next cmd w = next cmd (callWorld next cmd k w) \<and>
     (\<forall>j < k. conflicts (fst (next cmd (callWorld next cmd j w)))) \<and>
     (int (Suc k) = commandConflictRetries env \<or> \<not> conflicts (fst (next cmd (callWorld next cmd k w))))"
proof -
  have "0 < nat (commandConflictRetries env)" using assms by simp
  from conflictRetryLoop_calls [OF this, of "next" cmd None w] show ?thesis
    unfolding withCommandConflictRetry_def by (metis int_nat_eq nat_less_iff assms order_less_imp_le zless_nat_eq_int_zless)
qed

definition exBump :: "(unit, nat) commandFn" where
  "exBump cmd w = (if w < 2 then Some ErrConflict else None, w + 1)"

definition exCommand :: "unit Command" where
  "exCommand = \<lparr>AggregateScope = ''bank'', AggregateType = ''account'', AggregateID = ''a1'',
     MessageKindOverride = None, TypeOf = GoPtr (GoNamed ''Close''), Val = (), CommandName = ''close''\<rparr>"

theorem conflict_retry_calls_witness:
  "withCommandConflictRetry (fst (NewBus (\<lambda>msg subj err w. w) exTransports exOptions)) exBump exCommand 0 = (None, 3)"
proof -
  let ?env = "fst (NewBus (\<lambda>msg subj err w. w) exTransports exOptions)"
  have five: "commandConflictRetries ?env = 5" by (simp add: NewBus_def exOptions_def)
  then obtain k where k: "int k < 5"
    "withCommandConflictRetry ?env exBump exCommand 0 = exBump exCommand (callWorld exBump exCommand k 0)"
    "\<forall>j < k. conflicts (fst (exBump exCommand (callWorld exBump exCommand j 0)))"
    "int (Suc k) = 5 \<or> \<not> conflicts (fst (exBump exCommand (callWorld exBump exCommand k 0)))"
    using conflict_retry_calls [of ?env exBump exCommand 0] by auto
  have w: "callWorld exBump exCommand m w = w + m" for m w
    by (induction m arbitrary: w) (auto simp: exBump_def)
  have "k = 2"
  proof (rule ccontr)
    assume "k \<noteq> 2"
    then consider "k < 2" | "2 < k" by linarith
    then show False
      using k by cases (auto simp: w exBump_def conflicts_def)
  qed
  with k(2) w show ?thesis by (simp add: exBump_def)
qed

text \<open>C39. A negative bound makes the wrapper swallow every command: \<^verbatim>\<open>NewBus\<close> replaces only the bound
  zero, and with a negative one the handler is never called and the caller is told that the command
  succeeded.\<close>

theorem negative_retries_drop_commands:
  assumes "optCommandConflictRetries opts < 0"
  shows "withCommandConflictRetry (fst (NewBus slogDefault transports opts)) next cmd w = (None, w)"
  using assms by (simp add: NewBus_def withCommandConflictRetry_def)

theorem negative_retries_drop_commands_witness:
  "withCommandConflictRetry (fst (NewBus (\<lambda>msg subj err w. w) exTransports
     (exOptions\<lparr>optCommandConflictRetries := -1\<rparr>))) exBump exCommand 7 = (None, 7)"
  by (rule negative_retries_drop_commands) (simp add: exOptions_def)

text \<open>When a subscription error stops the bus: \<^verbatim>\<open>makeOnError\<close> returns false exactly if the
  application's callback returns false, or there is none and a queue handler failed with an error that
  is not a transport error. It then records the error and spawns one \<^verbatim>\<open>Disconnect\<close>; otherwise the bus
  is unchanged.\<close>

theorem makeOnError_stops_iff:
  "let (keep, b', w', cs') = makeOnError env isQueue err (b, w, cs) in
   (keep \<longleftrightarrow> (case onSubscriptionError env of
      Some f \<Rightarrow> fst (f err w) | None \<Rightarrow> if isQueue then subTransport err else True)) \<and>
   b' = (if keep then b else b\<lparr>stopErr := Some err, goroutines := goroutines b + 1\<rparr>) \<and> cs' = cs"
  by (auto simp: makeOnError_def Let_def split: option.splits prod.splits)

end
