(* ===== verification/BusLifecycle.thy ===== *)
theory BusLifecycle
  imports Bus
begin

section \<open>The life of a bus: Connect, Disconnect and the goroutines between them\<close>

text \<open>
  \<^verbatim>\<open>Connect\<close> and \<^verbatim>\<open>Disconnect\<close> of \<^verbatim>\<open>src/bus.go\<close> hold the mutex only for short sections; between them
  other goroutines run. This theory gives the two functions a program counter each and lets their
  sections interleave with the callbacks of the transport, the goroutines that \<^verbatim>\<open>makeOnError\<close> spawns
  and the cancellation of the caller's context. A step executes one locked section (the definitions of
  theory \<open>Bus\<close>) or one call of the transport; the transport answers a subscription with a new
  subscription or any error, and a stop with any result. \<open>created\<close>, \<open>stopped\<close>, \<open>received\<close> and
  \<open>caughtBy\<close> are bookkeeping of the proofs: the subscriptions the transport has handed out, those whose
  \<^verbatim>\<open>Stop\<close> was called, how many tokens \<^verbatim>\<open>Connect\<close> has taken from its channel, and which group sent each
  token. Any number of goroutines may call \<^verbatim>\<open>Connect\<close> and \<^verbatim>\<open>Disconnect\<close>. One \<^verbatim>\<open>Connect\<close> gets past its
  first section at most (\<^verbatim>\<open>running\<close> is only reset on closing), and one \<^verbatim>\<open>Disconnect\<close>; they have the
  two counters. Every other call returns from its first section, at any moment of the run, and what it
  returns is recorded in \<open>others\<close>.
\<close>

subsection \<open>States and steps\<close>

datatype startItem = StartOrdered orderedKey | AwaitCaughtUp | StartCommand nat | StartQuery nat | StartQueue queueKey

definition connectPlan :: "orderedKey rangeFn \<Rightarrow> queueKey rangeFn \<Rightarrow> ('v, 'w, 'r, 'sub) Bus \<Rightarrow> startItem list" where
  "connectPlan rngO rngQ b =
     map StartOrdered (rngO (map fst (orderedGroups b))) @
     replicate (length (orderedGroups b)) AwaitCaughtUp @
     map StartCommand [0..<length (commandsRegs b)] @
     map StartQuery [0..<length (queryRegs b)] @
     map StartQueue (rngQ (map fst (queueGroups b)))"

text \<open>
  \<open>ConnHold\<close>: the transport has returned a subscription that is not stored yet. \<open>ConnStop\<close>: it could
  not be stored and is being stopped. \<open>ConnFail\<close>: about to call \<^verbatim>\<open>Disconnect\<close>; \<open>ConnJoin\<close>: inside it.
\<close>

datatype 'sub connectPC =
    ConnIdle
  | ConnRun "startItem list"
  | ConnHold startItem 'sub "startItem list"
  | ConnStop 'sub "startItem list"
  | ConnFail goerror
  | ConnJoin goerror
  | ConnDone "goerror option"

datatype 'sub disconnectPC = DiscIdle | DiscCancel bool "'sub list" | DiscStop "'sub list" "goerror option" | DiscDone

datatype otherCall = OtherConnect "goerror option" | OtherDisconnect "goerror option"

record ('v, 'w, 'r, 'sub) node =
  bus :: "('v, 'w, 'r, 'sub) Bus"
  connect :: "'sub connectPC"
  disconnect :: "'sub disconnectPC"
  created :: "'sub set"
  stopped :: "'sub set"
  received :: nat
  caughtBy :: "orderedKey list"
  others :: "otherCall list"

text \<open>
  The items that \<^verbatim>\<open>Connect\<close> has not begun to subscribe. The first item of \<open>ConnRun\<close> may be under way:
  the transport may call back before its subscription call returns.
\<close>

fun notBegun :: "'sub connectPC \<Rightarrow> startItem list" where
  "notBegun (ConnRun its) = tl its"
| "notBegun (ConnHold it sub its) = its"
| "notBegun (ConnStop sub its) = its"
| "notBegun _ = []"

definition storeItem :: "startItem \<Rightarrow> 'sub \<Rightarrow> ('v, 'w, 'r, 'sub) Bus \<Rightarrow> ('v, 'w, 'r, 'sub) Bus option" where
  "storeItem it sub b = (case it of
     StartOrdered k \<Rightarrow> storeOrderedSub k sub b
   | StartQueue k \<Rightarrow> storeQueueSub k sub b
   | StartCommand i \<Rightarrow> Some (storeCommandSub i sub b)
   | StartQuery i \<Rightarrow> Some (storeQuerySub i sub b)
   | AwaitCaughtUp \<Rightarrow> None)"

inductive busStep ::
  "('v, 'w, 'r, 'sub, 'cs) busEnv \<Rightarrow> ('v, 'w, 'r, 'sub) node \<Rightarrow> ('v, 'w, 'r, 'sub) node \<Rightarrow> bool"
  for env where
  connect_begin: "connect s = ConnIdle \<Longrightarrow> connectEntry (bus s) = (None, b') \<Longrightarrow>
     busStep env s (s\<lparr>bus := b', connect := ConnRun (connectPlan (orderedRange env) (queueRange env) b')\<rparr>)"
| connect_again: "connectEntry (bus s) = (Some r, bus s) \<Longrightarrow>
     busStep env s (s\<lparr>others := others s @ [OtherConnect r]\<rparr>)"
| subscribe_ok: "connect s = ConnRun (it # its) \<Longrightarrow> it \<noteq> AwaitCaughtUp \<Longrightarrow> sub \<notin> created s \<Longrightarrow>
     busStep env s (s\<lparr>connect := ConnHold it sub its, created := insert sub (created s)\<rparr>)"
| subscribe_fail: "connect s = ConnRun (it # its) \<Longrightarrow> it \<noteq> AwaitCaughtUp \<Longrightarrow>
     busStep env s (s\<lparr>connect := ConnFail err\<rparr>)"
| keep_sub: "connect s = ConnHold it sub its \<Longrightarrow> storeItem it sub (bus s) = Some b' \<Longrightarrow>
     busStep env s (s\<lparr>bus := b', connect := ConnRun its\<rparr>)"
| discard_sub: "connect s = ConnHold it sub its \<Longrightarrow> storeItem it sub (bus s) = None \<Longrightarrow>
     busStep env s (s\<lparr>connect := ConnStop sub its\<rparr>)"
| stop_discarded: "connect s = ConnStop sub its \<Longrightarrow>
     busStep env s (s\<lparr>connect := (case err of None \<Rightarrow> ConnRun its | Some e \<Rightarrow> ConnFail e),
       stopped := insert sub (stopped s)\<rparr>)"
| receive_token: "connect s = ConnRun (AwaitCaughtUp # its) \<Longrightarrow> 0 < caughtUp (bus s) \<Longrightarrow>
     busStep env s (s\<lparr>bus := (bus s)\<lparr>caughtUp := caughtUp (bus s) - 1\<rparr>, connect := ConnRun its,
       received := Suc (received s)\<rparr>)"
| context_done: "connect s = ConnRun (AwaitCaughtUp # its) \<Longrightarrow> runCtxDone (bus s) \<Longrightarrow>
     busStep env s (s\<lparr>connect := ConnFail err\<rparr>)"
| connect_return: "connect s = ConnRun [] \<Longrightarrow> busStep env s (s\<lparr>connect := ConnDone None\<rparr>)"
| fail_disconnects: "connect s = ConnFail err \<Longrightarrow> disconnectEntry (orderedRange env) (queueRange env) (bus s) = Some (subs, cancel, b') \<Longrightarrow>
     busStep env s (s\<lparr>bus := b', connect := ConnJoin err, disconnect := DiscCancel cancel subs\<rparr>)"
| fail_closed: "connect s = ConnFail err \<Longrightarrow> disconnectEntry (orderedRange env) (queueRange env) (bus s) = None \<Longrightarrow>
     busStep env s (s\<lparr>connect := ConnDone (Some err)\<rparr>)"
| join_return: "connect s = ConnJoin err \<Longrightarrow> disconnect s = DiscDone \<Longrightarrow>
     busStep env s (s\<lparr>connect := ConnDone (Some err)\<rparr>)"
| disconnect_begin: "disconnectEntry (orderedRange env) (queueRange env) (bus s) = Some (subs, cancel, b') \<Longrightarrow>
     busStep env s (s\<lparr>bus := b', disconnect := DiscCancel cancel subs\<rparr>)"
| disconnect_again: "disconnectEntry (orderedRange env) (queueRange env) (bus s) = None \<Longrightarrow>
     busStep env s (s\<lparr>others := others s @ [OtherDisconnect None]\<rparr>)"
| disconnect_cancel: "disconnect s = DiscCancel cancel subs \<Longrightarrow>
     busStep env s (s\<lparr>bus := cancelRunCtx cancel (bus s), disconnect := DiscStop subs None\<rparr>)"
| disconnect_stop: "disconnect s = DiscStop (sub # subs) firstErr \<Longrightarrow>
     busStep env s (s\<lparr>disconnect := DiscStop subs (if err \<noteq> None \<and> firstErr = None then err else firstErr),
       stopped := insert sub (stopped s)\<rparr>)"
| disconnect_done: "disconnect s = DiscStop [] firstErr \<Longrightarrow>
     busStep env s (s\<lparr>bus := signalDone firstErr (bus s), disconnect := DiscDone\<rparr>)"
| goroutine_begin: "0 < goroutines (bus s) \<Longrightarrow> disconnectEntry (orderedRange env) (queueRange env) (bus s) = Some (subs, cancel, b') \<Longrightarrow>
     busStep env s (s\<lparr>bus := b'\<lparr>goroutines := goroutines b' - 1\<rparr>, disconnect := DiscCancel cancel subs\<rparr>)"
| goroutine_closed: "0 < goroutines (bus s) \<Longrightarrow> disconnectEntry (orderedRange env) (queueRange env) (bus s) = None \<Longrightarrow>
     busStep env s (s\<lparr>bus := (bus s)\<lparr>goroutines := goroutines (bus s) - 1\<rparr>\<rparr>)"
| on_error: "makeOnError env isQueue err (bus s, w, cs) = (keep, b', w', cs') \<Longrightarrow>
     busStep env s (s\<lparr>bus := b'\<rparr>)"
| caught_up: "connect s \<noteq> ConnIdle \<Longrightarrow> k \<in> fst ` set (orderedGroups (bus s)) \<Longrightarrow>
     StartOrdered k \<notin> set (notBegun (connect s)) \<Longrightarrow> caughtUp (bus s) < length (orderedGroups (bus s)) \<Longrightarrow>
     busStep env s (s\<lparr>bus := (bus s)\<lparr>caughtUp := caughtUp (bus s) + 1\<rparr>, caughtBy := caughtBy s @ [k]\<rparr>)"
| parent_cancelled: "running (bus s) \<Longrightarrow> busStep env s (s\<lparr>bus := (bus s)\<lparr>runCtxDone := True\<rparr>\<rparr>)"

definition initial :: "('v, 'w, 'r, 'sub) Bus \<Rightarrow> ('v, 'w, 'r, 'sub) node" where
  "initial b = \<lparr>bus = b, connect = ConnIdle, disconnect = DiscIdle, created = {}, stopped = {}, received = 0, caughtBy = [],
     others = []\<rparr>"

inductive reachable ::
  "('v, 'w, 'r, 'sub, 'cs) busEnv \<Rightarrow> ('v, 'w, 'r, 'sub) Bus \<Rightarrow> ('v, 'w, 'r, 'sub) node \<Rightarrow> bool"
  for env b where
  reach_init: "reachable env b (initial b)"
| reach_step: "reachable env b s \<Longrightarrow> busStep env s s' \<Longrightarrow> reachable env b s'"

subsection \<open>Slots: where the bus keeps subscriptions\<close>

definition slot :: "startItem \<Rightarrow> ('v, 'w, 'r, 'sub) Bus \<Rightarrow> 'sub option" where
  "slot it b = (case it of
     StartOrdered k \<Rightarrow> Option.bind (map_of (orderedGroups b) k) grpSub
   | StartQueue k \<Rightarrow> Option.bind (map_of (queueGroups b) k) grpSub
   | StartCommand i \<Rightarrow> if i < length (commandsRegs b) then cmdSub (commandsRegs b ! i) else None
   | StartQuery i \<Rightarrow> if i < length (queryRegs b) then qrySub (queryRegs b ! i) else None
   | AwaitCaughtUp \<Rightarrow> None)"

definition slots :: "('v, 'w, 'r, 'sub) Bus \<Rightarrow> startItem set" where
  "slots b = StartOrdered ` fst ` set (orderedGroups b) \<union> StartQueue ` fst ` set (queueGroups b) \<union>
     StartCommand ` {..<length (commandsRegs b)} \<union> StartQuery ` {..<length (queryRegs b)}"

definition held :: "('v, 'w, 'r, 'sub) Bus \<Rightarrow> 'sub set" where
  "held b = {sub. \<exists>it. slot it b = Some sub}"

definition eventItem :: "startItem \<Rightarrow> bool" where
  "eventItem it = (case it of StartOrdered _ \<Rightarrow> True | StartQueue _ \<Rightarrow> True | _ \<Rightarrow> False)"

text \<open>What registration guarantees of the groups: one per key, and at least one handler in each.\<close>

definition groupsOK :: "('k \<times> ('h, 'sub) eventGroup) list \<Rightarrow> bool" where
  "groupsOK gs \<longleftrightarrow> distinct (map fst gs) \<and> (\<forall>g \<in> set (map snd gs). handlers g \<noteq> [])"

definition wellShaped :: "('v, 'w, 'r, 'sub) Bus \<Rightarrow> bool" where
  "wellShaped b \<longleftrightarrow> groupsOK (orderedGroups b) \<and> groupsOK (queueGroups b)"

lemma slot_in_slots: "slot it b = Some sub \<Longrightarrow> it \<in> slots b"
  by (auto simp: slot_def slots_def split: startItem.splits if_splits Option.bind_splits dest!: map_of_SomeD)
    (force+)

lemma storeOrdered_Some:
  assumes "storeOrderedSub k sub b = Some b'"
  obtains g where "map_of (orderedGroups b) k = Some g" "running b" "handlers g \<noteq> []" "grpSub g = None"
    "b' = b\<lparr>orderedGroups := AList.update k (g\<lparr>grpSub := Some sub\<rparr>) (orderedGroups b)\<rparr>"
  using assms by (auto simp: storeOrderedSub_def keepGroupSub_def split: option.splits if_splits)

lemma storeQueue_Some:
  assumes "storeQueueSub k sub b = Some b'"
  obtains g where "map_of (queueGroups b) k = Some g" "running b" "handlers g \<noteq> []" "grpSub g = None"
    "b' = b\<lparr>queueGroups := AList.update k (g\<lparr>grpSub := Some sub\<rparr>) (queueGroups b)\<rparr>"
  using assms by (auto simp: storeQueueSub_def keepGroupSub_def split: option.splits if_splits)

lemma storeItem_cases [consumes 1, case_names ordered queue command query]:
  assumes "storeItem it sub b = Some b'"
  obtains k g where "it = StartOrdered k" "map_of (orderedGroups b) k = Some g" "running b" "handlers g \<noteq> []"
      "b' = b\<lparr>orderedGroups := AList.update k (g\<lparr>grpSub := Some sub\<rparr>) (orderedGroups b)\<rparr>"
    | k g where "it = StartQueue k" "map_of (queueGroups b) k = Some g" "running b" "handlers g \<noteq> []"
      "b' = b\<lparr>queueGroups := AList.update k (g\<lparr>grpSub := Some sub\<rparr>) (queueGroups b)\<rparr>"
    | i where "it = StartCommand i" "b' = storeCommandSub i sub b"
    | i where "it = StartQuery i" "b' = storeQuerySub i sub b"
  using assms
  by (cases it) (auto simp: storeItem_def elim!: storeOrdered_Some storeQueue_Some)

lemma store_slot:
  assumes "storeItem it sub b = Some b'" "it \<in> slots b"
  shows "slot it' b' = (if it' = it then Some sub else slot it' b)"
  using assms
  by (cases rule: storeItem_cases)
    (auto simp: slot_def slots_def storeCommandSub_def storeQuerySub_def update_conv' nth_list_update
      split: startItem.splits)

lemma update_keys: "map_of xs k = Some v \<Longrightarrow> map fst (AList.update k v' xs) = map fst xs"
  by (induction xs) (auto split: if_splits)

lemma update_fst: "map_of xs k = Some v \<Longrightarrow> fst ` set (AList.update k v' xs) = fst ` set xs"
  by (metis update_keys set_map)

lemma length_update: "map_of xs k = Some v \<Longrightarrow> length (AList.update k v' xs) = length xs"
  by (metis update_keys length_map)

lemma update_values: "g \<in> set (map snd (AList.update k v xs)) \<Longrightarrow> g = v \<or> g \<in> set (map snd xs)"
  by (induction xs) (auto split: if_splits)

lemma groupsOK_update:
  assumes "groupsOK gs" "map_of gs k = Some g" "handlers g' \<noteq> []"
  shows "groupsOK (AList.update k g' gs)"
proof -
  have "handlers h \<noteq> []" if "h \<in> set (map snd (AList.update k g' gs))" for h
    using update_values [OF that] assms(1,3) unfolding groupsOK_def by blast
  with assms(1) show ?thesis unfolding groupsOK_def update_keys [OF assms(2)] by blast
qed

lemma groupsOK_handlers: "groupsOK gs \<Longrightarrow> map_of gs k = Some g \<Longrightarrow> handlers g \<noteq> []"
  by (force simp: groupsOK_def dest: map_of_SomeD)

lemmas store_simps = storeCommandSub_def storeQuerySub_def

lemma store_shape:
  assumes "storeItem it sub b = Some b'"
  shows "wellShaped b \<Longrightarrow> wellShaped b'"
    and "slots b' = slots b"
    and "connectPlan rngO rngQ b' = connectPlan rngO rngQ b"
proof -
  show "wellShaped b \<Longrightarrow> wellShaped b'"
    using assms by (cases rule: storeItem_cases) (simp_all add: wellShaped_def store_simps groupsOK_update)
  show "slots b' = slots b"
    using assms by (cases rule: storeItem_cases) (simp_all add: slots_def store_simps update_fst)
  show "connectPlan rngO rngQ b' = connectPlan rngO rngQ b"
    using assms
    by (cases rule: storeItem_cases) (simp_all add: connectPlan_def store_simps update_keys length_update)
qed

lemma store_flags:
  assumes "storeItem it sub b = Some b'"
  shows "closed b' = closed b" "running b' = running b" "doneOnce b' = doneOnce b"
    "doneClosed b' = doneClosed b" "doneCh b' = doneCh b" "length (orderedGroups b') = length (orderedGroups b)"
    "eventItem it \<Longrightarrow> running b"
  using assms
  by (cases rule: storeItem_cases; simp add: store_simps eventItem_def length_update)+

lemma store_refused:
  assumes "storeItem it sub b = None" "it \<in> slots b" "slot it b = None" "wellShaped b"
  shows "\<not> running b"
  using assms
  by (cases it)
    (auto simp: storeItem_def slots_def slot_def wellShaped_def storeOrderedSub_def storeQueueSub_def
       keepGroupSub_def groupsOK_handlers map_of_eq_None_iff split: option.splits if_splits
       intro: rev_image_eqI)

text \<open>Sections that leave the groups and the registrations alone.\<close>

definition sameSlots :: "('v, 'w, 'r, 'sub) Bus \<Rightarrow> ('v, 'w, 'r, 'sub) Bus \<Rightarrow> bool" where
  "sameSlots b b' \<longleftrightarrow> orderedGroups b' = orderedGroups b \<and> queueGroups b' = queueGroups b \<and>
     commandsRegs b' = commandsRegs b \<and> queryRegs b' = queryRegs b"

lemma sameSlots_eqs:
  assumes "sameSlots b b'"
  shows "slot it b' = slot it b" "slots b' = slots b" "held b' = held b" "wellShaped b' = wellShaped b"
    "connectPlan rngO rngQ b' = connectPlan rngO rngQ b"
    "length (orderedGroups b') = length (orderedGroups b)"
proof -
  have slot: "slot it b' = slot it b" for it
    using assms by (simp add: sameSlots_def slot_def split: startItem.split)
  show "slot it b' = slot it b" "held b' = held b" by (simp_all add: slot held_def)
  show "slots b' = slots b" "wellShaped b' = wellShaped b"
    "connectPlan rngO rngQ b' = connectPlan rngO rngQ b"
    "length (orderedGroups b') = length (orderedGroups b)"
    using assms by (simp_all add: sameSlots_def slots_def wellShaped_def connectPlan_def)
qed

lemma sameSlots_simps [simp]:
  "sameSlots b (b\<lparr>caughtUp := n\<rparr>)" "sameSlots b (b\<lparr>runCtxDone := c\<rparr>)" "sameSlots b (b\<lparr>goroutines := n\<rparr>)"
  "sameSlots b (cancelRunCtx c b)" "sameSlots b (signalDone e b)"
  "connectEntry b = (r, b') \<Longrightarrow> sameSlots b b'"
  "makeOnError env q err (b, w, cs) = (keep, b', rest) \<Longrightarrow> sameSlots b b'"
  by (auto simp: sameSlots_def cancelRunCtx_def signalDone_def connectEntry_def makeOnError_def Let_def
      split: if_splits option.splits prod.splits)

lemmas same_simps [simp] =
  sameSlots_simps(1-5) [THEN sameSlots_eqs(1)] sameSlots_simps(1-5) [THEN sameSlots_eqs(2)]
  sameSlots_simps(1-5) [THEN sameSlots_eqs(3)] sameSlots_simps(1-5) [THEN sameSlots_eqs(4)]
  sameSlots_simps(1-5) [THEN sameSlots_eqs(5)] sameSlots_simps(1-5) [THEN sameSlots_eqs(6)]

lemma set_groupSubs:
  assumes "set ks = fst ` set gs"
  shows "set (groupSubs gs ks) = {sub. \<exists>k. Option.bind (map_of gs k) grpSub = Some sub}"
proof -
  have "(\<exists>k \<in> set ks. Option.bind (map_of gs k) grpSub = Some sub) \<longleftrightarrow>
      (\<exists>k. Option.bind (map_of gs k) grpSub = Some sub)" for sub
    using assms map_of_eq_None_iff [of gs] by (metis bind.bind_lzero option.distinct(1))
  moreover have "sub \<in> set (groupSubs gs ks) \<longleftrightarrow> (\<exists>k \<in> set ks. Option.bind (map_of gs k) grpSub = Some sub)" for sub
    by (auto simp: groupSubs_def bind_eq_Some_conv split: option.splits) metis+
  ultimately show ?thesis by blast
qed

lemma set_optLists: "set (concat (map (\<lambda>r. optList (f r)) rs)) = {s. \<exists>i < length rs. f (rs ! i) = Some s}"
  by (auto simp: optList_def in_set_conv_nth split: option.splits) (metis nth_mem)

lemma set_heldSubs:
  assumes "rangeOrder rngO" "rangeOrder rngQ"
  shows "set (heldSubs rngO rngQ b) = held b"
proof -
  have "held b = {sub. \<exists>k. Option.bind (map_of (orderedGroups b) k) grpSub = Some sub} \<union>
      {sub. \<exists>k. Option.bind (map_of (queueGroups b) k) grpSub = Some sub} \<union>
      {s. \<exists>i < length (commandsRegs b). cmdSub (commandsRegs b ! i) = Some s} \<union>
      {s. \<exists>i < length (queryRegs b). qrySub (queryRegs b ! i) = Some s}"
    unfolding held_def
  proof (intro set_eqI iffI; clarsimp)
    fix sub it
    assume "slot it b = Some sub"
      and "\<forall>k. Option.bind (map_of (orderedGroups b) k) grpSub \<noteq> Some sub"
      and "\<forall>k. Option.bind (map_of (queueGroups b) k) grpSub \<noteq> Some sub"
      and "\<forall>i < length (queryRegs b). qrySub (queryRegs b ! i) \<noteq> Some sub"
    then show "\<exists>i < length (commandsRegs b). cmdSub (commandsRegs b ! i) = Some sub"
      by (cases it) (auto simp: slot_def split: if_splits)
  next
    fix sub
    assume "(\<exists>k. Option.bind (map_of (orderedGroups b) k) grpSub = Some sub) \<or>
      (\<exists>k. Option.bind (map_of (queueGroups b) k) grpSub = Some sub) \<or>
      (\<exists>i < length (commandsRegs b). cmdSub (commandsRegs b ! i) = Some sub) \<or>
      (\<exists>i < length (queryRegs b). qrySub (queryRegs b ! i) = Some sub)"
    then have "(\<exists>k. slot (StartOrdered k) b = Some sub) \<or> (\<exists>k. slot (StartQueue k) b = Some sub) \<or>
      (\<exists>i. slot (StartCommand i) b = Some sub) \<or> (\<exists>i. slot (StartQuery i) b = Some sub)"
      by (auto simp: slot_def)
    then show "\<exists>it. slot it b = Some sub" by blast
  qed
  then show ?thesis
    using assms unfolding heldSubs_def by (simp add: set_groupSubs set_optLists Un_assoc del: set_concat)
qed

lemma clear_keys: "map fst (map (\<lambda>(k, g). (k, g\<lparr>grpSub := None\<rparr>)) gs) = map fst gs"
  by (induction gs) auto

lemma clear_fst: "fst ` set (map (\<lambda>(k, g). (k, g\<lparr>grpSub := None\<rparr>)) gs) = fst ` set gs"
  by (metis clear_keys set_map)

lemma clear_subs: "Option.bind (map_of (map (\<lambda>(k, g). (k, g\<lparr>grpSub := None\<rparr>)) gs) k) grpSub = None"
  by (induction gs) auto

lemma clear_ok: "groupsOK (map (\<lambda>(k, g). (k, g\<lparr>grpSub := None\<rparr>)) gs) = groupsOK gs"
  unfolding groupsOK_def clear_keys by (auto simp: case_prod_beta)

lemma disc_entry:
  assumes "disconnectEntry rngO rngQ b = Some (subs, cancel, b')"
  shows "slot it b' = None" "slots b' = slots b" "wellShaped b' = wellShaped b"
    "connectPlan rngO' rngQ' b' = connectPlan rngO' rngQ' b" "closed b'" "\<not> running b'" "\<not> closed b"
    "length (orderedGroups b') = length (orderedGroups b)"
    "doneOnce b' = doneOnce b" "doneClosed b' = doneClosed b" "doneCh b' = doneCh b"
    "subs = heldSubs rngO rngQ b"
proof -
  show "slot it b' = None"
    using assms by (auto simp: disconnectEntry_def slot_def clear_subs split: startItem.split if_splits)
  have b': "b' = b\<lparr>closed := True, running := False, hasCancel := False,
      orderedGroups := map (\<lambda>(k, g). (k, g\<lparr>grpSub := None\<rparr>)) (orderedGroups b),
      queueGroups := map (\<lambda>(k, g). (k, g\<lparr>grpSub := None\<rparr>)) (queueGroups b),
      commandsRegs := map (\<lambda>reg. reg\<lparr>cmdSub := None\<rparr>) (commandsRegs b),
      queryRegs := map (\<lambda>reg. reg\<lparr>qrySub := None\<rparr>) (queryRegs b)\<rparr>"
    using assms by (simp add: disconnectEntry_def split: if_splits)
  show "slots b' = slots b" "wellShaped b' = wellShaped b"
    unfolding b' slots_def wellShaped_def by (simp_all add: clear_fst clear_ok del: set_map)
  show "connectPlan rngO' rngQ' b' = connectPlan rngO' rngQ' b"
    unfolding b' connectPlan_def by (simp add: clear_keys del: map_map)
  show "closed b'" "\<not> running b'" "\<not> closed b" "length (orderedGroups b') = length (orderedGroups b)"
    "doneOnce b' = doneOnce b" "doneClosed b' = doneClosed b" "doneCh b' = doneCh b"
    "subs = heldSubs rngO rngQ b"
    using assms by (auto simp: disconnectEntry_def split: if_splits)
qed

subsection \<open>Invariants\<close>

fun todo :: "'sub connectPC \<Rightarrow> startItem list" where
  "todo (ConnRun its) = its"
| "todo (ConnHold it sub its) = it # its"
| "todo (ConnStop sub its) = its"
| "todo _ = []"

fun inHand :: "'sub connectPC \<Rightarrow> 'sub set" where
  "inHand (ConnHold it sub its) = {sub}"
| "inHand (ConnStop sub its) = {sub}"
| "inHand _ = {}"

fun pendingStops :: "'sub disconnectPC \<Rightarrow> 'sub set" where
  "pendingStops (DiscCancel c subs) = set subs"
| "pendingStops (DiscStop subs err) = set subs"
| "pendingStops _ = {}"

fun starting :: "'sub connectPC \<Rightarrow> bool" where
  "starting (ConnRun its) = True"
| "starting (ConnHold it sub its) = True"
| "starting (ConnStop sub its) = True"
| "starting _ = False"

text \<open>The flags: closed exactly while or after disconnecting, never running then, no group subscribed.\<close>

definition flagsInv :: "('v, 'w, 'r, 'sub) node \<Rightarrow> bool" where
  "flagsInv s \<longleftrightarrow> wellShaped (bus s) \<and> (closed (bus s) \<longleftrightarrow> disconnect s \<noteq> DiscIdle) \<and>
     (running (bus s) \<longrightarrow> \<not> closed (bus s)) \<and>
     (closed (bus s) \<longrightarrow> (\<forall>it. eventItem it \<longrightarrow> slot it (bus s) = None)) \<and>
     (connect s = ConnIdle \<longrightarrow> \<not> running (bus s) \<and> (\<forall>it. slot it (bus s) = None)) \<and>
     (\<forall>err. connect s = ConnJoin err \<or> connect s = ConnDone (Some err) \<longrightarrow> closed (bus s)) \<and>
     (connect s \<noteq> ConnIdle \<and> \<not> closed (bus s) \<longrightarrow> running (bus s))"

text \<open>The done channel: closed by the end of disconnecting, holding one error at most.\<close>

definition doneInv :: "('v, 'w, 'r, 'sub) node \<Rightarrow> bool" where
  "doneInv s \<longleftrightarrow> (doneOnce (bus s) \<longleftrightarrow> disconnect s = DiscDone) \<and>
     (doneClosed (bus s) \<longleftrightarrow> disconnect s = DiscDone) \<and>
     (if disconnect s = DiscDone then length (doneCh (bus s)) \<le> 1 else doneCh (bus s) = [])"

text \<open>The work list of \<^verbatim>\<open>Connect\<close>: a suffix of the plan, with every slot on it still empty.\<close>

definition workInv :: "('v, 'w, 'r, 'sub, 'cs) busEnv \<Rightarrow> ('v, 'w, 'r, 'sub) node \<Rightarrow> bool" where
  "workInv env s \<longleftrightarrow>
     (connect s = ConnIdle \<longrightarrow> received s = 0) \<and>
     (starting (connect s) \<longrightarrow> (\<exists>pre.
        connectPlan (orderedRange env) (queueRange env) (bus s) = pre @ todo (connect s) \<and>
        received s = length (filter (\<lambda>it. it = AwaitCaughtUp) pre))) \<and>
     (\<forall>it sub its. connect s = ConnHold it sub its \<longrightarrow> it \<noteq> AwaitCaughtUp) \<and>
     (\<forall>it \<in> set (todo (connect s)). slot it (bus s) = None)"

text \<open>Every subscription ever handed out is in a slot, in hand, about to be stopped, or stopped.\<close>

definition accountInv :: "('v, 'w, 'r, 'sub) node \<Rightarrow> bool" where
  "accountInv s \<longleftrightarrow> created s \<subseteq> held (bus s) \<union> inHand (connect s) \<union> pendingStops (disconnect s) \<union> stopped s"

text \<open>An open bus has filled every slot that is no longer on the work list.\<close>

definition filledInv :: "('v, 'w, 'r, 'sub) node \<Rightarrow> bool" where
  "filledInv s \<longleftrightarrow> (\<not> closed (bus s) \<longrightarrow>
     (\<forall>sub its. connect s \<noteq> ConnStop sub its) \<and>
     (starting (connect s) \<or> connect s = ConnDone None \<longrightarrow>
        (\<forall>it \<in> slots (bus s). slot it (bus s) \<noteq> None \<or> it \<in> set (todo (connect s)))))"

text \<open>Commands, queries and queues start after every ordered group has caught up.\<close>

definition orderInv :: "('v, 'w, 'r, 'sub) node \<Rightarrow> bool" where
  "orderInv s \<longleftrightarrow> (\<forall>it. slot it (bus s) \<noteq> None \<longrightarrow> (\<forall>k. it \<noteq> StartOrdered k) \<longrightarrow>
     received s = length (orderedGroups (bus s)))"

text \<open>Every token was sent by a group of the bus and is in the channel or was received.\<close>

definition tokenInv :: "('v, 'w, 'r, 'sub) node \<Rightarrow> bool" where
  "tokenInv s \<longleftrightarrow> length (caughtBy s) = received s + caughtUp (bus s) \<and>
     set (caughtBy s) \<subseteq> fst ` set (orderedGroups (bus s)) \<and> (connect s = ConnIdle \<longrightarrow> caughtBy s = [])"

text \<open>The other calls of \<^verbatim>\<open>Connect\<close> and \<^verbatim>\<open>Disconnect\<close>.\<close>

definition othersInv :: "('v, 'w, 'r, 'sub) node \<Rightarrow> bool" where
  "othersInv s \<longleftrightarrow> (\<forall>r \<in> set (others s).
     r = OtherConnect None \<and> connect s \<noteq> ConnIdle \<or>
     r = OtherConnect (Some ErrClosed) \<and> closed (bus s) \<or>
     r = OtherDisconnect None \<and> closed (bus s))"

definition freshBus :: "('v, 'w, 'r, 'sub) Bus \<Rightarrow> bool" where
  "freshBus b \<longleftrightarrow> wellShaped b \<and> \<not> running b \<and> \<not> closed b \<and> (\<forall>it. slot it b = None) \<and>
     \<not> doneOnce b \<and> \<not> doneClosed b \<and> doneCh b = [] \<and> caughtUp b = 0"

lemma onError_flags:
  assumes "makeOnError env q err (b, w, cs) = (keep, b', rest)"
  shows "closed b' = closed b" "running b' = running b" "doneOnce b' = doneOnce b"
    "doneClosed b' = doneClosed b" "doneCh b' = doneCh b"
  using assms
  by (auto simp: makeOnError_def Let_def split: if_splits option.splits prod.splits)

lemma entry_flags:
  "connectEntry b = (None, b') \<Longrightarrow> \<not> closed b \<and> \<not> closed b' \<and> running b' \<and> doneOnce b' = doneOnce b \<and>
     doneClosed b' = doneClosed b \<and> doneCh b' = doneCh b"
  "connectEntry b = (Some r, b') \<Longrightarrow> b' = b \<and> (closed b \<or> running b) \<and> (r = Some ErrClosed \<and> closed b \<or> r = None \<and> running b)"
  by (auto simp: connectEntry_def split: if_splits)

lemma disc_refused: "disconnectEntry rngO rngQ b = None \<longleftrightarrow> closed b"
  by (simp add: disconnectEntry_def)

lemma done_flags:
  "closed (signalDone e b) = closed b" "running (signalDone e b) = running b"
  "closed (cancelRunCtx c b) = closed b" "running (cancelRunCtx c b) = running b"
  "doneOnce (cancelRunCtx c b) = doneOnce b" "doneClosed (cancelRunCtx c b) = doneClosed b"
  "doneCh (cancelRunCtx c b) = doneCh b"
  by (simp_all add: signalDone_def cancelRunCtx_def Let_def)

lemmas node_simps = done_flags disc_entry store_flags onError_flags

lemma flagsInv_step:
  assumes step: "busStep env s s'" and inv: "flagsInv s"
    and work: "set (todo (connect s)) \<subseteq> insert AwaitCaughtUp (slots (bus s))"
      "\<And>it sub its. connect s = ConnHold it sub its \<Longrightarrow> it \<noteq> AwaitCaughtUp"
  shows "flagsInv s'"
  using step
proof cases
  case (connect_begin b')
  note eqs = sameSlots_eqs [OF sameSlots_simps(6) [OF connect_begin(3)]]
  from connect_begin inv entry_flags(1) [OF connect_begin(3)] show ?thesis
    by (simp add: flagsInv_def eqs)
next
  case (keep_sub it sub its b')
  have "it \<in> slots (bus s)" using work keep_sub by auto
  with keep_sub inv store_shape(1) [OF keep_sub(3)] store_flags [OF keep_sub(3)] show ?thesis
    by (auto simp: flagsInv_def store_slot [OF keep_sub(3)])
next
  case (on_error isQueue err w cs keep b' w' cs')
  note eqs = sameSlots_eqs [OF sameSlots_simps(7) [OF on_error(2)]]
  from on_error inv onError_flags [OF on_error(2)] show ?thesis by (auto simp: flagsInv_def eqs)
next
  case (stop_discarded sub its err)
  with inv show ?thesis by (auto simp: flagsInv_def split: option.splits)
qed (use inv in \<open>auto simp: flagsInv_def done_flags disc_entry disc_refused\<close>)

lemma doneInv_step:
  assumes step: "busStep env s s'" and inv: "doneInv s" and flags: "flagsInv s"
  shows "doneInv s'"
  using step
proof cases
  case (connect_begin b')
  from connect_begin inv entry_flags(1) [OF connect_begin(3)] show ?thesis by (auto simp: doneInv_def)
next
  case (keep_sub it sub its b')
  with inv store_flags [OF keep_sub(3)] show ?thesis by (auto simp: doneInv_def)
next
  case (on_error isQueue err w cs keep b' w' cs')
  from on_error inv onError_flags [OF on_error(2)] show ?thesis by (auto simp: doneInv_def)
next
  case (disconnect_done firstErr)
  with inv show ?thesis by (auto simp: doneInv_def signalDone_def Let_def split: option.splits)
qed (use inv flags in \<open>auto simp: doneInv_def flagsInv_def disc_entry done_flags\<close>)

text \<open>The plan names each slot once.\<close>

lemma plan_items:
  assumes "rangeOrder (orderedRange env)" "rangeOrder (queueRange env)"
  shows "set (connectPlan (orderedRange env) (queueRange env) b) \<subseteq> insert AwaitCaughtUp (slots b)"
    and "slots b \<subseteq> set (connectPlan (orderedRange env) (queueRange env) b)"
  using assms by (auto simp: connectPlan_def slots_def)

lemma plan_distinct:
  assumes "rangeOrder (orderedRange env)" "rangeOrder (queueRange env)" "wellShaped b"
    and "connectPlan (orderedRange env) (queueRange env) b = pre @ it # its" "it \<noteq> AwaitCaughtUp"
  shows "it \<notin> set its"
proof -
  have "distinct (orderedRange env (map fst (orderedGroups b)))" "distinct (queueRange env (map fst (queueGroups b)))"
    using assms(1-3) mset_eq_imp_distinct_iff unfolding rangeOrder_def wellShaped_def groupsOK_def by blast+
  then have "distinct (filter (\<lambda>x. x \<noteq> AwaitCaughtUp) (connectPlan (orderedRange env) (queueRange env) b))"
    by (auto simp: connectPlan_def distinct_map inj_on_def filter_map comp_def)
  with assms(4,5) show ?thesis by simp
qed

lemma plan_awaits:
  "length (filter (\<lambda>it. it = AwaitCaughtUp) (connectPlan rngO rngQ b)) = length (orderedGroups b)"
  by (simp add: connectPlan_def filter_map comp_def)

lemma split_after:
  assumes "xs @ ys = pre @ x # zs" "x \<notin> set xs"
  shows "\<exists>us. pre = xs @ us \<and> ys = us @ x # zs"
  using assms by (auto simp: append_eq_append_conv2 append_eq_Cons_conv)

lemma plan_order:
  assumes "connectPlan rngO rngQ b = pre @ it # its" "it \<noteq> AwaitCaughtUp" "\<forall>k. it \<noteq> StartOrdered k"
  shows "length (filter (\<lambda>it. it = AwaitCaughtUp) pre) = length (orderedGroups b)"
proof -
  let ?A = "map StartOrdered (rngO (map fst (orderedGroups b))) @ replicate (length (orderedGroups b)) AwaitCaughtUp"
  let ?B = "map StartCommand [0..<length (commandsRegs b)] @ map StartQuery [0..<length (queryRegs b)] @
    map StartQueue (rngQ (map fst (queueGroups b)))"
  have plan: "?A @ ?B = pre @ it # its" using assms(1) by (simp add: connectPlan_def)
  have "it \<notin> set ?A" using assms(2,3) by auto
  from split_after [OF plan this] obtain zs where "pre = ?A @ zs" "?B = zs @ it # its" by blast
  moreover have "AwaitCaughtUp \<notin> set ?B" by auto
  ultimately have pre: "pre = ?A @ zs" and "AwaitCaughtUp \<notin> set zs"
    by (metis, metis Un_iff set_append)
  then show ?thesis by (auto simp: filter_map comp_def filter_empty_conv)
qed

lemma workInv_step:
  assumes step: "busStep env s s'" and inv: "workInv env s" and flags: "flagsInv s"
    and rng: "rangeOrder (orderedRange env)" "rangeOrder (queueRange env)"
  shows "workInv env s'"
  using step
proof cases
  case (connect_begin b')
  note eqs = sameSlots_eqs [OF sameSlots_simps(6) [OF connect_begin(3)]]
  from connect_begin inv flags show ?thesis by (simp add: workInv_def flagsInv_def eqs)
next
  case (keep_sub it sub its b')
  from inv keep_sub obtain pre where plan:
    "connectPlan (orderedRange env) (queueRange env) (bus s) = pre @ it # its" and it: "it \<noteq> AwaitCaughtUp"
    and rec: "received s = length (filter (\<lambda>it. it = AwaitCaughtUp) pre)"
    by (auto simp: workInv_def)
  have "it \<notin> set its" using plan_distinct [OF rng _ plan it] flags by (simp add: flagsInv_def)
  moreover have "it \<in> slots (bus s)" using plan_items(1) [OF rng, of "bus s"] plan it by auto
  moreover have "\<exists>pre. connectPlan (orderedRange env) (queueRange env) b' = pre @ its \<and>
      received s = length (filter (\<lambda>it. it = AwaitCaughtUp) pre)"
    using plan it rec store_shape(3) [OF keep_sub(3)] by (intro exI [of _ "pre @ [it]"]) simp
  ultimately show ?thesis
    using inv keep_sub by (auto simp: workInv_def store_slot [OF keep_sub(3)])
next
  case (discard_sub it sub its)
  from inv discard_sub obtain pre where
    "connectPlan (orderedRange env) (queueRange env) (bus s) = pre @ it # its" "it \<noteq> AwaitCaughtUp"
    "received s = length (filter (\<lambda>it. it = AwaitCaughtUp) pre)"
    by (auto simp: workInv_def)
  then have "\<exists>pre. connectPlan (orderedRange env) (queueRange env) (bus s) = pre @ its \<and>
      received s = length (filter (\<lambda>it. it = AwaitCaughtUp) pre)"
    by (intro exI [of _ "pre @ [it]"]) simp
  with inv discard_sub show ?thesis by (auto simp: workInv_def)
next
  case (receive_token its)
  from inv receive_token obtain pre where
    "connectPlan (orderedRange env) (queueRange env) (bus s) = pre @ AwaitCaughtUp # its"
    "received s = length (filter (\<lambda>it. it = AwaitCaughtUp) pre)"
    by (auto simp: workInv_def)
  then have "\<exists>pre. connectPlan (orderedRange env) (queueRange env) (bus s) = pre @ its \<and>
      Suc (received s) = length (filter (\<lambda>it. it = AwaitCaughtUp) pre)"
    by (intro exI [of _ "pre @ [AwaitCaughtUp]"]) simp
  with inv receive_token show ?thesis by (auto simp: workInv_def)
next
  case (on_error isQueue err w cs keep b' w' cs')
  note eqs = sameSlots_eqs [OF sameSlots_simps(7) [OF on_error(2)]]
  from on_error inv show ?thesis by (simp add: workInv_def eqs)
next
  case (stop_discarded sub its err)
  with inv show ?thesis by (auto simp: workInv_def split: option.splits)
qed (use inv in \<open>auto simp: workInv_def disc_entry\<close>)

lemma workInv_todo:
  assumes "workInv env s" "rangeOrder (orderedRange env)" "rangeOrder (queueRange env)"
  shows "set (todo (connect s)) \<subseteq> insert AwaitCaughtUp (slots (bus s))"
proof (cases "starting (connect s)")
  case True
  with assms(1) obtain pre where
    "connectPlan (orderedRange env) (queueRange env) (bus s) = pre @ todo (connect s)"
    by (auto simp: workInv_def)
  with plan_items(1) [OF assms(2,3), of "bus s"] show ?thesis by auto
next
  case False
  then have "todo (connect s) = []" by (cases "connect s") auto
  then show ?thesis by simp
qed

lemma held_store:
  assumes "storeItem it sub b = Some b'" "it \<in> slots b" "slot it b = None"
  shows "held b' = insert sub (held b)"
proof -
  have "slot x b' = Some y \<longleftrightarrow> x = it \<and> y = sub \<or> slot x b = Some y" for x y
    using assms(3) by (auto simp: store_slot [OF assms(1,2)])
  then show ?thesis unfolding held_def by blast
qed

lemma accountInv_step:
  assumes step: "busStep env s s'" and inv: "accountInv s" and work: "workInv env s"
    and flags: "flagsInv s"
    and rng: "rangeOrder (orderedRange env)" "rangeOrder (queueRange env)"
  shows "accountInv s'"
proof -
  have disc: "set subs = held (bus s)" "held b' = {}" "pendingStops (disconnect s) = {}"
    if "disconnectEntry (orderedRange env) (queueRange env) (bus s) = Some (subs, c, b')" for subs c b'
    using set_heldSubs [OF rng, of "bus s"] disc_entry(1,7,12) [OF that] flags
    by (simp_all add: held_def flagsInv_def)
  show ?thesis
    using step
  proof cases
    case (connect_begin b')
    note eqs = sameSlots_eqs [OF sameSlots_simps(6) [OF connect_begin(3)]]
    from connect_begin inv show ?thesis by (simp add: accountInv_def eqs)
  next
    case (keep_sub it sub its b')
    have "it \<in> slots (bus s)" "slot it (bus s) = None"
      using workInv_todo [OF work rng] work keep_sub(2) by (auto simp: workInv_def)
    with keep_sub inv show ?thesis by (auto simp: accountInv_def held_store [OF keep_sub(3)])
  next
    case (on_error isQueue err w cs keep b' w' cs')
    note eqs = sameSlots_eqs [OF sameSlots_simps(7) [OF on_error(2)]]
    from on_error inv show ?thesis by (simp add: accountInv_def eqs)
  next
    case (stop_discarded sub its err)
    with inv show ?thesis by (auto simp: accountInv_def split: option.splits)
  qed (use inv in \<open>auto simp: accountInv_def disc\<close>)
qed

lemma filledInv_step:
  assumes step: "busStep env s s'" and inv: "filledInv s" and work: "workInv env s"
    and flags: "flagsInv s"
    and rng: "rangeOrder (orderedRange env)" "rangeOrder (queueRange env)"
  shows "filledInv s'"
  using step
proof cases
  case (connect_begin b')
  note eqs = sameSlots_eqs [OF sameSlots_simps(6) [OF connect_begin(3)]]
  from connect_begin plan_items(2) [OF rng, of "bus s"] show ?thesis by (auto simp: filledInv_def eqs)
next
  case (keep_sub it sub its b')
  have "it \<in> slots (bus s)"
    using workInv_todo [OF work rng] work keep_sub(2) by (auto simp: workInv_def)
  with keep_sub inv show ?thesis
    by (auto simp: filledInv_def store_slot [OF keep_sub(3)] store_shape(2) [OF keep_sub(3)]
        store_flags(1) [OF keep_sub(3)])
next
  case (discard_sub it sub its)
  have "it \<in> slots (bus s)" "slot it (bus s) = None"
    using workInv_todo [OF work rng] work discard_sub(2) by (auto simp: workInv_def)
  with store_refused [OF discard_sub(3)] flags discard_sub(2) have "closed (bus s)"
    by (auto simp: flagsInv_def)
  with discard_sub show ?thesis by (simp add: filledInv_def)
next
  case (on_error isQueue err w cs keep b' w' cs')
  note eqs = sameSlots_eqs [OF sameSlots_simps(7) [OF on_error(2)]]
  from on_error inv onError_flags [OF on_error(2)] show ?thesis by (auto simp: filledInv_def eqs)
next
  case (receive_token its)
  have "AwaitCaughtUp \<notin> slots (bus s)" by (auto simp: slots_def)
  with inv receive_token show ?thesis by (auto simp: filledInv_def)
qed (use inv flags in \<open>auto simp: filledInv_def flagsInv_def disc_entry done_flags\<close>)

lemma orderInv_step:
  assumes step: "busStep env s s'" and inv: "orderInv s" and work: "workInv env s" and flags: "flagsInv s"
    and rng: "rangeOrder (orderedRange env)" "rangeOrder (queueRange env)"
  shows "orderInv s'"
  using step
proof cases
  case (connect_begin b')
  note eqs = sameSlots_eqs [OF sameSlots_simps(6) [OF connect_begin(3)]]
  from connect_begin inv show ?thesis by (simp add: orderInv_def eqs)
next
  case (keep_sub it sub its b')
  from work keep_sub obtain pre where plan:
    "connectPlan (orderedRange env) (queueRange env) (bus s) = pre @ it # its" and it: "it \<noteq> AwaitCaughtUp"
    and rec: "received s = length (filter (\<lambda>it. it = AwaitCaughtUp) pre)"
    by (auto simp: workInv_def)
  have "received s = length (orderedGroups (bus s))" if "\<forall>k. it \<noteq> StartOrdered k"
    using plan_order [OF plan it that] rec by simp
  moreover have "it \<in> slots (bus s)" using plan_items(1) [OF rng, of "bus s"] plan it by auto
  ultimately show ?thesis
    using keep_sub inv
    by (auto simp: orderInv_def store_slot [OF keep_sub(3)] store_flags(6) [OF keep_sub(3)])
next
  case (receive_token its)
  from work receive_token obtain pre where
    plan: "connectPlan (orderedRange env) (queueRange env) (bus s) = pre @ AwaitCaughtUp # its" and
    rec: "received s = length (filter (\<lambda>it. it = AwaitCaughtUp) pre)"
    by (auto simp: workInv_def)
  have "received s < length (orderedGroups (bus s))"
    unfolding rec plan_awaits [of "orderedRange env" "queueRange env" "bus s", symmetric] plan by simp
  with inv have "slot it (bus s) \<noteq> None \<Longrightarrow> \<exists>k. it = StartOrdered k" for it
    by (auto simp: orderInv_def)
  with receive_token show ?thesis by (auto simp: orderInv_def)
next
  case (on_error isQueue err w cs keep b' w' cs')
  note eqs = sameSlots_eqs [OF sameSlots_simps(7) [OF on_error(2)]]
  from on_error inv show ?thesis by (simp add: orderInv_def eqs)
qed (use inv in \<open>auto simp: orderInv_def disc_entry\<close>)

lemma same_tokens:
  "connectEntry b = (None, b') \<Longrightarrow> caughtUp b' = 0 \<and> orderedGroups b' = orderedGroups b"
  "makeOnError env q err (b, w, cs) = (keep, b', rest) \<Longrightarrow> caughtUp b' = caughtUp b \<and> orderedGroups b' = orderedGroups b"
  "caughtUp (cancelRunCtx c b) = caughtUp b" "orderedGroups (cancelRunCtx c b) = orderedGroups b"
  "caughtUp (signalDone e b) = caughtUp b" "orderedGroups (signalDone e b) = orderedGroups b"
  by (auto simp: connectEntry_def makeOnError_def cancelRunCtx_def signalDone_def Let_def
      split: if_splits option.splits prod.splits)

lemma same_token_keys:
  "disconnectEntry rngO rngQ b = Some (subs, cancel, b') \<Longrightarrow>
     caughtUp b' = caughtUp b \<and> fst ` set (orderedGroups b') = fst ` set (orderedGroups b)"
  "storeItem it sub b = Some b' \<Longrightarrow> caughtUp b' = caughtUp b \<and> fst ` set (orderedGroups b') = fst ` set (orderedGroups b)"
proof -
  show "disconnectEntry rngO rngQ b = Some (subs, cancel, b') \<Longrightarrow>
      caughtUp b' = caughtUp b \<and> fst ` set (orderedGroups b') = fst ` set (orderedGroups b)"
    by (clarsimp simp: disconnectEntry_def clear_fst simp del: set_map split: if_splits)
  assume "storeItem it sub b = Some b'"
  then show "caughtUp b' = caughtUp b \<and> fst ` set (orderedGroups b') = fst ` set (orderedGroups b)"
    by (cases rule: storeItem_cases) (simp_all add: store_simps update_fst)
qed

lemma tokenInv_step:
  assumes "busStep env s s'" and inv: "tokenInv s"
  shows "tokenInv s'"
  using assms(1)
proof cases
  case (connect_begin b')
  with inv same_tokens(1) [OF connect_begin(3)] show ?thesis by (auto simp: tokenInv_def)
next
  case (keep_sub it sub its b')
  with inv same_token_keys(2) [OF keep_sub(3)] show ?thesis by (simp add: tokenInv_def)
next
  case (on_error isQueue err w cs keep b' w' cs')
  with inv same_tokens(2) [OF on_error(2)] show ?thesis by (simp add: tokenInv_def)
next
  case (fail_disconnects err subs cancel b')
  with inv same_token_keys(1) [OF fail_disconnects(3)] show ?thesis by (simp add: tokenInv_def)
next
  case (disconnect_begin subs cancel b')
  with inv same_token_keys(1) [OF disconnect_begin(2)] show ?thesis by (simp add: tokenInv_def)
next
  case (goroutine_begin subs cancel b')
  with inv same_token_keys(1) [OF goroutine_begin(3)] show ?thesis by (simp add: tokenInv_def)
next
  case (stop_discarded sub its err)
  with inv show ?thesis by (cases err) (simp_all add: tokenInv_def)
qed (use inv in \<open>simp_all add: tokenInv_def same_tokens(3-6)\<close>)

lemma othersInv_step:
  assumes "busStep env s s'" "othersInv s" "flagsInv s"
  shows "othersInv s'"
  using assms(1)
proof cases
  case (connect_begin b')
  with assms entry_flags(1) [OF connect_begin(3)] show ?thesis by (auto simp: othersInv_def)
next
  case (connect_again r)
  with assms entry_flags(2) [OF connect_again(2)] show ?thesis by (auto simp: othersInv_def flagsInv_def)
next
  case (stop_discarded sub its err)
  with assms show ?thesis by (auto simp: othersInv_def split: option.splits)
qed (use assms in \<open>auto simp: othersInv_def node_simps disc_refused\<close>)

lemma reachable_invs:
  assumes "reachable env b s" "freshBus b"
    and rng: "rangeOrder (orderedRange env)" "rangeOrder (queueRange env)"
  shows "flagsInv s \<and> doneInv s \<and> workInv env s \<and> accountInv s \<and> filledInv s \<and> orderInv s \<and>
     tokenInv s \<and> othersInv s"
  using assms(1)
proof (induction rule: reachable.induct)
  case reach_init
  then show ?case
    using assms(2)
    by (simp add: initial_def freshBus_def flagsInv_def doneInv_def workInv_def accountInv_def filledInv_def
        orderInv_def tokenInv_def othersInv_def)
next
  case (reach_step s s')
  have hold: "connect s = ConnHold it sub its \<Longrightarrow> it \<noteq> AwaitCaughtUp" for it sub its
    using reach_step.IH by (simp add: workInv_def)
  have "flagsInv s'"
    by (rule flagsInv_step [OF reach_step(2)]) (use reach_step.IH hold workInv_todo [OF _ rng] in \<open>blast+\<close>)
  with reach_step doneInv_step workInv_step [OF _ _ _ rng] accountInv_step [OF _ _ _ _ rng]
    filledInv_step [OF _ _ _ _ rng] orderInv_step [OF _ _ _ _ rng] tokenInv_step othersInv_step
  show ?case by blast
qed

subsection \<open>Every bus an application builds is fresh\<close>

text \<open>A bus as \<^verbatim>\<open>NewBus\<close> and successful registrations build it, in any order.\<close>

inductive builtBus ::
  "('v, 'w, 'r, 'sub, 'cs) busEnv \<Rightarrow> 'v Event reflect \<Rightarrow> 'v Command reflect \<Rightarrow> ('v, 'w, 'r, 'sub) Bus \<Rightarrow> bool"
  for env rte rtc where
  built_empty: "builtBus env rte rtc (snd (NewBus slogDefault env opts))"
| built_type: "builtBus env rte rtc b \<Longrightarrow> bus_RegisterMessageType rte rtc proto b = Inr (err, b') \<Longrightarrow>
     builtBus env rte rtc b'"
| built_event: "builtBus env rte rtc b \<Longrightarrow> HandleEvent rte rtc typ h hopts b = Inr b' \<Longrightarrow> builtBus env rte rtc b'"
| built_queue: "builtBus env rte rtc b \<Longrightarrow> HandleQueueEvent env rte rtc typ h hopts b = Inr b' \<Longrightarrow>
     builtBus env rte rtc b'"
| built_command: "builtBus env rte rtc b \<Longrightarrow> HandleCommand env rte rtc anyCommand typ hc hopts b = Inr b' \<Longrightarrow>
     builtBus env rte rtc b'"
| built_query: "builtBus env rte rtc b \<Longrightarrow> HandleQuery env rtc nilResult typ hq b = Inr b' \<Longrightarrow>
     builtBus env rte rtc b'"

definition freshGroups :: "('k \<times> ('h, 'sub) eventGroup) list \<Rightarrow> bool" where
  "freshGroups gs \<longleftrightarrow> groupsOK gs \<and> (\<forall>g \<in> set (map snd gs). grpSub g = None)"

lemma freshGroups_update:
  assumes "freshGroups gs" "handlers g \<noteq> []" "grpSub g = None"
  shows "freshGroups (AList.update k g gs)"
proof -
  have "handlers h \<noteq> [] \<and> grpSub h = None" if "h \<in> set (map snd (AList.update k g gs))" for h
    using update_values [OF that] assms unfolding freshGroups_def groupsOK_def by blast
  moreover have "distinct (map fst (AList.update k g gs))"
    using assms(1) by (simp add: freshGroups_def groupsOK_def distinct_update)
  ultimately show ?thesis unfolding freshGroups_def groupsOK_def by blast
qed

lemma freshGroups_lookup: "freshGroups gs \<Longrightarrow> map_of gs k = Some g \<Longrightarrow> grpSub g = None"
  by (force simp: freshGroups_def dest: map_of_SomeD)

lemma addGroupHandler_fresh [simp]:
  "handlers (addGroupHandler h g) \<noteq> []" "grpSub (addGroupHandler h g) = grpSub g"
proof -
  have "AList.update k v xs \<noteq> []" for k :: uint64 and v :: 'x and xs by (cases xs) auto
  then show "handlers (addGroupHandler h g) \<noteq> []" "grpSub (addGroupHandler h g) = grpSub g"
    by (simp_all add: addGroupHandler_def)
qed

definition freshRegs :: "('v, 'w, 'r, 'sub) Bus \<Rightarrow> bool" where
  "freshRegs b \<longleftrightarrow> freshGroups (orderedGroups b) \<and> freshGroups (queueGroups b) \<and>
     (\<forall>reg \<in> set (commandsRegs b). cmdSub reg = None) \<and> (\<forall>reg \<in> set (queryRegs b). qrySub reg = None) \<and>
     \<not> running b \<and> \<not> closed b \<and> \<not> doneOnce b \<and> \<not> doneClosed b \<and> doneCh b = [] \<and> caughtUp b = 0"

lemma freshGroups_slot: "freshGroups gs \<Longrightarrow> Option.bind (map_of gs k) grpSub = None"
  using freshGroups_lookup [of gs k] by (cases "map_of gs k") auto

lemma freshRegs_freshBus:
  assumes "freshRegs b"
  shows "freshBus b"
proof -
  have "slot it b = None" for it
    using assms by (cases it) (simp_all add: slot_def freshRegs_def freshGroups_slot)
  with assms show ?thesis by (simp add: freshBus_def freshRegs_def wellShaped_def freshGroups_def)
qed

lemma fresh_ordered:
  assumes "freshRegs b" "addOrderedHandler kind scope agg name ids h b = Inr b'"
  shows "freshRegs b'"
  using assms
  by (auto simp: addOrderedHandler_def Let_def freshRegs_def freshGroups_lookup intro!: freshGroups_update
      split: option.splits)

lemma fresh_queue:
  assumes "freshRegs b" "addQueueHandler env kind scope agg name ids h b = Inr b'"
  shows "freshRegs b'"
  using assms
  by (auto simp: addQueueHandler_def Let_def freshRegs_def freshGroups_lookup intro!: freshGroups_update
      split: option.splits if_splits)

lemma fresh_commands:
  "freshRegs b \<Longrightarrow> addCommandHandler env kind scope agg name ids hc b = Inr b' \<Longrightarrow> freshRegs b'"
  "freshRegs b \<Longrightarrow> addQueryHandler env kind scope agg name hq b = Inr b' \<Longrightarrow> freshRegs b'"
  by (auto simp: addCommandHandler_def addQueryHandler_def Let_def freshRegs_def split: option.splits)

lemma fresh_registry [simp]: "freshRegs (b\<lparr>registryOf := reg\<rparr>) = freshRegs b"
  by (simp add: freshRegs_def)

lemma fresh_prototype: "freshRegs b \<Longrightarrow> registerPrototype rte rtc p b = Inr b' \<Longrightarrow> freshRegs b'"
  by (auto simp: registerPrototype_def bus_RegisterMessageType_def split: option.splits sum.splits prod.splits)

lemma builtBus_fresh:
  assumes "builtBus env rte rtc b"
  shows "freshBus b"
proof -
  have "freshRegs b"
    using assms
  proof (induction rule: builtBus.induct)
    case (built_empty slogDefault opts)
    show ?case by (simp add: NewBus_def freshRegs_def freshGroups_def groupsOK_def)
  next
    case (built_type b proto err b')
    then show ?case by (auto simp: bus_RegisterMessageType_def split: option.splits prod.splits)
  next
    case (built_event b t h hopts b')
    then show ?case
      unfolding HandleEvent_def andThen_Inr using fresh_prototype fresh_ordered by blast
  next
    case (built_queue b t h hopts b')
    then show ?case
      unfolding HandleQueueEvent_def andThen_Inr using fresh_prototype fresh_queue by blast
  next
    case (built_command b anyCommand t hc hopts b')
    then show ?case
      unfolding HandleCommand_def andThen_Inr using fresh_prototype fresh_commands(1) by blast
  next
    case (built_query b nilResult t hq b')
    then show ?case
      by (auto simp: HandleQuery_def andThen_Inr Let_def split: option.splits prod.splits
          dest: fresh_commands(2) [rotated])
  qed
  then show ?thesis by (rule freshRegs_freshBus)
qed

subsection \<open>A run\<close>

text \<open>A bus with one ordered event handler and one command handler, and two runs of it.\<close>

definition exKey :: orderedKey where
  "exKey = \<lparr>okScope = ''sales'', okKind = ''event'', okAgg = ''order''\<rparr>"

definition exAppGroup :: "((unit, nat) eventFn, nat) eventGroup" where
  "exAppGroup = \<lparr>grpOrdered = True, grpScope = ''sales'', grpKind = ''event'', grpAgg = ''order'', grpQueue = [],
     handlers = [(1, \<lparr>eventKind = ''event'', eventName = ''created'', aggregateIDs = [],
       handler = typedEvent (GoPtr (GoNamed ''OrderCreated'')) (New exReflect (GoNamed ''OrderCreated''))
         (\<lambda>e w. (None, w + 1))\<rparr>)], grpSub = None\<rparr>"

definition exAppReg :: "(unit, nat, nat) commandRegistration" where
  "exAppReg = \<lparr>cmdCfg = \<lparr>CmdScope = ''sales'', CmdKind = ''command'', CmdTypes = [''order''], CmdIDs = [],
       CmdNames = [''create''], CmdQueue = []\<rparr>,
     cmdHandler = withCommandConflictRetry exTransports (withCommandLogging exTransports
       (typedCommand (GoPtr (GoNamed ''OrderCreate'')) (New exCmdReflect (GoNamed ''OrderCreate'')) (\<lambda>c w. (None, w)))),
     cmdSub = None\<rparr>"

definition exAppBus :: "unit registry \<Rightarrow> (unit, nat, unit, nat) Bus" where
  "exAppBus reg = \<lparr>registryOf = reg, running = False, closed = False, hasCancel = False, runCtxDone = False,
     orderedGroups = [(exKey, exAppGroup)], queueGroups = [], commandsRegs = [exAppReg], queryRegs = [],
     doneCh = [], doneClosed = False, doneOnce = False, stopErr = None, goroutines = 0, caughtUp = 0\<rparr>"

definition anyOrderCreate :: "unit Command \<Rightarrow> unit any" where
  "anyOrderCreate cmd = \<lparr>AsEvent = None, AsCommand = Some cmd, AnyType = ''*OrderCreate''\<rparr>"

lemma ex_app_built: "\<exists>reg. builtBus exTransports exReflect exCmdReflect (exAppBus reg)"
proof -
  let ?h = "\<lambda>(e :: unit Event) (w :: nat). (None :: goerror option, w + 1)"
  let ?b0 = "snd (NewBus (\<lambda>msg subj err w. w) exTransports exOptions)"
  let ?hc = "\<lambda>(c :: unit Command) (w :: nat). (None :: goerror option, w)"
  have "\<exists>reg. HandleEvent exReflect exCmdReflect (GoPtr (GoNamed ''OrderCreated'')) ?h [] ?b0 =
      Inr ((exAppBus reg)\<lparr>commandsRegs := []\<rparr>) \<and> commands reg = Map.empty"
    by (simp add: HandleEvent_def newTypedValue_def registerPrototype_def bus_RegisterMessageType_def
        NewBus_def mustAllowRegistrationLocked_def addOrderedHandler_def anyEvent_def addGroupHandler_def
        RegisterMessageType_def Let_def registerEvent_def newRegistry_def ex_defs goodKey_def eventKey_def
        ex_tokens kind_defs registerType_def exAppBus_def exKey_def exAppGroup_def collectHandlerOptions_def)
  then obtain reg where ev: "HandleEvent exReflect exCmdReflect (GoPtr (GoNamed ''OrderCreated'')) ?h [] ?b0 =
      Inr ((exAppBus reg)\<lparr>commandsRegs := []\<rparr>)" and empty: "commands reg = Map.empty" by blast
  have b1: "builtBus exTransports exReflect exCmdReflect ((exAppBus reg)\<lparr>commandsRegs := []\<rparr>)"
    by (rule built_event [OF built_empty ev])
  have "\<exists>reg'. HandleCommand exTransports exReflect exCmdReflect anyOrderCreate
      (GoPtr (GoNamed ''OrderCreate'')) ?hc [] ((exAppBus reg)\<lparr>commandsRegs := []\<rparr>) = Inr (exAppBus reg')"
    using empty
    by (simp add: HandleCommand_def newTypedValue_def registerPrototype_def bus_RegisterMessageType_def
        mustAllowRegistrationLocked_def addCommandHandler_def anyOrderCreate_def RegisterMessageType_def Let_def
        registerCommand_def ex_defs goodKey_def commandKey_def ex_tokens kind_defs registerType_def exAppBus_def
        exAppReg_def exTransports_def collectHandlerOptions_def)
  with built_command [OF b1] show ?thesis by blast
qed

definition exNode ::
  "(unit, nat, unit, nat) Bus \<Rightarrow> nat connectPC \<Rightarrow> nat disconnectPC \<Rightarrow> nat set \<Rightarrow> nat set \<Rightarrow> nat \<Rightarrow> orderedKey list \<Rightarrow>
   (unit, nat, unit, nat) node" where
  "exNode b c d cr st n ks = \<lparr>bus = b, connect = c, disconnect = d, created = cr, stopped = st, received = n, caughtBy = ks,
     others = []\<rparr>"

definition exRunning :: "unit registry \<Rightarrow> nat option \<Rightarrow> nat option \<Rightarrow> nat \<Rightarrow> (unit, nat, unit, nat) Bus" where
  "exRunning reg e c n = (exAppBus reg)\<lparr>hasCancel := True, running := True,
     orderedGroups := [(exKey, exAppGroup\<lparr>grpSub := e\<rparr>)], commandsRegs := [exAppReg\<lparr>cmdSub := c\<rparr>], caughtUp := n\<rparr>"

definition exStopped :: "unit registry \<Rightarrow> nat option \<Rightarrow> bool \<Rightarrow> bool \<Rightarrow> (unit, nat, unit, nat) Bus" where
  "exStopped reg c cancelled signalled = (exAppBus reg)\<lparr>closed := True, runCtxDone := cancelled,
     commandsRegs := [exAppReg\<lparr>cmdSub := c\<rparr>], doneOnce := signalled, doneClosed := signalled\<rparr>"

lemmas ex_run_defs = exNode_def exRunning_def exStopped_def exAppBus_def

lemma ex_plan: "connectPlan (orderedRange exTransports) (queueRange exTransports) (exRunning reg e c n) =
    [StartOrdered exKey, AwaitCaughtUp, StartCommand 0]"
  by (simp add: connectPlan_def exTransports_def ex_run_defs)

lemma ex_run_subscribed:
  "reachable exTransports (exAppBus reg)
     (exNode (exRunning reg (Some 1) None 0) (ConnRun [AwaitCaughtUp, StartCommand 0]) DiscIdle {1} {} 0 [])"
proof -
  have same: "exAppGroup\<lparr>grpSub := None\<rparr> = exAppGroup" "exAppReg\<lparr>cmdSub := None\<rparr> = exAppReg"
    by (simp_all add: exAppGroup_def exAppReg_def)
  have entry: "connectEntry (exAppBus reg) = (None, exRunning reg None None 0)"
    by (simp add: connectEntry_def exAppBus_def exRunning_def same)
  have store: "storeItem (StartOrdered exKey) 1 (exRunning reg None None 0) = Some (exRunning reg (Some 1) None 0)"
    by (simp add: storeItem_def storeOrderedSub_def keepGroupSub_def exRunning_def exAppBus_def exAppGroup_def)
  let ?s1 = "exNode (exRunning reg None None 0) (ConnRun [StartOrdered exKey, AwaitCaughtUp, StartCommand 0])
    DiscIdle {} {} 0 []"
  let ?s2 = "exNode (exRunning reg None None 0) (ConnHold (StartOrdered exKey) 1 [AwaitCaughtUp, StartCommand 0])
    DiscIdle {1} {} 0 []"
  let ?s3 = "exNode (exRunning reg (Some 1) None 0) (ConnRun [AwaitCaughtUp, StartCommand 0]) DiscIdle {1} {} 0 []"
  have "busStep exTransports (initial (exAppBus reg)) ?s1"
    using connect_begin [of "initial (exAppBus reg)" "exRunning reg None None 0" exTransports] entry
    by (simp add: initial_def exNode_def ex_plan)
  moreover have "busStep exTransports ?s1 ?s2"
    using subscribe_ok [of ?s1 "StartOrdered exKey" _ 1 exTransports] by (simp add: exNode_def)
  moreover have "busStep exTransports ?s2 ?s3"
    using keep_sub [of ?s2 "StartOrdered exKey" 1 _ "exRunning reg (Some 1) None 0" exTransports] store
    by (simp add: exNode_def)
  ultimately show ?thesis by (meson reach_init reach_step)
qed

lemma ex_run_common:
  "reachable exTransports (exAppBus reg)
     (exNode (exRunning reg (Some 1) None 0) (ConnHold (StartCommand 0) 2 []) DiscIdle {1, 2} {} 1 [exKey])"
proof -
  let ?s3 = "exNode (exRunning reg (Some 1) None 0) (ConnRun [AwaitCaughtUp, StartCommand 0]) DiscIdle {1} {} 0 []"
  let ?s4 = "exNode (exRunning reg (Some 1) None 1) (ConnRun [AwaitCaughtUp, StartCommand 0]) DiscIdle {1} {} 0 [exKey]"
  let ?s5 = "exNode (exRunning reg (Some 1) None 0) (ConnRun [StartCommand 0]) DiscIdle {1} {} 1 [exKey]"
  have "busStep exTransports ?s3 ?s4"
    using caught_up [of ?s3 exKey exTransports] by (simp add: ex_run_defs)
  moreover have "busStep exTransports ?s4 ?s5"
    using receive_token [of ?s4 _ exTransports] by (simp add: ex_run_defs)
  moreover have "busStep exTransports ?s5
      (exNode (exRunning reg (Some 1) None 0) (ConnHold (StartCommand 0) 2 []) DiscIdle {1, 2} {} 1 [exKey])"
    using subscribe_ok [of ?s5 "StartCommand 0" _ 2 exTransports] by (simp add: exNode_def insert_commute)
  ultimately show ?thesis by (meson ex_run_subscribed reach_step)
qed

lemma ex_run_connected:
  "reachable exTransports (exAppBus reg)
     (exNode (exRunning reg (Some 1) (Some 2) 0) (ConnDone None) DiscIdle {1, 2} {} 1 [exKey])"
proof -
  let ?s0 = "exNode (exRunning reg (Some 1) None 0) (ConnHold (StartCommand 0) 2 []) DiscIdle {1, 2} {} 1 [exKey]"
  let ?s1 = "exNode (exRunning reg (Some 1) (Some 2) 0) (ConnRun []) DiscIdle {1, 2} {} 1 [exKey]"
  have "storeItem (StartCommand 0) 2 (exRunning reg (Some 1) None 0) = Some (exRunning reg (Some 1) (Some 2) 0)"
    by (simp add: storeItem_def storeCommandSub_def exRunning_def exAppBus_def exAppReg_def)
  then have "busStep exTransports ?s0 ?s1"
    using keep_sub [of ?s0 "StartCommand 0" 2 _ _ exTransports] by (simp add: exNode_def)
  moreover have "busStep exTransports ?s1
      (exNode (exRunning reg (Some 1) (Some 2) 0) (ConnDone None) DiscIdle {1, 2} {} 1 [exKey])"
    using connect_return [of ?s1 exTransports] by (simp add: exNode_def)
  ultimately show ?thesis by (meson ex_run_common reach_step)
qed

text \<open>Here the bus is disconnected while \<^verbatim>\<open>SubscribeCommand\<close> is returning.\<close>

lemma ex_run_leak:
  "reachable exTransports (exAppBus reg)
     (exNode (exStopped reg (Some 2) True True) (ConnDone None) DiscDone {1, 2} {1} 1 [exKey])"
proof -
  let ?s0 = "exNode (exRunning reg (Some 1) None 0) (ConnHold (StartCommand 0) 2 []) DiscIdle {1, 2} {} 1 [exKey]"
  let ?s1 = "exNode (exStopped reg None False False) (ConnHold (StartCommand 0) 2 []) (DiscCancel True [1]) {1, 2} {} 1 [exKey]"
  let ?s2 = "exNode (exStopped reg None True False) (ConnHold (StartCommand 0) 2 []) (DiscStop [1] None) {1, 2} {} 1 [exKey]"
  let ?s3 = "exNode (exStopped reg None True False) (ConnHold (StartCommand 0) 2 []) (DiscStop [] None) {1, 2} {1} 1 [exKey]"
  let ?s4 = "exNode (exStopped reg None True True) (ConnHold (StartCommand 0) 2 []) DiscDone {1, 2} {1} 1 [exKey]"
  let ?s5 = "exNode (exStopped reg (Some 2) True True) (ConnRun []) DiscDone {1, 2} {1} 1 [exKey]"
  have "disconnectEntry (orderedRange exTransports) (queueRange exTransports) (exRunning reg (Some 1) None 0) =
      Some ([1], True, exStopped reg None False False)"
    by (simp add: disconnectEntry_def heldSubs_def groupSubs_def optList_def exTransports_def exAppGroup_def
        exAppReg_def ex_run_defs)
  then have "busStep exTransports ?s0 ?s1"
    using disconnect_begin [of exTransports ?s0] by (simp add: exNode_def)
  moreover have "busStep exTransports ?s1 ?s2"
    using disconnect_cancel [of ?s1 True "[1]" exTransports] by (simp add: ex_run_defs cancelRunCtx_def)
  moreover have "busStep exTransports ?s2 ?s3"
    using disconnect_stop [of ?s2 1 "[]" None exTransports None] by (simp add: exNode_def)
  moreover have "busStep exTransports ?s3 ?s4"
    using disconnect_done [of ?s3 None exTransports] by (simp add: ex_run_defs signalDone_def)
  moreover have "storeItem (StartCommand 0) 2 (exStopped reg None True True) = Some (exStopped reg (Some 2) True True)"
    by (simp add: storeItem_def storeCommandSub_def exStopped_def exAppBus_def exAppReg_def)
  then have "busStep exTransports ?s4 ?s5"
    using keep_sub [of ?s4 "StartCommand 0" 2 _ _ exTransports] by (simp add: exNode_def)
  moreover have "busStep exTransports ?s5
      (exNode (exStopped reg (Some 2) True True) (ConnDone None) DiscDone {1, 2} {1} 1 [exKey])"
    using connect_return [of ?s5 exTransports] by (simp add: exNode_def)
  ultimately show ?thesis by (meson ex_run_common reach_step)
qed

lemma ex_ranges: "rangeOrder (orderedRange exTransports)" "rangeOrder (queueRange exTransports)"
  by (simp_all add: exTransports_def rangeOrder_def)

subsection \<open>Properties\<close>

text \<open>C6. The \<^verbatim>\<open>Connect\<close> call that starts the bus subscribes everything: whenever it has returned nil on
  a bus that nobody has closed meanwhile, in any interleaving with the transport, with other calls of
  \<^verbatim>\<open>Connect\<close> and \<^verbatim>\<open>Disconnect\<close> and with other goroutines, every ordered group, queue group, command
  handler and query handler registered on the bus holds a subscription. Any other \<^verbatim>\<open>Connect\<close> call has
  returned nil after the bus was started, or \<^verbatim>\<open>ErrClosed\<close> after it was closed, and any other
  \<^verbatim>\<open>Disconnect\<close> call nil after that.\<close>

theorem connect_nil_subscribes_all:
  assumes "builtBus env rte rtc b" "rangeOrder (orderedRange env)" "rangeOrder (queueRange env)"
    and "reachable env b s"
  shows "(connect s = ConnDone None \<and> \<not> closed (bus s) \<longrightarrow>
       (\<forall>it \<in> slots (bus s). \<exists>sub. slot it (bus s) = Some sub)) \<and>
     (\<forall>r \<in> set (others s).
        r = OtherConnect None \<and> connect s \<noteq> ConnIdle \<or>
        r = OtherConnect (Some ErrClosed) \<and> closed (bus s) \<or>
        r = OtherDisconnect None \<and> closed (bus s))"
proof -
  have inv: "filledInv s" "othersInv s"
    using reachable_invs [OF assms(4) builtBus_fresh [OF assms(1)] assms(2,3)] by blast+
  have "\<forall>it \<in> slots (bus s). \<exists>sub. slot it (bus s) = Some sub" if "connect s = ConnDone None" "\<not> closed (bus s)"
    using inv(1) that by (auto simp: filledInv_def)
  with inv(2) show ?thesis unfolding othersInv_def by blast
qed

theorem connect_nil_subscribes_all_witness:
  "\<exists>reg sub. builtBus exTransports exReflect exCmdReflect (exAppBus reg) \<and>
     reachable exTransports (exAppBus reg) (exNode (exRunning reg (Some 1) (Some 2) 0) (ConnDone None) DiscIdle {1, 2} {} 1 [exKey]) \<and>
     slot (StartCommand 0) (exRunning reg (Some 1) (Some 2) 0) = Some sub"
proof -
  obtain reg where reg: "builtBus exTransports exReflect exCmdReflect (exAppBus reg)"
    using ex_app_built by blast
  have "\<forall>it \<in> slots (exRunning reg (Some 1) (Some 2) 0). \<exists>sub. slot it (exRunning reg (Some 1) (Some 2) 0) = Some sub"
    using connect_nil_subscribes_all [OF reg ex_ranges ex_run_connected] by (simp add: ex_run_defs)
  moreover have "StartCommand 0 \<in> slots (exRunning reg (Some 1) (Some 2) 0)"
    by (simp add: slots_def ex_run_defs)
  ultimately show ?thesis using reg ex_run_connected by blast
qed

text \<open>C14. Commands wait for the projections: as soon as a command, query or queue subscription is stored,
  or handed out by the transport to be stored, \<^verbatim>\<open>Connect\<close> has received as many caught-up tokens as there
  are ordered groups, and if no group has sent two, which its session sees to, every ordered group has
  sent its own. This holds in every interleaving.\<close>

theorem commands_after_caught_up:
  assumes "builtBus env rte rtc b" "rangeOrder (orderedRange env)" "rangeOrder (queueRange env)"
    and "reachable env b s" "distinct (caughtBy s)" "\<forall>k. it \<noteq> StartOrdered k"
    and "slot it (bus s) = Some sub \<or> connect s = ConnHold it sub its"
  shows "received s = length (orderedGroups (bus s)) \<and> set (caughtBy s) = fst ` set (orderedGroups (bus s))"
proof -
  have inv: "orderInv s" "workInv env s" "tokenInv s" "wellShaped (bus s)"
    using reachable_invs [OF assms(4) builtBus_fresh [OF assms(1)] assms(2,3)] by (simp_all add: flagsInv_def)
  have rec: "received s = length (orderedGroups (bus s))"
    using assms(7)
  proof
    assume hold: "connect s = ConnHold it sub its"
    with inv(2) obtain pre where "connectPlan (orderedRange env) (queueRange env) (bus s) = pre @ it # its"
      "received s = length (filter (\<lambda>it. it = AwaitCaughtUp) pre)" "it \<noteq> AwaitCaughtUp"
      by (auto simp: workInv_def)
    with plan_order [OF _ _ assms(6)] show ?thesis by simp
  qed (use inv(1) assms(6) in \<open>auto simp: orderInv_def\<close>)
  have "card (fst ` set (orderedGroups (bus s))) = length (orderedGroups (bus s))"
    using inv(4) distinct_card [of "map fst (orderedGroups (bus s))"] by (simp add: wellShaped_def groupsOK_def)
  moreover have "card (set (caughtBy s)) = length (caughtBy s)" using assms(5) by (rule distinct_card)
  moreover have "length (caughtBy s) \<ge> received s" "set (caughtBy s) \<subseteq> fst ` set (orderedGroups (bus s))"
    using inv(3) by (simp_all add: tokenInv_def)
  ultimately have "set (caughtBy s) = fst ` set (orderedGroups (bus s))"
    using rec by (intro card_seteq) simp_all
  with rec show ?thesis by blast
qed

theorem commands_after_caught_up_witness:
  "\<exists>b s. builtBus exTransports exReflect exCmdReflect b \<and> reachable exTransports b s \<and>
     slot (StartCommand 0) (bus s) = Some 2 \<and> set (caughtBy s) = fst ` set (orderedGroups (bus s)) \<and> received s = 1"
proof -
  obtain reg where reg: "builtBus exTransports exReflect exCmdReflect (exAppBus reg)"
    using ex_app_built by blast
  let ?s = "exNode (exRunning reg (Some 1) (Some 2) 0) (ConnDone None) DiscIdle {1, 2} {} 1 [exKey]"
  have slot: "slot (StartCommand 0) (bus ?s) = Some 2" "distinct (caughtBy ?s)"
    by (simp_all add: slot_def ex_run_defs exAppReg_def)
  with commands_after_caught_up [OF reg ex_ranges ex_run_connected, of "StartCommand 0" 2]
  have "received ?s = 1 \<and> set (caughtBy ?s) = fst ` set (orderedGroups (bus ?s))" by (simp add: ex_run_defs)
  with reg ex_run_connected slot(1) show ?thesis by blast
qed

text \<open>C7. Disconnecting releases the event subscriptions: on a closed bus no group holds a subscription,
  and once \<^verbatim>\<open>Disconnect\<close> has finished and \<^verbatim>\<open>Connect\<close> has returned (or was never called), every
  subscription the transport ever handed out has been stopped, except those stored in a command or
  query registration.\<close>

theorem disconnect_stops_events:
  assumes "builtBus env rte rtc b" "rangeOrder (orderedRange env)" "rangeOrder (queueRange env)"
    and "reachable env b s" "disconnect s = DiscDone" "connect s = ConnIdle \<or> connect s = ConnDone r"
  shows "closed (bus s) \<and> (\<forall>k. slot (StartOrdered k) (bus s) = None) \<and> (\<forall>k. slot (StartQueue k) (bus s) = None) \<and>
     created s - stopped s \<subseteq>
       {sub. \<exists>i. slot (StartCommand i) (bus s) = Some sub \<or> slot (StartQuery i) (bus s) = Some sub}"
proof -
  have inv: "flagsInv s" "accountInv s"
    using reachable_invs [OF assms(4) builtBus_fresh [OF assms(1)] assms(2,3)] by blast+
  have closed: "closed (bus s)" using inv(1) assms(5) by (simp add: flagsInv_def)
  with inv(1) have none: "slot (StartOrdered k) (bus s) = None" "slot (StartQueue k') (bus s) = None" for k k'
    by (auto simp: flagsInv_def eventItem_def)
  have "inHand (connect s) = {}" using assms(6) by auto
  with inv(2) assms(5) have "created s - stopped s \<subseteq> held (bus s)" by (auto simp: accountInv_def)
  moreover have "\<exists>i. slot (StartCommand i) (bus s) = Some sub \<or> slot (StartQuery i) (bus s) = Some sub"
    if "slot it (bus s) = Some sub" for it sub
    using that none by (cases it) (auto simp: slot_def [of AwaitCaughtUp])
  ultimately show ?thesis using closed none by (auto simp: held_def)
qed

theorem disconnect_stops_events_witness:
  "\<exists>reg. closed (exStopped reg (Some 2) True True) \<and>
     slot (StartOrdered exKey) (exStopped reg (Some 2) True True) = None"
proof -
  obtain reg where reg: "builtBus exTransports exReflect exCmdReflect (exAppBus reg)"
    using ex_app_built by blast
  show ?thesis
    using disconnect_stops_events [OF reg ex_ranges ex_run_leak, of None] by (auto simp: exNode_def)
qed

text \<open>C37. The exception is real: a command subscription can outlive the bus. There is a bus built by
  registrations and a run of it in which \<^verbatim>\<open>Disconnect\<close> completes while \<^verbatim>\<open>SubscribeCommand\<close> is
  returning; \<^verbatim>\<open>startCommand\<close> stores the new subscription without looking at \<^verbatim>\<open>running\<close>, \<^verbatim>\<open>Connect\<close>
  returns nil on the closed bus, no goroutine is left, and the subscription is never stopped.\<close>

theorem command_subscription_leaks:
  "\<exists>(env :: (unit, nat, unit, nat, unit) busEnv) b s sub.
     builtBus env exReflect exCmdReflect b \<and> reachable env b s \<and> closed (bus s) \<and>
     connect s = ConnDone None \<and> disconnect s = DiscDone \<and> goroutines (bus s) = 0 \<and>
     sub \<in> created s - stopped s"
proof -
  obtain reg where reg: "builtBus exTransports exReflect exCmdReflect (exAppBus reg)"
    using ex_app_built by blast
  show ?thesis
    by (intro exI [of _ exTransports] exI [of _ "exAppBus reg"]
        exI [of _ "exNode (exStopped reg (Some 2) True True) (ConnDone None) DiscDone {1, 2} {1} 1 [exKey]"] exI [of _ 2]
        conjI reg ex_run_leak)
      (simp_all add: ex_run_defs)
qed

text \<open>C40. Nil from \<^verbatim>\<open>Connect\<close> does not mean connected: a second call returns nil while the first one is
  still subscribing. There is a bus built by registrations and a run of it in which the second call
  has returned nil on an open bus, its ordered group has not caught up, its command handler has no
  subscription, and the first call then fails and closes the bus.\<close>

theorem second_connect_returns_early:
  "\<exists>(env :: (unit, nat, unit, nat, unit) busEnv) b s s'.
     builtBus env exReflect exCmdReflect b \<and> reachable env b s \<and>
     others s = [OtherConnect None] \<and> \<not> closed (bus s) \<and> caughtBy s = [] \<and>
     StartCommand 0 \<in> slots (bus s) \<and> slot (StartCommand 0) (bus s) = None \<and>
     (busStep env)\<^sup>*\<^sup>* s s' \<and> connect s' = ConnDone (Some ContextCanceled) \<and> closed (bus s') \<and> others s' = others s"
proof -
  obtain reg where reg: "builtBus exTransports exReflect exCmdReflect (exAppBus reg)"
    using ex_app_built by blast
  let ?n = "\<lambda>b c d st. \<lparr>bus = b, connect = c, disconnect = d, created = {1}, stopped = st, received = 0, caughtBy = [],
    others = [OtherConnect None]\<rparr> :: (unit, nat, unit, nat) node"
  let ?run = "exRunning reg (Some 1) None 0"
  let ?start = "exNode ?run (ConnRun [AwaitCaughtUp, StartCommand 0]) DiscIdle {1} {} 0 []"
  let ?early = "?n ?run (ConnRun [AwaitCaughtUp, StartCommand 0]) DiscIdle {}"
  let ?ctx = "?run\<lparr>runCtxDone := True\<rparr>"
  let ?s1 = "?n ?ctx (ConnRun [AwaitCaughtUp, StartCommand 0]) DiscIdle {}"
  let ?s2 = "?n ?ctx (ConnFail ContextCanceled) DiscIdle {}"
  let ?s3 = "?n (exStopped reg None True False) (ConnJoin ContextCanceled) (DiscCancel True [1]) {}"
  let ?s4 = "?n (exStopped reg None True False) (ConnJoin ContextCanceled) (DiscStop [1] None) {}"
  let ?s5 = "?n (exStopped reg None True False) (ConnJoin ContextCanceled) (DiscStop [] None) {1}"
  let ?s6 = "?n (exStopped reg None True True) (ConnJoin ContextCanceled) DiscDone {1}"
  let ?s7 = "?n (exStopped reg None True True) (ConnDone (Some ContextCanceled)) DiscDone {1}"
  have "busStep exTransports ?start ?early"
    using connect_again [of ?start None exTransports] by (simp add: connectEntry_def ex_run_defs)
  with ex_run_subscribed have "reachable exTransports (exAppBus reg) ?early" by (blast intro: reach_step)
  moreover have "busStep exTransports ?early ?s1"
    using parent_cancelled [of ?early exTransports] by (simp add: ex_run_defs)
  moreover have "busStep exTransports ?s1 ?s2"
    using context_done [of ?s1 "[StartCommand 0]" exTransports ContextCanceled] by simp
  moreover have "disconnectEntry (orderedRange exTransports) (queueRange exTransports) ?ctx =
      Some ([1], True, exStopped reg None True False)"
    by (simp add: disconnectEntry_def heldSubs_def groupSubs_def optList_def exTransports_def exAppGroup_def
        exAppReg_def ex_run_defs)
  then have "busStep exTransports ?s2 ?s3"
    using fail_disconnects [of ?s2 ContextCanceled exTransports] by simp
  moreover have "busStep exTransports ?s3 ?s4"
    using disconnect_cancel [of ?s3 True "[1]" exTransports] by (simp add: ex_run_defs cancelRunCtx_def)
  moreover have "busStep exTransports ?s4 ?s5"
    using disconnect_stop [of ?s4 1 "[]" None exTransports None] by simp
  moreover have "busStep exTransports ?s5 ?s6"
    using disconnect_done [of ?s5 None exTransports] by (simp add: ex_run_defs signalDone_def)
  moreover have "busStep exTransports ?s6 ?s7"
    using join_return [of ?s6 ContextCanceled exTransports] by simp
  ultimately have "reachable exTransports (exAppBus reg) ?early" "(busStep exTransports)\<^sup>*\<^sup>* ?early ?s7"
    by (blast, meson converse_rtranclp_into_rtranclp rtranclp.rtrancl_refl)
  moreover have "StartCommand 0 \<in> slots ?run" "slot (StartCommand 0) ?run = None" "\<not> closed ?run"
    "closed (exStopped reg None True True)"
    by (simp_all add: slots_def slot_def ex_run_defs exAppReg_def)
  ultimately show ?thesis
    using reg by (intro exI [of _ exTransports] exI [of _ "exAppBus reg"] exI [of _ ?early] exI [of _ ?s7]) simp
qed

text \<open>C27. The done channel: it is closed exactly when \<^verbatim>\<open>Disconnect\<close> has finished, so never twice, and it
  never carries more than one error, so sending to it never blocks its buffer of one.\<close>

theorem done_channel_once:
  assumes "builtBus env rte rtc b" "rangeOrder (orderedRange env)" "rangeOrder (queueRange env)"
    and "reachable env b s"
  shows "(doneClosed (bus s) \<longleftrightarrow> disconnect s = DiscDone) \<and> length (doneCh (bus s)) \<le> 1"
  using reachable_invs [OF assms(4) builtBus_fresh [OF assms(1)] assms(2,3)]
  by (auto simp: doneInv_def split: if_splits)

theorem done_channel_once_witness: "\<exists>reg. doneClosed (exStopped reg (Some 2) True True)"
proof -
  obtain reg where reg: "builtBus exTransports exReflect exCmdReflect (exAppBus reg)"
    using ex_app_built by blast
  show ?thesis
    using done_channel_once [OF reg ex_ranges ex_run_leak] by (auto simp: exNode_def)
qed

end
