(* ===== verification/NatsSubjects.thy ===== *)
theory NatsSubjects
  imports PubSub Compaction Sha1
begin

section \<open>Subjects and filters on the wire\<close>

text \<open>
  \<^verbatim>\<open>src/nats/subjects.go\<close> and \<^verbatim>\<open>src/nats/stream.go\<close>: stream names, the filters of event and command
  subscriptions, filter compaction, the subject parser and the sanitiser of consumer names.
  \<open>natsMatch\<close> is not code of the repository: it states the documented meaning of a NATS subject
  filter (a token \<^verbatim>\<open>*\<close> matches any one token, a final \<^verbatim>\<open>>\<close> matches one or more), against which the
  filters the code builds are judged. An index out of range is a panic in Go and \<open>None\<close> here.
\<close>

definition DefaultStreamPattern :: string where
  "DefaultStreamPattern = ''<SCOPE>_<AGG>_EVENTS''"

definition StreamName :: "string \<Rightarrow> string \<Rightarrow> string \<Rightarrow> string" where
  "StreamName pattern scope aggregateType =
     (let pattern' = (if pattern = [] then DefaultStreamPattern else pattern)
      in Replace2 ''<SCOPE>'' (ToUpper scope) ''<AGG>'' (ToUpper aggregateType) pattern')"

definition AggregateMessageFilter :: "string \<Rightarrow> string \<Rightarrow> string \<Rightarrow> string" where
  "AggregateMessageFilter scope aggregateType aggregateID =
     Join [scope, KindEvent, aggregateType, aggregateID, ''>''] ''.''"

definition EventTypeFilter :: "MessageKind \<Rightarrow> string \<Rightarrow> string \<Rightarrow> string" where
  "EventTypeFilter kind scope aggregateType = Join [scope, kind, aggregateType, ''>''] ''.''"

definition nats_CommandSubject :: "'v Command \<Rightarrow> string" where
  "nats_CommandSubject cmd = SubjectString (CommandSubject cmd)"

definition nats_QuerySubject :: "'v Command \<Rightarrow> string" where
  "nats_QuerySubject query = SubjectString (QuerySubject query)"

definition wildcardIfEmpty :: "string list \<Rightarrow> string list" where
  "wildcardIfEmpty values = (if values = [] then [''*''] else values)"

definition subjectFilterCovers :: "string \<Rightarrow> string \<Rightarrow> bool" where
  "subjectFilterCovers candidate flt =
     (let candidateParts = Split CHR ''.'' candidate; filterParts = Split CHR ''.'' flt
      in length candidateParts = length filterParts \<and>
         list_all2 (\<lambda>c f. c = ''*'' \<or> c = f) candidateParts filterParts)"

definition compactSubjectFilters :: "string list \<Rightarrow> string list" where
  "compactSubjectFilters filters = sort (uncovered subjectFilterCovers (dedupe [] filters))"

definition defaultKind :: "MessageKind \<Rightarrow> MessageKind \<Rightarrow> MessageKind" where
  "defaultKind kind d = (if kind = [] then d else kind)"

definition filterSubjects :: "string \<Rightarrow> string \<Rightarrow> EventSubscriptionFilter \<Rightarrow> string list" where
  "filterSubjects scope typ flt =
     concat (map (\<lambda>id. map (\<lambda>name.
        Join [scope, defaultKind (FilterKind flt) KindEvent, typ, id, name] ''.'')
       (wildcardIfEmpty (FilterNames flt))) (wildcardIfEmpty (FilterIDs flt)))"

definition eventFilterSubjects :: "'w EventSubscriptionConfig \<Rightarrow> string list option" where
  "eventFilterSubjects cfg =
     (case EvTypes cfg of
        [] \<Rightarrow> None
      | typ # _ \<Rightarrow> Some (concat (map (filterSubjects (EvScope cfg) typ) (EvFilters cfg))))"

definition eventFilters :: "'w EventSubscriptionConfig \<Rightarrow> string list option" where
  "eventFilters cfg =
     (if EvFilters cfg \<noteq> [] then map_option compactSubjectFilters (eventFilterSubjects cfg)
      else Some (compactSubjectFilters
        (concat (map (\<lambda>typ. concat (map (\<lambda>id. map (\<lambda>name.
           Join [EvScope cfg, defaultKind (EvKind cfg) KindEvent, typ, id, name] ''.'')
          (wildcardIfEmpty (EvNames cfg))) (wildcardIfEmpty (EvIDs cfg))))
         (wildcardIfEmpty (EvTypes cfg))))))"

definition commandFilters :: "MessageKind \<Rightarrow> CommandSubscriptionConfig \<Rightarrow> string list" where
  "commandFilters kind cfg =
     (let kind' = (if CmdKind cfg \<noteq> [] then CmdKind cfg else kind);
          scope = (if CmdScope cfg = [] then ''*'' else CmdScope cfg)
      in concat (map (\<lambda>typ. concat (map (\<lambda>id. map (\<lambda>name.
           Join [scope, kind', typ, id, name] ''.'')
          (wildcardIfEmpty (CmdNames cfg))) (wildcardIfEmpty (CmdIDs cfg))))
         (wildcardIfEmpty (CmdTypes cfg))))"

definition ParseSubject :: "string \<Rightarrow> Subject \<times> bool" where
  "ParseSubject subject =
     (case Split CHR ''.'' subject of
        [p0, p1, p2, p3, p4] \<Rightarrow>
          (let subj = \<lparr>Scope = p0, Kind = p1, AggType = p2, AggID = p3, Name = p4\<rparr>
           in (subj, SubjectValidate subj = None))
      | _ \<Rightarrow> (zeroSubject, False))"

definition sanitizeRunes :: "string \<Rightarrow> string" where
  "sanitizeRunes name =
     concat (map (\<lambda>r. if reservedRune r then ''_'' else runeString r) (runes name))"

definition sanitizeName :: "string \<Rightarrow> string" where
  "sanitizeName name =
     (let out = TrimChar (sanitizeRunes name) CHR ''_''
      in if out = [] then ''goevent''
         else if 48 < length out then take 35 out @ ''_'' @ take 12 (hexEncode (sha1Sum out))
         else out)"

record StreamConfig =
  StreamSubjects :: "string list"

definition StreamSubject :: "('v, 'z) Message_scheme \<Rightarrow> string" where
  "StreamSubject agg = EventTypeFilter (messageKind agg KindEvent) (AggregateScope agg) (AggregateType agg)"

definition SetStreamSubjects :: "'c StreamConfig_scheme \<Rightarrow> ('v, 'z) Message_scheme \<Rightarrow> 'c StreamConfig_scheme" where
  "SetStreamSubjects cfg agg = cfg\<lparr>StreamSubjects := [StreamSubject agg]\<rparr>"

subsection \<open>The meaning of a filter\<close>

fun tokensMatch :: "string list \<Rightarrow> string list \<Rightarrow> bool" where
  "tokensMatch [] [] = True"
| "tokensMatch (p # ps) (t # ts) =
     (p = ''>'' \<and> ps = [] \<or> (p = ''*'' \<or> p = t) \<and> tokensMatch ps ts)"
| "tokensMatch _ _ = False"

definition natsMatch :: "string \<Rightarrow> string \<Rightarrow> bool" where
  "natsMatch flt subject = tokensMatch (Split CHR ''.'' flt) (Split CHR ''.'' subject)"

text \<open>Without a final wildcard, a filter matches token by token.\<close>

definition starMatch :: "string \<Rightarrow> string \<Rightarrow> bool" where
  "starMatch flt subject =
     list_all2 (\<lambda>p t. p = ''*'' \<or> p = t) (Split CHR ''.'' flt) (Split CHR ''.'' subject)"

lemma tokensMatch_no_tail:
  "''>'' \<notin> set ps \<Longrightarrow> tokensMatch ps ts = list_all2 (\<lambda>p t. p = ''*'' \<or> p = t) ps ts"
  by (induction ps ts rule: tokensMatch.induct) auto

lemma natsMatch_starMatch:
  "''>'' \<notin> set (Split CHR ''.'' f) \<Longrightarrow> natsMatch f s = starMatch f s"
  by (simp add: natsMatch_def starMatch_def tokensMatch_no_tail)

lemma subjectFilterCovers_iff:
  "subjectFilterCovers c f = list_all2 (\<lambda>c f. c = ''*'' \<or> c = f) (Split CHR ''.'' c) (Split CHR ''.'' f)"
  by (auto simp: subjectFilterCovers_def Let_def dest: list_all2_lengthD)

lemma star_trans:
  "list_all2 (\<lambda>c f. c = s \<or> c = f) xs ys \<Longrightarrow> list_all2 (\<lambda>c f. c = s \<or> c = f) ys zs \<Longrightarrow>
   list_all2 (\<lambda>c f. c = s \<or> c = f) xs zs"
  by (rule list_all2_trans [where ?P2.0 = "\<lambda>c f. c = s \<or> c = f"]) auto

lemma star_antisym:
  "list_all2 (\<lambda>c f. c = s \<or> c = f) xs ys \<Longrightarrow> list_all2 (\<lambda>c f. c = s \<or> c = f) ys xs \<Longrightarrow> xs = ys"
  by (auto simp: list_all2_conv_all_nth intro!: nth_equalityI)

interpretation subj_filters: covering subjectFilterCovers starMatch
proof
  show "subjectFilterCovers f f" for f
    by (simp add: subjectFilterCovers_iff list_all2_same)
  show "subjectFilterCovers f h" if "subjectFilterCovers f g" "subjectFilterCovers g h" for f g h
    using that unfolding subjectFilterCovers_iff by (rule star_trans)
  show "f = g" if "subjectFilterCovers f g" "subjectFilterCovers g f" for f g
    using that unfolding subjectFilterCovers_iff by (intro Split_inj star_antisym)
  show "starMatch f s" if "subjectFilterCovers f g" "starMatch g s" for f g s
    using that unfolding subjectFilterCovers_iff starMatch_def by (rule star_trans)
qed

subsection \<open>Parsing\<close>

lemma ParseSubject_String: "validSubject s \<Longrightarrow> ParseSubject (SubjectString s) = (s, True)"
  by (simp add: ParseSubject_def Split_SubjectString Let_def validSubject_def)

lemma ParseSubject_sound:
  assumes "ParseSubject str = (s, True)"
  shows "validSubject s \<and> SubjectString s = str"
proof -
  obtain p0 p1 p2 p3 p4 where parts: "Split CHR ''.'' str = [p0, p1, p2, p3, p4]"
    using assms by (auto simp: ParseSubject_def split: list.splits)
  with assms have s: "s = \<lparr>Scope = p0, Kind = p1, AggType = p2, AggID = p3, Name = p4\<rparr>"
    and "validSubject s"
    by (auto simp: ParseSubject_def Let_def)
  with Join_Split [of "CHR ''.''" str] parts show ?thesis
    by (simp add: SubjectString_def)
qed

subsection \<open>Filters of five tokens\<close>

abbreviation filter5 :: "string \<Rightarrow> string \<Rightarrow> string \<Rightarrow> string \<Rightarrow> string \<Rightarrow> string" where
  "filter5 sc k t i n \<equiv> Join [sc, k, t, i, n] ''.''"

definition filterToken :: "string \<Rightarrow> bool" where
  "filterToken p \<longleftrightarrow> p = ''*'' \<or> validToken p"

lemma filterToken_no_dot: "filterToken p \<Longrightarrow> CHR ''.'' \<notin> set p"
  by (auto simp: filterToken_def validToken_bytes)

lemma filterToken_not_tail [simp]: "\<not> filterToken ''>''"
  by (simp add: filterToken_def)

lemma Split_filter5:
  assumes "CHR ''.'' \<notin> set sc" "CHR ''.'' \<notin> set k" "CHR ''.'' \<notin> set t" "CHR ''.'' \<notin> set i" "CHR ''.'' \<notin> set n"
  shows "Split CHR ''.'' (filter5 sc k t i n) = [sc, k, t, i, n]"
  by (rule Split_Join) (use assms in auto)

definition tokenFits :: "string \<Rightarrow> string \<Rightarrow> bool" where
  "tokenFits p t \<longleftrightarrow> p = ''*'' \<or> p = t"

lemma starMatch_filter5:
  assumes "filterToken sc" "filterToken k" "filterToken t" "filterToken i" "filterToken n"
    and "validSubject s"
  shows "starMatch (filter5 sc k t i n) (SubjectString s) \<longleftrightarrow>
     tokenFits sc (Scope s) \<and> tokenFits k (Kind s) \<and> tokenFits t (AggType s) \<and>
     tokenFits i (AggID s) \<and> tokenFits n (Name s)"
  using assms
  by (simp add: starMatch_def Split_SubjectString Split_filter5 filterToken_no_dot tokenFits_def)

lemma natsMatch_filter5:
  assumes "filterToken sc" "filterToken k" "filterToken t" "filterToken i" "filterToken n"
  shows "natsMatch (filter5 sc k t i n) s = starMatch (filter5 sc k t i n) s"
  using assms by (intro natsMatch_starMatch) (auto simp: Split_filter5 filterToken_no_dot)

lemma tokenFits_wildcardIfEmpty:
  "(\<exists>p \<in> set (wildcardIfEmpty vs). tokenFits p t) \<longleftrightarrow> vs = [] \<or> ''*'' \<in> set vs \<or> t \<in> set vs"
  by (auto simp: wildcardIfEmpty_def tokenFits_def)

lemma filterToken_wildcardIfEmpty:
  "list_all validToken vs \<Longrightarrow> p \<in> set (wildcardIfEmpty vs) \<Longrightarrow> filterToken p"
  by (auto simp: wildcardIfEmpty_def filterToken_def list_all_iff split: if_splits)

lemma list_all_validToken_no_star: "list_all validToken vs \<Longrightarrow> ''*'' \<notin> set vs"
  by (auto simp: list_all_iff)

subsection \<open>What the filters of a subscription select\<close>

definition crossFilters :: "string \<Rightarrow> string \<Rightarrow> string \<Rightarrow> string list \<Rightarrow> string list \<Rightarrow> string list" where
  "crossFilters sc k t ids names = concat (map (\<lambda>i. map (\<lambda>n. filter5 sc k t i n) names) ids)"

definition selects :: "MessageKind \<Rightarrow> string list \<Rightarrow> string list \<Rightarrow> Subject \<Rightarrow> bool" where
  "selects kind ids names s \<longleftrightarrow> Kind s = kind \<and> (ids = [] \<or> AggID s \<in> set ids) \<and>
     (names = [] \<or> Name s \<in> set names)"

lemma defaultKind_token: "optToken k \<Longrightarrow> validToken (defaultKind k KindEvent)"
  by (auto simp: defaultKind_def optToken_def kind_defs list_all_iff plainChar_def within_def
      intro!: validToken_plain)

lemma filterToken_valid: "validToken p \<Longrightarrow> filterToken p"
  by (simp add: filterToken_def)

lemma crossFilters_elim:
  assumes "f \<in> set (crossFilters sc k t ids names)"
  obtains i n where "f = filter5 sc k t i n" "i \<in> set ids" "n \<in> set names"
  using assms by (auto simp: crossFilters_def)

lemma crossFilters_matches:
  assumes "filterToken sc" "filterToken k" "filterToken t"
    and "\<And>i. i \<in> set ids \<Longrightarrow> filterToken i" "\<And>n. n \<in> set names \<Longrightarrow> filterToken n"
    and "validSubject s"
  shows "(\<exists>f \<in> set (crossFilters sc k t ids names). starMatch f (SubjectString s)) \<longleftrightarrow>
     tokenFits sc (Scope s) \<and> tokenFits k (Kind s) \<and> tokenFits t (AggType s) \<and>
     (\<exists>i \<in> set ids. tokenFits i (AggID s)) \<and> (\<exists>n \<in> set names. tokenFits n (Name s))"
  using assms by (auto simp: crossFilters_def starMatch_filter5)

lemma tokenFits_valid: "validToken p \<Longrightarrow> tokenFits p t \<longleftrightarrow> p = t"
  by (auto simp: tokenFits_def)

lemma crossFilters_selects:
  assumes "validToken sc" "validToken k" "validToken t"
    and "list_all validToken ids" "list_all validToken names" and "validSubject s"
  shows "(\<exists>f \<in> set (crossFilters sc k t (wildcardIfEmpty ids) (wildcardIfEmpty names)).
       starMatch f (SubjectString s)) \<longleftrightarrow>
     Scope s = sc \<and> AggType s = t \<and> selects k ids names s"
  using assms filterToken_wildcardIfEmpty list_all_validToken_no_star
  by (subst crossFilters_matches)
    (auto simp: tokenFits_valid filterToken_valid tokenFits_wildcardIfEmpty selects_def)

definition rawEventFilters :: "'w EventSubscriptionConfig \<Rightarrow> string \<Rightarrow> string list" where
  "rawEventFilters cfg typ =
     (if EvFilters cfg \<noteq> [] then concat (map (filterSubjects (EvScope cfg) typ) (EvFilters cfg))
      else crossFilters (EvScope cfg) (defaultKind (EvKind cfg) KindEvent) typ
        (wildcardIfEmpty (EvIDs cfg)) (wildcardIfEmpty (EvNames cfg)))"

lemma eventFilters_raw:
  "EvTypes cfg = [typ] \<Longrightarrow> eventFilters cfg = Some (compactSubjectFilters (rawEventFilters cfg typ))"
  by (simp add: eventFilters_def eventFilterSubjects_def rawEventFilters_def crossFilters_def
      wildcardIfEmpty_def)

lemma filterSubjects_cross:
  "filterSubjects sc typ f = crossFilters sc (defaultKind (FilterKind f) KindEvent) typ
     (wildcardIfEmpty (FilterIDs f)) (wildcardIfEmpty (FilterNames f))"
  by (simp add: filterSubjects_def crossFilters_def)

definition configSelects :: "'w EventSubscriptionConfig \<Rightarrow> Subject \<Rightarrow> bool" where
  "configSelects cfg s \<longleftrightarrow>
     (if EvFilters cfg \<noteq> []
      then \<exists>f \<in> set (EvFilters cfg).
        selects (defaultKind (FilterKind f) KindEvent) (FilterIDs f) (FilterNames f) s
      else selects (defaultKind (EvKind cfg) KindEvent) (EvIDs cfg) (EvNames cfg) s)"

lemma validEventConfig_tokens:
  assumes "validEventConfig cfg" "EvTypes cfg = [typ]"
  shows "validToken (EvScope cfg)" "validToken typ" "validToken (defaultKind (EvKind cfg) KindEvent)"
    and "f \<in> set (EvFilters cfg) \<Longrightarrow> validFilter f"
    and "f \<in> set (EvFilters cfg) \<Longrightarrow> validToken (defaultKind (FilterKind f) KindEvent)"
  using assms
  by (auto simp: validEventConfig_def optToken_def list_all_iff validFilter_def intro!: defaultKind_token)

lemma rawEventFilters_selects:
  assumes c: "validEventConfig cfg" and t: "EvTypes cfg = [typ]" and s: "validSubject s"
  shows "(\<exists>f \<in> set (rawEventFilters cfg typ). starMatch f (SubjectString s)) \<longleftrightarrow>
     Scope s = EvScope cfg \<and> AggType s = typ \<and> configSelects cfg s"
proof (cases "EvFilters cfg = []")
  case True
  have "list_all validToken (EvIDs cfg)" "list_all validToken (EvNames cfg)"
    using c by (auto simp: validEventConfig_def)
  with True show ?thesis
    by (simp add: rawEventFilters_def configSelects_def crossFilters_selects
        validEventConfig_tokens [OF c t] s)
next
  case False
  have "(\<exists>g \<in> set (filterSubjects (EvScope cfg) typ f). starMatch g (SubjectString s)) \<longleftrightarrow>
      Scope s = EvScope cfg \<and> AggType s = typ \<and>
      selects (defaultKind (FilterKind f) KindEvent) (FilterIDs f) (FilterNames f) s"
    if "f \<in> set (EvFilters cfg)" for f
    using validEventConfig_tokens [OF c t] that unfolding filterSubjects_cross
    by (intro crossFilters_selects) (auto simp: validFilter_def s)
  with False show ?thesis
    by (auto simp: rawEventFilters_def configSelects_def)
qed

lemma crossFilters_star:
  assumes "validToken sc" "validToken k" "validToken t"
    and "list_all validToken ids" "list_all validToken names"
    and "f \<in> set (crossFilters sc k t (wildcardIfEmpty ids) (wildcardIfEmpty names))"
  shows "natsMatch f u = starMatch f u"
  using assms(6)
  by (rule crossFilters_elim)
    (use assms filterToken_wildcardIfEmpty in \<open>simp add: natsMatch_filter5 filterToken_valid\<close>)

lemma rawEventFilters_star:
  assumes c: "validEventConfig cfg" and t: "EvTypes cfg = [typ]"
    and f: "f \<in> set (rawEventFilters cfg typ)"
  shows "natsMatch f u = starMatch f u"
proof (cases "EvFilters cfg = []")
  case True
  have "list_all validToken (EvIDs cfg)" "list_all validToken (EvNames cfg)"
    using c by (auto simp: validEventConfig_def)
  with True f show ?thesis
    by (intro crossFilters_star [OF validEventConfig_tokens(1,3,2) [OF c t]])
      (auto simp: rawEventFilters_def)
next
  case False
  with f obtain g where "g \<in> set (EvFilters cfg)" "f \<in> set (filterSubjects (EvScope cfg) typ g)"
    by (auto simp: rawEventFilters_def)
  with validEventConfig_tokens [OF c t] show ?thesis
    unfolding filterSubjects_cross by (intro crossFilters_star [of "EvScope cfg"]) (auto simp: validFilter_def)
qed

lemma eventFilters_select:
  assumes c: "validEventConfig cfg" and t: "EvTypes cfg = [typ]" and s: "validSubject s"
    and fs: "eventFilters cfg = Some fs"
  shows "(\<exists>f \<in> set fs. natsMatch f (SubjectString s)) \<longleftrightarrow>
     Scope s = EvScope cfg \<and> AggType s = typ \<and> configSelects cfg s"
proof -
  have fs': "fs = compactSubjectFilters (rawEventFilters cfg typ)"
    using fs by (simp add: eventFilters_raw [OF t])
  have "(\<exists>f \<in> set fs. natsMatch f (SubjectString s)) \<longleftrightarrow>
      (\<exists>f \<in> set fs. starMatch f (SubjectString s))"
    using rawEventFilters_star [OF c t] subj_filters.compact_subset
    unfolding fs' compactSubjectFilters_def by blast
  also have "\<dots> \<longleftrightarrow> (\<exists>f \<in> set (rawEventFilters cfg typ). starMatch f (SubjectString s))"
    unfolding fs' compactSubjectFilters_def by (rule subj_filters.compact_matches)
  finally show ?thesis by (simp add: rawEventFilters_selects [OF c t s])
qed

subsection \<open>Consumer names\<close>

lemma encodeRune_ascii: "(b :: nat) \<in> set (encodeRune r) \<Longrightarrow> b < 128 \<Longrightarrow> b = r"
  by (auto simp: encodeRune_def split: if_splits)

lemma encodeRune_byte: "b \<in> set (encodeRune r) \<Longrightarrow> b < 256"
  by (auto simp: encodeRune_def within_def split: if_splits)

lemma runeString_ascii:
  assumes "c \<in> set (runeString r)" "of_char c < (128::nat)"
  shows "of_char c = r"
  using assms encodeRune_byte [of _ r] encodeRune_ascii [of _ r]
  by (auto simp: runeString_def of_char_of)

definition cleanChar :: "char \<Rightarrow> bool" where
  "cleanChar c \<longleftrightarrow> (of_char c < (128::nat) \<longrightarrow> \<not> reservedRune (of_char c))"

lemma cleanChar_underscore: "cleanChar CHR ''_''"
  by (simp add: cleanChar_def reservedRune_def IsSpace_def IsPrint_def within_def)

lemma cleanChar_hex: "of_char c \<in> {48..57} \<union> {97..102 :: nat} \<Longrightarrow> cleanChar c"
  by (auto simp: cleanChar_def reservedRune_def IsSpace_def IsPrint_def within_def)

lemma sanitizeRunes_clean: "c \<in> set (sanitizeRunes name) \<Longrightarrow> cleanChar c"
  using cleanChar_underscore runeString_ascii
  by (fastforce simp: sanitizeRunes_def cleanChar_def split: if_splits)

lemma set_TrimChar: "set (TrimChar s c) \<subseteq> set s"
  by (auto simp: TrimChar_def dest!: set_dropWhileD)

lemma goevent_clean: "\<forall>c \<in> set ''goevent''. cleanChar c"
  by (simp add: cleanChar_def reservedRune_def IsSpace_def IsPrint_def within_def)

lemma sanitizeName_cases:
  obtains (empty) "sanitizeName name = ''goevent''"
    | (short) out where "sanitizeName name = out" "out \<noteq> []" "length out \<le> 48"
        "set out \<subseteq> set (sanitizeRunes name)"
    | (long) out where "48 < length out" "set out \<subseteq> set (sanitizeRunes name)"
        "sanitizeName name = take 35 out @ CHR ''_'' # take 12 (hexEncode (sha1Sum out))"
  using set_TrimChar [of "sanitizeRunes name" "CHR ''_''"]
  by (cases "TrimChar (sanitizeRunes name) CHR ''_'' = []";
      cases "48 < length (TrimChar (sanitizeRunes name) CHR ''_'')")
    (auto simp: sanitizeName_def Let_def)

lemma sanitizeName_clean: "c \<in> set (sanitizeName name) \<Longrightarrow> cleanChar c"
  by (cases rule: sanitizeName_cases [of name])
    (use goevent_clean sanitizeRunes_clean cleanChar_underscore in
      \<open>auto dest!: in_set_takeD dest: cleanChar_hex [OF hexEncode_range]\<close>)

lemma sanitizeName_length: "sanitizeName name \<noteq> [] \<and> length (sanitizeName name) \<le> 48"
  by (cases rule: sanitizeName_cases [of name]) auto

lemma plain_ascii: "list_all plainChar s \<Longrightarrow> \<forall>c \<in> set s. of_char c < (128::nat)"
  by (auto simp: list_all_iff plainChar_def within_def)

lemma sanitizeRunes_plain:
  assumes "list_all plainChar s"
  shows "sanitizeRunes s = s"
proof -
  have "(if reservedRune (of_char c) then ''_'' else runeString (of_char c)) = [c]" if "c \<in> set s" for c
    using assms that plain_ascii [OF assms] plainChar_not_reserved [of c]
    by (auto simp: list_all_iff runeString_def encodeRune_def)
  then have "map (\<lambda>r. if reservedRune r then ''_'' else runeString r) (bytesOf s) = map (\<lambda>c. [c]) s"
    by simp
  then show ?thesis
    by (simp add: sanitizeRunes_def runes_all_ascii [OF plain_ascii [OF assms]] concat_map_singleton
        del: map_map)
qed

lemma TrimChar_id: "s \<noteq> [] \<Longrightarrow> hd s \<noteq> c \<Longrightarrow> last s \<noteq> c \<Longrightarrow> TrimChar s c = s"
proof -
  assume s: "s \<noteq> []" "hd s \<noteq> c" "last s \<noteq> c"
  have "dropWhile (\<lambda>x. x = c) s = s" using s by (cases s) auto
  moreover have "dropWhile (\<lambda>x. x = c) (rev s) = rev s" using s by (cases s rule: rev_cases) auto
  ultimately show ?thesis by (simp add: TrimChar_def)
qed

subsection \<open>Command filters\<close>

definition commandSelects :: "MessageKind \<Rightarrow> CommandSubscriptionConfig \<Rightarrow> Subject \<Rightarrow> bool" where
  "commandSelects kind cfg s \<longleftrightarrow>
     Kind s = (if CmdKind cfg \<noteq> [] then CmdKind cfg else kind) \<and>
     (CmdScope cfg = [] \<or> Scope s = CmdScope cfg) \<and>
     (CmdTypes cfg = [] \<or> AggType s \<in> set (CmdTypes cfg)) \<and>
     (CmdIDs cfg = [] \<or> AggID s \<in> set (CmdIDs cfg)) \<and>
     (CmdNames cfg = [] \<or> Name s \<in> set (CmdNames cfg))"

definition commandScope :: "CommandSubscriptionConfig \<Rightarrow> string" where
  "commandScope cfg = (if CmdScope cfg = [] then ''*'' else CmdScope cfg)"

definition commandKind :: "MessageKind \<Rightarrow> CommandSubscriptionConfig \<Rightarrow> MessageKind" where
  "commandKind kind cfg = (if CmdKind cfg \<noteq> [] then CmdKind cfg else kind)"

lemma commandFilters_cross:
  "commandFilters kind cfg = concat (map (\<lambda>typ. crossFilters (commandScope cfg) (commandKind kind cfg) typ
     (wildcardIfEmpty (CmdIDs cfg)) (wildcardIfEmpty (CmdNames cfg))) (wildcardIfEmpty (CmdTypes cfg)))"
  by (simp add: commandFilters_def crossFilters_def commandScope_def commandKind_def Let_def)

lemma command_tokens:
  assumes "validCommandConfig cfg" "validToken kind"
  shows "filterToken (commandScope cfg)" "validToken (commandKind kind cfg)"
    and "\<And>p. p \<in> set (wildcardIfEmpty (CmdTypes cfg)) \<Longrightarrow> filterToken p"
    and "\<And>p. p \<in> set (wildcardIfEmpty (CmdIDs cfg)) \<Longrightarrow> filterToken p"
    and "\<And>p. p \<in> set (wildcardIfEmpty (CmdNames cfg)) \<Longrightarrow> filterToken p"
  using assms filterToken_wildcardIfEmpty
  by (auto simp: validCommandConfig_def commandScope_def commandKind_def optToken_def filterToken_def)

lemma commandFilters_star:
  assumes "validCommandConfig cfg" "validToken kind" "f \<in> set (commandFilters kind cfg)"
  shows "natsMatch f u = starMatch f u"
  using assms(3) command_tokens [OF assms(1,2)]
  by (auto simp: commandFilters_cross filterToken_valid natsMatch_filter5 elim!: crossFilters_elim)

lemma commandFilters_select:
  assumes cfg: "validCommandConfig cfg" "validToken kind" and s: "validSubject s"
  shows "(\<exists>f \<in> set (commandFilters kind cfg). starMatch f (SubjectString s)) \<longleftrightarrow> commandSelects kind cfg s"
proof -
  note toks = command_tokens [OF cfg]
  have "(\<exists>f \<in> set (commandFilters kind cfg). starMatch f (SubjectString s)) \<longleftrightarrow>
      (\<exists>typ \<in> set (wildcardIfEmpty (CmdTypes cfg)). \<exists>f \<in> set (crossFilters (commandScope cfg)
         (commandKind kind cfg) typ (wildcardIfEmpty (CmdIDs cfg)) (wildcardIfEmpty (CmdNames cfg))).
         starMatch f (SubjectString s))"
    by (auto simp: commandFilters_cross)
  also have "\<dots> \<longleftrightarrow> (\<exists>typ \<in> set (wildcardIfEmpty (CmdTypes cfg)).
      tokenFits (commandScope cfg) (Scope s) \<and> tokenFits (commandKind kind cfg) (Kind s) \<and>
      tokenFits typ (AggType s) \<and> (\<exists>i \<in> set (wildcardIfEmpty (CmdIDs cfg)). tokenFits i (AggID s)) \<and>
      (\<exists>n \<in> set (wildcardIfEmpty (CmdNames cfg)). tokenFits n (Name s)))"
    using toks by (intro bex_cong refl crossFilters_matches) (auto simp: filterToken_valid s)
  also have "\<dots> \<longleftrightarrow> tokenFits (commandScope cfg) (Scope s) \<and> tokenFits (commandKind kind cfg) (Kind s) \<and>
      (\<exists>typ \<in> set (wildcardIfEmpty (CmdTypes cfg)). tokenFits typ (AggType s)) \<and>
      (\<exists>i \<in> set (wildcardIfEmpty (CmdIDs cfg)). tokenFits i (AggID s)) \<and>
      (\<exists>n \<in> set (wildcardIfEmpty (CmdNames cfg)). tokenFits n (Name s))"
    by blast
  also have "\<dots> \<longleftrightarrow> commandSelects kind cfg s"
  proof -
    have "tokenFits (commandScope cfg) (Scope s) \<longleftrightarrow> CmdScope cfg = [] \<or> Scope s = CmdScope cfg"
      using cfg(1) by (auto simp: commandScope_def tokenFits_def validCommandConfig_def optToken_def)
    moreover have "tokenFits (commandKind kind cfg) (Kind s) \<longleftrightarrow> Kind s = commandKind kind cfg"
      using toks(2) by (auto simp: tokenFits_valid)
    moreover have "''*'' \<notin> set (CmdTypes cfg)" "''*'' \<notin> set (CmdIDs cfg)" "''*'' \<notin> set (CmdNames cfg)"
      using cfg(1) list_all_validToken_no_star by (simp_all add: validCommandConfig_def)
    ultimately show ?thesis
      by (simp add: tokenFits_wildcardIfEmpty commandSelects_def commandKind_def conj_commute conj_left_commute)
  qed
  finally show ?thesis .
qed

subsection \<open>Properties\<close>

lemma nats_ex_tokens:
  "validToken ''sales''" "validToken ''order''" "validToken ''o1''" "validToken ''created''"
  "validToken ''event''" "validToken ''command''" "validToken ''create''"
  by (simp_all add: validToken_plain plainChar_def within_def)

text \<open>C11. The wire form of a subject and its parser are mutually inverse on valid subjects:
  \<^verbatim>\<open>ParseSubject\<close> accepts a string with the result \<open>s\<close> exactly when \<open>s\<close> passes
  \<^verbatim>\<open>Subject.Validate\<close> and the string is \<open>s\<close>'s own wire form.\<close>

theorem ParseSubject_iff:
  "ParseSubject str = (s, True) \<longleftrightarrow> SubjectValidate s = None \<and> SubjectString s = str"
  using ParseSubject_sound ParseSubject_String by auto

text \<open>C22. The filter of the event store's concurrency check isolates one aggregate: among valid subjects,
  \<^verbatim>\<open>AggregateMessageFilter\<close> matches exactly the messages of kind event of that scope, aggregate type
  and aggregate id, whatever their name.\<close>

theorem AggregateMessageFilter_isolates:
  assumes "validToken sc" "validToken t" "validToken i" "validSubject s"
  shows "natsMatch (AggregateMessageFilter sc t i) (SubjectString s) \<longleftrightarrow>
     Scope s = sc \<and> Kind s = KindEvent \<and> AggType s = t \<and> AggID s = i"
proof -
  have "Split CHR ''.'' (AggregateMessageFilter sc t i) = [sc, KindEvent, t, i, ''>'']"
    unfolding AggregateMessageFilter_def
    by (rule Split_filter5) (use assms in \<open>auto simp: validToken_bytes kind_defs\<close>)
  moreover have "sc \<noteq> ''*''" "sc \<noteq> ''>''" "t \<noteq> ''*''" "t \<noteq> ''>''" "i \<noteq> ''*''" "i \<noteq> ''>''"
    using assms by auto
  ultimately show ?thesis
    by (auto simp: natsMatch_def Split_SubjectString [OF assms(4)] kind_defs)
qed

theorem AggregateMessageFilter_isolates_witness:
  "natsMatch (AggregateMessageFilter ''sales'' ''order'' ''o1'')
     (SubjectString \<lparr>Scope = ''sales'', Kind = ''event'', AggType = ''order'', AggID = ''o1'', Name = ''created''\<rparr>)"
  by (subst AggregateMessageFilter_isolates) (simp_all add: nats_ex_tokens validSubject_def kind_defs)

text \<open>C21. Compacting wire filters loses nothing and leaves nothing to drop: the compacted list selects
  the same subjects as the original, is sorted and free of repetitions, and no filter in it is covered
  by another one.\<close>

theorem compactSubjectFilters_correct:
  "((\<exists>g \<in> set (compactSubjectFilters fs). starMatch g subj) \<longleftrightarrow> (\<exists>f \<in> set fs. starMatch f subj)) \<and>
   sorted (compactSubjectFilters fs) \<and> distinct (compactSubjectFilters fs) \<and>
   set (compactSubjectFilters fs) \<subseteq> set fs \<and>
   {(g, h). g \<in> set (compactSubjectFilters fs) \<and> h \<in> set (compactSubjectFilters fs) \<and>
      g \<noteq> h \<and> subjectFilterCovers g h} = {}"
  unfolding compactSubjectFilters_def
  using subj_filters.compact_irredundant [of _ fs]
  by (intro conjI subj_filters.compact_matches subj_filters.compact_sorted
      subj_filters.compact_distinct subj_filters.compact_subset) auto

text \<open>C31. A command or query subscription hears exactly what its configuration names: for a configuration
  that passes validation and a valid default kind, some filter of \<^verbatim>\<open>commandFilters\<close> matches the wire
  form of a valid subject precisely when the subject's kind, scope, aggregate type, aggregate id and
  name are among the configured ones, an empty list or scope meaning any.\<close>

theorem commandFilters_exact:
  assumes "CommandConfigValidate cfg = None" "ValidateToken label kind = None" "SubjectValidate s = None"
  shows "(\<exists>f \<in> set (commandFilters kind cfg). natsMatch f (SubjectString s)) \<longleftrightarrow> commandSelects kind cfg s"
  using assms commandFilters_select commandFilters_star
  by (simp add: CommandConfigValidate_None cong: bex_cong)

definition exCmdConfig :: CommandSubscriptionConfig where
  "exCmdConfig = \<lparr>CmdScope = ''sales'', CmdKind = [], CmdTypes = [''order''], CmdIDs = [],
     CmdNames = [''create''], CmdQueue = []\<rparr>"

theorem commandFilters_exact_witness:
  "\<exists>f \<in> set (commandFilters KindCommand exCmdConfig). natsMatch f
     (SubjectString \<lparr>Scope = ''sales'', Kind = ''command'', AggType = ''order'', AggID = ''o1'', Name = ''create''\<rparr>)"
  by (subst commandFilters_exact [where label = "''kind''"])
    (simp_all add: CommandConfigValidate_None exCmdConfig_def validCommandConfig_def optToken_def
      nats_ex_tokens kind_defs validSubject_def commandSelects_def)

text \<open>A sanitised consumer name is always acceptable to the server: it has between 1 and 48 bytes and
  none of the characters dot, star, greater-than, slash, backslash or space, whatever the queue name
  was.\<close>

theorem sanitizeName_safe:
  "0 < length (sanitizeName name) \<and> length (sanitizeName name) \<le> 48 \<and>
   set (sanitizeName name) \<inter> {CHR ''.'', CHR ''*'', CHR ''>'', CHR ''/'', CHR 0x5C, CHR '' ''} = {}"
proof -
  have "\<not> cleanChar c" if "c \<in> {CHR ''.'', CHR ''*'', CHR ''>'', CHR ''/'', CHR 0x5C, CHR '' ''}" for c
    using that by (auto simp: cleanChar_def reserved_ascii)
  then show ?thesis
    using sanitizeName_length [of name] sanitizeName_clean [of _ name] by blast
qed

text \<open>A queue name that is already a clean token of at most 48 bytes, not starting or ending with an
  underscore, names its durable consumer unchanged.\<close>

theorem sanitizeName_identity:
  assumes "list_all plainChar name" "name \<noteq> []" "length name \<le> 48"
    and "hd name \<noteq> CHR ''_''" "last name \<noteq> CHR ''_''"
  shows "sanitizeName name = name"
  using assms by (simp add: sanitizeName_def sanitizeRunes_plain TrimChar_id)

theorem sanitizeName_identity_witness: "sanitizeName ''order-workers'' = ''order-workers''"
  by (rule sanitizeName_identity) (simp_all add: plainChar_def within_def)

text \<open>With the default pattern the stream of an aggregate type is the upper-cased scope and type
  joined by underscores with the suffix EVENTS.\<close>

theorem StreamName_default:
  "StreamName [] scope aggType = ToUpper scope @ ''_'' @ ToUpper aggType @ ''_EVENTS''"
  by (simp add: StreamName_def DefaultStreamPattern_def Replace2.simps)

end
