(* ===== verification/JetStream.thy ===== *)
theory JetStream
  imports NatsSubjects
begin

section \<open>The JetStream client\<close>

text \<open>
  What \<^verbatim>\<open>src/nats\<close> uses of the NATS client library, as a record of operations on a world \<open>'w\<close>: the
  library and the server are parameters of the model. The world of one call already contains what other
  clients did meanwhile. The second half of the theory states the documented behaviour the event store
  relies on, as predicates on such a record and on a view of the world, the messages of each stream;
  a server that keeps its messages in memory satisfies them.
\<close>

subsection \<open>Messages and configurations\<close>

record natsMsg =
  msgSubject :: string
  msgHeader :: "(string \<times> string) list"
  msgData :: payload

text \<open>A stored message, \<^verbatim>\<open>RawStreamMsg\<close>; a time is a number of nanoseconds.\<close>

record rawMsg =
  rawSubject :: string
  rawData :: payload
  rawTime :: int
  rawSeq :: uint64

record MsgMetadata =
  metaStreamSeq :: uint64
  metaConsumerSeq :: uint64
  metaNumDelivered :: uint64
  metaNumPending :: uint64
  metaTimestamp :: int

record jsMsg =
  jsSubject :: string
  jsData :: payload
  jsMetadata :: "goerror + MsgMetadata"

datatype DeliverPolicy = DeliverAllPolicy | DeliverNewPolicy | DeliverByStartSequencePolicy
datatype AckPolicy = AckExplicitPolicy | AckNonePolicy
datatype ReplayPolicy = ReplayInstantPolicy

record OrderedConsumerConfig =
  ocFilterSubjects :: "string list"
  ocDeliverPolicy :: DeliverPolicy
  ocOptStartSeq :: uint64
  ocInactiveThreshold :: int

record ConsumerConfig =
  ccName :: string
  ccDurable :: string
  ccFilterSubject :: string
  ccFilterSubjects :: "string list"
  ccAckPolicy :: AckPolicy
  ccDeliverPolicy :: DeliverPolicy
  ccReplayPolicy :: ReplayPolicy
  ccOptStartSeq :: uint64
  ccAckWait :: int
  ccMaxDeliver :: int
  ccInactiveThreshold :: int

text \<open>
  The operations: a consumer \<open>'c\<close>, an iterator over its messages \<open>'it\<close>. \<open>ctxErr\<close> is \<^verbatim>\<open>ctx.Err()\<close>,
  \<open>waitCtx\<close> the select between a timer and the context (false when the context ended the wait);
  \<open>cleanupErr\<close> and \<open>cleanupWait\<close> are the same for the five-second context of a cleanup; \<open>nuidNext\<close> is
  the generator of unique identifiers. \<open>itNext\<close> is \<open>None\<close> when the call blocks forever.
\<close>

record ('c, 'it, 'w) jetstream =
  jsStream :: "string \<Rightarrow> 'w \<Rightarrow> goerror option \<times> 'w"
  jsPublishMsg :: "natsMsg \<Rightarrow> string \<Rightarrow> uint64 \<Rightarrow> string \<Rightarrow> 'w \<Rightarrow> (goerror + uint64) \<times> 'w"
  jsPublish :: "string \<Rightarrow> payload \<Rightarrow> 'w \<Rightarrow> (goerror + uint64) \<times> 'w"
  ncRequestMsg :: "natsMsg \<Rightarrow> 'w \<Rightarrow> (goerror + payload) \<times> 'w"
  jsGetLastMsg :: "string \<Rightarrow> string \<Rightarrow> 'w \<Rightarrow> (goerror + rawMsg) \<times> 'w"
  jsOrderedConsumer :: "string \<Rightarrow> OrderedConsumerConfig \<Rightarrow> 'w \<Rightarrow> (goerror + 'c) \<times> 'w"
  jsCreateConsumer :: "string \<Rightarrow> ConsumerConfig \<Rightarrow> 'w \<Rightarrow> (goerror + 'c) \<times> 'w"
  jsDeleteConsumer :: "string \<Rightarrow> string \<Rightarrow> 'w \<Rightarrow> goerror option \<times> 'w"
  cachedPending :: "'c \<Rightarrow> uint64 option"
  consMessages :: "'c \<Rightarrow> 'w \<Rightarrow> (goerror + 'it) \<times> 'w"
  itNext :: "'it \<Rightarrow> 'w \<Rightarrow> ((goerror + jsMsg) \<times> 'w) option"
  itStop :: "'it \<Rightarrow> 'w \<Rightarrow> 'w"
  ctxErr :: "'w \<Rightarrow> goerror option"
  waitCtx :: "int \<Rightarrow> 'w \<Rightarrow> bool \<times> 'w"
  cleanupErr :: "'w \<Rightarrow> goerror option"
  cleanupWait :: "int \<Rightarrow> 'w \<Rightarrow> bool \<times> 'w"
  warnLog :: "string \<Rightarrow> 'w \<Rightarrow> 'w"
  nuidNext :: "'w \<Rightarrow> string \<times> 'w"

subsection \<open>Headers\<close>

text \<open>\<^verbatim>\<open>Header.Set\<close> replaces the value of a key, \<^verbatim>\<open>Header.Get\<close> returns the empty string for none.\<close>

definition headerSet :: "string \<Rightarrow> string \<Rightarrow> natsMsg \<Rightarrow> natsMsg" where
  "headerSet k v m = m\<lparr>msgHeader := filter (\<lambda>(k', _). k' \<noteq> k) (msgHeader m) @ [(k, v)]\<rparr>"

definition headerGet :: "string \<Rightarrow> natsMsg \<Rightarrow> string" where
  "headerGet k m = (case map_of (msgHeader m) k of Some v \<Rightarrow> v | None \<Rightarrow> [])"

lemma headerGet_Set: "headerGet k (headerSet k' v m) = (if k = k' then v else headerGet k m)"
proof -
  have "map_of (filter (\<lambda>(j, _). j \<noteq> k') h @ [(k', v)]) k = (if k = k' then Some v else map_of h k)"
    for h :: "(string \<times> string) list"
    by (induction h) auto
  then show ?thesis by (simp add: headerGet_def headerSet_def)
qed

lemma headerSet_fields [simp]:
  "msgSubject (headerSet k v m) = msgSubject m" "msgData (headerSet k v m) = msgData m"
  by (simp_all add: headerSet_def)

definition batchIDHeader :: string where "batchIDHeader = ''Nats-Batch-Id''"
definition batchSeqHeader :: string where "batchSeqHeader = ''Nats-Batch-Sequence''"
definition batchCommitHeader :: string where "batchCommitHeader = ''Nats-Batch-Commit''"
definition ExpectedStreamHeader :: string where "ExpectedStreamHeader = ''Nats-Expected-Stream''"
definition ExpectedLastSubjSeqHeader :: string where
  "ExpectedLastSubjSeqHeader = ''Nats-Expected-Last-Subject-Sequence''"
definition ExpectedLastSubjSeqSubjHeader :: string where
  "ExpectedLastSubjSeqSubjHeader = ''Nats-Expected-Last-Subject-Sequence-Subject''"

lemmas header_defs = batchIDHeader_def batchSeqHeader_def batchCommitHeader_def ExpectedStreamHeader_def
  ExpectedLastSubjSeqHeader_def ExpectedLastSubjSeqSubjHeader_def

subsection \<open>Publish acknowledgements\<close>

text \<open>
  \<^verbatim>\<open>pubAckResponse\<close>: \<^verbatim>\<open>json.Unmarshal\<close> of an acknowledgement gives the sequence, and the code and
  description of the error when the member error is an object. A text that is not such an object, or
  whose members have the wrong type, is an error.
\<close>

fun intField :: "json list \<Rightarrow> int \<Rightarrow> int option" where
  "intField [] n = Some n"
| "intField (JNull # js) n = intField js n"
| "intField (JNum m # js) n = intField js m"
| "intField (_ # js) n = None"

definition inUint64 :: "int \<Rightarrow> bool" where
  "inUint64 n \<longleftrightarrow> 0 \<le> n \<and> n < 2 ^ 64"

definition inInt64 :: "int \<Rightarrow> bool" where
  "inInt64 n \<longleftrightarrow> - (2 ^ 63) \<le> n \<and> n < 2 ^ 63"

datatype pubAckResponse = pubAckResponse (ackSequence: uint64) (ackError: "(int \<times> string) option")

text \<open>The members error: null keeps nil, an object is decoded into the same value again.\<close>

fun errorField :: "json list \<Rightarrow> (int \<times> string) option \<Rightarrow> (int \<times> string) option option" where
  "errorField [] e = Some e"
| "errorField (JNull # js) e = errorField js None"
| "errorField (JObj ms # js) e =
     (let (code, desc) = (case e of Some cd \<Rightarrow> cd | None \<Rightarrow> (0, [])) in
      case (intField (membersOf ''code'' ms) 0, intField (membersOf ''err_code'' ms) code,
            stringField (membersOf ''description'' ms) desc) of
        (Some c, Some code', Some desc') \<Rightarrow>
          if inInt64 c \<and> inInt64 code' then errorField js (Some (code', desc')) else None
      | _ \<Rightarrow> None)"
| "errorField (_ # js) e = None"

definition decodeAck :: "payload \<Rightarrow> pubAckResponse option" where
  "decodeAck p = (case p of
     Json JNull \<Rightarrow> Some (pubAckResponse 0 None)
   | Json (JObj ms) \<Rightarrow>
       (case (stringField (membersOf ''stream'' ms) [], intField (membersOf ''seq'' ms) 0,
              errorField (membersOf ''error'' ms) None) of
          (Some _, Some seq, Some err) \<Rightarrow>
            if inUint64 seq then Some (pubAckResponse (of_int seq) err) else None
        | _ \<Rightarrow> None)
   | _ \<Rightarrow> None)"

subsection \<open>Documented behaviour\<close>

text \<open>The messages of each stream, oldest first, as a view of the world.\<close>

type_synonym 'w streamView = "string \<Rightarrow> 'w \<Rightarrow> rawMsg list"

definition matching :: "string \<Rightarrow> rawMsg list \<Rightarrow> rawMsg list" where
  "matching flt ms = filter (\<lambda>m. natsMatch flt (rawSubject m)) ms"

definition lastSeqFor :: "string \<Rightarrow> rawMsg list \<Rightarrow> uint64" where
  "lastSeqFor flt ms = (if matching flt ms = [] then 0 else rawSeq (last (matching flt ms)))"

text \<open>Other clients may append to a stream while a call is under way; nothing is removed.\<close>

definition grows :: "'w streamView \<Rightarrow> 'w \<Rightarrow> 'w \<Rightarrow> bool" where
  "grows view w w' \<longleftrightarrow> (\<forall>S. \<exists>more. view S w' = view S w @ more)"

lemma grows_refl [simp, intro]: "grows view w w"
  by (simp add: grows_def)

lemma grows_trans [trans]: "grows view w w' \<Longrightarrow> grows view w' w'' \<Longrightarrow> grows view w w''"
  unfolding grows_def by (metis append.assoc)

text \<open>
  A publish with an expected last sequence for a subject filter is acknowledged only if the last
  message of the stream that matches the filter has that sequence (0 for none); the message is then
  the new end of the stream.
\<close>

definition publishLaw :: "('c, 'it, 'w) jetstream \<Rightarrow> 'w streamView \<Rightarrow> bool" where
  "publishLaw js view \<longleftrightarrow> (\<forall>msg S expected flt w seq w'.
     jsPublishMsg js msg S expected flt w = (Inr seq, w') \<longrightarrow>
     (\<exists>more t. view S w' = view S w @ more @
          [\<lparr>rawSubject = msgSubject msg, rawData = msgData msg, rawTime = t, rawSeq = seq\<rparr>] \<and>
        lastSeqFor flt (view S w @ more) = expected))"

text \<open>
  An atomic batch: the server stages the messages of a batch identifier, numbered from 1, and on the
  commit header checks the expectations of the first one and appends them all at once. A reply that is
  empty or an acknowledgement without error means that the message was accepted.
\<close>

definition accepted :: "payload \<Rightarrow> bool" where
  "accepted resp \<longleftrightarrow> resp = emptyPayload \<or> (\<exists>ack. decodeAck resp = Some ack \<and> ackError ack = None)"

definition numbered :: "natsMsg list \<Rightarrow> bool" where
  "numbered ms \<longleftrightarrow> (\<forall>i < length ms. headerGet batchSeqHeader (ms ! i) = Itoa (int (i + 1)))"

definition batchLaw :: "('c, 'it, 'w) jetstream \<Rightarrow> 'w streamView \<Rightarrow> (string \<Rightarrow> 'w \<Rightarrow> natsMsg list) \<Rightarrow> bool" where
  "batchLaw js view staged \<longleftrightarrow>
     (\<forall>w B w'. nuidNext js w = (B, w') \<longrightarrow> staged B w' = [] \<and> grows view w w') \<and>
     (\<forall>msg w resp w'. ncRequestMsg js msg w = (Inr resp, w') \<and> accepted resp \<and>
        headerGet batchCommitHeader msg \<noteq> ''1'' \<longrightarrow>
        staged (headerGet batchIDHeader msg) w' = staged (headerGet batchIDHeader msg) w @ [msg] \<and> grows view w w') \<and>
     (\<forall>msg w resp w' ms S expected. ncRequestMsg js msg w = (Inr resp, w') \<and> accepted resp \<and>
        headerGet batchCommitHeader msg = ''1'' \<and> ms = staged (headerGet batchIDHeader msg) w @ [msg] \<and>
        numbered ms \<and> headerGet ExpectedStreamHeader (hd ms) = S \<and>
        headerGet ExpectedLastSubjSeqHeader (hd ms) = Itoa (uint expected) \<longrightarrow>
        (\<exists>more app. view S w' = view S w @ more @ app \<and>
           map (\<lambda>m. (rawSubject m, rawData m)) app = map (\<lambda>m. (msgSubject m, msgData m)) ms \<and>
           lastSeqFor (headerGet ExpectedLastSubjSeqSubjHeader (hd ms)) (view S w @ more) = expected))"

lemma batch_fresh: "batchLaw js view staged \<Longrightarrow> nuidNext js w = (B, w') \<Longrightarrow> staged B w' = [] \<and> grows view w w'"
  by (simp add: batchLaw_def)

lemma batch_staged:
  assumes "batchLaw js view staged" "ncRequestMsg js msg w = (Inr resp, w')" "accepted resp"
    "headerGet batchCommitHeader msg \<noteq> ''1''" "headerGet batchIDHeader msg = B"
  shows "staged B w' = staged B w @ [msg]" "grows view w w'"
  using assms(1) [unfolded batchLaw_def, THEN conjunct2, THEN conjunct1, rule_format, of msg w resp w'] assms(2-5)
  by simp_all

lemma batch_commit:
  assumes "batchLaw js view staged" "ncRequestMsg js msg w = (Inr resp, w')" "accepted resp"
    "headerGet batchCommitHeader msg = ''1''" "headerGet batchIDHeader msg = B" "ms = staged B w @ [msg]" "numbered ms"
    "headerGet ExpectedStreamHeader (hd ms) = S" "headerGet ExpectedLastSubjSeqHeader (hd ms) = Itoa (uint expected)"
  shows "\<exists>more app. view S w' = view S w @ more @ app \<and>
     map (\<lambda>m. (rawSubject m, rawData m)) app = map (\<lambda>m. (msgSubject m, msgData m)) ms \<and>
     lastSeqFor (headerGet ExpectedLastSubjSeqSubjHeader (hd ms)) (view S w @ more) = expected"
  using assms(1) [unfolded batchLaw_def, THEN conjunct2, THEN conjunct2, rule_format, of msg w resp w' ms S expected]
    assms(2-9)
  by simp

text \<open>Every other call leaves what is stored alone.\<close>

definition readLaw :: "('c, 'it, 'w) jetstream \<Rightarrow> 'w streamView \<Rightarrow> bool" where
  "readLaw js view \<longleftrightarrow>
     (\<forall>S w. grows view w (snd (jsStream js S w))) \<and>
     (\<forall>S subj w. grows view w (snd (jsGetLastMsg js S subj w))) \<and>
     (\<forall>S cfg w. grows view w (snd (jsOrderedConsumer js S cfg w))) \<and>
     (\<forall>S cfg w. grows view w (snd (jsCreateConsumer js S cfg w))) \<and>
     (\<forall>S n w. grows view w (snd (jsDeleteConsumer js S n w))) \<and>
     (\<forall>d w. grows view w (snd (waitCtx js d w))) \<and> (\<forall>d w. grows view w (snd (cleanupWait js d w))) \<and>
     (\<forall>m w. grows view w (warnLog js m w)) \<and>
     (\<forall>c w. grows view w (snd (consMessages js c w))) \<and>
     (\<forall>it w r w'. itNext js it w = Some (r, w') \<longrightarrow> grows view w w') \<and> (\<forall>it w. grows view w (itStop js it w))"

text \<open>
  Sequences ascend in a stream and start at 1; the server stops before they wrap around.
\<close>

definition logLaw :: "'w streamView \<Rightarrow> bool" where
  "logLaw view \<longleftrightarrow> (\<forall>S w. sorted_wrt (<) (map rawSeq (view S w)) \<and>
     (\<forall>m \<in> set (view S w). 0 < rawSeq m \<and> rawSeq m + 1 \<noteq> 0))"

text \<open>A stream that is not found holds nothing; no error of the library is the package's own sentinel.\<close>

definition streamLaw :: "('c, 'it, 'w) jetstream \<Rightarrow> 'w streamView \<Rightarrow> bool" where
  "streamLaw js view \<longleftrightarrow> (\<forall>S w err w'. jsStream js S w = (Some err, w') \<longrightarrow>
     \<not> errorsIs err errStreamNotFound \<and> (errorsIs err jetstreamErrStreamNotFound \<longrightarrow> view S w' = []))"

text \<open>The last message for a subject, or the error that there is none.\<close>

definition lastMsgLaw :: "('c, 'it, 'w) jetstream \<Rightarrow> 'w streamView \<Rightarrow> bool" where
  "lastMsgLaw js view \<longleftrightarrow>
     (\<forall>S subj w m w'. jsGetLastMsg js S subj w = (Inr m, w') \<longrightarrow>
        matching subj (view S w') \<noteq> [] \<and> m = last (matching subj (view S w'))) \<and>
     (\<forall>S subj w err w'. jsGetLastMsg js S subj w = (Inl err, w') \<and> errorsIs err jetstreamErrMsgNotFound \<longrightarrow>
        matching subj (view S w') = [])"

text \<open>
  A consumer has a stream, a filter and a first sequence; it counts the messages that match from there
  when it is created, and delivers them oldest first, each with its stream sequence and the number of
  messages that are still to come when it is delivered. A named consumer that is created starts at its
  configured position.
\<close>

type_synonym position = "string \<times> string \<times> uint64"

definition pendingFrom :: "string \<Rightarrow> uint64 \<Rightarrow> rawMsg list \<Rightarrow> rawMsg list" where
  "pendingFrom flt n ms = filter (\<lambda>m. n \<le> rawSeq m) (matching flt ms)"

definition countsPending :: "('c, 'it, 'w) jetstream \<Rightarrow> 'w streamView \<Rightarrow> 'c \<Rightarrow> position \<Rightarrow> 'w \<Rightarrow> bool" where
  "countsPending js view con pos w \<longleftrightarrow> (case pos of (S, flt, n) \<Rightarrow>
     \<exists>k. cachedPending js con = Some k \<and> unat k = length (pendingFrom flt n (view S w)))"

definition delivers :: "jsMsg \<Rightarrow> rawMsg \<Rightarrow> nat \<Rightarrow> bool" where
  "delivers msg m k \<longleftrightarrow> jsSubject msg = rawSubject m \<and> jsData msg = rawData m \<and>
     (\<exists>meta. jsMetadata msg = Inr meta \<and> metaStreamSeq meta = rawSeq m \<and> metaTimestamp meta = rawTime m \<and>
        unat (metaNumPending meta) = k)"

definition consumerLaw ::
  "('c, 'it, 'w) jetstream \<Rightarrow> 'w streamView \<Rightarrow> ('c \<Rightarrow> position) \<Rightarrow> ('it \<Rightarrow> 'w \<Rightarrow> position) \<Rightarrow> bool" where
  "consumerLaw js view conPos itPos \<longleftrightarrow>
     (\<forall>S cfg flt w con w'. jsOrderedConsumer js S cfg w = (Inr con, w') \<and> ocFilterSubjects cfg = [flt] \<and>
        ocDeliverPolicy cfg = DeliverByStartSequencePolicy \<longrightarrow>
        conPos con = (S, flt, ocOptStartSeq cfg) \<and> countsPending js view con (conPos con) w') \<and>
     (\<forall>S cfg w con w'. jsCreateConsumer js S cfg w = (Inr con, w') \<and> ccFilterSubjects cfg = [] \<and>
        ccDeliverPolicy cfg \<noteq> DeliverNewPolicy \<longrightarrow>
        conPos con = (S, ccFilterSubject cfg,
          if ccDeliverPolicy cfg = DeliverByStartSequencePolicy then ccOptStartSeq cfg else 0) \<and>
        countsPending js view con (conPos con) w') \<and>
     (\<forall>con w it w'. consMessages js con w = (Inr it, w') \<longrightarrow> itPos it w' = conPos con) \<and>
     (\<forall>it w msg w' S flt n. itNext js it w = Some (Inr msg, w') \<and> itPos it w = (S, flt, n) \<longrightarrow>
        (\<exists>m rest. pendingFrom flt n (view S w') = m # rest \<and> delivers msg m (length rest) \<and>
           itPos it w' = (S, flt, rawSeq m + 1)))"

text \<open>
  The iterator's \<^verbatim>\<open>Next\<close> waits for a message. The value \<open>None\<close> is a call that never returns; that can
  happen only where no message is pending, since a pending one is delivered.
\<close>

definition nextLaw :: "('c, 'it, 'w) jetstream \<Rightarrow> 'w streamView \<Rightarrow> ('it \<Rightarrow> 'w \<Rightarrow> position) \<Rightarrow> bool" where
  "nextLaw js view itPos \<longleftrightarrow> (\<forall>it w S flt n.
     itNext js it w = None \<and> itPos it w = (S, flt, n) \<longrightarrow> pendingFrom flt n (view S w) = [])"

end
