(* ===== verification/EventStore.thy ===== *)
theory EventStore
  imports JetStream Registry
begin

section \<open>The event store: saving\<close>

text \<open>
  The writing half of \<^verbatim>\<open>src/nats/event_store.go\<close> and the consumer handling of \<^verbatim>\<open>src/nats/read.go\<close>. An
  aggregate is a value of type \<open>'a\<close>; what the application's methods do with it is the parameter
  \<open>aggregateOps\<close>, where a method of an optional interface is an option. A method with a pointer receiver
  returns the aggregate it leaves behind, also when it fails. How the application's events are encoded
  is the parameter \<open>codecOps\<close>.
\<close>

subsection \<open>The application's types\<close>

record ('a, 'v) aggregateOps =
  refOf :: "'a \<Rightarrow> AggregateRef"
  isESAggregate :: bool
  EventTypes :: "'a \<Rightarrow> 'v Event list \<times> 'v Event option"
  Apply :: "'v Event \<Rightarrow> 'a \<Rightarrow> 'a"
  TakeSnapshot :: "('a \<Rightarrow> goerror + 'v Event) option"
  aggNATSUnmarshal :: "(string \<Rightarrow> payload \<Rightarrow> int \<Rightarrow> 'a \<Rightarrow> goerror option \<times> 'a) option"
  aggUnmarshal :: "payload \<Rightarrow> 'a \<Rightarrow> goerror option \<times> 'a"
  aggMarshal :: "'a \<Rightarrow> goerror + json"

record 'v codecOps =
  natsMarshal :: "'v Event \<Rightarrow> (goerror + payload) option"
  jsonMarshal :: "'v Event \<Rightarrow> goerror + payload"
  natsUnmarshal :: "'v Event \<Rightarrow> (string \<Rightarrow> payload \<Rightarrow> int \<Rightarrow> goerror + 'v Event) option"
  jsonUnmarshal :: "payload \<Rightarrow> 'v Event \<Rightarrow> goerror + 'v Event"

record EventStore =
  streamPattern :: string
  snapshotEvery :: uint64
  consumerName :: "(AggregateRef \<Rightarrow> string) option"

text \<open>The store that a configuration describes, and its construction on a connection.\<close>

definition newStore :: "string \<Rightarrow> uint64 \<Rightarrow> (AggregateRef \<Rightarrow> string) option \<Rightarrow> EventStore" where
  "newStore pattern every cname =
     \<lparr>streamPattern = (if pattern = [] then DefaultStreamPattern else pattern), snapshotEvery = every,
      consumerName = cname\<rparr>"

definition NewEventStore ::
  "bool \<Rightarrow> goerror option \<Rightarrow> string \<Rightarrow> uint64 \<Rightarrow> (AggregateRef \<Rightarrow> string) option \<Rightarrow> goerror + EventStore" where
  "NewEventStore ncNil jsErr pattern every cname =
     (if ncNil then Inl (ErrorString ''nats connection is required'')
      else case jsErr of
        Some err \<Rightarrow> Inl (Errorf ''create jetstream context: '' err [])
      | None \<Rightarrow> Inr (newStore pattern every cname))"

definition streamFor :: "EventStore \<Rightarrow> string \<Rightarrow> string \<Rightarrow> string" where
  "streamFor s scope aggregateType = StreamName (streamPattern s) scope aggregateType"

definition snapshotEventName :: "'v Event option \<Rightarrow> string" where
  "snapshotEventName snapshotType = (case snapshotType of
     None \<Rightarrow> DefaultSnapshotEventName
   | Some e \<Rightarrow> if EventName e = [] then DefaultSnapshotEventName else EventName e)"

definition SnapshotSubject :: "('a, 'v) aggregateOps \<Rightarrow> 'a \<Rightarrow> string" where
  "SnapshotSubject ops agg =
     Join [AggregateScope (refOf ops agg), KindEvent, AggregateType (refOf ops agg), AggregateID (refOf ops agg),
       snapshotEventName (snd (EventTypes ops agg))] ''.''"

definition aggFilter :: "AggregateRef \<Rightarrow> string" where
  "aggFilter r = AggregateMessageFilter (AggregateScope r) (AggregateType r) (AggregateID r)"

subsection \<open>What is published\<close>

text \<open>
  An event of the application, or the implicit snapshot: a struct that embeds the aggregate as its
  \<^verbatim>\<open>AggregateRef\<close>, has its three methods and a name, and implements no other interface. Marshalling the
  struct gives an object with the one member AggregateRef.
\<close>

datatype ('a, 'v) outEvent = Domain "'v Event" | implicitSnapshotEvent 'a string

definition outSubject :: "('a, 'v) aggregateOps \<Rightarrow> ('a, 'v) outEvent \<Rightarrow> Subject" where
  "outSubject ops e = (case e of
     Domain evt \<Rightarrow> EventSubject evt
   | implicitSnapshotEvent agg name \<Rightarrow>
       \<lparr>Scope = AggregateScope (refOf ops agg), Kind = KindEvent, AggType = AggregateType (refOf ops agg),
        AggID = AggregateID (refOf ops agg), Name = name\<rparr>)"

definition marshalError :: "Subject \<Rightarrow> goerror + 'x \<Rightarrow> goerror + 'x" where
  "marshalError subj r = (case r of
     Inl err \<Rightarrow> Inl (Errorf (''marshal event '' @ SubjectString subj @ '': '') err [])
   | Inr x \<Rightarrow> Inr x)"

definition marshalEvent :: "('a, 'v) aggregateOps \<Rightarrow> 'v codecOps \<Rightarrow> ('a, 'v) outEvent \<Rightarrow> goerror + payload" where
  "marshalEvent ops co e = (case e of
     Domain evt \<Rightarrow>
       (case natsMarshal co evt of
          Some r \<Rightarrow> marshalError (EventSubject evt) r
        | None \<Rightarrow> marshalError (EventSubject evt) (jsonMarshal co evt))
   | implicitSnapshotEvent agg name \<Rightarrow>
       andThen (marshalError (outSubject ops e) (aggMarshal ops agg)) (\<lambda>j.
         Inr (Json (JObj [(''AggregateRef'', j)]))))"

subsection \<open>Errors of a publish\<close>

text \<open>
  \<^verbatim>\<open>fmt.Sscanf\<close> with the format \<^verbatim>\<open>wrong last sequence: %d\<close>: a space of the format consumes one or more
  spaces, another character itself, and the verb a decimal number that fits; otherwise the variable
  keeps its zero.
\<close>

fun scanLiteral :: "rune list \<Rightarrow> rune list \<Rightarrow> rune list option" where
  "scanLiteral [] inp = Some inp"
| "scanLiteral (f # fs) [] = (if IsSpace f then scanLiteral fs [] else None)"
| "scanLiteral (f # fs) (c # cs) =
     (if IsSpace f then
        (if IsSpace c then scanLiteral fs (dropWhile (\<lambda>r. IsSpace r \<and> r \<noteq> 10) (c # cs)) else None)
      else if f = c then scanLiteral fs cs else None)"

definition scanDigits :: "rune list \<Rightarrow> uint64" where
  "scanDigits inp =
     (let ds = takeWhile (\<lambda>r. 48 \<le> r \<and> r \<le> 57) inp;
          n = foldl (\<lambda>acc d. acc * 10 + (d - 48)) 0 ds
      in if ds \<noteq> [] \<and> n < 2 ^ 64 then of_nat n else 0)"

definition scanWrongLast :: "string \<Rightarrow> uint64" where
  "scanWrongLast description =
     (case scanLiteral (runes ''wrong last sequence: '') (runes description) of
        None \<Rightarrow> 0
      | Some rest \<Rightarrow> scanDigits rest)"

definition JSErrCodeStreamWrongLastSequence :: int where
  "JSErrCodeStreamWrongLastSequence = 10071"

definition apiPublishError :: "int \<Rightarrow> string \<Rightarrow> uint64 \<Rightarrow> goerror" where
  "apiPublishError code description expected =
     (if code = JSErrCodeStreamWrongLastSequence \<or> Contains description ''wrong last sequence'' then
        ConflictError expected (scanWrongLast description)
      else ErrorString (''publish event: '' @
        (if description = [] then ''jetstream publish failed with code '' @ Itoa code else description)))"

definition publishError :: "goerror \<Rightarrow> uint64 \<Rightarrow> goerror" where
  "publishError err expected = (case asAPIError err of
     Some (code, description) \<Rightarrow> apiPublishError (int code) description expected
   | None \<Rightarrow> Errorf ''publish event: '' err [])"

definition parsePubAck :: "goerror \<Rightarrow> payload \<Rightarrow> uint64 \<Rightarrow> goerror + pubAckResponse" where
  "parsePubAck jsonErr data expected = (case decodeAck data of
     None \<Rightarrow> Inl (Errorf ''parse publish ack: '' jsonErr [])
   | Some ack \<Rightarrow> (case ackError ack of
       None \<Rightarrow> Inr ack
     | Some (code, description) \<Rightarrow> Inl (apiPublishError (code mod 2 ^ 16) description expected)))"

subsection \<open>Publishing\<close>

definition publishOne ::
  "('c, 'it, 'w) jetstream \<Rightarrow> ('a, 'v) aggregateOps \<Rightarrow> 'v codecOps \<Rightarrow> EventStore \<Rightarrow> AggregateRef \<Rightarrow> uint64 \<Rightarrow>
   ('a, 'v) outEvent \<Rightarrow> 'w \<Rightarrow> (goerror + uint64) \<times> 'w" where
  "publishOne js ops co s ref expectedVersion evt w =
     (case marshalEvent ops co evt of
        Inl err \<Rightarrow> (Inl err, w)
      | Inr data \<Rightarrow>
          (case jsPublishMsg js \<lparr>msgSubject = SubjectString (outSubject ops evt), msgHeader = [], msgData = data\<rparr>
              (streamFor s (AggregateScope ref) (AggregateType ref)) expectedVersion (aggFilter ref) w of
             (Inl err, w') \<Rightarrow> (Inl (publishError err expectedVersion), w')
           | (Inr seq, w') \<Rightarrow> (Inr seq, w')))"

definition batchMsg ::
  "('a, 'v) aggregateOps \<Rightarrow> EventStore \<Rightarrow> AggregateRef \<Rightarrow> uint64 \<Rightarrow> string \<Rightarrow> nat \<Rightarrow> bool \<Rightarrow> ('a, 'v) outEvent \<Rightarrow> payload \<Rightarrow> natsMsg" where
  "batchMsg ops s ref expectedVersion batchID i isLast evt data =
     (let m0 = \<lparr>msgSubject = SubjectString (outSubject ops evt), msgHeader = [], msgData = data\<rparr>;
          m1 = headerSet batchSeqHeader (Itoa (int (i + 1))) (headerSet batchIDHeader batchID m0);
          m2 = (if i = 0 then
                 headerSet ExpectedLastSubjSeqHeader (Itoa (uint expectedVersion))
                  (headerSet ExpectedLastSubjSeqSubjHeader (aggFilter ref)
                   (headerSet ExpectedStreamHeader (streamFor s (AggregateScope ref) (AggregateType ref)) m1))
                else m1)
      in if isLast then headerSet batchCommitHeader ''1'' m2 else m2)"

fun publishBatchLoop ::
  "('c, 'it, 'w) jetstream \<Rightarrow> goerror \<Rightarrow> ('a, 'v) aggregateOps \<Rightarrow> 'v codecOps \<Rightarrow> EventStore \<Rightarrow> AggregateRef \<Rightarrow> uint64 \<Rightarrow>
   string \<Rightarrow> nat \<Rightarrow> uint64 \<Rightarrow> ('a, 'v) outEvent list \<Rightarrow> 'w \<Rightarrow> (goerror + uint64) \<times> 'w" where
  "publishBatchLoop js jsonErr ops co s ref ev batchID i version [] w = (Inr version, w)"
| "publishBatchLoop js jsonErr ops co s ref ev batchID i version (evt # evts) w =
     (case marshalEvent ops co evt of
        Inl err \<Rightarrow> (Inl err, w)
      | Inr data \<Rightarrow>
        (case ncRequestMsg js (batchMsg ops s ref ev batchID i (evts = []) evt data) w of
           (Inl err, w') \<Rightarrow> (Inl (Errorf ''publish atomic batch: '' err []), w')
         | (Inr resp, w') \<Rightarrow>
           if resp = emptyPayload then publishBatchLoop js jsonErr ops co s ref ev batchID (i + 1) version evts w'
           else (case parsePubAck jsonErr resp ev of
               Inl err \<Rightarrow> (Inl err, w')
             | Inr ack \<Rightarrow> publishBatchLoop js jsonErr ops co s ref ev batchID (i + 1) (ackSequence ack) evts w')))"

definition publishBatch ::
  "('c, 'it, 'w) jetstream \<Rightarrow> goerror \<Rightarrow> ('a, 'v) aggregateOps \<Rightarrow> 'v codecOps \<Rightarrow> EventStore \<Rightarrow> AggregateRef \<Rightarrow> uint64 \<Rightarrow>
   ('a, 'v) outEvent list \<Rightarrow> 'w \<Rightarrow> (goerror + uint64) \<times> 'w" where
  "publishBatch js jsonErr ops co s ref expectedVersion evts w =
     (let (batchID, w1) = nuidNext js w in
      publishBatchLoop js jsonErr ops co s ref expectedVersion batchID 0 0 evts w1)"

subsection \<open>Consumers\<close>

text \<open>\<open>n\<close> is the number of attempts left, \<open>cerr\<close> and \<open>wait\<close> belong to the context of the call.\<close>

fun deleteLoop ::
  "('c, 'it, 'w) jetstream \<Rightarrow> ('w \<Rightarrow> goerror option) \<Rightarrow> (int \<Rightarrow> 'w \<Rightarrow> bool \<times> 'w) \<Rightarrow> string \<Rightarrow> string \<Rightarrow> nat \<Rightarrow> int \<Rightarrow> 'w \<Rightarrow>
   goerror option \<times> 'w" where
  "deleteLoop js cerr wait streamName cname 0 delay w = (None, w)"
| "deleteLoop js cerr wait streamName cname (Suc n) delay w =
     (case jsDeleteConsumer js streamName cname w of
        (None, w1) \<Rightarrow> (None, w1)
      | (Some err, w1) \<Rightarrow>
          if errorsIs err jetstreamErrConsumerNotFound then (None, w1)
          else if errorsIs err jetstreamErrStreamNotFound then (Some err, w1)
          else if cerr w1 \<noteq> None \<or> n = 0 then (Some err, w1)
          else case wait delay w1 of
            (False, w2) \<Rightarrow> (Some err, w2)
          | (True, w2) \<Rightarrow>
              deleteLoop js cerr wait streamName cname n (if delay < 200 * millisecond then delay * 2 else delay) w2)"

definition deleteNamedConsumer ::
  "('c, 'it, 'w) jetstream \<Rightarrow> ('w \<Rightarrow> goerror option) \<Rightarrow> (int \<Rightarrow> 'w \<Rightarrow> bool \<times> 'w) \<Rightarrow> string \<Rightarrow> string \<Rightarrow> 'w \<Rightarrow>
   goerror option \<times> 'w" where
  "deleteNamedConsumer js cerr wait streamName cname w =
     deleteLoop js cerr wait streamName cname 10 (10 * millisecond) w"

definition aggregateConsumerInactiveThreshold :: int where
  "aggregateConsumerInactiveThreshold = 5000 * millisecond"

definition namedConsumerConfig :: "string \<Rightarrow> string \<Rightarrow> uint64 \<Rightarrow> ConsumerConfig" where
  "namedConsumerConfig flt cname startSeq =
     \<lparr>ccName = cname, ccDurable = cname, ccFilterSubject = flt, ccFilterSubjects = [],
      ccAckPolicy = AckNonePolicy,
      ccDeliverPolicy = (if 0 < startSeq then DeliverByStartSequencePolicy else DeliverAllPolicy),
      ccReplayPolicy = ReplayInstantPolicy, ccOptStartSeq = (if 0 < startSeq then startSeq else 0),
      ccAckWait = 0, ccMaxDeliver = 0, ccInactiveThreshold = aggregateConsumerInactiveThreshold\<rparr>"

definition openNamedAggregateConsumer ::
  "('c, 'it, 'w) jetstream \<Rightarrow> string \<Rightarrow> string \<Rightarrow> string \<Rightarrow> uint64 \<Rightarrow> 'w \<Rightarrow> (goerror + 'c) \<times> 'w" where
  "openNamedAggregateConsumer js streamName flt cname startSeq w =
     (case deleteNamedConsumer js (ctxErr js) (waitCtx js) streamName cname w of
        (Some err, w1) \<Rightarrow>
          (Inl (if errorsIs err jetstreamErrStreamNotFound then errStreamNotFound
                else Errorf (''delete stale named consumer '' @ Quote cname @ '': '') err []), w1)
      | (None, w1) \<Rightarrow>
          (case jsCreateConsumer js streamName (namedConsumerConfig flt cname startSeq) w1 of
             (Inl err, w2) \<Rightarrow>
               (Inl (if errorsIs err jetstreamErrStreamNotFound then errStreamNotFound
                     else Errorf (''create named consumer '' @ Quote cname @ '': '') err []), w2)
           | (Inr c, w2) \<Rightarrow> (Inr c, w2)))"

text \<open>The consumer comes with its cleanup: the name of the consumer to delete, if it is a named one.\<close>

definition openAggregateConsumer ::
  "('c, 'it, 'w) jetstream \<Rightarrow> EventStore \<Rightarrow> string \<Rightarrow> string \<Rightarrow> AggregateRef \<Rightarrow> uint64 \<Rightarrow> 'w \<Rightarrow>
   (goerror + 'c \<times> string option) \<times> 'w" where
  "openAggregateConsumer js s streamName flt ref startSeq w =
     (case (case consumerName s of Some f \<Rightarrow> f ref | None \<Rightarrow> []) of
        c # cs \<Rightarrow>
          (case openNamedAggregateConsumer js streamName flt (c # cs) startSeq w of
             (Inl err, w1) \<Rightarrow> (Inl err, w1)
           | (Inr con, w1) \<Rightarrow> (Inr (con, Some (c # cs)), w1))
      | [] \<Rightarrow>
          (case jsOrderedConsumer js streamName
              \<lparr>ocFilterSubjects = [flt], ocDeliverPolicy = DeliverByStartSequencePolicy,
               ocOptStartSeq = (if startSeq = 0 then 1 else startSeq),
               ocInactiveThreshold = aggregateConsumerInactiveThreshold\<rparr> w of
             (Inl err, w1) \<Rightarrow> (Inl (Errorf ''create aggregate consumer: '' err []), w1)
           | (Inr con, w1) \<Rightarrow> (Inr (con, None), w1)))"

definition runCleanup :: "('c, 'it, 'w) jetstream \<Rightarrow> string \<Rightarrow> string option \<Rightarrow> 'w \<Rightarrow> 'w" where
  "runCleanup js streamName cleanup w = (case cleanup of
     None \<Rightarrow> w
   | Some cname \<Rightarrow>
       (case deleteNamedConsumer js (cleanupErr js) (cleanupWait js) streamName cname w of
          (Some derr, w1) \<Rightarrow>
            if errorsIs derr jetstreamErrStreamNotFound then w1
            else warnLog js ''Failed to delete named aggregate consumer'' w1
        | (None, w1) \<Rightarrow> w1))"

subsection \<open>Snapshots\<close>

definition lastSnapshotVersion ::
  "('c, 'it, 'w) jetstream \<Rightarrow> ('a, 'v) aggregateOps \<Rightarrow> string \<Rightarrow> 'a \<Rightarrow> 'w \<Rightarrow> (goerror + uint64) \<times> 'w" where
  "lastSnapshotVersion js ops streamName agg w =
     (case jsGetLastMsg js streamName (SnapshotSubject ops agg) w of
        (Inl err, w1) \<Rightarrow> (if errorsIs err jetstreamErrMsgNotFound then Inr 0 else Inl err, w1)
      | (Inr msg, w1) \<Rightarrow> (Inr (rawSeq msg), w1))"

definition eventsSinceSnapshot ::
  "('c, 'it, 'w) jetstream \<Rightarrow> ('a, 'v) aggregateOps \<Rightarrow> EventStore \<Rightarrow> string \<Rightarrow> 'a \<Rightarrow> uint64 \<Rightarrow> 'w \<Rightarrow> (goerror + uint64) \<times> 'w" where
  "eventsSinceSnapshot js ops s streamName agg lastVersion w =
     (let startSeq = (if lastVersion + 1 = 0 then 1 else lastVersion + 1) in
      case openAggregateConsumer js s streamName (aggFilter (refOf ops agg)) (refOf ops agg) startSeq w of
        (Inl err, w1) \<Rightarrow> (Inl (Errorf ''create snapshot count consumer: '' err []), w1)
      | (Inr (con, cleanup), w1) \<Rightarrow>
          (Inr (case cachedPending js con of None \<Rightarrow> 0 | Some n \<Rightarrow> n), runCleanup js streamName cleanup w1))"

definition buildSnapshotEvent :: "('a, 'v) aggregateOps \<Rightarrow> 'a \<Rightarrow> goerror + ('a, 'v) outEvent" where
  "buildSnapshotEvent ops agg = (case TakeSnapshot ops of
     Some takeSnap \<Rightarrow>
       (case takeSnap agg of
          Inl err \<Rightarrow> Inl (Errorf ''take snapshot: '' err [])
        | Inr evt \<Rightarrow>
          (case snd (EventTypes ops agg) of
             None \<Rightarrow> Inl (ErrorString ''snapshot type is required'')
           | Some snapshotType \<Rightarrow>
               if EventName evt \<noteq> EventName snapshotType then
                 Inl (ErrorString (''snapshot event name '' @ Quote (EventName evt) @
                   '' does not match registered name '' @ Quote (EventName snapshotType)))
               else Inr (Domain evt)))
   | None \<Rightarrow> Inr (implicitSnapshotEvent agg (snapshotEventName (snd (EventTypes ops agg)))))"

definition snapshotForSave ::
  "('c, 'it, 'w) jetstream \<Rightarrow> ('a, 'v) aggregateOps \<Rightarrow> EventStore \<Rightarrow> 'a \<Rightarrow> 'v Event list \<Rightarrow> 'w \<Rightarrow>
   (goerror + ('a, 'v) outEvent option) \<times> 'a \<times> 'w" where
  "snapshotForSave js ops s agg evts w =
     (if snapshotEvery s = 0 \<or> \<not> isESAggregate ops then (Inr None, agg, w)
      else
      let streamName = streamFor s (AggregateScope (refOf ops agg)) (AggregateType (refOf ops agg)) in
      case jsStream js streamName w of
        (Some err, w1) \<Rightarrow> (Inl (Errorf (''get stream '' @ streamName @ '': '') err []), agg, w1)
      | (None, w1) \<Rightarrow>
        (case lastSnapshotVersion js ops streamName agg w1 of
           (Inl err, w2) \<Rightarrow> (Inl (Errorf ''get latest snapshot: '' err []), agg, w2)
         | (Inr lastVersion, w2) \<Rightarrow>
           (case eventsSinceSnapshot js ops s streamName agg lastVersion w2 of
              (Inl err, w3) \<Rightarrow> (Inl (Errorf ''count events since snapshot: '' err []), agg, w3)
            | (Inr n, w3) \<Rightarrow>
                if n + of_nat (length evts) < snapshotEvery s then (Inr None, agg, w3)
                else
                  let agg' = fold (Apply ops) evts agg in
                  (case buildSnapshotEvent ops agg' of Inl err \<Rightarrow> Inl err | Inr e \<Rightarrow> Inr (Some e), agg', w3))))"

subsection \<open>Saving\<close>

definition belongsTo :: "AggregateRef \<Rightarrow> 'v Event \<Rightarrow> bool" where
  "belongsTo ref evt \<longleftrightarrow> AggregateScope evt = AggregateScope ref \<and> AggregateType evt = AggregateType ref \<and>
     AggregateID evt = AggregateID ref"

definition validateEvents :: "AggregateRef \<Rightarrow> 'v Event list \<Rightarrow> goerror option" where
  "validateEvents ref evts = checkAll (\<lambda>i evt.
     if \<not> belongsTo ref evt then
       Some (ErrorString (''event '' @ Itoa (int i) @ '' does not belong to aggregate '' @ AggregateScope ref @ ''.'' @
         AggregateType ref @ ''.'' @ AggregateID ref))
     else SubjectValidate (EventSubject evt)) 0 evts"

definition Save ::
  "('c, 'it, 'w) jetstream \<Rightarrow> goerror \<Rightarrow> ('a, 'v) aggregateOps \<Rightarrow> 'v codecOps \<Rightarrow> EventStore \<Rightarrow> 'a \<Rightarrow> uint64 \<Rightarrow> 'v Event list \<Rightarrow> 'w \<Rightarrow>
   goerror option \<times> 'a \<times> 'w" where
  "Save js jsonErr ops co s agg expectedVersion evts w =
     (if evts = [] then (None, agg, w)
      else case validateEvents (refOf ops agg) evts of
        Some err \<Rightarrow> (Some err, agg, w)
      | None \<Rightarrow>
        (case snapshotForSave js ops s agg evts w of
           (Inl err, agg', w1) \<Rightarrow> (Some err, agg', w1)
         | (Inr snapshot, agg', w1) \<Rightarrow>
           (let out = map Domain evts @ (case snapshot of None \<Rightarrow> [] | Some e \<Rightarrow> [e]);
                (r, w2) = (case out of
                   [e] \<Rightarrow> publishOne js ops co s (refOf ops agg') expectedVersion e w1
                 | _ \<Rightarrow> publishBatch js jsonErr ops co s (refOf ops agg') expectedVersion out w1)
            in (case r of Inl err \<Rightarrow> Some err | Inr _ \<Rightarrow> None, agg', w2))))"

subsection \<open>A save that succeeds is in the log\<close>

lemma batchMsg_fields [simp]:
  "msgSubject (batchMsg ops s ref ev B i l evt data) = SubjectString (outSubject ops evt)"
  "msgData (batchMsg ops s ref ev B i l evt data) = data"
  by (simp_all add: batchMsg_def Let_def)

lemma batchMsg_headers [simp]:
  "headerGet batchIDHeader (batchMsg ops s ref ev B i l evt data) = B"
  "headerGet batchSeqHeader (batchMsg ops s ref ev B i l evt data) = Itoa (int (i + 1))"
  "headerGet batchCommitHeader (batchMsg ops s ref ev B i l evt data) = (if l then ''1'' else [])"
  "headerGet ExpectedStreamHeader (batchMsg ops s ref ev B 0 l evt data) =
     streamFor s (AggregateScope ref) (AggregateType ref)"
  "headerGet ExpectedLastSubjSeqHeader (batchMsg ops s ref ev B 0 l evt data) = Itoa (uint ev)"
  "headerGet ExpectedLastSubjSeqSubjHeader (batchMsg ops s ref ev B 0 l evt data) = aggFilter ref"
  by (simp_all add: batchMsg_def Let_def headerGet_Set header_defs) (simp_all add: headerGet_def)

text \<open>The messages of a batch after some of its events were sent.\<close>

definition batchSent ::
  "('a, 'v) aggregateOps \<Rightarrow> 'v codecOps \<Rightarrow> EventStore \<Rightarrow> AggregateRef \<Rightarrow> uint64 \<Rightarrow> string \<Rightarrow> ('a, 'v) outEvent list \<Rightarrow> natsMsg list \<Rightarrow> bool" where
  "batchSent ops co s ref ev B evts ms \<longleftrightarrow> length ms = length evts \<and>
     (\<forall>i < length evts. \<exists>data l. marshalEvent ops co (evts ! i) = Inr data \<and>
        ms ! i = batchMsg ops s ref ev B i l (evts ! i) data)"

lemma batchSent_snoc:
  assumes "batchSent ops co s ref ev B evts ms" "marshalEvent ops co evt = Inr data"
  shows "batchSent ops co s ref ev B (evts @ [evt]) (ms @ [batchMsg ops s ref ev B (length evts) l evt data])"
  using assms by (auto simp: batchSent_def nth_append less_Suc_eq)

lemma batchSent_numbered: "batchSent ops co s ref ev B evts ms \<Longrightarrow> numbered ms"
  by (force simp: batchSent_def numbered_def)

lemma batchSent_hd:
  assumes "batchSent ops co s ref ev B evts ms" "evts \<noteq> []"
  shows "headerGet ExpectedStreamHeader (hd ms) = streamFor s (AggregateScope ref) (AggregateType ref)"
    "headerGet ExpectedLastSubjSeqHeader (hd ms) = Itoa (uint ev)"
    "headerGet ExpectedLastSubjSeqSubjHeader (hd ms) = aggFilter ref"
proof -
  obtain data l where "hd ms = batchMsg ops s ref ev B 0 l (evts ! 0) data"
    using assms by (cases ms) (auto simp: batchSent_def)
  then show "headerGet ExpectedStreamHeader (hd ms) = streamFor s (AggregateScope ref) (AggregateType ref)"
    "headerGet ExpectedLastSubjSeqHeader (hd ms) = Itoa (uint ev)"
    "headerGet ExpectedLastSubjSeqSubjHeader (hd ms) = aggFilter ref" by simp_all
qed

text \<open>What a list of published events looks like in the log.\<close>

definition wireForm :: "('a, 'v) aggregateOps \<Rightarrow> 'v codecOps \<Rightarrow> ('a, 'v) outEvent \<Rightarrow> string \<times> (goerror + payload)" where
  "wireForm ops co e = (SubjectString (outSubject ops e), marshalEvent ops co e)"

definition logForm :: "rawMsg \<Rightarrow> string \<times> (goerror + payload)" where
  "logForm m = (rawSubject m, Inr (rawData m))"

lemma batchSent_wire:
  "batchSent ops co s ref ev B evts ms \<Longrightarrow>
   map (\<lambda>m. (msgSubject m, Inr (msgData m))) ms = map (wireForm ops co) evts"
  by (rule nth_equalityI) (auto simp: batchSent_def wireForm_def)

definition appended ::
  "'w streamView \<Rightarrow> ('a, 'v) aggregateOps \<Rightarrow> 'v codecOps \<Rightarrow> EventStore \<Rightarrow> AggregateRef \<Rightarrow> uint64 \<Rightarrow> ('a, 'v) outEvent list \<Rightarrow> 'w \<Rightarrow> 'w \<Rightarrow> bool" where
  "appended view ops co s ref ev out w w' \<longleftrightarrow>
     (let S = streamFor s (AggregateScope ref) (AggregateType ref) in
      \<exists>more app. view S w' = view S w @ more @ app \<and> lastSeqFor (aggFilter ref) (view S w @ more) = ev \<and>
        map logForm app = map (wireForm ops co) out)"

lemma appended_grows: "grows view w w1 \<Longrightarrow> appended view ops co s ref ev out w1 w2 \<Longrightarrow> appended view ops co s ref ev out w w2"
  unfolding appended_def grows_def Let_def by (metis append.assoc)

lemma publishOne_appended:
  assumes "publishLaw js view" "publishOne js ops co s ref ev e w = (Inr seq, w')"
  shows "appended view ops co s ref ev [e] w w'"
proof -
  obtain data where data: "marshalEvent ops co e = Inr data"
    and pub: "jsPublishMsg js \<lparr>msgSubject = SubjectString (outSubject ops e), msgHeader = [], msgData = data\<rparr>
      (streamFor s (AggregateScope ref) (AggregateType ref)) ev (aggFilter ref) w = (Inr seq, w')"
    using assms(2) by (auto simp: publishOne_def split: sum.splits prod.splits)
  from assms(1) [unfolded publishLaw_def, rule_format, OF pub] obtain more t where
    "view (streamFor s (AggregateScope ref) (AggregateType ref)) w' =
       view (streamFor s (AggregateScope ref) (AggregateType ref)) w @ more @
         [\<lparr>rawSubject = SubjectString (outSubject ops e), rawData = data, rawTime = t, rawSeq = seq\<rparr>]"
    "lastSeqFor (aggFilter ref) (view (streamFor s (AggregateScope ref) (AggregateType ref)) w @ more) = ev"
    by auto
  then show ?thesis
    unfolding appended_def Let_def
    by (intro exI [of _ more]
        exI [of _ "[\<lparr>rawSubject = SubjectString (outSubject ops e), rawData = data, rawTime = t, rawSeq = seq\<rparr>]"])
      (simp add: logForm_def wireForm_def data)
qed

lemma parsePubAck_accepted: "parsePubAck jsonErr resp ev = Inr ack \<Longrightarrow> accepted resp"
  by (auto simp: parsePubAck_def accepted_def split: option.splits)

lemma publishBatchLoop_step:
  assumes "publishBatchLoop js jsonErr ops co s ref ev B i version (evt # evts) w = (Inr v, w')"
  obtains data resp w1 version' where "marshalEvent ops co evt = Inr data"
    "ncRequestMsg js (batchMsg ops s ref ev B i (evts = []) evt data) w = (Inr resp, w1)" "accepted resp"
    "publishBatchLoop js jsonErr ops co s ref ev B (i + 1) version' evts w1 = (Inr v, w')"
proof -
  obtain data where data: "marshalEvent ops co evt = Inr data"
    using assms by (cases "marshalEvent ops co evt") auto
  obtain r w1 where req: "ncRequestMsg js (batchMsg ops s ref ev B i (evts = []) evt data) w = (r, w1)" by fastforce
  obtain resp where r: "r = Inr resp" using assms data req by (cases r) auto
  show thesis
  proof (cases "resp = emptyPayload")
    case True
    with assms data req r show thesis by (intro that) (auto simp: accepted_def)
  next
    case False
    with assms data req r obtain ack where "parsePubAck jsonErr resp ev = Inr ack"
      by (cases "parsePubAck jsonErr resp ev") auto
    with False assms data req r parsePubAck_accepted show thesis by (intro that) auto
  qed
qed

lemma batch_commit_appended:
  assumes law: "batchLaw js view staged" and sent: "batchSent ops co s ref ev B evts (staged B w @ [m])"
    and req: "ncRequestMsg js m w = (Inr resp, w')" "accepted resp"
    and m: "headerGet batchIDHeader m = B" "headerGet batchCommitHeader m = ''1''"
  shows "appended view ops co s ref ev evts w w'"
proof -
  let ?ms = "staged B w @ [m]"
  have "evts \<noteq> []" using sent by (auto simp: batchSent_def)
  note hd = batchSent_hd [OF sent this]
  obtain more app where app: "view (streamFor s (AggregateScope ref) (AggregateType ref)) w' =
      view (streamFor s (AggregateScope ref) (AggregateType ref)) w @ more @ app"
    "map (\<lambda>m. (rawSubject m, rawData m)) app = map (\<lambda>m. (msgSubject m, msgData m)) ?ms"
    "lastSeqFor (aggFilter ref) (view (streamFor s (AggregateScope ref) (AggregateType ref)) w @ more) = ev"
    using batch_commit [OF law req m(2,1) refl batchSent_numbered [OF sent] hd(1,2)] hd(3) by auto
  have "map logForm app = map (\<lambda>(a, b). (a, Inr b)) (map (\<lambda>m. (rawSubject m, rawData m)) app)"
    by (simp add: logForm_def)
  also have "\<dots> = map (\<lambda>m. (msgSubject m, Inr (msgData m))) ?ms" unfolding app(2) by simp
  also have "\<dots> = map (wireForm ops co) evts" by (rule batchSent_wire [OF sent])
  finally show ?thesis using app unfolding appended_def Let_def by blast
qed

lemma publishBatchLoop_appended:
  assumes law: "batchLaw js view staged"
    and loop: "publishBatchLoop js jsonErr ops co s ref ev B i version evts w = (Inr v, w')" "evts \<noteq> []"
    and sent: "batchSent ops co s ref ev B before (staged B w)" "length before = i"
  shows "appended view ops co s ref ev (before @ evts) w w'"
  using loop sent
proof (induction evts arbitrary: before i version w)
  case (Cons evt evts)
  let ?m = "\<lambda>data. batchMsg ops s ref ev B i (evts = []) evt data"
  from Cons.prems(1) obtain data resp w1 version' where data: "marshalEvent ops co evt = Inr data"
    and req: "ncRequestMsg js (?m data) w = (Inr resp, w1)" "accepted resp"
    and rest: "publishBatchLoop js jsonErr ops co s ref ev B (i + 1) version' evts w1 = (Inr v, w')"
    by (rule publishBatchLoop_step)
  have sent: "batchSent ops co s ref ev B (before @ [evt]) (staged B w @ [?m data])"
    using batchSent_snoc [OF Cons.prems(3) data] Cons.prems(4) by simp
  show ?case
  proof (cases "evts = []")
    case True
    with batch_commit_appended [OF law sent req] rest show ?thesis by simp
  next
    case False
    have "staged B w1 = staged B w @ [?m data]" and g: "grows view w w1"
      using False batch_staged [OF law req] by simp_all
    with sent have "batchSent ops co s ref ev B (before @ [evt]) (staged B w1)" by simp
    from Cons.IH [OF rest False this] Cons.prems(4) appended_grows [OF g] show ?thesis by simp
  qed
qed simp

text \<open>Every read on the way of a save leaves the streams alone.\<close>

lemma read_grows:
  assumes "readLaw js view"
  shows "jsStream js S w = (r1, w') \<Longrightarrow> grows view w w'"
    "jsGetLastMsg js S subj w = (r2, w') \<Longrightarrow> grows view w w'"
    "jsOrderedConsumer js S oc w = (r3, w') \<Longrightarrow> grows view w w'"
    "jsCreateConsumer js S cc w = (r4, w') \<Longrightarrow> grows view w w'"
    "jsDeleteConsumer js S n w = (r5, w') \<Longrightarrow> grows view w w'"
    "consMessages js c w = (r6, w') \<Longrightarrow> grows view w w'"
    "itNext js it w = Some (r7, w') \<Longrightarrow> grows view w w'"
    "grows view w (itStop js it w)" "grows view w (warnLog js m w)"
    "grows view w (snd (waitCtx js d w))" "grows view w (snd (cleanupWait js d w))"
  using assms unfolding readLaw_def by (metis snd_conv)+

lemma deleteLoop_grows:
  assumes "readLaw js view" "\<And>d w. grows view w (snd (wait d w))"
  shows "grows view w (snd (deleteLoop js cerr wait S cname n delay w))"
proof (induction n arbitrary: delay w)
  case (Suc n)
  obtain r w1 where del: "jsDeleteConsumer js S cname w = (r, w1)" by fastforce
  obtain ok w2 where wait: "wait delay w1 = (ok, w2)" by fastforce
  have "grows view w w1" by (rule read_grows(5) [OF assms(1) del])
  moreover from this have "grows view w w2" using assms(2) [of w1 delay] wait grows_trans by force
  ultimately show ?case
    using del wait Suc.IH [where w = w2] by (cases r; cases ok) (auto intro: grows_trans)
qed simp

lemma open_grows:
  assumes "readLaw js view" "openAggregateConsumer js s S flt ref startSeq w = (r, w')"
  shows "grows view w w'"
proof -
  have named: "grows view w (snd (openNamedAggregateConsumer js S flt cname startSeq w))" for cname
  proof -
    obtain d w1 where del: "deleteNamedConsumer js (ctxErr js) (waitCtx js) S cname w = (d, w1)" by fastforce
    then have "grows view w w1"
      using deleteLoop_grows [OF assms(1), of "waitCtx js" w] read_grows(10) [OF assms(1)]
      by (metis deleteNamedConsumer_def snd_conv)
    moreover obtain c w2 where cr: "jsCreateConsumer js S (namedConsumerConfig flt cname startSeq) w1 = (c, w2)"
      by fastforce
    moreover have "grows view w1 w2" by (rule read_grows(4) [OF assms(1) cr])
    ultimately show ?thesis using del cr
      by (auto simp: openNamedAggregateConsumer_def intro: grows_trans split: option.splits sum.splits)
  qed
  show ?thesis
    using assms(2) named read_grows(3) [OF assms(1)]
    by (auto simp: openAggregateConsumer_def split: list.splits sum.splits prod.splits) (metis snd_conv)+
qed

lemma cleanup_grows:
  assumes "readLaw js view"
  shows "grows view w (runCleanup js S cleanup w)"
proof (cases cleanup)
  case (Some cname)
  obtain d w1 where del: "deleteNamedConsumer js (cleanupErr js) (cleanupWait js) S cname w = (d, w1)" by fastforce
  then have "grows view w w1"
    using deleteLoop_grows [OF assms, of "cleanupWait js" w] read_grows(11) [OF assms]
    by (metis deleteNamedConsumer_def snd_conv)
  with Some del read_grows(9) [OF assms] show ?thesis
    by (auto simp: runCleanup_def intro: grows_trans split: option.splits)
qed (simp add: runCleanup_def)

lemma snapshot_grows:
  assumes law: "readLaw js view" and snap: "snapshotForSave js ops s agg evts w = (r, agg', w')"
  shows "grows view w w'"
proof -
  let ?S = "streamFor s (AggregateScope (refOf ops agg)) (AggregateType (refOf ops agg))"
  obtain r1 w1 where st: "jsStream js ?S w = (r1, w1)" by fastforce
  obtain r2 w2 where ls: "lastSnapshotVersion js ops ?S agg w1 = (r2, w2)" by fastforce
  have g1: "grows view w w1" by (rule read_grows(1) [OF law st])
  have "grows view w1 w2"
    using ls read_grows(2) [OF law] by (auto simp: lastSnapshotVersion_def split: sum.splits prod.splits)
  with g1 have g2: "grows view w w2" by (rule grows_trans)
  have g3: "grows view w2 w3" if "eventsSinceSnapshot js ops s ?S agg v w2 = (r3, w3)" for v r3 w3
  proof -
    obtain r w' where op: "openAggregateConsumer js s ?S (aggFilter (refOf ops agg)) (refOf ops agg)
        (if v + 1 = 0 then 1 else v + 1) w2 = (r, w')" by fastforce
    note g = open_grows [OF law op]
    from that op g grows_trans [OF g cleanup_grows [OF law]] show ?thesis
      by (cases r) (auto simp: eventsSinceSnapshot_def Let_def)
  qed
  show ?thesis
    using snap st ls g1 g2 grows_trans [OF g2 g3]
    by (auto simp: snapshotForSave_def Let_def split: if_splits option.splits sum.splits prod.splits)
qed

subsection \<open>The sequence in a conflict\<close>

lemma scanDigits_itoa: "scanDigits (bytesOf (itoaAux (unat n))) = (n :: uint64)"
proof -
  have all: "takeWhile (\<lambda>r. 48 \<le> r \<and> r \<le> 57) (bytesOf (itoaAux (unat n))) = bytesOf (itoaAux (unat n))"
    using itoaAux_digits by (intro takeWhile_eq_all_conv [THEN iffD2]) blast
  have "unat n < 2 ^ 64" using unsigned_less [of n, where ?'a = nat] by simp
  then show ?thesis unfolding scanDigits_def all Let_def by (simp add: itoaAux_value)
qed

lemma scanLiteral_prefix:
  assumes "rest \<noteq> []" "\<not> IsSpace (hd rest)"
  shows "scanLiteral (bytesOf ''wrong last sequence: '') (bytesOf ''wrong last sequence: '' @ rest) = Some rest"
  using assms by (cases rest) (simp_all add: IsSpace_def)

lemma scanWrongLast_exact: "scanWrongLast (''wrong last sequence: '' @ Itoa (uint n)) = n"
proof -
  let ?d = "itoaAux (unat n)"
  have itoa: "Itoa (uint n) = ?d" by (simp add: Itoa_def)
  have digits: "48 \<le> d \<and> d \<le> 57" if "d \<in> set (bytesOf ?d)" for d
    using itoaAux_digits [OF that] .
  then have small: "of_char c < (128::nat)" if "c \<in> set ?d" for c
    using digits [of "of_char c"] that by force
  have ascii: "\<forall>c \<in> set (''wrong last sequence: '' @ ?d). of_char c < (128::nat)"
    using small by auto
  have r1: "runes (''wrong last sequence: '' @ ?d) = bytesOf ''wrong last sequence: '' @ bytesOf ?d"
    by (subst runes_all_ascii [OF ascii]) (rule map_append)
  have r2: "runes ''wrong last sequence: '' = bytesOf ''wrong last sequence: ''"
    by (rule runes_all_ascii) simp
  have space: "\<not> IsSpace (hd (bytesOf ?d))" and ne: "bytesOf ?d \<noteq> []"
    using digits [of "hd (bytesOf ?d)"] by (auto simp: IsSpace_def hd_map)
  show ?thesis
    unfolding scanWrongLast_def itoa r1 r2 scanLiteral_prefix [OF ne space] option.case by (rule scanDigits_itoa)
qed

subsection \<open>Properties of saving\<close>

lemma validateEvents_None [err_simps]:
  "validateEvents ref evts = None \<longleftrightarrow> (\<forall>e \<in> set evts. belongsTo ref e \<and> validSubject (EventSubject e))"
  unfolding validateEvents_def by (rule checkAll_None_uniform) simp

lemma Save_appended:
  assumes laws: "publishLaw js view" "batchLaw js view staged" "readLaw js view"
    and save: "Save js jsonErr ops co s agg v evts w = (None, agg', w')" and ne: "evts \<noteq> []"
  shows "\<exists>snap. length snap \<le> 1 \<and> (snapshotEvery s = 0 \<longrightarrow> snap = []) \<and>
     (\<forall>e \<in> set snap. buildSnapshotEvent ops agg' = Inr e \<and> agg' = fold (Apply ops) evts agg) \<and>
     appended view ops co s (refOf ops agg') v (map Domain evts @ snap) w w'"
proof -
  have "validateEvents (refOf ops agg) evts = None"
    using save ne by (auto simp: Save_def split: option.splits)
  moreover obtain r w1 where snap: "snapshotForSave js ops s agg evts w = (r, agg', w1)"
    using save ne calculation by (auto simp: Save_def Let_def split: sum.splits prod.splits)
  moreover obtain snapshot where "r = Inr snapshot"
    using save ne calculation by (cases r) (auto simp: Save_def)
  moreover define out where "out = map Domain evts @ (case snapshot of None \<Rightarrow> [] | Some e \<Rightarrow> [e])"
  moreover obtain res w2 where pub: "(case out of [e] \<Rightarrow> publishOne js ops co s (refOf ops agg') v e w1
      | _ \<Rightarrow> publishBatch js jsonErr ops co s (refOf ops agg') v out w1) = (res, w2)" by fastforce
  ultimately have w': "w' = w2" and res: "\<exists>seq. res = Inr seq"
    using save ne by (auto simp: Save_def Let_def split: sum.splits)
  have g: "grows view w w1" by (rule snapshot_grows [OF laws(3) snap])
  have "appended view ops co s (refOf ops agg') v out w1 w2"
  proof (cases "\<exists>e. out = [e]")
    case True
    with pub res publishOne_appended [OF laws(1)] show ?thesis by auto
  next
    case False
    then have "publishBatch js jsonErr ops co s (refOf ops agg') v out w1 = (res, w2)"
      using pub by (auto split: list.splits)
    moreover obtain B w0 where nuid: "nuidNext js w1 = (B, w0)" by fastforce
    moreover have "staged B w0 = []" "grows view w1 w0" using batch_fresh [OF laws(2) nuid] by auto
    moreover have "out \<noteq> []" using ne by (simp add: out_def)
    ultimately show ?thesis
      using res publishBatchLoop_appended [OF laws(2), of jsonErr ops co s "refOf ops agg'" v B 0 0 out w0 _ w2 "[]"]
        appended_grows [of view w1 w0]
      by (auto simp: publishBatch_def batchSent_def)
  qed
  moreover have "snapshotEvery s = 0 \<longrightarrow> snapshot = None"
    using snap \<open>r = Inr snapshot\<close> by (auto simp: snapshotForSave_def)
  moreover have "buildSnapshotEvent ops agg' = Inr e \<and> agg' = fold (Apply ops) evts agg" if "snapshot = Some e" for e
    using snap \<open>r = Inr snapshot\<close> that
    by (auto simp: snapshotForSave_def Let_def split: if_splits prod.splits option.splits sum.splits)
  ultimately show ?thesis
    using appended_grows [OF g] unfolding w' out_def
    by (intro exI [of _ "case snapshot of None \<Rightarrow> [] | Some e \<Rightarrow> [e]"]) (auto split: option.splits)
qed

text \<open>Names in ASCII fold letter by letter.\<close>

lemma foldName_ascii:
  assumes "\<forall>c \<in> set s. of_char c < (128::nat)"
  shows "foldName s = map (\<lambda>r. if within 97 122 r then r - 32 else r) (bytesOf s)"
  using assms by (auto simp: foldName_def runes_all_ascii foldRune_def toUpperRune_ascii)

end
