(* ===== verification/ReaderApi.thy ===== *)
theory ReaderApi
  imports Subjects
begin

section \<open>Reading aggregate history\<close>

text \<open>
  \<^verbatim>\<open>src/reader.go\<close>. Go's \<^verbatim>\<open>iter.Seq2\<close> is a push iterator: it calls \<^verbatim>\<open>yield\<close> for one item after the
  other and stops when the sequence ends or \<^verbatim>\<open>yield\<close> returns false. A range loop over it is a
  \<^verbatim>\<open>yield\<close> that runs the loop body on the loop's variables and returns false when the body returns;
  here the variables are a state \<open>'st\<close>. The locale is the contract of a reader, that it pushes a
  fixed list of items and honours false; \<open>Collect\<close> and \<open>FindFirst\<close> are its clients, and the streams
  of the event store interpret it in theory \<open>EventRead\<close>.
\<close>

definition AggregateKey :: "string \<Rightarrow> string \<Rightarrow> string \<Rightarrow> AggregateRef" where
  "AggregateKey scope typ aggID = \<lparr>AggregateScope = scope, AggregateType = typ, AggregateID = aggID\<rparr>"

definition GenericEvent :: "'v \<Rightarrow> Subject \<Rightarrow> 'v Event" where
  "GenericEvent v subj = \<lparr>AggregateScope = Scope subj, AggregateType = AggType subj, AggregateID = AggID subj,
     MessageKindOverride = None, TypeOf = GoNamed ''event.GenericEvent'', Val = v, EventName = Name subj\<rparr>"

record 'v StoredEvent =
  StoredEv :: "'v Event"
  StoredSubject :: Subject
  StoredData :: payload
  StoredVersion :: uint64
  StoredTimestamp :: int

record ReadOptions =
  SkipSnapshotFastPath :: bool
  IncludeSnapshots :: bool

text \<open>
  An item carries a record or an error; the code reads the record only when the error is nil. A stream
  that never returns is \<open>None\<close>.
\<close>

type_synonym 'r item = "goerror + 'r"
type_synonym ('r, 'st) yieldFn = "'r item \<Rightarrow> 'st \<Rightarrow> bool \<times> 'st"
type_synonym ('r, 'st) seq2 = "('r, 'st) yieldFn \<Rightarrow> 'st \<Rightarrow> 'st option"

text \<open>The loop variables of the two clients: the records kept so far and the error to return.\<close>

type_synonym 'r loopState = "'r list \<times> goerror option"

definition collectBody :: "('r, 'r loopState) yieldFn" where
  "collectBody it st = (case (it, st) of
     (Inl err, (out, e)) \<Rightarrow> (False, ([], Some err))
   | (Inr rec, (out, e)) \<Rightarrow> (True, (out @ [rec], e)))"

definition Collect ::
  "('v StoredEvent, 'v StoredEvent loopState) seq2 \<Rightarrow> (goerror + 'v StoredEvent list) option" where
  "Collect stream =
     map_option (\<lambda>st. case st of (out, Some err) \<Rightarrow> Inl err | (out, None) \<Rightarrow> Inr out)
       (stream collectBody ([], None))"

definition findBody :: "('v Event \<Rightarrow> bool) \<Rightarrow> ('v StoredEvent, 'v StoredEvent loopState) yieldFn" where
  "findBody pred it st = (case it of
     Inl err \<Rightarrow> (False, ([], Some err))
   | Inr rec \<Rightarrow> if pred (StoredEv rec) then (False, ([rec], None)) else (True, st))"

definition FindFirst ::
  "('v StoredEvent, 'v StoredEvent loopState) seq2 \<Rightarrow> ('v Event \<Rightarrow> bool) \<Rightarrow> (goerror + 'v StoredEvent option) option" where
  "FindFirst stream pred =
     map_option (\<lambda>st. case st of
          (_, Some err) \<Rightarrow> Inl err
        | ([], None) \<Rightarrow> Inr None
        | (rec # _, None) \<Rightarrow> Inr (Some rec))
       (stream (findBody pred) ([], None))"

subsection \<open>The contract of a reader\<close>

text \<open>Pushing a list of items: whether the consumer still wants more, and its state.\<close>

fun pushAll :: "'r item list \<Rightarrow> ('r, 'st) yieldFn \<Rightarrow> 'st \<Rightarrow> bool \<times> 'st" where
  "pushAll [] yield st = (True, st)"
| "pushAll (it # its) yield st =
     (let (more, st') = yield it st in if more then pushAll its yield st' else (False, st'))"

definition runSeq :: "'r item list \<Rightarrow> ('r, 'st) yieldFn \<Rightarrow> 'st \<Rightarrow> 'st" where
  "runSeq its yield st = snd (pushAll its yield st)"

lemma runSeq_simps [simp]:
  "runSeq [] yield st = st"
  "runSeq (it # its) yield st = (let (more, st') = yield it st in if more then runSeq its yield st' else st')"
  by (simp_all add: runSeq_def split: prod.split)

lemma pushAll_append:
  "pushAll (as @ bs) yield st =
     (let (more, st') = pushAll as yield st in if more then pushAll bs yield st' else (False, st'))"
  by (induction as arbitrary: st) (auto split: prod.splits)

lemma runSeq_append:
  "runSeq (as @ bs) yield st =
     (let (more, st') = pushAll as yield st in if more then runSeq bs yield st' else st')"
  by (simp add: runSeq_def pushAll_append split: prod.split)

text \<open>The consumer that keeps every item and never stops.\<close>

definition keepAll :: "('r, 'r item list) yieldFn" where
  "keepAll it acc = (True, acc @ [it])"

text \<open>What the two clients should return for a list of items.\<close>

fun collected :: "'r item list \<Rightarrow> goerror + 'r list" where
  "collected [] = Inr []"
| "collected (Inl err # its) = Inl err"
| "collected (Inr rec # its) = andThen (collected its) (\<lambda>out. Inr (rec # out))"

fun foundFirst :: "('v Event \<Rightarrow> bool) \<Rightarrow> 'v StoredEvent item list \<Rightarrow> goerror + 'v StoredEvent option" where
  "foundFirst pred [] = Inr None"
| "foundFirst pred (Inl err # its) = Inl err"
| "foundFirst pred (Inr rec # its) = (if pred (StoredEv rec) then Inr (Some rec) else foundFirst pred its)"

lemma collect_run:
  "runSeq its collectBody (out, None) =
     (case collected its of Inl err \<Rightarrow> ([], Some err) | Inr recs \<Rightarrow> (out @ recs, None))"
  by (induction its arbitrary: out rule: collected.induct)
    (auto simp: collectBody_def split: sum.splits)

lemma find_run:
  "runSeq its (findBody pred) ([], None) =
     (case foundFirst pred its of
        Inl err \<Rightarrow> ([], Some err) | Inr None \<Rightarrow> ([], None) | Inr (Some rec) \<Rightarrow> ([rec], None))"
  by (induction pred its rule: foundFirst.induct) (auto simp: findBody_def)

locale reader =
  fixes stream :: "('v StoredEvent, 'v StoredEvent loopState) seq2"
    and items :: "'v StoredEvent item list option"
  assumes stream_run: "items = Some its \<Longrightarrow> stream yield st = Some (runSeq its yield st)"
begin

lemma Collect_collected: "items = Some its \<Longrightarrow> Collect stream = Some (collected its)"
  by (auto simp: Collect_def stream_run collect_run split: sum.splits)

lemma FindFirst_found: "items = Some its \<Longrightarrow> FindFirst stream pred = Some (foundFirst pred its)"
  by (auto simp: FindFirst_def stream_run find_run split: sum.splits option.splits)

text \<open>\<^verbatim>\<open>FindFirst\<close> agrees with searching what \<^verbatim>\<open>Collect\<close> returns, when that succeeds.\<close>

lemma FindFirst_Collect:
  assumes "items = Some its" "Collect stream = Some (Inr recs)"
  shows "FindFirst stream pred = Some (Inr (find (\<lambda>rec. pred (StoredEv rec)) recs))"
proof -
  have "collected its = Inr recs \<Longrightarrow> foundFirst pred its = Inr (find (\<lambda>rec. pred (StoredEv rec)) recs)"
    by (induction its arbitrary: recs rule: collected.induct) (auto simp: andThen_Inr)
  with assms show ?thesis by (simp add: Collect_collected FindFirst_found)
qed

end

end
