(* ===== verification/EventRead.thy ===== *)
theory EventRead
  imports EventStore ReaderApi "HOL-Library.Monad_Syntax"
begin

section \<open>The event store: loading and streaming\<close>

text \<open>
  The reading half of \<^verbatim>\<open>src/nats/event_store.go\<close> and \<^verbatim>\<open>src/nats/read.go\<close>. The loop over the messages of a
  consumer ends when one of them says that none is pending, so it may never end: it is a
  \<open>partial_function\<close>, and \<open>None\<close> is the result of a call that does not return. The callback of the loop
  acts on a state of its own, the aggregate or the state of the range loop that the stream feeds.
\<close>

subsection \<open>Read contexts\<close>

record 'v aggregateReadContext =
  rcStreamName :: string
  rcFilter :: string
  rcRegistry :: "'v registry"
  rcSnapshotSuffix :: string
  rcSnapshottable :: bool

fun registerTypes ::
  "'v Event reflect \<Rightarrow> 'v Command reflect \<Rightarrow> nat \<Rightarrow> 'v Event list \<Rightarrow> 'v registry \<Rightarrow> goerror + 'v registry" where
  "registerTypes rte rtc i [] reg = Inr reg"
| "registerTypes rte rtc i (evt # evts) reg =
     (case RegisterMessageType rte rtc reg (anyEvent evt) of
        (Some err, _) \<Rightarrow> Inl (Errorf (''register event type '' @ Itoa (int i) @ '': '') err [])
      | (None, reg') \<Rightarrow> registerTypes rte rtc (Suc i) evts reg')"

definition eventRegistryFor ::
  "'v Event reflect \<Rightarrow> 'v Command reflect \<Rightarrow> ('a, 'v) aggregateOps \<Rightarrow> 'a \<Rightarrow> goerror + 'v registry" where
  "eventRegistryFor rte rtc ops agg =
     (case EventTypes ops agg of (evts, snapshotType) \<Rightarrow>
      andThen (registerTypes rte rtc 0 evts newRegistry) (\<lambda>reg.
        case snapshotType of
          None \<Rightarrow> Inr reg
        | Some st \<Rightarrow>
            (case RegisterMessageType rte rtc reg (anyEvent st) of
               (Some err, _) \<Rightarrow> Inl (Errorf ''register snapshot type: '' err [])
             | (None, reg') \<Rightarrow> Inr reg')))"

definition streamError :: "string \<Rightarrow> goerror \<Rightarrow> goerror" where
  "streamError streamName err =
     (if errorsIs err jetstreamErrStreamNotFound then errStreamNotFound
      else Errorf (''get stream '' @ streamName @ '': '') err [])"

definition resolveReadContext ::
  "('c, 'it, 'w) jetstream \<Rightarrow> 'v Event reflect \<Rightarrow> 'v Command reflect \<Rightarrow> ('a, 'v) aggregateOps \<Rightarrow> EventStore \<Rightarrow> 'a \<Rightarrow> 'w \<Rightarrow>
   (goerror + 'v aggregateReadContext) \<times> 'w" where
  "resolveReadContext js rte rtc ops s agg w =
     (case eventRegistryFor rte rtc ops agg of
        Inl err \<Rightarrow> (Inl err, w)
      | Inr registry \<Rightarrow>
        (let streamName = streamFor s (AggregateScope (refOf ops agg)) (AggregateType (refOf ops agg)) in
         case jsStream js streamName w of
           (Some err, w1) \<Rightarrow> (Inl (streamError streamName err), w1)
         | (None, w1) \<Rightarrow>
             (Inr \<lparr>rcStreamName = streamName, rcFilter = aggFilter (refOf ops agg), rcRegistry = registry,
                rcSnapshotSuffix = CHR ''.'' # snapshotEventName (snd (EventTypes ops agg)),
                rcSnapshottable = (TakeSnapshot ops \<noteq> None)\<rparr>, w1)))"

definition resolveGenericReadContext ::
  "('c, 'it, 'w) jetstream \<Rightarrow> EventStore \<Rightarrow> AggregateRef \<Rightarrow> 'w \<Rightarrow> (goerror + 'v aggregateReadContext) \<times> 'w" where
  "resolveGenericReadContext js s ref w =
     (let streamName = streamFor s (AggregateScope ref) (AggregateType ref) in
      case jsStream js streamName w of
        (Some err, w1) \<Rightarrow> (Inl (streamError streamName err), w1)
      | (None, w1) \<Rightarrow>
          (Inr \<lparr>rcStreamName = streamName, rcFilter = aggFilter ref, rcRegistry = newRegistry,
             rcSnapshotSuffix = [], rcSnapshottable = False\<rparr>, w1))"

subsection \<open>Decoding\<close>

definition decodeEvent :: "'v codecOps \<Rightarrow> 'v registry \<Rightarrow> string \<Rightarrow> payload \<Rightarrow> int \<Rightarrow> goerror + 'v Event" where
  "decodeEvent co registry subject data timestamp =
     (case ParseSubject subject of
        (_, False) \<Rightarrow> Inl (ErrorString (''invalid event subject '' @ Quote subject))
      | (subj, True) \<Rightarrow>
          andThen (NewEvent registry (Kind subj) (Scope subj) (AggType subj) (Name subj)) (\<lambda>evt.
            case (case natsUnmarshal co evt of
                Some unmarshal \<Rightarrow> unmarshal subject data timestamp
              | None \<Rightarrow> jsonUnmarshal co data evt) of
              Inl err \<Rightarrow> Inl (Errorf (''decode event '' @ subject @ '': '') err [])
            | Inr evt' \<Rightarrow> Inr evt'))"

definition isUnknownEventError :: "goerror \<Rightarrow> bool" where
  "isUnknownEventError err = asUnknownEvent err"

definition applyMessage ::
  "('a, 'v) aggregateOps \<Rightarrow> 'v codecOps \<Rightarrow> 'v registry \<Rightarrow> string \<Rightarrow> bool \<Rightarrow> string \<Rightarrow> payload \<Rightarrow> int \<Rightarrow> 'a \<Rightarrow>
   goerror option \<times> 'a" where
  "applyMessage ops co registry snapshotSuffix snapshottable subject data timestamp agg =
     (let isSnapshot = HasSuffix subject snapshotSuffix in
      if \<not> snapshottable \<and> isSnapshot then
        (case (case aggNATSUnmarshal ops of
             Some unmarshal \<Rightarrow> unmarshal subject data timestamp agg
           | None \<Rightarrow> aggUnmarshal ops data agg) of
           (Some err, agg') \<Rightarrow> (Some (Errorf (''decode snapshot '' @ subject @ '': '') err []), agg')
         | (None, agg') \<Rightarrow> (None, agg'))
      else
        (case decodeEvent co registry subject data timestamp of
           Inl err \<Rightarrow>
             if \<not> isSnapshot \<and> isUnknownEventError err then (None, agg) else (Some err, agg)
         | Inr evt \<Rightarrow> (None, Apply ops evt agg)))"

text \<open>\<open>applySnapshot\<close> is nil in the code when the caller only wants the position.\<close>

definition startSeqAfterSnapshot ::
  "('c, 'it, 'w) jetstream \<Rightarrow> ('a, 'v) aggregateOps \<Rightarrow> string \<Rightarrow> ReadOptions \<Rightarrow>
   (string \<Rightarrow> payload \<Rightarrow> int \<Rightarrow> 'a \<Rightarrow> goerror option \<times> 'a) option \<Rightarrow> 'a \<Rightarrow> 'w \<Rightarrow>
   (goerror + uint64 \<times> rawMsg option) \<times> 'a \<times> 'w" where
  "startSeqAfterSnapshot js ops streamName opts applySnapshot agg w =
     (if SkipSnapshotFastPath opts then (Inr (0, None), agg, w)
      else case jsGetLastMsg js streamName (SnapshotSubject ops agg) w of
        (Inl err, w1) \<Rightarrow>
          (if errorsIs err jetstreamErrMsgNotFound then Inr (0, None)
           else Inl (Errorf ''get latest snapshot: '' err []), agg, w1)
      | (Inr msg, w1) \<Rightarrow>
          (case (case applySnapshot of
               Some f \<Rightarrow> f (rawSubject msg) (rawData msg) (rawTime msg) agg
             | None \<Rightarrow> (None, agg)) of
             (Some err, agg') \<Rightarrow> (Inl err, agg', w1)
           | (None, agg') \<Rightarrow>
               (Inr (rawSeq msg + 1, if IncludeSnapshots opts then Some msg else None), agg', w1)))"

subsection \<open>The loop over a consumer's messages\<close>

type_synonym 'st messageFn = "string \<Rightarrow> payload \<Rightarrow> int \<Rightarrow> uint64 \<Rightarrow> 'st \<Rightarrow> goerror option \<times> 'st"
type_synonym ('st, 'w) loopResult = "(goerror option \<times> uint64) \<times> 'st \<times> 'w"

text \<open>
  One pass: the result of the function, or the version, state and world to go on with; \<open>None\<close> when the
  wait for the next message never ends.
\<close>

definition messagePass ::
  "('c, 'it, 'w) jetstream \<Rightarrow> 'it \<Rightarrow> 'st messageFn \<Rightarrow> uint64 \<Rightarrow> 'st \<Rightarrow> 'w \<Rightarrow>
   (('st, 'w) loopResult + uint64 \<times> 'st \<times> 'w) option" where
  "messagePass js it fn version st w =
     (case ctxErr js w of
        Some err \<Rightarrow> Some (Inl ((Some err, version), st, w))
      | None \<Rightarrow>
        (case itNext js it w of
           None \<Rightarrow> None
         | Some (Inl err, w1) \<Rightarrow> Some (Inl ((Some (Errorf ''read event: '' err []), version), st, w1))
         | Some (Inr msg, w1) \<Rightarrow>
           (case jsMetadata msg of
              Inl err \<Rightarrow> Some (Inl ((Some (Errorf ''read event metadata: '' err []), version), st, w1))
            | Inr meta \<Rightarrow>
              (let version' = metaStreamSeq meta in
               case fn (jsSubject msg) (jsData msg) (metaTimestamp meta) version' st of
                 (Some err, st') \<Rightarrow> Some (Inl ((Some err, version'), st', w1))
               | (None, st') \<Rightarrow>
                   Some (if metaNumPending meta = 0 then Inl ((None, version'), st', w1)
                         else Inr (version', st', w1))))))"

partial_function (option) messageLoop ::
  "('c, 'it, 'w) jetstream \<Rightarrow> 'it \<Rightarrow> 'st messageFn \<Rightarrow> uint64 \<Rightarrow> 'st \<Rightarrow> 'w \<Rightarrow> ('st, 'w) loopResult option" where
  "messageLoop js it fn version st w =
     (case messagePass js it fn version st w of
        None \<Rightarrow> None
      | Some (Inl r) \<Rightarrow> Some r
      | Some (Inr (version', st', w')) \<Rightarrow> messageLoop js it fn version' st' w')"

text \<open>The loop by the passes it makes; proofs about it go by rule induction.\<close>

inductive passes ::
  "('c, 'it, 'w) jetstream \<Rightarrow> 'it \<Rightarrow> 'st messageFn \<Rightarrow> uint64 \<Rightarrow> 'st \<Rightarrow> 'w \<Rightarrow> ('st, 'w) loopResult \<Rightarrow> bool"
  for js it fn where
  last_pass: "messagePass js it fn v st w = Some (Inl r) \<Longrightarrow> passes js it fn v st w r"
| more_passes: "messagePass js it fn v st w = Some (Inr (v', st', w')) \<Longrightarrow> passes js it fn v' st' w' r \<Longrightarrow>
     passes js it fn v st w r"

lemma messageLoop_passes: "messageLoop js it fn v st w = Some r \<longleftrightarrow> passes js it fn v st w r"
proof
  assume "messageLoop js it fn v st w = Some r"
  then show "passes js it fn v st w r"
    by (rule messageLoop.raw_induct [of passes, rotated])
      (auto split: option.splits sum.splits prod.splits intro: passes.intros)
next
  show "passes js it fn v st w r \<Longrightarrow> messageLoop js it fn v st w = Some r"
    by (induction rule: passes.induct) (subst messageLoop.simps, simp)+
qed

definition forEachAggregateMessage ::
  "('c, 'it, 'w) jetstream \<Rightarrow> 'c \<Rightarrow> 'st messageFn \<Rightarrow> 'st \<Rightarrow> 'w \<Rightarrow> ('st, 'w) loopResult option" where
  "forEachAggregateMessage js con fn st w =
     (if cachedPending js con = None \<or> cachedPending js con = Some 0 then Some ((None, 0), st, w)
      else case consMessages js con w of
        (Inl err, w1) \<Rightarrow> Some ((Some (Errorf ''open event iterator: '' err []), 0), st, w1)
      | (Inr it, w1) \<Rightarrow>
          map_option (\<lambda>(r, st', w2). (r, st', itStop js it w2)) (messageLoop js it fn 0 st w1))"

subsection \<open>Loading\<close>

definition applyFn :: "('a, 'v) aggregateOps \<Rightarrow> 'v codecOps \<Rightarrow> 'v aggregateReadContext \<Rightarrow> 'a messageFn" where
  "applyFn ops co read subject data timestamp seq agg =
     applyMessage ops co (rcRegistry read) (rcSnapshotSuffix read) (rcSnapshottable read) subject data timestamp agg"

definition Load ::
  "('c, 'it, 'w) jetstream \<Rightarrow> 'v Event reflect \<Rightarrow> 'v Command reflect \<Rightarrow> ('a, 'v) aggregateOps \<Rightarrow> 'v codecOps \<Rightarrow>
   EventStore \<Rightarrow> 'a \<Rightarrow> 'w \<Rightarrow> ((goerror + uint64) \<times> 'a \<times> 'w) option" where
  "Load js rte rtc ops co s agg w =
     (case resolveReadContext js rte rtc ops s agg w of
        (Inl err, w1) \<Rightarrow> Some (if errorsIs err errStreamNotFound then Inr 0 else Inl err, agg, w1)
      | (Inr read, w1) \<Rightarrow>
        (case startSeqAfterSnapshot js ops (rcStreamName read) \<lparr>SkipSnapshotFastPath = False, IncludeSnapshots = False\<rparr>
            (Some (\<lambda>subject data timestamp. applyFn ops co read subject data timestamp 0)) agg w1 of
           (Inl err, agg1, w2) \<Rightarrow> Some (Inl err, agg1, w2)
         | (Inr (startSeq, _), agg1, w2) \<Rightarrow>
           (case openAggregateConsumer js s (rcStreamName read) (rcFilter read) (refOf ops agg1) startSeq w2 of
              (Inl err, w3) \<Rightarrow> Some (Inl err, agg1, w3)
            | (Inr (con, cleanup), w3) \<Rightarrow>
              map_option (\<lambda>((err, version), agg2, w4).
                  (case err of
                     Some e \<Rightarrow> Inl e
                   | None \<Rightarrow> Inr (if version = 0 \<and> 0 < startSeq then startSeq - 1 else version),
                   agg2, runCleanup js (rcStreamName read) cleanup w4))
                (forEachAggregateMessage js con (applyFn ops co read) agg1 w3))))"

subsection \<open>Streaming\<close>

text \<open>\<open>Inr None\<close> is a message to pass over, the result \<^verbatim>\<open>false\<close> of the code.\<close>

definition storedEventFromMessage ::
  "'v codecOps \<Rightarrow> 'v registry \<Rightarrow> string \<Rightarrow> payload \<Rightarrow> int \<Rightarrow> uint64 \<Rightarrow> string \<Rightarrow> bool \<Rightarrow> bool \<Rightarrow> goerror + 'v StoredEvent option" where
  "storedEventFromMessage co registry subject data timestamp version snapshotSuffix snapshottable includeSnapshots =
     (let isSnapshot = HasSuffix subject snapshotSuffix in
      if isSnapshot \<and> \<not> includeSnapshots then Inr None
      else if isSnapshot \<and> \<not> snapshottable then Inr None
      else case ParseSubject subject of
        (_, False) \<Rightarrow> Inl (ErrorString (''invalid event subject '' @ Quote subject))
      | (subj, True) \<Rightarrow>
          (case decodeEvent co registry subject data timestamp of
             Inl err \<Rightarrow> if \<not> isSnapshot \<and> isUnknownEventError err then Inr None else Inl err
           | Inr evt \<Rightarrow>
               Inr (Some \<lparr>StoredEv = evt, StoredSubject = subj, StoredData = data, StoredVersion = version,
                 StoredTimestamp = timestamp\<rparr>)))"

text \<open>\<open>v\<close> stands for the value of the \<^verbatim>\<open>GenericEvent\<close>, which has no field but its subject.\<close>

definition genericStoredEventFromMessage ::
  "'v \<Rightarrow> string \<Rightarrow> payload \<Rightarrow> int \<Rightarrow> uint64 \<Rightarrow> goerror + 'v StoredEvent" where
  "genericStoredEventFromMessage v subject data timestamp version =
     (case ParseSubject subject of
        (_, False) \<Rightarrow> Inl (ErrorString (''invalid event subject '' @ Quote subject))
      | (subj, True) \<Rightarrow>
          Inr \<lparr>StoredEv = GenericEvent v subj, StoredSubject = subj, StoredData = data, StoredVersion = version,
            StoredTimestamp = timestamp\<rparr>)"

definition storedEventFromRawSnapshot ::
  "'v codecOps \<Rightarrow> 'v aggregateReadContext \<Rightarrow> rawMsg \<Rightarrow> goerror + 'v StoredEvent" where
  "storedEventFromRawSnapshot co read msg =
     (case storedEventFromMessage co (rcRegistry read) (rawSubject msg) (rawData msg) (rawTime msg) (rawSeq msg)
         (rcSnapshotSuffix read) (rcSnapshottable read) True of
        Inl err \<Rightarrow> Inl err
      | Inr None \<Rightarrow> Inl (ErrorString (''decode snapshot '' @ rawSubject msg))
      | Inr (Some rec) \<Rightarrow> Inr rec)"

text \<open>The callback of both streams, over what a message decodes to.\<close>

definition yieldMessage ::
  "(string \<Rightarrow> payload \<Rightarrow> int \<Rightarrow> uint64 \<Rightarrow> goerror + 'r option) \<Rightarrow> ('r, 'st) yieldFn \<Rightarrow> 'st messageFn" where
  "yieldMessage dec yield subject data timestamp version st =
     (case dec subject data timestamp version of
        Inl err \<Rightarrow> (Some err, st)
      | Inr None \<Rightarrow> (None, st)
      | Inr (Some rec) \<Rightarrow>
          (let (more, st') = yield (Inr rec) st in (if more then None else Some errStopStream, st')))"

text \<open>The part the two streams share: the loop, the last error, the cleanup.\<close>

definition streamMessages ::
  "('c, 'it, 'w) jetstream \<Rightarrow> string \<Rightarrow> 'c \<times> string option \<Rightarrow>
   (string \<Rightarrow> payload \<Rightarrow> int \<Rightarrow> uint64 \<Rightarrow> goerror + 'r option) \<Rightarrow> ('r, 'st) yieldFn \<Rightarrow> 'st \<Rightarrow> 'w \<Rightarrow> ('st \<times> 'w) option" where
  "streamMessages js streamName opened dec yield st w =
     map_option (\<lambda>((err, _), st', w').
         (case err of
            Some e \<Rightarrow> if errorsIs e errStopStream then st' else snd (yield (Inl e) st')
          | None \<Rightarrow> st', runCleanup js streamName (snd opened) w'))
       (forEachAggregateMessage js (fst opened) (yieldMessage dec yield) st w)"

definition streamTyped ::
  "('c, 'it, 'w) jetstream \<Rightarrow> 'v Event reflect \<Rightarrow> 'v Command reflect \<Rightarrow> ('a, 'v) aggregateOps \<Rightarrow> 'v codecOps \<Rightarrow>
   EventStore \<Rightarrow> 'a \<Rightarrow> ReadOptions \<Rightarrow> ('v StoredEvent, 'st) yieldFn \<Rightarrow> 'st \<Rightarrow> 'w \<Rightarrow> ('st \<times> 'w) option" where
  "streamTyped js rte rtc ops co s agg opts yield st w =
     (case resolveReadContext js rte rtc ops s agg w of
        (Inl err, w1) \<Rightarrow> Some (if errorsIs err errStreamNotFound then st else snd (yield (Inl err) st), w1)
      | (Inr read, w1) \<Rightarrow>
        (case startSeqAfterSnapshot js ops (rcStreamName read) opts None agg w1 of
           (Inl err, _, w2) \<Rightarrow> Some (snd (yield (Inl err) st), w2)
         | (Inr (startSeq, snapshotMsg), _, w2) \<Rightarrow>
           (case (case snapshotMsg of
                None \<Rightarrow> (True, st)
              | Some msg \<Rightarrow>
                  (case storedEventFromRawSnapshot co read msg of
                     Inl err \<Rightarrow> (False, snd (yield (Inl err) st))
                   | Inr rec \<Rightarrow> yield (Inr rec) st)) of
              (False, st1) \<Rightarrow> Some (st1, w2)
            | (True, st1) \<Rightarrow>
              (case openAggregateConsumer js s (rcStreamName read) (rcFilter read) (refOf ops agg) startSeq w2 of
                 (Inl err, w3) \<Rightarrow> Some (snd (yield (Inl err) st1), w3)
               | (Inr opened, w3) \<Rightarrow>
                   streamMessages js (rcStreamName read) opened (\<lambda>subject data timestamp version.
                     storedEventFromMessage co (rcRegistry read) subject data timestamp version (rcSnapshotSuffix read)
                       (rcSnapshottable read) (IncludeSnapshots opts)) yield st1 w3))))"

definition streamGeneric ::
  "('c, 'it, 'w) jetstream \<Rightarrow> 'v \<Rightarrow> EventStore \<Rightarrow> AggregateRef \<Rightarrow> ('v StoredEvent, 'st) yieldFn \<Rightarrow> 'st \<Rightarrow> 'w \<Rightarrow> ('st \<times> 'w) option" where
  "streamGeneric js v s ref yield st w =
     (case resolveGenericReadContext js s ref w of
        (Inl err, w1) \<Rightarrow> Some (if errorsIs err errStreamNotFound then st else snd (yield (Inl err) st), w1)
      | (Inr (read :: 'v aggregateReadContext), w1) \<Rightarrow>
        (case openAggregateConsumer js s (rcStreamName read) (rcFilter read) ref 1 w1 of
           (Inl err, w2) \<Rightarrow> Some (snd (yield (Inl err) st), w2)
         | (Inr opened, w2) \<Rightarrow>
             streamMessages js (rcStreamName read) opened (\<lambda>subject data timestamp version.
               map_sum (\<lambda>err. err) Some (genericStoredEventFromMessage v subject data timestamp version)) yield st w2))"

definition Stream ::
  "('c, 'it, 'w) jetstream \<Rightarrow> 'v Event reflect \<Rightarrow> 'v Command reflect \<Rightarrow> 'v \<Rightarrow> ('a, 'v) aggregateOps \<Rightarrow> 'v codecOps \<Rightarrow>
   EventStore \<Rightarrow> 'a \<Rightarrow> ReadOptions \<Rightarrow> ('v StoredEvent, 'st) yieldFn \<Rightarrow> 'st \<Rightarrow> 'w \<Rightarrow> ('st \<times> 'w) option" where
  "Stream js rte rtc v ops co s agg opts yield st w =
     (if isESAggregate ops then streamTyped js rte rtc ops co s agg opts yield st w
      else streamGeneric js v s (refOf ops agg) yield st w)"

end
