(* ===== verification/EventStream.thy ===== *)
theory EventStream
  imports EventRead
begin

section \<open>The streams of the event store as readers\<close>

text \<open>
  A stream of \<^verbatim>\<open>src/nats/read.go\<close> is a function of the yield it is given. This theory shows that it is the
  reader of theory \<open>ReaderApi\<close>: the items it pushes are those it pushes to a consumer that keeps them all,
  and any other consumer gets the same items, up to the first one at which it stops.
\<close>

subsection \<open>The loop pushes a fixed list\<close>

definition pushed :: "'r item list \<Rightarrow> ('r, 'st) yieldFn \<Rightarrow> 'st \<Rightarrow> (goerror option \<times> uint64) \<times> 'w \<Rightarrow>
    ('st, 'w) loopResult option \<Rightarrow> bool" where
  "pushed ext yield st fin res \<longleftrightarrow> (case pushAll ext yield st of
     (True, st') \<Rightarrow> res = Some (fst fin, st', snd fin)
   | (False, st') \<Rightarrow> \<exists>v w. res = Some ((Some errStopStream, v), st', w))"

lemma pushed_Nil [simp]: "pushed [] yield st fin res \<longleftrightarrow> res = Some (fst fin, st, snd fin)"
  by (simp add: pushed_def)

lemma pushed_Cons:
  "pushed (x # ext) yield st fin res \<longleftrightarrow>
     (case yield x st of
        (True, st') \<Rightarrow> pushed ext yield st' fin res
      | (False, st') \<Rightarrow> \<exists>v w. res = Some ((Some errStopStream, v), st', w))"
  by (auto simp: pushed_def split: prod.splits bool.splits)

lemma messagePass_yield:
  assumes "messagePass js it (yieldMessage dec keepAll) v acc w = Some r"
  shows "\<exists>ext. length ext \<le> 1 \<and>
     (case r of
        Inl (ev, acc', w') \<Rightarrow> acc' = acc @ ext \<and>
          (\<forall>yield st. pushed ext yield st (ev, w')
             (case messagePass js it (yieldMessage dec yield) v st w of Some (Inl res) \<Rightarrow> Some res | _ \<Rightarrow> None))
      | Inr (v', acc', w') \<Rightarrow> acc' = acc @ ext \<and>
          (\<forall>yield st. (case pushAll ext yield st of
             (True, st') \<Rightarrow> messagePass js it (yieldMessage dec yield) v st w = Some (Inr (v', st', w'))
           | (False, st') \<Rightarrow> messagePass js it (yieldMessage dec yield) v st w = Some (Inl ((Some errStopStream, v'), st', w')))))"
proof (cases "ctxErr js w")
  case None
  then obtain n w1 where n: "itNext js it w = Some (n, w1)"
    using assms by (auto simp: messagePass_def split: option.splits)
  show ?thesis
  proof (cases n)
    case (Inr msg)
    show ?thesis
    proof (cases "jsMetadata msg")
      case meta: (Inr meta)
      show ?thesis
      proof (cases "dec (jsSubject msg) (jsData msg) (metaTimestamp meta) (metaStreamSeq meta)")
        case dec: (Inr ro)
        show ?thesis
        proof (cases ro)
          case ro: None
          show ?thesis
            by (rule exI [of _ "[]"])
              (use assms None n Inr meta dec ro in \<open>auto simp: messagePass_def yieldMessage_def Let_def\<close>)
        next
          case ro: (Some rec)
          show ?thesis
            by (rule exI [of _ "[Inr rec]"])
              (use assms None n Inr meta dec ro in
                \<open>auto simp: messagePass_def yieldMessage_def keepAll_def pushed_def Let_def split: prod.splits bool.splits\<close>)
        qed
      qed (use assms None n Inr meta in \<open>auto simp: messagePass_def yieldMessage_def Let_def intro!: exI [of _ "[]"]\<close>)
    qed (use assms None n Inr in \<open>auto simp: messagePass_def intro!: exI [of _ "[]"]\<close>)
  qed (use assms None n in \<open>auto simp: messagePass_def intro!: exI [of _ "[]"]\<close>)
qed (use assms in \<open>auto simp: messagePass_def intro!: exI [of _ "[]"]\<close>)

lemma messageLoop_Inl: "messagePass js it fn v st w = Some (Inl r) \<Longrightarrow> messageLoop js it fn v st w = Some r"
  by (subst messageLoop.simps) simp

lemma messageLoop_Inr:
  "messagePass js it fn v st w = Some (Inr (v', st', w')) \<Longrightarrow> messageLoop js it fn v st w = messageLoop js it fn v' st' w'"
  by (subst messageLoop.simps) simp

lemma pushed_pass:
  assumes "pushed ext yield st fin (case messagePass js it fn v st w of Some (Inl res) \<Rightarrow> Some res | _ \<Rightarrow> None)"
  shows "pushed ext yield st fin (messageLoop js it fn v st w)"
  using assms messageLoop_Inl [of js it fn v st w]
  by (auto simp: pushed_def split: option.splits sum.splits prod.splits bool.splits)

lemma pushed_append:
  assumes "case pushAll ext yield st of
      (True, st') \<Rightarrow> messagePass js it fn v st w = Some (Inr (v', st', w'))
    | (False, st') \<Rightarrow> messagePass js it fn v st w = Some (Inl ((Some errStopStream, v'), st', w'))"
    and "\<And>st'. pushed ext2 yield st' fin (messageLoop js it fn v' st' w')"
  shows "pushed (ext @ ext2) yield st fin (messageLoop js it fn v st w)"
proof (cases "pushAll ext yield st")
  case (Pair b st')
  show ?thesis
  proof (cases b)
    case True
    with Pair assms(1) have "messagePass js it fn v st w = Some (Inr (v', st', w'))" by simp
    with Pair True assms(2) [of st'] messageLoop_Inr show ?thesis
      by (simp add: pushed_def pushAll_append messageLoop_Inr)
  next
    case False
    with Pair assms(1) have "messagePass js it fn v st w = Some (Inl ((Some errStopStream, v'), st', w'))" by simp
    with Pair False show ?thesis by (simp add: pushed_def pushAll_append messageLoop_Inl)
  qed
qed

lemma passes_pushed:
  assumes "passes js it (yieldMessage dec keepAll) v acc w r"
  shows "\<exists>ext. fst (snd r) = acc @ ext \<and>
     (\<forall>yield (st :: 'st). pushed ext yield st (fst r, snd (snd r)) (messageLoop js it (yieldMessage dec yield) v st w))"
  using assms
proof (induction rule: passes.induct)
  case (last_pass v acc w r)
  obtain ev acc' w' where r: "r = (ev, acc', w')" by (cases r)
  from messagePass_yield [OF last_pass] obtain ext where "acc' = acc @ ext"
    and ext: "\<forall>yield (st :: 'st). pushed ext yield st (ev, w')
      (case messagePass js it (yieldMessage dec yield) v st w of Some (Inl res) \<Rightarrow> Some res | _ \<Rightarrow> None)"
    unfolding r by auto
  from ext have "\<forall>yield (st :: 'st). pushed ext yield st (ev, w') (messageLoop js it (yieldMessage dec yield) v st w)"
    by (intro allI pushed_pass) blast
  with \<open>acc' = acc @ ext\<close> show ?case by (intro exI [of _ ext]) (simp add: r)
next
  case (more_passes v acc w v' acc1 w1 r)
  from messagePass_yield [OF more_passes(1)] obtain ext where acc1: "acc1 = acc @ ext"
    and ext: "\<forall>yield (st :: 'st). case pushAll ext yield st of
        (True, st') \<Rightarrow> messagePass js it (yieldMessage dec yield) v st w = Some (Inr (v', st', w1))
      | (False, st') \<Rightarrow> messagePass js it (yieldMessage dec yield) v st w = Some (Inl ((Some errStopStream, v'), st', w1))"
    by auto
  from more_passes.IH obtain ext2 where "fst (snd r) = acc1 @ ext2"
    and ext2: "\<forall>yield (st :: 'st). pushed ext2 yield st (fst r, snd (snd r)) (messageLoop js it (yieldMessage dec yield) v' st w1)"
    by blast
  with acc1 pushed_append [OF ext [rule_format] ext2 [rule_format]] show ?case
    by (intro exI [of _ "ext @ ext2"]) simp
qed

lemma forEach_pushed:
  assumes loop: "forEachAggregateMessage js con (yieldMessage dec keepAll) acc w = Some (ev, acc', w')"
  shows "\<exists>ext. acc' = acc @ ext \<and> (\<forall>yield (st :: 'st). pushed ext yield st (ev, w')
      (forEachAggregateMessage js con (yieldMessage dec yield) st w))"
proof (cases "cachedPending js con = None \<or> cachedPending js con = Some 0")
  case True
  with loop show ?thesis by (intro exI [of _ "[]"]) (auto simp: forEachAggregateMessage_def)
next
  case False
  obtain ito w0 where msgs: "consMessages js con w = (ito, w0)" by fastforce
  show ?thesis
  proof (cases ito)
    case (Inl err)
    with False msgs loop show ?thesis by (intro exI [of _ "[]"]) (auto simp: forEachAggregateMessage_def)
  next
    case (Inr it)
    with False msgs loop obtain w2 where run: "messageLoop js it (yieldMessage dec keepAll) 0 acc w0 = Some (ev, acc', w2)"
      and w': "w' = itStop js it w2"
      by (auto simp: forEachAggregateMessage_def)
    from run have "passes js it (yieldMessage dec keepAll) 0 acc w0 (ev, acc', w2)"
      by (simp add: messageLoop_passes)
    from passes_pushed [OF this] obtain ext where acc': "acc' = acc @ ext"
      and ext: "\<forall>yield (st :: 'st). pushed ext yield st (ev, w2) (messageLoop js it (yieldMessage dec yield) 0 st w0)"
      by auto
    have "pushed ext yield st (ev, w') (forEachAggregateMessage js con (yieldMessage dec yield) st w)"
      for yield and st :: 'st
      using ext [rule_format, of yield st] False msgs Inr
      by (cases ev) (auto simp: forEachAggregateMessage_def pushed_def w' split: prod.splits bool.splits)
    with acc' show ?thesis by blast
  qed
qed

text \<open>
  The items of a whole message stream: those of the loop and then its error, unless it says to stop. A
  consumer that never stops leaves the world that \<open>keepAll\<close> leaves.
\<close>

lemma streamMessages_run:
  assumes "streamMessages js S opened dec keepAll acc w = Some (acc', w')"
  shows "\<exists>its. acc' = acc @ its \<and>
     (\<forall>yield (st :: 'st). \<exists>w''. streamMessages js S opened dec yield st w = Some (runSeq its yield st, w'') \<and>
        (fst (pushAll its yield st) \<longrightarrow> w'' = w'))"
proof -
  obtain ev acc1 w1 where loop: "forEachAggregateMessage js (fst opened) (yieldMessage dec keepAll) acc w = Some (ev, acc1, w1)"
    using assms by (auto simp: streamMessages_def)
  let ?tail = "case fst ev of None \<Rightarrow> [] | Some e \<Rightarrow> if errorsIs e errStopStream then [] else [Inl e]"
  from forEach_pushed [OF loop] obtain ext where acc1: "acc1 = acc @ ext"
    and ext: "\<forall>yield (st :: 'st). pushed ext yield st (ev, w1)
      (forEachAggregateMessage js (fst opened) (yieldMessage dec yield) st w)" by blast
  have w': "w' = runCleanup js S (snd opened) w1"
    using assms loop by (cases ev) (auto simp: streamMessages_def split: option.splits)
  have "\<exists>w''. streamMessages js S opened dec yield st w = Some (runSeq (ext @ ?tail) yield st, w'') \<and>
      (fst (pushAll (ext @ ?tail) yield st) \<longrightarrow> w'' = w')"
    for yield and st :: 'st
  proof (cases "pushAll ext yield st")
    case (Pair b st')
    show ?thesis
    proof (cases b)
      case True
      with Pair ext [rule_format, of yield st] show ?thesis
        by (cases ev) (auto simp: pushed_def streamMessages_def runSeq_append w' split: option.split prod.split)
    next
      case False
      with Pair ext [rule_format, of yield st] obtain v w2 where
        "forEachAggregateMessage js (fst opened) (yieldMessage dec yield) st w = Some ((Some errStopStream, v), st', w2)"
        by (auto simp: pushed_def)
      with Pair False show ?thesis by (simp add: streamMessages_def runSeq_append pushAll_append)
    qed
  qed
  moreover have "acc' = acc @ ext @ ?tail"
    using assms loop acc1
    by (cases ev) (auto simp: streamMessages_def keepAll_def split: option.splits if_splits)
  ultimately show ?thesis by (intro exI [of _ "ext @ ?tail"]) blast
qed

subsection \<open>The streams\<close>

text \<open>
  A stream runs like a list of items, those that it pushes to \<open>keepAll\<close>; a consumer that takes all of
  them leaves the world \<open>w'\<close>.
\<close>

definition runsLike :: "'r item list \<Rightarrow> 'w \<Rightarrow> (('r, 'st) yieldFn \<Rightarrow> 'st \<Rightarrow> ('st \<times> 'w) option) \<Rightarrow> bool" where
  "runsLike its w' f \<longleftrightarrow>
     (\<forall>yield st. \<exists>w. f yield st = Some (runSeq its yield st, w) \<and> (fst (pushAll its yield st) \<longrightarrow> w = w'))"

lemma runsLike_dest:
  "runsLike its w' f \<Longrightarrow> pushAll its yield st = (True, st') \<Longrightarrow> f yield st = Some (st', w')"
  unfolding runsLike_def by (metis fst_conv runSeq_def snd_conv)

lemma runsLike_one:
  "runsLike [] w (\<lambda>yield st. Some (st, w))" "runsLike [it] w (\<lambda>yield st. Some (snd (yield it st), w))"
  by (auto simp: runsLike_def split: prod.split)

lemma runsLike_Cons:
  assumes "runsLike its w' f"
  shows "runsLike (it # its) w' (\<lambda>yield st. case yield it st of (False, st') \<Rightarrow> Some (st', w) | (True, st') \<Rightarrow> f yield st')"
  using assms by (auto simp: runsLike_def split: prod.split bool.split)

lemma streamMessages_runsLike:
  "streamMessages js S opened dec keepAll acc w = Some (acc', w') \<Longrightarrow>
   \<exists>its. acc' = acc @ its \<and> runsLike its w' (\<lambda>yield (st :: 'st). streamMessages js S opened dec yield st w)"
  using streamMessages_run [of js S opened dec acc w acc' w'] unfolding runsLike_def by blast

lemma streamGeneric_runs:
  assumes "streamGeneric js v s ref keepAll [] w = Some (its, w')"
  shows "runsLike its w' (\<lambda>yield (st :: 'st). streamGeneric js v s ref yield st w)"
proof -
  obtain r w1 where res: "(resolveGenericReadContext js s ref w :: (goerror + 'a aggregateReadContext) \<times> _) = (r, w1)"
    by fastforce
  show ?thesis
  proof (cases r)
    case (Inl err)
    with assms res show ?thesis
      by (auto simp: streamGeneric_def keepAll_def runsLike_one)
  next
    case (Inr read)
    obtain op w2 where op: "openAggregateConsumer js s (rcStreamName read) (rcFilter read) ref 1 w1 = (op, w2)"
      by fastforce
    show ?thesis
    proof (cases op)
      case err: (Inl err)
      with assms res Inr op show ?thesis by (auto simp: streamGeneric_def keepAll_def runsLike_one)
    next
      case opened: (Inr opened)
      with assms res Inr op have "streamMessages js (rcStreamName read) opened (\<lambda>subject data timestamp version.
          map_sum (\<lambda>err. err) Some (genericStoredEventFromMessage v subject data timestamp version)) keepAll [] w2 = Some (its, w')"
        by (simp add: streamGeneric_def)
      from streamMessages_runsLike [OF this] res Inr op opened show ?thesis by (simp add: streamGeneric_def)
    qed
  qed
qed

text \<open>The part of a typed stream after the position is known.\<close>

definition streamTail ::
  "('c, 'it, 'w) jetstream \<Rightarrow> 'v codecOps \<Rightarrow> EventStore \<Rightarrow> 'v aggregateReadContext \<Rightarrow> AggregateRef \<Rightarrow> bool \<Rightarrow> uint64 \<Rightarrow> 'w \<Rightarrow>
   ('v StoredEvent, 'st) yieldFn \<Rightarrow> 'st \<Rightarrow> ('st \<times> 'w) option" where
  "streamTail js co s read ref inc startSeq w yield st =
     (case openAggregateConsumer js s (rcStreamName read) (rcFilter read) ref startSeq w of
        (Inl err, w3) \<Rightarrow> Some (snd (yield (Inl err) st), w3)
      | (Inr opened, w3) \<Rightarrow>
          streamMessages js (rcStreamName read) opened (\<lambda>subject data timestamp version.
            storedEventFromMessage co (rcRegistry read) subject data timestamp version (rcSnapshotSuffix read)
              (rcSnapshottable read) inc) yield st w3)"

lemma streamTail_runs:
  assumes "streamTail js co s read ref inc startSeq w keepAll acc = Some (acc', w')"
  shows "\<exists>its. acc' = acc @ its \<and> runsLike its w' (\<lambda>yield (st :: 'st). streamTail js co s read ref inc startSeq w yield st)"
proof -
  obtain op w3 where op: "openAggregateConsumer js s (rcStreamName read) (rcFilter read) ref startSeq w = (op, w3)"
    by fastforce
  show ?thesis
  proof (cases op)
    case (Inl err)
    with assms op show ?thesis
      by (intro exI [of _ "[Inl err]"]) (auto simp: streamTail_def keepAll_def runsLike_one)
  next
    case (Inr opened)
    with assms op streamMessages_runsLike [where 'st = 'st] show ?thesis
      by (simp add: streamTail_def)
  qed
qed

lemma streamTyped_tail:
  assumes "resolveReadContext js rte rtc ops s agg w = (Inr read, w1)"
    "startSeqAfterSnapshot js ops (rcStreamName read) opts None agg w1 = (Inr (startSeq, snapshotMsg), agg', w2)"
  shows "streamTyped js rte rtc ops co s agg opts yield st w =
     (case snapshotMsg of
        None \<Rightarrow> streamTail js co s read (refOf ops agg) (IncludeSnapshots opts) startSeq w2 yield st
      | Some msg \<Rightarrow>
          (case storedEventFromRawSnapshot co read msg of
             Inl err \<Rightarrow> Some (snd (yield (Inl err) st), w2)
           | Inr rec \<Rightarrow>
               (case yield (Inr rec) st of
                  (False, st') \<Rightarrow> Some (st', w2)
                | (True, st') \<Rightarrow> streamTail js co s read (refOf ops agg) (IncludeSnapshots opts) startSeq w2 yield st')))"
  using assms by (auto simp: streamTyped_def streamTail_def split: option.split sum.split prod.split bool.split)

lemma streamTyped_runs:
  assumes "streamTyped js rte rtc ops co s agg opts keepAll [] w = Some (its, w')"
  shows "runsLike its w' (\<lambda>yield (st :: 'st). streamTyped js rte rtc ops co s agg opts yield st w)"
proof -
  obtain r w1 where res: "resolveReadContext js rte rtc ops s agg w = (r, w1)" by fastforce
  show ?thesis
  proof (cases r)
    case (Inl err)
    with assms res show ?thesis by (auto simp: streamTyped_def keepAll_def runsLike_one)
  next
    case (Inr read)
    note res = res [unfolded this]
    obtain sn agg' w2 where sn: "startSeqAfterSnapshot js ops (rcStreamName read) opts None agg w1 = (sn, agg', w2)"
      by (cases "startSeqAfterSnapshot js ops (rcStreamName read) opts None agg w1") auto
    show ?thesis
    proof (cases sn)
      case (Inl err)
      with assms res sn show ?thesis by (auto simp: streamTyped_def keepAll_def runsLike_one)
    next
      case (Inr pos)
      obtain startSeq snapshotMsg where "pos = (startSeq, snapshotMsg)" by (cases pos)
      note sn = sn [unfolded Inr this]
      note tail = streamTyped_tail [OF res sn]
      show ?thesis
      proof (cases snapshotMsg)
        case None
        with assms have "streamTail js co s read (refOf ops agg) (IncludeSnapshots opts) startSeq w2 keepAll [] = Some (its, w')"
          by (simp add: tail)
        from streamTail_runs [OF this] None show ?thesis by (simp add: tail)
      next
        case (Some msg)
        show ?thesis
        proof (cases "storedEventFromRawSnapshot co read msg")
          case (Inl err)
          with assms Some show ?thesis by (auto simp: tail keepAll_def runsLike_one)
        next
          case (Inr rec)
          with assms Some have
            "streamTail js co s read (refOf ops agg) (IncludeSnapshots opts) startSeq w2 keepAll [Inr rec] = Some (its, w')"
            by (simp add: tail keepAll_def)
          from streamTail_runs [OF this] Some Inr runsLike_Cons show ?thesis by (auto simp: tail)
        qed
      qed
    qed
  qed
qed

text \<open>The items of \<^verbatim>\<open>Stream\<close>, and the interpretation of the reader's contract.\<close>

definition streamItems ::
  "('c, 'it, 'w) jetstream \<Rightarrow> 'v Event reflect \<Rightarrow> 'v Command reflect \<Rightarrow> 'v \<Rightarrow> ('a, 'v) aggregateOps \<Rightarrow> 'v codecOps \<Rightarrow>
   EventStore \<Rightarrow> 'a \<Rightarrow> ReadOptions \<Rightarrow> 'w \<Rightarrow> 'v StoredEvent item list option" where
  "streamItems js rte rtc v ops co s agg opts w = map_option fst (Stream js rte rtc v ops co s agg opts keepAll [] w)"

definition storeStream ::
  "('c, 'it, 'w) jetstream \<Rightarrow> 'v Event reflect \<Rightarrow> 'v Command reflect \<Rightarrow> 'v \<Rightarrow> ('a, 'v) aggregateOps \<Rightarrow> 'v codecOps \<Rightarrow>
   EventStore \<Rightarrow> 'a \<Rightarrow> ReadOptions \<Rightarrow> 'w \<Rightarrow> ('v StoredEvent, 'st) seq2" where
  "storeStream js rte rtc v ops co s agg opts w yield st =
     map_option fst (Stream js rte rtc v ops co s agg opts yield st w)"

lemma Stream_runs:
  assumes "Stream js rte rtc v ops co s agg opts keepAll [] w = Some (its, w')"
  shows "runsLike its w' (\<lambda>yield (st :: 'st). Stream js rte rtc v ops co s agg opts yield st w)"
proof (cases "isESAggregate ops")
  case True
  with assms have "streamTyped js rte rtc ops co s agg opts keepAll [] w = Some (its, w')"
    by (simp add: Stream_def)
  from streamTyped_runs [OF this] True show ?thesis by (simp add: Stream_def)
next
  case False
  with assms have "streamGeneric js v s (refOf ops agg) keepAll [] w = Some (its, w')"
    by (simp add: Stream_def)
  from streamGeneric_runs [OF this] False show ?thesis by (simp add: Stream_def)
qed

interpretation store_reader: reader "storeStream js rte rtc v ops co s agg opts w" "streamItems js rte rtc v ops co s agg opts w"
  for js rte rtc v ops co s agg opts w
proof
  fix its yield st
  assume "streamItems js rte rtc v ops co s agg opts w = Some its"
  then obtain w' where "Stream js rte rtc v ops co s agg opts keepAll [] w = Some (its, w')"
    by (auto simp: streamItems_def)
  from Stream_runs [OF this] show "storeStream js rte rtc v ops co s agg opts w yield st = Some (runSeq its yield st)"
    unfolding runsLike_def storeStream_def by fastforce
qed

end
