(* ===== verification/EventLoad.thy ===== *)
theory EventLoad
  imports EventStream "HOL-Library.Sublist"
begin

section \<open>Loading restores the aggregate from its log\<close>

text \<open>
  The specification of a load: the aggregate's messages in the stream, from its last snapshot on, are
  applied in order, and the version is the sequence of the last of them. This theory shows that
  \<^verbatim>\<open>Load\<close> refines it for a JetStream that behaves as documented, and that it returns.
\<close>

subsection \<open>Replay\<close>

fun replay :: "'st messageFn \<Rightarrow> rawMsg list \<Rightarrow> 'st \<Rightarrow> goerror option \<times> 'st" where
  "replay fn [] st = (None, st)"
| "replay fn (m # ms) st =
     (case fn (rawSubject m) (rawData m) (rawTime m) (rawSeq m) st of
        (Some err, st') \<Rightarrow> (Some err, st')
      | (None, st') \<Rightarrow> replay fn ms st')"

text \<open>What is applied: \<open>base\<close> is the stream when the snapshot was looked up, \<open>seen\<close> when the last message came.\<close>

definition history :: "string \<Rightarrow> string \<Rightarrow> rawMsg list \<Rightarrow> rawMsg list \<Rightarrow> rawMsg list" where
  "history snapSubj flt base seen =
     (let snaps = matching snapSubj base in
      if snaps = [] then matching flt seen
      else last snaps # filter (\<lambda>m. rawSeq (last snaps) < rawSeq m) (matching flt seen))"

definition restore ::
  "'v Event reflect \<Rightarrow> 'v Command reflect \<Rightarrow> ('a, 'v) aggregateOps \<Rightarrow> 'v codecOps \<Rightarrow> 'a \<Rightarrow> rawMsg list \<Rightarrow> rawMsg list \<Rightarrow> 'a option" where
  "restore rte rtc ops co agg base seen =
     (let ms = history (SnapshotSubject ops agg) (aggFilter (refOf ops agg)) base seen in
      if ms = [] then Some agg
      else case eventRegistryFor rte rtc ops agg of
        Inl err \<Rightarrow> None
      | Inr reg \<Rightarrow>
          (case replay (\<lambda>subject data timestamp seq. applyMessage ops co reg
               (CHR ''.'' # snapshotEventName (snd (EventTypes ops agg))) (TakeSnapshot ops \<noteq> None) subject data timestamp)
               ms agg of
             (None, agg') \<Rightarrow> Some agg'
           | (Some err, _) \<Rightarrow> None))"

subsection \<open>Ascending logs\<close>

lemma matching_append [simp]: "matching flt (xs @ ys) = matching flt xs @ matching flt ys"
  by (simp add: matching_def)

lemma matching_sorted: "sorted_wrt (<) (map rawSeq ms) \<Longrightarrow> sorted_wrt (<) (map rawSeq (matching flt ms))"
  unfolding matching_def by (induction ms) auto

lemma filter_above:
  fixes n :: uint64
  assumes "sorted_wrt (<) (map rawSeq ms)" "filter (\<lambda>m. n \<le> rawSeq m) ms = m # rest"
  shows "filter (\<lambda>x. rawSeq m < rawSeq x) ms = rest"
  using assms
proof (induction ms)
  case (Cons a ms)
  show ?case
  proof (cases "n \<le> rawSeq a")
    case True
    with Cons.prems have "a = m" "filter (\<lambda>m. n \<le> rawSeq m) ms = rest" "\<forall>x \<in> set ms. rawSeq m < rawSeq x" by auto
    moreover from this True have "filter (\<lambda>m. n \<le> rawSeq m) ms = ms" by (intro filter_True) fastforce
    ultimately show ?thesis by simp
  next
    case False
    with Cons.prems have "filter (\<lambda>m. n \<le> rawSeq m) ms = m # rest" by simp
    moreover from this have "n \<le> rawSeq m" by (metis filter_eq_Cons_iff)
    ultimately show ?thesis using Cons False by auto
  qed
qed simp

lemma log_seq:
  assumes "logLaw view" "m \<in> set (view S w)"
  shows "0 < rawSeq m" "rawSeq m \<noteq> - 1"
proof -
  have "0 < rawSeq m \<and> rawSeq m + 1 \<noteq> 0" using assms by (simp add: logLaw_def)
  then show "0 < rawSeq m" "rawSeq m \<noteq> - 1" by auto
qed

lemma log_sorted: "logLaw view \<Longrightarrow> sorted_wrt (<) (map rawSeq (matching flt (view S w)))"
  by (rule matching_sorted) (simp add: logLaw_def)

lemma pendingFrom_mem: "m \<in> set (pendingFrom flt n ms) \<Longrightarrow> m \<in> set ms \<and> natsMatch flt (rawSubject m) \<and> n \<le> rawSeq m"
  by (simp add: pendingFrom_def matching_def)

lemma pendingFrom_step:
  assumes log: "logLaw view" and pend: "pendingFrom flt n (view S w1) = m # rest" and g: "grows view w1 w'"
  shows "pendingFrom flt n (view S w') = m # pendingFrom flt (rawSeq m + 1) (view S w')"
proof -
  obtain more where more: "view S w' = view S w1 @ more" using g by (auto simp: grows_def)
  then obtain rest' where pend': "pendingFrom flt n (view S w') = m # rest'"
    using pend by (simp add: pendingFrom_def)
  have "rawSeq m \<noteq> - 1"
    using pendingFrom_mem [of m flt n "view S w1"] log_seq(2) [OF log, of m S w1] by (simp add: pend)
  then have "pendingFrom flt (rawSeq m + 1) (view S w') = filter (\<lambda>x. rawSeq m < rawSeq x) (matching flt (view S w'))"
    by (simp add: pendingFrom_def inc_less_eq_iff)
  also have "\<dots> = rest'"
    by (rule filter_above [OF log_sorted [OF log] pend' [unfolded pendingFrom_def]])
  finally show ?thesis using pend' by simp
qed

subsection \<open>The loop\<close>

text \<open>The parts of the law on consumers.\<close>

lemma law_ordered:
  assumes "consumerLaw js view conPos itPos" "jsOrderedConsumer js S cfg w = (Inr con, w')" "ocFilterSubjects cfg = [flt]"
    "ocDeliverPolicy cfg = DeliverByStartSequencePolicy"
  shows "conPos con = (S, flt, ocOptStartSeq cfg)" "countsPending js view con (conPos con) w'"
  using assms(1) [unfolded consumerLaw_def, THEN conjunct1, rule_format, of S cfg w con w' flt] assms(2-4) by blast+

lemma law_named:
  assumes "consumerLaw js view conPos itPos" "jsCreateConsumer js S cfg w = (Inr con, w')" "ccFilterSubjects cfg = []"
    "ccDeliverPolicy cfg \<noteq> DeliverNewPolicy"
  shows "conPos con = (S, ccFilterSubject cfg,
      if ccDeliverPolicy cfg = DeliverByStartSequencePolicy then ccOptStartSeq cfg else 0)"
    "countsPending js view con (conPos con) w'"
  using assms(1) [unfolded consumerLaw_def, THEN conjunct2, THEN conjunct1, rule_format, of S cfg w con w'] assms(2-4)
  by blast+

lemma law_iter:
  assumes "consumerLaw js view conPos itPos" "consMessages js con w = (Inr it, w')"
  shows "itPos it w' = conPos con"
  using assms(1) [unfolded consumerLaw_def, THEN conjunct2, THEN conjunct2, THEN conjunct1, rule_format, of con w it w']
    assms(2) by simp

lemma law_next:
  assumes "consumerLaw js view conPos itPos" "itNext js it w = Some (Inr msg, w')" "itPos it w = (S, flt, n)"
  obtains m rest where "pendingFrom flt n (view S w') = m # rest" "delivers msg m (length rest)"
    "itPos it w' = (S, flt, rawSeq m + 1)"
  using assms(1) [unfolded consumerLaw_def, THEN conjunct2, THEN conjunct2, THEN conjunct2, rule_format,
      of it w msg w' S flt n] assms(2,3) that by auto

lemma messagePass_step:
  assumes law: "consumerLaw js view conPos itPos" and pos: "itPos it w = (S, flt, n)"
  obtains
    (blocked) "itNext js it w = None" "messagePass js it fn v st w = None"
  | (failed) e v' st' w' where "messagePass js it fn v st w = Some (Inl ((Some e, v'), st', w'))"
  | (took) msg m rest st' w' where "itNext js it w = Some (Inr msg, w')" "pendingFrom flt n (view S w') = m # rest"
    "fn (rawSubject m) (rawData m) (rawTime m) (rawSeq m) st = (None, st')" "itPos it w' = (S, flt, rawSeq m + 1)"
    "messagePass js it fn v st w = Some (if rest = [] then Inl ((None, rawSeq m), st', w') else Inr (rawSeq m, st', w'))"
proof (cases "ctxErr js w")
  case None
  show thesis
  proof (cases "itNext js it w")
    case nx: None
    with None show thesis by (intro blocked) (simp_all add: messagePass_def)
  next
  case nx: (Some x)
  obtain n1 w' where "x = (n1, w')" by fastforce
  note nx = nx [unfolded this]
  show thesis
  proof (cases n1)
    case (Inl err)
    with None nx show thesis by (intro failed) (simp add: messagePass_def)
  next
    case (Inr msg)
    from law_next [OF law nx [unfolded Inr] pos] obtain m rest where
      m: "pendingFrom flt n (view S w') = m # rest" "delivers msg m (length rest)"
        "itPos it w' = (S, flt, rawSeq m + 1)" .
    from m(2) obtain meta where meta: "jsMetadata msg = Inr meta" "metaStreamSeq meta = rawSeq m"
      "metaTimestamp meta = rawTime m" "unat (metaNumPending meta) = length rest" "jsSubject msg = rawSubject m"
      "jsData msg = rawData m" unfolding delivers_def by blast
    have zero: "metaNumPending meta = 0 \<longleftrightarrow> rest = []"
      using meta(4) by (simp flip: unat_eq_0)
    obtain e st' where fn: "fn (rawSubject m) (rawData m) (rawTime m) (rawSeq m) st = (e, st')" by fastforce
    show thesis
    proof (cases e)
      case some: (Some err)
      with None nx Inr meta fn show thesis by (intro failed) (simp add: messagePass_def Let_def)
    next
      case none: None
      with None nx Inr m meta fn zero show thesis by (intro took) (simp_all add: messagePass_def Let_def)
    qed
  qed
  qed
qed (use failed in \<open>simp add: messagePass_def\<close>)

lemma passes_replay:
  assumes laws: "consumerLaw js view conPos itPos" "readLaw js view" "logLaw view"
    and "passes js it fn v st w r" "itPos it w = (S, flt, n)" "fst (fst r) = None"
  shows "grows view w (snd (snd r)) \<and> pendingFrom flt n (view S (snd (snd r))) \<noteq> [] \<and>
     snd (fst r) = rawSeq (last (pendingFrom flt n (view S (snd (snd r))))) \<and>
     replay fn (pendingFrom flt n (view S (snd (snd r)))) st = (None, fst (snd r))"
  using assms(4-6)
proof (induction arbitrary: n rule: passes.induct)
  case (last_pass v st w r)
  show ?case
  proof (rule messagePass_step [OF laws(1) last_pass(2), of fn v st])
    fix msg m rest st' w'
    assume "itNext js it w = Some (Inr msg, w')" "pendingFrom flt n (view S w') = m # rest"
      "fn (rawSubject m) (rawData m) (rawTime m) (rawSeq m) st = (None, st')"
      "messagePass js it fn v st w = Some (if rest = [] then Inl ((None, rawSeq m), st', w') else Inr (rawSeq m, st', w'))"
    with last_pass read_grows(7) [OF laws(2)] show ?case by (auto split: if_splits)
  qed (use last_pass in auto)
next
  case (more_passes v st w v' st1 w1 r)
  show ?case
  proof (rule messagePass_step [OF laws(1) more_passes(4), of fn v st])
    fix msg m rest st' w'
    assume nx: "itNext js it w = Some (Inr msg, w')" and pend: "pendingFrom flt n (view S w') = m # rest"
      and fn: "fn (rawSubject m) (rawData m) (rawTime m) (rawSeq m) st = (None, st')"
      and pos: "itPos it w' = (S, flt, rawSeq m + 1)"
      and "messagePass js it fn v st w = Some (if rest = [] then Inl ((None, rawSeq m), st', w') else Inr (rawSeq m, st', w'))"
    with more_passes(1) have eq: "st1 = st'" "w1 = w'" by (auto split: if_splits)
    note IH = more_passes.IH [unfolded eq, OF pos more_passes.prems(2)]
    have "grows view w (snd (snd r))"
      by (rule grows_trans [OF read_grows(7) [OF laws(2) nx] IH [THEN conjunct1]])
    with IH fn pendingFrom_step [OF laws(3) pend, of "snd (snd r)"] show ?case by simp
  qed (use more_passes in auto)
qed

lemma messageLoop_None_pass:
  "messageLoop js it fn v st w = None \<Longrightarrow> messagePass js it fn v st w = None \<or>
     (\<exists>v' st' w'. messagePass js it fn v st w = Some (Inr (v', st', w')) \<and> messageLoop js it fn v' st' w' = None)"
  by (subst (asm) messageLoop.simps) (auto split: option.splits sum.splits)

text \<open>
  The loop waits only for a message that is pending, and every message taken moves the iterator to a
  higher sequence: it ends whatever others append meanwhile.
\<close>

lemma messageLoop_returns:
  assumes law: "consumerLaw js view conPos itPos" and wait: "nextLaw js view itPos" and log: "logLaw view"
    and "itPos it w = (S, flt, n)" "pendingFrom flt n (view S w) \<noteq> []"
  shows "\<exists>r. messageLoop js it fn v st w = Some r"
  using assms(4,5)
proof (induction "2 ^ 64 - unat n" arbitrary: n v st w rule: less_induct)
  case less
  show ?case
  proof (rule ccontr)
    assume "\<not> ?case"
    then have "messageLoop js it fn v st w = None" by (cases "messageLoop js it fn v st w") blast+
    moreover have nxt: "itNext js it w \<noteq> None"
      using wait [unfolded nextLaw_def, rule_format, OF conjI, OF _ less.prems(1)] less.prems(2) by (rule contrapos_nn [rotated])
    then have "messagePass js it fn v st w \<noteq> None"
      by (auto simp: messagePass_def Let_def simp del: not_None_eq split: option.splits sum.splits prod.splits)
    ultimately obtain v1 st1 w1 where pass: "messagePass js it fn v st w = Some (Inr (v1, st1, w1))"
      and none: "messageLoop js it fn v1 st1 w1 = None"
      by (metis messageLoop_None_pass)
    show False
    proof (rule messagePass_step [OF law less.prems(1), of fn v st])
      fix msg m rest st' w'
      assume pend: "pendingFrom flt n (view S w') = m # rest" and pos: "itPos it w' = (S, flt, rawSeq m + 1)"
        and "messagePass js it fn v st w = Some (if rest = [] then Inl ((None, rawSeq m), st', w') else Inr (rawSeq m, st', w'))"
      with pass have w1: "w1 = w'" and rest: "rest \<noteq> []" by (auto split: if_splits)
      have "m \<in> set (view S w')" "n \<le> rawSeq m"
        using pendingFrom_mem [of m flt n "view S w'"] by (simp_all add: pend)
      then have "n < rawSeq m + 1"
        using log_seq(2) [OF log, of m S w'] inc_less_eq_self_iff_eq [of "rawSeq m"] by (simp add: not_le)
      then have less_n: "2 ^ 64 - unat (rawSeq m + 1) < 2 ^ 64 - unat n"
        using unsigned_less [of n, where ?'a = nat] by (simp add: word_less_nat_alt diff_less_mono2)
      have "pendingFrom flt (rawSeq m + 1) (view S w') \<noteq> []"
        using pendingFrom_step [OF log pend grows_refl] pend rest by simp
      from less.hyps [OF less_n pos this, of v1 st1] none show False by (simp add: w1)
    qed (use pass in auto)
  qed
qed

lemma forEach_replay:
  assumes laws: "consumerLaw js view conPos itPos" "readLaw js view" "logLaw view"
    and con: "conPos con = (S, flt, n)" "countsPending js view con (conPos con) w"
    and run: "forEachAggregateMessage js con fn st w = Some ((None, v), st', w')"
  shows "\<exists>more rest. view S w' = view S w @ more @ rest \<and> replay fn (pendingFrom flt n (view S w @ more)) st = (None, st') \<and>
     v = (if pendingFrom flt n (view S w @ more) = [] then 0 else rawSeq (last (pendingFrom flt n (view S w @ more))))"
proof (cases "pendingFrom flt n (view S w) = []")
  case True
  with con have "cachedPending js con = Some 0"
    by (auto simp: countsPending_def unat_eq_0)
  with run True show ?thesis
    by (intro exI [of _ "[]"]) (auto simp: forEachAggregateMessage_def)
next
  case False
  obtain k where k: "cachedPending js con = Some k" "unat k = length (pendingFrom flt n (view S w))"
    using con by (auto simp: countsPending_def)
  with False have "k \<noteq> 0" by auto
  moreover obtain io w1 where msgs: "consMessages js con w = (io, w1)" by fastforce
  ultimately obtain it w2 where it: "io = Inr it" and loop: "messageLoop js it fn 0 st w1 = Some ((None, v), st', w2)"
    and w': "w' = itStop js it w2"
    using run k by (cases io) (auto simp: forEachAggregateMessage_def)
  have g1: "grows view w w1" by (rule read_grows(6) [OF laws(2) msgs])
  have pos: "itPos it w1 = (S, flt, n)" using law_iter [OF laws(1) msgs [unfolded it]] con by simp
  have "passes js it fn 0 st w1 ((None, v), st', w2)" using loop by (simp add: messageLoop_passes)
  note loop = passes_replay [OF laws this pos, unfolded fst_conv snd_conv, OF refl]
  have "grows view w w2" by (rule grows_trans [OF g1 loop [THEN conjunct1]])
  then obtain more where more: "view S w2 = view S w @ more" unfolding grows_def by blast
  obtain rest where "view S w' = view S w2 @ rest"
    using read_grows(8) [OF laws(2), of w2 it] unfolding w' grows_def by blast
  with loop more show ?thesis by (intro exI [of _ more] exI [of _ rest]) simp
qed

text \<open>A consumer is asked for messages only if it counted some when it was created.\<close>

lemma forEach_returns:
  assumes laws: "consumerLaw js view conPos itPos" "nextLaw js view itPos" "readLaw js view" "logLaw view"
    and con: "countsPending js view con (conPos con) w"
  shows "forEachAggregateMessage js con fn st w \<noteq> None"
proof -
  obtain S flt n where pos: "conPos con = (S, flt, n)" by (cases "conPos con")
  obtain k where k: "cachedPending js con = Some k" "unat k = length (pendingFrom flt n (view S w))"
    using con pos by (auto simp: countsPending_def)
  obtain io w1 where msgs: "consMessages js con w = (io, w1)" by fastforce
  show ?thesis
  proof (cases "k = 0")
    case False
    obtain more where "view S w1 = view S w @ more"
      using read_grows(6) [OF laws(3) msgs] unfolding grows_def by blast
    moreover have "pendingFrom flt n (view S w) \<noteq> []" using k(2) False by (auto simp: unat_eq_0)
    ultimately have pend: "pendingFrom flt n (view S w1) \<noteq> []" by (simp add: pendingFrom_def)
    show ?thesis
    proof (cases io)
      case (Inr it)
      have "itPos it w1 = (S, flt, n)" using law_iter [OF laws(1) msgs [unfolded Inr]] pos by simp
      from messageLoop_returns [OF laws(1,2,4) this pend, of fn 0 st] msgs Inr show ?thesis
        by (auto simp: forEachAggregateMessage_def)
    qed (use msgs in \<open>auto simp: forEachAggregateMessage_def\<close>)
  qed (simp add: forEachAggregateMessage_def k)
qed

subsection \<open>Opening a consumer\<close>

lemma open_pos:
  assumes law: "consumerLaw js view conPos itPos"
    and op: "openAggregateConsumer js s S flt ref startSeq w = (Inr (con, cleanup), w')"
  shows "\<exists>n. conPos con = (S, flt, n) \<and> countsPending js view con (conPos con) w' \<and> (n = startSeq \<or> startSeq = 0 \<and> n \<le> 1)"
proof (cases "case consumerName s of Some f \<Rightarrow> f ref | None \<Rightarrow> []")
  case Nil
  let ?cfg = "\<lparr>ocFilterSubjects = [flt], ocDeliverPolicy = DeliverByStartSequencePolicy,
     ocOptStartSeq = (if startSeq = 0 then 1 else startSeq), ocInactiveThreshold = aggregateConsumerInactiveThreshold\<rparr>"
  have "jsOrderedConsumer js S ?cfg w = (Inr con, w')"
    using op Nil by (auto simp: openAggregateConsumer_def split: prod.splits sum.splits)
  from law_ordered [OF law this, of flt] show ?thesis by simp
next
  case (Cons c cs)
  obtain w1 where "jsCreateConsumer js S (namedConsumerConfig flt (c # cs) startSeq) w1 = (Inr con, w')"
    using op Cons by (auto simp: openAggregateConsumer_def openNamedAggregateConsumer_def
        split: prod.splits sum.splits option.splits)
  from law_named [OF law this] show ?thesis by (auto simp: namedConsumerConfig_def word_gt_0)
qed

lemma pendingFrom_first:
  assumes "logLaw view" "n \<le> 1" "view S w = seen @ rest"
  shows "pendingFrom flt n seen = matching flt seen"
  unfolding pendingFrom_def
proof (rule filter_True, rule ballI)
  fix m assume "m \<in> set (matching flt seen)"
  then have "m \<in> set (view S w)" using assms(3) by (auto simp: matching_def)
  then have "1 \<le> rawSeq m" using log_seq(1) [OF assms(1)] inc_le [of 0 "rawSeq m"] by simp
  with assms(2) show "n \<le> rawSeq m" by simp
qed

subsection \<open>Load refines restore\<close>

definition snapshotSubjectOf :: "('a, 'v) aggregateOps \<Rightarrow> 'a \<Rightarrow> Subject" where
  "snapshotSubjectOf ops agg =
     \<lparr>Scope = AggregateScope (refOf ops agg), Kind = KindEvent, AggType = AggregateType (refOf ops agg),
      AggID = AggregateID (refOf ops agg), Name = snapshotEventName (snd (EventTypes ops agg))\<rparr>"

lemma SnapshotSubject_string: "SnapshotSubject ops agg = SubjectString (snapshotSubjectOf ops agg)"
  by (simp add: SnapshotSubject_def snapshotSubjectOf_def SubjectString_def)

lemma snapshot_in_filter:
  assumes "validSubject (snapshotSubjectOf ops agg)" "natsMatch (SnapshotSubject ops agg) x"
  shows "natsMatch (aggFilter (refOf ops agg)) x"
proof -
  let ?r = "refOf ops agg"
  have tokens: "validToken (AggregateScope ?r)" "validToken (AggregateType ?r)" "validToken (AggregateID ?r)"
    "validToken (snapshotEventName (snd (EventTypes ops agg)))"
    using assms(1) by (simp_all add: validSubject_def snapshotSubjectOf_def)
  have wild: "''>'' \<noteq> t \<and> ''*'' \<noteq> t" if "validToken t" for t
    using that by auto
  have "Split CHR ''.'' (aggFilter ?r) = [AggregateScope ?r, KindEvent, AggregateType ?r, AggregateID ?r, ''>'']"
    unfolding aggFilter_def AggregateMessageFilter_def
    by (rule Split_filter5) (use tokens in \<open>auto simp: validToken_bytes kind_defs\<close>)
  moreover have "Split CHR ''.'' (SnapshotSubject ops agg) = [AggregateScope ?r, KindEvent, AggregateType ?r, AggregateID ?r,
      snapshotEventName (snd (EventTypes ops agg))]"
    unfolding SnapshotSubject_string Split_SubjectString [OF assms(1)] by (simp add: snapshotSubjectOf_def)
  moreover have "''>'' \<notin> set (Split CHR ''.'' (SnapshotSubject ops agg))"
    "''*'' \<notin> set (Split CHR ''.'' (SnapshotSubject ops agg))"
    using tokens [THEN wild] calculation(2) by (simp_all add: kind_defs)
  ultimately show ?thesis
    using assms(2) unfolding natsMatch_def by (auto simp: tokensMatch_no_tail list_all2_Cons1)
qed

lemma last_above:
  assumes "sorted_wrt (<) (map rawSeq ms)" "m \<in> set ms"
  shows "rawSeq (last ms) = (if filter (\<lambda>x. rawSeq m < rawSeq x) ms = [] then rawSeq m
     else rawSeq (last (filter (\<lambda>x. rawSeq m < rawSeq x) ms)))"
  using assms
proof (induction ms rule: rev_induct)
  case (snoc a ms)
  then show ?case by (auto simp: sorted_wrt_append filter_empty_conv)
qed simp

lemma resolve_ok:
  assumes "resolveReadContext js rte rtc ops s agg w = (Inr read, w1)"
  shows "eventRegistryFor rte rtc ops agg = Inr (rcRegistry read)"
    "rcStreamName read = streamFor s (AggregateScope (refOf ops agg)) (AggregateType (refOf ops agg))"
    "rcFilter read = aggFilter (refOf ops agg)"
    "rcSnapshotSuffix read = CHR ''.'' # snapshotEventName (snd (EventTypes ops agg))"
    "rcSnapshottable read = (TakeSnapshot ops \<noteq> None)"
  using assms by (auto simp: resolveReadContext_def Let_def split: sum.splits prod.splits option.splits)

lemma resolve_grows:
  assumes "readLaw js view" "resolveReadContext js rte rtc ops s agg w = (r, w1)"
  shows "grows view w w1"
  using assms(2) read_grows(1) [OF assms(1)]
  by (auto simp: resolveReadContext_def Let_def split: sum.splits prod.splits option.splits)

lemma restore_replay:
  assumes "eventRegistryFor rte rtc ops agg = Inr (rcRegistry read)"
    "rcSnapshotSuffix read = CHR ''.'' # snapshotEventName (snd (EventTypes ops agg))"
    "rcSnapshottable read = (TakeSnapshot ops \<noteq> None)"
    "replay (applyFn ops co read) (history (SnapshotSubject ops agg) (aggFilter (refOf ops agg)) base seen) agg = (None, agg')"
  shows "restore rte rtc ops co agg base seen = Some agg'"
proof -
  have "applyFn ops co read = (\<lambda>subject data timestamp seq. applyMessage ops co (rcRegistry read)
      (CHR ''.'' # snapshotEventName (snd (EventTypes ops agg))) (TakeSnapshot ops \<noteq> None) subject data timestamp)"
    by (rule ext)+ (simp add: applyFn_def assms)
  with assms(1,4) show ?thesis by (auto simp: restore_def Let_def)
qed

definition loadOptions :: ReadOptions where
  "loadOptions = \<lparr>SkipSnapshotFastPath = False, IncludeSnapshots = False\<rparr>"

text \<open>
  The position after the snapshot: what was applied, and where the consumer has to start.
\<close>

lemma startSeq_base:
  assumes "lastMsgLaw js view" "readLaw js view"
    "startSeqAfterSnapshot js ops S loadOptions (Some (\<lambda>subject data timestamp. fn subject data timestamp 0)) agg w =
       (Inr (startSeq, raw), agg1, w')"
  obtains (none) "matching (SnapshotSubject ops agg) (view S w') = []" "startSeq = 0" "agg1 = agg" "grows view w w'"
  | (some) m where "matching (SnapshotSubject ops agg) (view S w') \<noteq> []" "m = last (matching (SnapshotSubject ops agg) (view S w'))"
    "startSeq = rawSeq m + 1" "fn (rawSubject m) (rawData m) (rawTime m) 0 agg = (None, agg1)" "grows view w w'"
proof -
  obtain r w1 where last: "jsGetLastMsg js S (SnapshotSubject ops agg) w = (r, w1)" by fastforce
  note g = read_grows(2) [OF assms(2) last]
  show thesis
  proof (cases r)
    case (Inl err)
    with assms(3) last have "errorsIs err jetstreamErrMsgNotFound" "startSeq = 0" "agg1 = agg" "w' = w1"
      by (auto simp: startSeqAfterSnapshot_def loadOptions_def split: if_splits)
    with assms(1) [unfolded lastMsgLaw_def, THEN conjunct2, rule_format, of S "SnapshotSubject ops agg" w err w1]
      last Inl g none show thesis by simp
  next
    case (Inr m)
    with assms(3) last have "startSeq = rawSeq m + 1" "fn (rawSubject m) (rawData m) (rawTime m) 0 agg = (None, agg1)" "w' = w1"
      by (auto simp: startSeqAfterSnapshot_def loadOptions_def split: prod.splits option.splits)
    with assms(1) [unfolded lastMsgLaw_def, THEN conjunct1, rule_format, of S "SnapshotSubject ops agg" w m w1]
      last Inr g some [of m] show thesis by simp
  qed
qed

lemma startSeq_grows:
  assumes "readLaw js view" "startSeqAfterSnapshot js ops S opts f agg w = (r, agg1, w')"
  shows "grows view w w'"
  using assms(2) read_grows(2) [OF assms(1)]
  by (auto simp: startSeqAfterSnapshot_def split: if_splits prod.splits sum.splits option.splits)

lemma replay_after_snapshot:
  assumes log: "logLaw view" "view S w' = base @ later @ rest"
    and snap: "matching snap base \<noteq> []" "m = last (matching snap base)" "\<And>x. natsMatch snap x \<Longrightarrow> natsMatch flt x"
  shows "history snap flt base (base @ later) = m # pendingFrom flt (rawSeq m + 1) (base @ later)"
    "lastSeqFor flt (base @ later) =
       (if pendingFrom flt (rawSeq m + 1) (base @ later) = [] then rawSeq m
        else rawSeq (last (pendingFrom flt (rawSeq m + 1) (base @ later))))"
proof -
  have mem: "m \<in> set base" "natsMatch snap (rawSubject m)"
    using last_in_set [OF snap(1)] by (simp_all add: snap(2) matching_def)
  then have "rawSeq m \<noteq> - 1" using log_seq(2) [OF log(1), of m S w'] log(2) by simp
  then have eq: "pendingFrom flt (rawSeq m + 1) (base @ later) = filter (\<lambda>x. rawSeq m < rawSeq x) (matching flt (base @ later))"
    by (simp add: pendingFrom_def inc_less_eq_iff)
  then show "history snap flt base (base @ later) = m # pendingFrom flt (rawSeq m + 1) (base @ later)"
    using snap(1,2) by (simp add: history_def Let_def)
  have "sorted_wrt (<) (map rawSeq (matching flt (base @ later) @ matching flt rest))"
    using log_sorted [OF log(1), of flt S w'] log(2) by simp
  then have sorted: "sorted_wrt (<) (map rawSeq (matching flt (base @ later)))"
    unfolding map_append sorted_wrt_append by blast
  have "m \<in> set (matching flt (base @ later))" using mem snap(3) by (simp add: matching_def)
  with last_above [OF sorted this] show "lastSeqFor flt (base @ later) =
       (if pendingFrom flt (rawSeq m + 1) (base @ later) = [] then rawSeq m
        else rawSeq (last (pendingFrom flt (rawSeq m + 1) (base @ later))))"
    unfolding eq lastSeqFor_def by (auto simp del: matching_append)
qed

text \<open>The steps of a load that succeeds on an existing stream.\<close>

lemma Load_steps:
  assumes load: "Load js rte rtc ops co s agg w = Some (Inr version, agg', w')"
    and res: "resolveReadContext js rte rtc ops s agg w = (Inr read, w1)"
  obtains startSeq raw agg1 w2 con cleanup w3 v w4 where
    "startSeqAfterSnapshot js ops (rcStreamName read) loadOptions
       (Some (\<lambda>subject data timestamp. applyFn ops co read subject data timestamp 0)) agg w1 = (Inr (startSeq, raw), agg1, w2)"
    "openAggregateConsumer js s (rcStreamName read) (rcFilter read) (refOf ops agg1) startSeq w2 = (Inr (con, cleanup), w3)"
    "forEachAggregateMessage js con (applyFn ops co read) agg1 w3 = Some ((None, v), agg', w4)"
    "version = (if v = 0 \<and> 0 < startSeq then startSeq - 1 else v)" "w' = runCleanup js (rcStreamName read) cleanup w4"
proof -
  let ?fn = "applyFn ops co read"
  obtain sr agg1 w2 where ss: "startSeqAfterSnapshot js ops (rcStreamName read) loadOptions
      (Some (\<lambda>subject data timestamp. ?fn subject data timestamp 0)) agg w1 = (sr, agg1, w2)"
    by (cases "startSeqAfterSnapshot js ops (rcStreamName read) loadOptions
      (Some (\<lambda>subject data timestamp. ?fn subject data timestamp 0)) agg w1") auto
  obtain startSeq raw where sr: "sr = Inr (startSeq, raw)"
    using load res ss by (cases sr) (auto simp: Load_def loadOptions_def)
  note ss = ss [unfolded sr]
  obtain ro w3 where op: "openAggregateConsumer js s (rcStreamName read) (rcFilter read) (refOf ops agg1) startSeq w2 = (ro, w3)"
    by fastforce
  obtain con cleanup where ro: "ro = Inr (con, cleanup)"
    using load res ss op by (cases ro) (auto simp: Load_def loadOptions_def)
  note op = op [unfolded ro]
  obtain v w4 where "forEachAggregateMessage js con ?fn agg1 w3 = Some ((None, v), agg', w4)"
    "version = (if v = 0 \<and> 0 < startSeq then startSeq - 1 else v)" "w' = runCleanup js (rcStreamName read) cleanup w4"
    using load res ss op by (auto simp: Load_def loadOptions_def split: option.splits)
  from that [OF ss op this] show thesis .
qed

text \<open>The steps after the position is known, against the specification.\<close>

lemma load_from_position:
  assumes laws: "consumerLaw js view conPos itPos" "readLaw js view" "logLaw view" "lastMsgLaw js view"
    and snap: "\<And>x. natsMatch (SnapshotSubject ops agg) x \<Longrightarrow> natsMatch flt x"
    and ss: "startSeqAfterSnapshot js ops S loadOptions (Some (\<lambda>subject data timestamp. fn subject data timestamp 0)) agg w1 =
      (Inr (startSeq, raw), agg1, w2)"
    and seq: "\<And>subject data timestamp v. fn subject data timestamp v = fn subject data timestamp 0"
    and n: "n = startSeq \<or> startSeq = 0 \<and> n \<le> 1"
    and w': "view S w' = view S w2 @ later @ rest"
    and rep: "replay fn (pendingFrom flt n (view S w2 @ later)) agg1 = (None, agg')"
    and v: "v = (if pendingFrom flt n (view S w2 @ later) = [] then 0 else rawSeq (last (pendingFrom flt n (view S w2 @ later))))"
  shows "replay fn (history (SnapshotSubject ops agg) flt (view S w2) (view S w2 @ later)) agg = (None, agg') \<and>
     (if v = 0 \<and> 0 < startSeq then startSeq - 1 else v) = lastSeqFor flt (view S w2 @ later)"
  using laws(4,2) ss
proof (cases rule: startSeq_base)
  case none
  with n have "n \<le> 1" by auto
  with w' have "pendingFrom flt n (view S w2 @ later) = matching flt (view S w2 @ later)"
    by (intro pendingFrom_first [OF laws(3), of n S w' _ rest]) simp_all
  with none rep v show ?thesis
    by (auto simp: history_def lastSeqFor_def Let_def simp del: matching_append)
next
  case (some m)
  note after = replay_after_snapshot [OF laws(3) w' some(1,2) snap]
  have m: "m \<in> set (view S w')"
    using last_in_set [OF some(1)] w' by (simp add: some(2) matching_def)
  have start: "startSeq \<noteq> 0" using log_seq(2) [OF laws(3) m] some(3) by (metis add_eq_0_iff2)
  with n have n: "n = rawSeq m + 1" using some(3) by auto
  have "v = 0 \<longleftrightarrow> pendingFrom flt n (view S w2 @ later) = []"
  proof (cases "pendingFrom flt n (view S w2 @ later)")
    case (Cons x xs)
    then have "last (x # xs) \<in> set (view S w')"
      using pendingFrom_mem [of "last (x # xs)" flt n "view S w2 @ later"] w' by auto
    with Cons v log_seq(1) [OF laws(3)] show ?thesis by fastforce
  qed (simp add: v)
  with start have "(if v = 0 \<and> 0 < startSeq then startSeq - 1 else v) = lastSeqFor flt (view S w2 @ later)"
    using after(2) v n some(3) by (auto simp: word_gt_0)
  with after(1) rep n some(4) show ?thesis by (simp add: seq [of _ _ _ "rawSeq m"])
qed

text \<open>The error that stands for an empty history is returned only for a stream that holds nothing.\<close>

lemma validateTypeKey_sentinel: "validateTypeKey key b = Some err \<Longrightarrow> \<not> errorsIs err errStreamNotFound"
  by (auto simp: validateTypeKey_def ValidateToken_def orElse_Some split: option.splits if_splits)

lemma register_sentinel:
  "RegisterMessageType rte rtc c (anyEvent e) = (Some err, c') \<Longrightarrow> \<not> errorsIs err errStreamNotFound"
  using validateTypeKey_sentinel
  by (auto simp: RegisterMessageType_def anyEvent_def registerEvent_def registerType_def Let_def
      split: option.splits if_splits prod.splits)

lemma registerTypes_sentinel:
  "registerTypes rte rtc i evts reg = Inl err \<Longrightarrow> \<not> errorsIs err errStreamNotFound"
  by (induction rte rtc i evts reg rule: registerTypes.induct)
    (auto dest: register_sentinel split: prod.splits option.splits)

lemma eventRegistryFor_sentinel:
  assumes "eventRegistryFor rte rtc ops agg = Inl err"
  shows "\<not> errorsIs err errStreamNotFound"
proof (cases "registerTypes rte rtc 0 (fst (EventTypes ops agg)) newRegistry")
  case (Inl e)
  with assms registerTypes_sentinel [OF Inl] show ?thesis
    by (auto simp: eventRegistryFor_def split: prod.splits)
next
  case (Inr reg)
  with assms show ?thesis
    by (auto simp: eventRegistryFor_def dest: register_sentinel split: prod.splits option.splits)
qed

lemma resolve_not_found:
  assumes laws: "readLaw js view" "streamLaw js view"
    and "resolveReadContext js rte rtc ops s agg w = (Inl err, w1)" "errorsIs err errStreamNotFound"
  shows "view (streamFor s (AggregateScope (refOf ops agg)) (AggregateType (refOf ops agg))) w = []"
proof (cases "eventRegistryFor rte rtc ops agg")
  case (Inl e)
  with assms(3,4) eventRegistryFor_sentinel [OF Inl] show ?thesis by (auto simp: resolveReadContext_def)
next
  case (Inr reg)
  let ?S = "streamFor s (AggregateScope (refOf ops agg)) (AggregateType (refOf ops agg))"
  from assms(3) Inr obtain e where st: "jsStream js ?S w = (Some e, w1)" and err: "err = streamError ?S e"
    by (auto simp: resolveReadContext_def Let_def split: prod.splits option.splits)
  from laws(2) st have "\<not> errorsIs e errStreamNotFound" "errorsIs e jetstreamErrStreamNotFound \<longrightarrow> view ?S w1 = []"
    unfolding streamLaw_def by blast+
  with err assms(4) have "view ?S w1 = []" by (auto simp: streamError_def split: if_splits)
  with read_grows(1) [OF laws(1) st] show ?thesis unfolding grows_def by (metis append_is_Nil_conv)
qed

lemma Load_restores:
  assumes laws: "consumerLaw js view conPos itPos" "readLaw js view" "logLaw view" "lastMsgLaw js view"
    and stream: "streamLaw js view"
    and valid: "validSubject (snapshotSubjectOf ops agg)"
    and load: "Load js rte rtc ops co s agg w = Some (Inr version, agg', w')"
  shows "\<exists>base later rest.
     view (streamFor s (AggregateScope (refOf ops agg)) (AggregateType (refOf ops agg))) w' = base @ later @ rest \<and>
     prefix (view (streamFor s (AggregateScope (refOf ops agg)) (AggregateType (refOf ops agg))) w) base \<and>
     version = lastSeqFor (aggFilter (refOf ops agg)) (base @ later) \<and>
     restore rte rtc ops co agg base (base @ later) = Some agg'"
    (is "\<exists>base later rest. view ?S w' = _ \<and> _ \<and> _ = lastSeqFor ?flt _ \<and> _")
proof -
  obtain r w1 where res: "resolveReadContext js rte rtc ops s agg w = (r, w1)" by fastforce
  show ?thesis
  proof (cases r)
    case (Inl err)
    with load res have "version = 0" "agg' = agg" "errorsIs err errStreamNotFound"
      by (auto simp: Load_def split: if_splits)
    with resolve_not_found [OF laws(2) stream res [unfolded Inl]] show ?thesis
      by (intro exI [of _ "[]"] exI [of _ "view ?S w'"])
        (simp add: lastSeqFor_def matching_def restore_def history_def)
  next
    case (Inr read)
    note res = res [unfolded Inr]
    note rd = resolve_ok [OF res]
    obtain startSeq raw agg1 w2 con cleanup w3 v w4 where
      ss: "startSeqAfterSnapshot js ops ?S loadOptions
        (Some (\<lambda>subject data timestamp. applyFn ops co read subject data timestamp 0)) agg w1 = (Inr (startSeq, raw), agg1, w2)"
      and op: "openAggregateConsumer js s ?S ?flt (refOf ops agg1) startSeq w2 = (Inr (con, cleanup), w3)"
      and run: "forEachAggregateMessage js con (applyFn ops co read) agg1 w3 = Some ((None, v), agg', w4)"
      and version: "version = (if v = 0 \<and> 0 < startSeq then startSeq - 1 else v)"
      and w': "w' = runCleanup js ?S cleanup w4"
      using Load_steps [OF load res] unfolding rd by blast
    obtain n where con: "conPos con = (?S, ?flt, n)" "countsPending js view con (conPos con) w3"
      and n: "n = startSeq \<or> startSeq = 0 \<and> n \<le> 1"
      using open_pos [OF laws(1) op] by blast
    obtain m0 where m0: "view ?S w3 = view ?S w2 @ m0"
      using open_grows [OF laws(2) op] unfolding grows_def by blast
    from forEach_replay [OF laws(1-3) con run] obtain m1 rest where w4: "view ?S w4 = view ?S w2 @ (m0 @ m1) @ rest"
      and rep: "replay (applyFn ops co read) (pendingFrom ?flt n (view ?S w2 @ m0 @ m1)) agg1 = (None, agg')"
      and v: "v = (if pendingFrom ?flt n (view ?S w2 @ m0 @ m1) = [] then 0
        else rawSeq (last (pendingFrom ?flt n (view ?S w2 @ m0 @ m1))))"
      unfolding m0 by auto
    obtain tl where tl: "view ?S w' = view ?S w4 @ tl"
      using cleanup_grows [OF laws(2), of w4 ?S cleanup] unfolding w' grows_def by blast
    have w'_eq: "view ?S w' = view ?S w2 @ (m0 @ m1) @ (rest @ tl)" by (simp add: tl w4)
    have seq: "applyFn ops co read subject data timestamp v = applyFn ops co read subject data timestamp 0"
      for subject data timestamp v by (rule ext) (simp add: applyFn_def)
    have "prefix (view ?S w) (view ?S w2)"
      using grows_trans [OF resolve_grows [OF laws(2) res] startSeq_grows [OF laws(2) ss]]
      by (auto simp: grows_def prefix_def)
    note pre = this
    note pos = load_from_position [OF laws snapshot_in_filter [OF valid] ss seq n w'_eq rep v]
    show ?thesis
      using w'_eq pre pos restore_replay [OF rd(1,4,5) pos [THEN conjunct1]] version
      by (intro exI [of _ "view ?S w2"] exI [of _ "m0 @ m1"] exI [of _ "rest @ tl"]) simp
  qed
qed

lemma opened_returns:
  assumes "consumerLaw js view conPos itPos" "nextLaw js view itPos" "readLaw js view" "logLaw view"
    and "openAggregateConsumer js s S flt ref startSeq w = (Inr (con, cleanup), w')"
  shows "forEachAggregateMessage js con fn st w' \<noteq> None"
proof -
  have "countsPending js view con (conPos con) w'" using open_pos [OF assms(1,5)] by blast
  then show ?thesis by (rule forEach_returns [OF assms(1-4)])
qed

lemma Load_returns:
  assumes "consumerLaw js view conPos itPos" "nextLaw js view itPos" "readLaw js view" "logLaw view"
  shows "Load js rte rtc ops co s agg w \<noteq> None"
  by (auto simp: Load_def simp del: not_None_eq split: sum.split prod.split option.split dest: opened_returns [OF assms])

lemma Stream_returns:
  assumes "consumerLaw js view conPos itPos" "nextLaw js view itPos" "readLaw js view" "logLaw view"
  shows "Stream js rte rtc v ops co s agg opts yield (st :: 'st) w \<noteq> None"
proof -
  have "streamMessages js S opened dec yield (st :: 'st) w' \<noteq> None"
    if "openAggregateConsumer js s S flt ref startSeq w = (Inr opened, w')" for S flt ref startSeq w opened dec st w'
    using opened_returns [OF assms, of s S flt ref startSeq w "fst opened" "snd opened" w' "yieldMessage dec yield" st] that
    by (simp add: streamMessages_def)
  then show ?thesis
    by (auto simp: Stream_def streamTyped_def streamGeneric_def simp del: not_None_eq
        split: sum.split prod.split option.split bool.split)
qed

end
