(* ===== verification/MemoryStream.thy ===== *)
theory MemoryStream
  imports EventLoad
begin

section \<open>A JetStream server in memory\<close>

text \<open>
  The parameter of the NATS theories instantiated: a server that keeps its messages in lists, for one
  client at a time. It satisfies every law of theory \<open>JetStream\<close>, so the hypotheses of the properties
  can hold together, and it runs the examples that witness them. A stream holds at most \<open>memCap\<close>
  messages.
\<close>

record memWorld =
  mwLog :: "string \<Rightarrow> (string \<times> payload) list"
  mwStaged :: "string \<Rightarrow> natsMsg list"
  mwNuid :: nat
  mwIters :: "position list"

definition memCap :: nat where "memCap = 1000"

text \<open>Message number \<open>i\<close> from 0 has the sequence \<open>i + 1\<close>, which is also its time.\<close>

definition memSeq :: "nat \<Rightarrow> uint64" where "memSeq i = of_nat (i + 1)"

definition numberMsg :: "nat \<Rightarrow> string \<times> payload \<Rightarrow> rawMsg" where
  "numberMsg i e = \<lparr>rawSubject = fst e, rawData = snd e, rawTime = int i + 1, rawSeq = memSeq i\<rparr>"

definition memView :: "memWorld streamView" where
  "memView S w = map (\<lambda>(i, e). numberMsg i e) (enumerate 0 (take memCap (mwLog w S)))"

definition wrongLast :: "uint64 \<Rightarrow> goerror" where
  "wrongLast n = JSAPIError 10071 (''wrong last sequence: '' @ Itoa (uint n)) ''nats: API error''"

definition memAppend :: "string \<Rightarrow> (string \<times> payload) list \<Rightarrow> memWorld \<Rightarrow> memWorld" where
  "memAppend S es w = w\<lparr>mwLog := (mwLog w)(S := mwLog w S @ es)\<rparr>"

definition memRoom :: "string \<Rightarrow> nat \<Rightarrow> memWorld \<Rightarrow> bool" where
  "memRoom S k w \<longleftrightarrow> length (mwLog w S) + k \<le> memCap"

definition memFull :: goerror where "memFull = JSAPIError 10077 ''maximum messages exceeded'' ''nats: API error''"

definition memPublish :: "natsMsg \<Rightarrow> string \<Rightarrow> uint64 \<Rightarrow> string \<Rightarrow> memWorld \<Rightarrow> (goerror + uint64) \<times> memWorld" where
  "memPublish msg S expected flt w =
     (if lastSeqFor flt (memView S w) \<noteq> expected then (Inl (wrongLast (lastSeqFor flt (memView S w))), w)
      else if \<not> memRoom S 1 w then (Inl memFull, w)
      else (Inr (memSeq (length (mwLog w S))), memAppend S [(msgSubject msg, msgData msg)] w))"

definition memRequest :: "natsMsg \<Rightarrow> memWorld \<Rightarrow> (goerror + payload) \<times> memWorld" where
  "memRequest msg w =
     (let B = headerGet batchIDHeader msg; ms = mwStaged w B @ [msg]; S = headerGet ExpectedStreamHeader (hd ms);
          seq = lastSeqFor (headerGet ExpectedLastSubjSeqSubjHeader (hd ms)) (memView S w)
      in if headerGet batchCommitHeader msg \<noteq> ''1'' then
           (Inr emptyPayload, w\<lparr>mwStaged := (mwStaged w)(B := ms)\<rparr>)
         else if headerGet ExpectedLastSubjSeqHeader (hd ms) \<noteq> Itoa (uint seq) then (Inl (wrongLast seq), w)
         else if \<not> memRoom S (length ms) w then (Inl memFull, w)
         else (Inr emptyPayload, memAppend S (map (\<lambda>m. (msgSubject m, msgData m)) ms) w))"

definition memLast :: "string \<Rightarrow> string \<Rightarrow> memWorld \<Rightarrow> (goerror + rawMsg) \<times> memWorld" where
  "memLast S subj w =
     (if matching subj (memView S w) = [] then Inl jetstreamErrMsgNotFound else Inr (last (matching subj (memView S w))), w)"

definition memConsumer :: "position \<Rightarrow> memWorld \<Rightarrow> (goerror + position \<times> uint64) \<times> memWorld" where
  "memConsumer pos w = (case pos of (S, flt, n) \<Rightarrow>
     (Inr (pos, of_nat (length (pendingFrom flt n (memView S w)))), w))"

definition memNext :: "nat \<Rightarrow> memWorld \<Rightarrow> ((goerror + jsMsg) \<times> memWorld) option" where
  "memNext it w =
     (if it < length (mwIters w) then
        (case mwIters w ! it of (S, flt, n) \<Rightarrow>
           (case pendingFrom flt n (memView S w) of
              [] \<Rightarrow> None
            | m # rest \<Rightarrow>
                Some (Inr \<lparr>jsSubject = rawSubject m, jsData = rawData m,
                   jsMetadata = Inr \<lparr>metaStreamSeq = rawSeq m, metaConsumerSeq = rawSeq m, metaNumDelivered = 1,
                     metaNumPending = of_nat (length rest), metaTimestamp = rawTime m\<rparr>\<rparr>,
                 w\<lparr>mwIters := (mwIters w)[it := (S, flt, rawSeq m + 1)]\<rparr>)))
      else Some (Inl ContextDeadlineExceeded, w))"

definition memJS :: "(position \<times> uint64, nat, memWorld) jetstream" where
  "memJS = \<lparr>jsStream = (\<lambda>S w. (None, w)), jsPublishMsg = memPublish,
     jsPublish = (\<lambda>subj data w. (Inr 0, w)), ncRequestMsg = memRequest, jsGetLastMsg = memLast,
     jsOrderedConsumer = (\<lambda>S cfg. memConsumer (S, hd (ocFilterSubjects cfg), ocOptStartSeq cfg)),
     jsCreateConsumer = (\<lambda>S cfg. memConsumer (S, ccFilterSubject cfg,
        if ccDeliverPolicy cfg = DeliverByStartSequencePolicy then ccOptStartSeq cfg else 0)),
     jsDeleteConsumer = (\<lambda>S n w. (None, w)), cachedPending = (\<lambda>con. Some (snd con)),
     consMessages = (\<lambda>con w. (Inr (length (mwIters w)), w\<lparr>mwIters := mwIters w @ [fst con]\<rparr>)),
     itNext = memNext, itStop = (\<lambda>it w. w), ctxErr = (\<lambda>w. None), waitCtx = (\<lambda>d w. (True, w)),
     cleanupErr = (\<lambda>w. None), cleanupWait = (\<lambda>d w. (True, w)), warnLog = (\<lambda>m w. w),
     nuidNext = (\<lambda>w. (Itoa (int (mwNuid w)),
        w\<lparr>mwNuid := Suc (mwNuid w), mwStaged := (mwStaged w)(Itoa (int (mwNuid w)) := [])\<rparr>))\<rparr>"

definition memItPos :: "nat \<Rightarrow> memWorld \<Rightarrow> position" where
  "memItPos it w = mwIters w ! it"

definition memEmpty :: memWorld where
  "memEmpty = \<lparr>mwLog = (\<lambda>S. []), mwStaged = (\<lambda>B. []), mwNuid = 0, mwIters = []\<rparr>"

subsection \<open>The laws\<close>

lemma memView_upd [simp]:
  "memView S (mwStaged_update f w) = memView S w" "memView S (mwNuid_update g w) = memView S w"
  "memView S (mwIters_update h w) = memView S w"
  by (simp_all add: memView_def)

lemma memView_append:
  assumes "memRoom S (length es) w"
  shows "memView S (memAppend S es w) =
     memView S w @ map (\<lambda>(i, e). numberMsg i e) (enumerate (length (mwLog w S)) es)"
  using assms by (simp add: memView_def memAppend_def memRoom_def enumerate_append_eq)

lemma unat_small: "n < 2 ^ 64 \<Longrightarrow> unat (of_nat n :: uint64) = n"
  by (simp add: unat_of_nat)

lemma memLog_mem: "m \<in> set (memView S w) \<Longrightarrow> \<exists>i e. i < memCap \<and> m = numberMsg i e"
  by (fastforce simp: memView_def in_set_enumerate_eq)

lemma unat_memSeq: "i < memCap \<Longrightarrow> unat (memSeq i) = i + 1"
  unfolding memSeq_def by (rule unat_small) (simp add: memCap_def)

lemma mem_logLaw: "logLaw memView"
  unfolding logLaw_def
proof (intro allI conjI ballI)
  fix S w
  show "sorted_wrt (<) (map rawSeq (memView S w))"
    unfolding sorted_wrt_iff_nth_less
    by (auto simp: memView_def numberMsg_def nth_enumerate_eq word_less_nat_alt unat_memSeq)
next
  fix S w m
  assume "m \<in> set (memView S w)"
  then obtain i e where i: "i < memCap" "m = numberMsg i e" using memLog_mem by blast
  then have u: "unat (rawSeq m) = i + 1" by (simp add: numberMsg_def unat_memSeq)
  then show "0 < rawSeq m" by (simp add: word_less_nat_alt)
  have "rawSeq m + 1 = of_nat (i + 2)" using i by (simp add: numberMsg_def memSeq_def)
  moreover have "unat (of_nat (i + 2) :: uint64) = i + 2"
    using i(1) by (intro unat_small) (simp add: memCap_def)
  ultimately show "rawSeq m + 1 \<noteq> 0" by (metis add_is_0 unat_0 zero_neq_numeral)
qed

lemma length_memView: "length (memView S w) \<le> memCap"
  by (simp add: memView_def)

lemma length_pending: "length (pendingFrom flt n (memView S w)) \<le> memCap"
  unfolding pendingFrom_def matching_def
  by (meson length_filter_le length_memView order_trans)

lemma unat_pending:
  "unat (of_nat (length (pendingFrom flt n (memView S w))) :: uint64) = length (pendingFrom flt n (memView S w))"
  using length_pending [of flt n S w] by (intro unat_small) (simp add: memCap_def)

lemma mem_readLaw: "readLaw memJS memView"
  by (auto simp: readLaw_def memJS_def grows_def memLast_def memConsumer_def memNext_def split: prod.splits list.splits)

lemma mem_lastMsgLaw: "lastMsgLaw memJS memView"
  by (auto simp: lastMsgLaw_def memJS_def memLast_def split: if_splits)

lemma mem_streamLaw: "streamLaw memJS memView"
  by (simp add: streamLaw_def memJS_def)

lemma memAppend_grows:
  "memRoom S (length es) w \<Longrightarrow> grows memView w (memAppend S es w)"
  unfolding grows_def
proof
  fix T
  assume "memRoom S (length es) w"
  then show "\<exists>more. memView T (memAppend S es w) = memView T w @ more"
    by (cases "T = S") (auto simp: memView_append, simp add: memView_def memAppend_def)
qed

lemma mem_publishLaw: "publishLaw memJS memView"
  unfolding publishLaw_def
proof (intro allI impI)
  fix msg S expected flt w seq w'
  assume "jsPublishMsg memJS msg S expected flt w = (Inr seq, w')"
  then have seq: "lastSeqFor flt (memView S w) = expected" "memRoom S 1 w" "seq = memSeq (length (mwLog w S))"
    "w' = memAppend S [(msgSubject msg, msgData msg)] w"
    by (auto simp: memJS_def memPublish_def split: if_splits)
  then show "\<exists>more t. memView S w' = memView S w @ more @
      [\<lparr>rawSubject = msgSubject msg, rawData = msgData msg, rawTime = t, rawSeq = seq\<rparr>] \<and>
      lastSeqFor flt (memView S w @ more) = expected"
    by (intro exI [of _ "[]"] exI [of _ "int (length (mwLog w S)) + 1"]) (simp add: memView_append numberMsg_def)
qed

lemma mem_consumerLaw: "consumerLaw memJS memView fst memItPos"
  unfolding consumerLaw_def
proof (intro conjI allI impI, goal_cases)
  case (1 S cfg flt w con w')
  then show ?case by (auto simp: memJS_def memConsumer_def)
next
  case (2 S cfg flt w con w')
  then show ?case by (auto simp: memJS_def memConsumer_def countsPending_def unat_pending)
next
  case (3 S cfg w con w')
  then show ?case by (auto simp: memJS_def memConsumer_def)
next
  case (4 S cfg w con w')
  then show ?case by (auto simp: memJS_def memConsumer_def countsPending_def unat_pending)
next
  case (5 con w it w')
  then show ?case by (auto simp: memJS_def memItPos_def)
next
  case (6 it w msg w' S flt n)
  then have it: "it < length (mwIters w)" "mwIters w ! it = (S, flt, n)"
    by (auto simp: memJS_def memNext_def memItPos_def split: if_splits)
  with 6 obtain m rest where m: "pendingFrom flt n (memView S w) = m # rest"
    by (cases "pendingFrom flt n (memView S w)") (auto simp: memJS_def memNext_def)
  then have "unat (of_nat (length rest) :: uint64) = length rest"
    using length_pending [of flt n S w] by (intro unat_small) (simp add: memCap_def)
  with 6 it m show ?case by (auto simp: memJS_def memNext_def memItPos_def delivers_def)
qed

text \<open>The iterator waits forever where nothing is pending: nobody else appends to the server.\<close>

lemma mem_nextLaw: "nextLaw memJS memView memItPos"
  by (auto simp: nextLaw_def memJS_def memNext_def memItPos_def split: if_splits prod.splits list.splits)

lemma map_numbered: "map (\<lambda>m. (rawSubject m, rawData m)) (map (\<lambda>(i, e). numberMsg i e) (enumerate k es)) = es"
  by (induction es arbitrary: k) (simp_all add: numberMsg_def)

definition memStaged :: "string \<Rightarrow> memWorld \<Rightarrow> natsMsg list" where
  "memStaged B w = mwStaged w B"

lemma mem_batchLaw: "batchLaw memJS memView memStaged"
  unfolding batchLaw_def
proof (intro conjI allI impI, goal_cases)
  case (1 w B w')
  then show ?case by (auto simp: memJS_def memStaged_def)
next
  case (2 w B w')
  then show ?case by (auto simp: memJS_def grows_def)
next
  case (3 msg w resp w')
  then show ?case by (auto simp: memJS_def memRequest_def memStaged_def Let_def)
next
  case (4 msg w resp w')
  then show ?case by (auto simp: memJS_def memRequest_def grows_def Let_def)
next
  case (5 msg w resp w' ms S expected)
  let ?es = "map (\<lambda>m. (msgSubject m, msgData m)) ms"
  from 5 have req: "headerGet ExpectedLastSubjSeqHeader (hd ms) =
      Itoa (uint (lastSeqFor (headerGet ExpectedLastSubjSeqSubjHeader (hd ms)) (memView S w)))"
    "memRoom S (length ms) w" "w' = memAppend S ?es w"
    by (auto simp: memJS_def memRequest_def memStaged_def Let_def split: if_splits)
  then have "lastSeqFor (headerGet ExpectedLastSubjSeqSubjHeader (hd ms)) (memView S w) = expected"
    using 5 by (metis Itoa_inj_nonneg uint_ge_0 word_uint_eqI)
  with req show ?case
    by (intro exI [of _ "[]"] exI [of _ "map (\<lambda>(i, e). numberMsg i e) (enumerate (length (mwLog w S)) ?es)"])
      (auto simp: memView_append map_numbered simp del: map_map)
qed

lemmas mem_laws = mem_publishLaw mem_batchLaw mem_readLaw mem_consumerLaw mem_logLaw mem_lastMsgLaw mem_streamLaw mem_nextLaw

end
