(* ===== verification/Execute.thy ===== *)
theory Execute
  imports Errors
begin

section \<open>Execute: load, decide, save, retry\<close>

text \<open>
  \<^verbatim>\<open>src/execute.go\<close>. The code outside it is a parameter: the store, the two application callbacks, the
  random source and the wait of \<^verbatim>\<open>sleepBackoff\<close> (the select between the timer and the context) act
  on a world \<open>'w\<close> that is threaded through, so that anything may happen between two calls, other
  writers included. A pointer to an aggregate that a callee may mutate is passed and returned as a
  value of type \<open>'a\<close>. Durations are 64-bit nanoseconds: \<open>int\<close> with the wrap-around written out.
\<close>

subsection \<open>Configuration\<close>

record ExecuteConfig =
  MaxAttempts :: int
  BaseDelay :: int
  MaxDelay :: int

type_synonym ExecuteOption = "ExecuteConfig \<Rightarrow> ExecuteConfig"

definition WithExecuteMaxAttempts :: "int \<Rightarrow> ExecuteOption" where
  "WithExecuteMaxAttempts n = (\<lambda>c. c\<lparr>MaxAttempts := n\<rparr>)"

definition WithExecuteBackoff :: "int \<Rightarrow> int \<Rightarrow> ExecuteOption" where
  "WithExecuteBackoff baseDelay maxDelay = (\<lambda>c. c\<lparr>BaseDelay := baseDelay, MaxDelay := maxDelay\<rparr>)"

definition executeConfig :: "ExecuteOption list \<Rightarrow> ExecuteConfig" where
  "executeConfig opts =
     (let cfg = fold (\<lambda>opt c. opt c) opts
            \<lparr>MaxAttempts = 10, BaseDelay = 10 * millisecond, MaxDelay = 1000 * millisecond\<rparr>;
          cfg1 = (if MaxAttempts cfg < 1 then cfg\<lparr>MaxAttempts := 1\<rparr> else cfg);
          cfg2 = (if BaseDelay cfg1 \<le> 0 then cfg1\<lparr>BaseDelay := 10 * millisecond\<rparr> else cfg1)
      in if MaxDelay cfg2 < BaseDelay cfg2 then cfg2\<lparr>MaxDelay := BaseDelay cfg2\<rparr> else cfg2)"

subsection \<open>Backoff\<close>

definition wrap64 :: "int \<Rightarrow> int" where
  "wrap64 x = (x + 2 ^ 63) mod 2 ^ 64 - 2 ^ 63"

definition backoffDelay :: "ExecuteConfig \<Rightarrow> nat \<Rightarrow> int" where
  "backoffDelay cfg attempt = min (wrap64 (BaseDelay cfg * wrap64 (2 ^ min attempt 30))) (MaxDelay cfg)"

definition sleepBackoff ::
  "(int \<Rightarrow> 'w \<Rightarrow> int \<times> 'w) \<Rightarrow> (int \<Rightarrow> 'w \<Rightarrow> goerror option \<times> 'w) \<Rightarrow>
   ExecuteConfig \<Rightarrow> nat \<Rightarrow> 'w \<Rightarrow> goerror option \<times> 'w" where
  "sleepBackoff int64N wait cfg attempt w =
     (let delay = backoffDelay cfg attempt;
          (d, w1) = (if 0 < delay then int64N delay w else (delay, w))
      in wait d w1)"

subsection \<open>The retry loop\<close>

record ('a, 'e, 'w) executeEnv =
  newAggregate :: "'w \<Rightarrow> 'a \<times> 'w"
  storeLoad :: "'a \<Rightarrow> 'w \<Rightarrow> (goerror + uint64) \<times> 'a \<times> 'w"
  mutate :: "'a \<Rightarrow> uint64 \<Rightarrow> uint64 \<Rightarrow> 'w \<Rightarrow> (goerror + 'e list) \<times> 'a \<times> 'w"
  storeSave :: "'a \<Rightarrow> uint64 \<Rightarrow> 'e list \<Rightarrow> 'w \<Rightarrow> goerror option \<times> 'a \<times> 'w"
  randInt64N :: "int \<Rightarrow> 'w \<Rightarrow> int \<times> 'w"
  waitTimer :: "int \<Rightarrow> 'w \<Rightarrow> goerror option \<times> 'w"

text \<open>One pass of the loop body ends the function with a result or continues after a conflict.\<close>

datatype passResult = Return "goerror option" | Continue goerror

definition executePass :: "('a, 'e, 'w) executeEnv \<Rightarrow> ExecuteConfig \<Rightarrow> nat \<Rightarrow> 'w \<Rightarrow> passResult \<times> 'w" where
  "executePass env cfg attempt w =
     (let (serr, w0) = (if 0 < attempt
            then sleepBackoff (randInt64N env) (waitTimer env) cfg attempt w else (None, w))
      in case serr of
        Some err \<Rightarrow> (Return (Some err), w0)
      | None \<Rightarrow>
        (let (aggregate, w1) = newAggregate env w0;
             (loaded, aggregate1, w2) = storeLoad env aggregate w1
         in case loaded of
           Inl err \<Rightarrow> (Return (Some (Errorf ''load aggregate: '' err [])), w2)
         | Inr version \<Rightarrow>
           (let (decided, aggregate2, w3) = mutate env aggregate1 version (of_nat attempt) w2
            in case decided of
              Inl err \<Rightarrow> (Return (Some err), w3)
            | Inr events \<Rightarrow>
              if events = [] then (Return None, w3)
              else
                (let (saved, aggregate3, w4) = storeSave env aggregate2 version events w3
                 in case saved of
                   None \<Rightarrow> (Return None, w4)
                 | Some err \<Rightarrow>
                     if errorsIs err ErrConflict then (Continue err, w4)
                     else (Return (Some (Errorf ''save events: '' err [])), w4)))))"

fun executeLoop ::
  "('a, 'e, 'w) executeEnv \<Rightarrow> ExecuteConfig \<Rightarrow> nat \<Rightarrow> nat \<Rightarrow> goerror option \<Rightarrow> 'w \<Rightarrow> goerror option \<times> 'w" where
  "executeLoop env cfg 0 attempt lastErr w =
     (Some (Errorf ''execute retries exhausted: ''
        (case lastErr of None \<Rightarrow> ErrConflict | Some e \<Rightarrow> e) []), w)"
| "executeLoop env cfg (Suc n) attempt lastErr w =
     (case executePass env cfg attempt w of
        (Return r, w') \<Rightarrow> (r, w')
      | (Continue err, w') \<Rightarrow> executeLoop env cfg n (Suc attempt) (Some err) w')"

definition Execute :: "('a, 'e, 'w) executeEnv \<Rightarrow> ExecuteOption list \<Rightarrow> 'w \<Rightarrow> goerror option \<times> 'w" where
  "Execute env opts w =
     (let cfg = executeConfig opts in executeLoop env cfg (nat (MaxAttempts cfg)) 0 None w)"

subsection \<open>Configurations after normalisation\<close>

lemma executeConfig_bounds:
  "1 \<le> MaxAttempts (executeConfig opts)" "0 < BaseDelay (executeConfig opts)"
  "BaseDelay (executeConfig opts) \<le> MaxDelay (executeConfig opts)"
  by (auto simp: executeConfig_def Let_def millisecond_def)

lemma wrap64_id: "- (2 ^ 63) \<le> x \<Longrightarrow> x < 2 ^ 63 \<Longrightarrow> wrap64 x = x"
  by (simp add: wrap64_def)

lemma wrap64_shift: "wrap64 (2 ^ min k 30) = 2 ^ min k 30"
proof (rule wrap64_id)
  have "(2 ^ min k 30 :: int) \<le> 2 ^ 30" by (intro power_increasing) auto
  then show "(2 ^ min k 30 :: int) < 2 ^ 63" by simp
  show "- (2 ^ 63) \<le> (2 ^ min k 30 :: int)" by (rule order_trans [of _ 0]) auto
qed

subsection \<open>Runs of conflicting attempts\<close>

text \<open>\<open>conflictRun env cfg k w e w'\<close>: the first \<open>k\<close> passes from \<open>w\<close> all ended in a version
  conflict, the last one with the error \<open>e\<close>, and left the world \<open>w'\<close>.\<close>

inductive conflictRun ::
  "('a, 'e, 'w) executeEnv \<Rightarrow> ExecuteConfig \<Rightarrow> nat \<Rightarrow> 'w \<Rightarrow> goerror option \<Rightarrow> 'w \<Rightarrow> bool"
  for env cfg where
  run_none: "conflictRun env cfg 0 w None w"
| run_more: "conflictRun env cfg k w e w' \<Longrightarrow> executePass env cfg k w' = (Continue err, w'') \<Longrightarrow>
     conflictRun env cfg (Suc k) w (Some err) w''"

inductive_cases conflictRun_SucE: "conflictRun env cfg (Suc k) w e w'"
inductive_cases conflictRun_zeroE: "conflictRun env cfg 0 w e w'"

lemma executePass_conflict:
  "executePass env cfg k w = (Continue err, w') \<Longrightarrow> errorsIs err ErrConflict"
  by (auto simp: executePass_def Let_def split: prod.splits option.splits sum.splits if_splits)

lemma conflictRun_last:
  "conflictRun env cfg k w e w' \<Longrightarrow>
     (k = 0 \<and> e = None) \<or> (0 < k \<and> (\<exists>err. e = Some err \<and> errorsIs err ErrConflict))"
  by (induction rule: conflictRun.induct) (auto dest: executePass_conflict)

lemma executeLoop_trace:
  assumes "conflictRun env cfg k w0 lastErr w" and "executeLoop env cfg n k lastErr w = (r, w')"
  shows "\<exists>j last wj. k \<le> j \<and> j \<le> k + n \<and> conflictRun env cfg j w0 last wj \<and>
     (j = k + n \<and> r = Some (Errorf ''execute retries exhausted: ''
          (case last of None \<Rightarrow> ErrConflict | Some e \<Rightarrow> e) []) \<and> w' = wj
      \<or> j < k + n \<and> executePass env cfg j wj = (Return r, w'))"
  using assms
proof (induction n arbitrary: k lastErr w)
  case 0
  then show ?case by auto
next
  case (Suc n)
  obtain pr w1 where pass: "executePass env cfg k w = (pr, w1)" by fastforce
  show ?case
  proof (cases pr)
    case (Return x)
    with Suc.prems pass show ?thesis by (intro exI [of _ k]) auto
  next
    case (Continue err)
    have "conflictRun env cfg (Suc k) w0 (Some err) w1"
      using Suc.prems(1) pass Continue by (auto intro: run_more)
    moreover have "executeLoop env cfg n (Suc k) (Some err) w1 = (r, w')"
      using Suc.prems(2) pass Continue by simp
    ultimately obtain j last wj where j: "Suc k \<le> j" "j \<le> Suc k + n" "conflictRun env cfg j w0 last wj"
      and fin: "j = Suc k + n \<and> r = Some (Errorf ''execute retries exhausted: ''
          (case last of None \<Rightarrow> ErrConflict | Some e \<Rightarrow> e) []) \<and> w' = wj
        \<or> j < Suc k + n \<and> executePass env cfg j wj = (Return r, w')"
      using Suc.IH by blast
    show ?thesis
      by (rule exI [of _ j], rule exI [of _ last], rule exI [of _ wj]) (use j fin in auto)
  qed
qed

text \<open>What a pass that returns nil has done: the decision was taken on the state and version loaded in
  the same pass, and its events, if any, were saved at that version.\<close>

definition committedPass ::
  "('a, 'e, 'w) executeEnv \<Rightarrow> nat \<Rightarrow> 'w \<Rightarrow> 'w \<Rightarrow> bool" where
  "committedPass env attempt w0 w' \<longleftrightarrow>
     (\<exists>agg w1 version agg1 w2 events agg2 w3.
        newAggregate env w0 = (agg, w1) \<and>
        storeLoad env agg w1 = (Inr version, agg1, w2) \<and>
        mutate env agg1 version (of_nat attempt) w2 = (Inr events, agg2, w3) \<and>
        (events = [] \<and> w' = w3 \<or>
         events \<noteq> [] \<and> (\<exists>agg3. storeSave env agg2 version events w3 = (None, agg3, w'))))"

lemma executePass_nil:
  assumes "executePass env cfg k w = (Return None, w')"
  obtains w0 where "committedPass env k w0 w'"
    and "k = 0 \<Longrightarrow> w0 = w"
    and "0 < k \<Longrightarrow> sleepBackoff (randInt64N env) (waitTimer env) cfg k w = (None, w0)"
proof -
  obtain w0 where w0: "(if 0 < k then sleepBackoff (randInt64N env) (waitTimer env) cfg k w
      else (None, w)) = (None, w0)"
    using assms by (auto simp: executePass_def Let_def split: prod.splits option.splits if_splits)
  have "committedPass env k w0 w'"
    using assms w0 unfolding executePass_def committedPass_def Let_def
    by (auto split: prod.splits option.splits sum.splits if_splits)
  with w0 that show thesis by (auto split: if_splits)
qed

subsection \<open>Properties\<close>

text \<open>C10. Whatever the store and the callbacks do, \<^verbatim>\<open>Execute\<close> returns, after some number \<open>k\<close> of passes,
  at most the normalised \<^verbatim>\<open>MaxAttempts\<close>, that all ended in a version conflict and nothing else:
  either all attempts are used up and the error says so and is a conflict for \<^verbatim>\<open>errors.Is\<close>, or the
  next pass decided the result. In particular an attempt is repeated only after a conflict.\<close>

theorem Execute_runs:
  "\<exists>k last wk. k \<le> nat (MaxAttempts (executeConfig opts)) \<and>
     conflictRun env (executeConfig opts) k w last wk \<and>
     (k = nat (MaxAttempts (executeConfig opts)) \<and> snd (Execute env opts w) = wk \<and>
        (\<exists>e. last = Some e \<and> errorsIs e ErrConflict \<and>
          fst (Execute env opts w) = Some (Errorf ''execute retries exhausted: '' e []))
      \<or> k < nat (MaxAttempts (executeConfig opts)) \<and>
        executePass env (executeConfig opts) k wk = (Return (fst (Execute env opts w)), snd (Execute env opts w)))"
proof -
  let ?cfg = "executeConfig opts" and ?max = "nat (MaxAttempts (executeConfig opts))"
  obtain r w' where ex: "Execute env opts w = (r, w')" by fastforce
  then have "executeLoop env ?cfg ?max 0 None w = (r, w')"
    by (simp add: Execute_def Let_def)
  from executeLoop_trace [OF run_none this] obtain k last wk where
    k: "k \<le> ?max" "conflictRun env ?cfg k w last wk" and
    fin: "k = ?max \<and> r = Some (Errorf ''execute retries exhausted: ''
          (case last of None \<Rightarrow> ErrConflict | Some e \<Rightarrow> e) []) \<and> w' = wk
      \<or> k < ?max \<and> executePass env ?cfg k wk = (Return r, w')"
    by auto
  have "0 < ?max" using executeConfig_bounds(1) [of opts] by simp
  then show ?thesis
    using conflictRun_last [OF k(2)] k fin ex by (intro exI [of _ k] exI [of _ last] exI [of _ wk]) auto
qed

lemma Execute_nil_pass:
  assumes "Execute env opts w = (None, w')"
  shows "\<exists>k last wk w0. k < nat (MaxAttempts (executeConfig opts)) \<and>
     conflictRun env (executeConfig opts) k w last wk \<and> committedPass env k w0 w' \<and>
     (k = 0 \<and> w0 = wk \<or>
      0 < k \<and> sleepBackoff (randInt64N env) (waitTimer env) (executeConfig opts) k wk = (None, w0))"
proof -
  from executeLoop_trace [OF run_none, where n = "nat (MaxAttempts (executeConfig opts))"] assms
  obtain k last wk where k: "conflictRun env (executeConfig opts) k w last wk"
    "k < nat (MaxAttempts (executeConfig opts))"
    "executePass env (executeConfig opts) k wk = (Return None, w')"
    by (fastforce simp: Execute_def Let_def)
  from k(3) obtain w0 where "committedPass env k w0 w'" "k = 0 \<Longrightarrow> w0 = wk"
    "0 < k \<Longrightarrow> sleepBackoff (randInt64N env) (waitTimer env) (executeConfig opts) k wk = (None, w0)"
    by (rule executePass_nil) blast
  with k show ?thesis
    by (cases "k = 0") (rule exI [of _ k], rule exI [of _ last], rule exI [of _ wk], rule exI [of _ w0], simp)+
qed

text \<open>C26. \<^verbatim>\<open>Execute\<close> returns nil only if some attempt within the bound, reached after nothing but
  conflicts, decided on a freshly created aggregate loaded in that very attempt and either had no
  events to save or saved exactly the decided events at exactly the loaded version, after which
  nothing else was done.\<close>

theorem Execute_nil_commits:
  assumes "Execute env opts w = (None, w')"
  shows "\<exists>k last wk w0. k < nat (MaxAttempts (executeConfig opts)) \<and>
     conflictRun env (executeConfig opts) k w last wk \<and> committedPass env k w0 w' \<and>
     (k = 0 \<and> w0 = wk \<or>
      0 < k \<and> sleepBackoff (randInt64N env) (waitTimer env) (executeConfig opts) k wk = (None, w0))"
  using assms by (rule Execute_nil_pass)

text \<open>An environment whose store conflicts once and then accepts; its world counts the saves.\<close>

definition exEnv :: "(unit, string, nat) executeEnv" where
  "exEnv = \<lparr>newAggregate = (\<lambda>w. ((), w)), storeLoad = (\<lambda>a w. (Inr (of_nat w), a, w)),
     mutate = (\<lambda>a v k w. (Inr [''created''], a, w)),
     storeSave = (\<lambda>a v es w. (if w = 0 then Some (ConflictError v 7) else None, a, Suc w)),
     randInt64N = (\<lambda>n w. (0, w)), waitTimer = (\<lambda>d w. (None, w))\<rparr>"

lemma exEnv_passes:
  "executePass exEnv cfg 0 0 = (Continue (ConflictError 0 7), 1)"
  "executePass exEnv cfg 1 1 = (Return None, 2)"
  by (simp_all add: executePass_def exEnv_def sleepBackoff_def Let_def)

theorem Execute_nil_commits_witness:
  "Execute exEnv [] 0 = (None, 2) \<and>
   (\<exists>k last wk w0. k < 10 \<and> conflictRun exEnv (executeConfig []) k 0 last wk \<and> committedPass exEnv k w0 2)"
proof -
  have max: "nat (MaxAttempts (executeConfig [])) = 10"
    by (simp add: executeConfig_def millisecond_def)
  have ex: "Execute exEnv [] 0 = (None, 2)"
    unfolding Execute_def Let_def max
    using exEnv_passes [of "executeConfig []"] by (simp add: eval_nat_numeral)
  from Execute_nil_commits [OF ex] max ex show ?thesis by auto
qed

text \<open>The wait before an attempt never exceeds the configured maximum, and when the base delay is
  below 2^33 nanoseconds (about 8.6 seconds) it is the base delay doubled once per attempt, at most
  thirty times, cut at the maximum, and positive.\<close>

theorem backoffDelay_exact:
  assumes "BaseDelay (executeConfig opts) < 2 ^ 33"
  shows "backoffDelay (executeConfig opts) k =
      min (BaseDelay (executeConfig opts) * 2 ^ min k 30) (MaxDelay (executeConfig opts)) \<and>
    0 < backoffDelay (executeConfig opts) k \<and>
    backoffDelay (executeConfig opts) k \<le> MaxDelay (executeConfig opts)"
proof -
  let ?b = "BaseDelay (executeConfig opts)"
  have b: "0 < ?b" and m: "?b \<le> MaxDelay (executeConfig opts)"
    using executeConfig_bounds by auto
  have "(2 ^ min k 30 :: int) \<le> 2 ^ 30" by (intro power_increasing) auto
  then have "?b * 2 ^ min k 30 \<le> ?b * 2 ^ 30" using b by (intro mult_left_mono) auto
  also have "\<dots> < 2 ^ 33 * 2 ^ 30" using assms by (intro mult_strict_right_mono) auto
  finally have ub: "?b * 2 ^ min k 30 < 2 ^ 63" by simp
  have lb: "0 < ?b * 2 ^ min k 30" using b by simp
  have "backoffDelay (executeConfig opts) k = min (?b * 2 ^ min k 30) (MaxDelay (executeConfig opts))"
    unfolding backoffDelay_def wrap64_shift by (subst wrap64_id) (use ub lb in auto)
  with lb b m show ?thesis by auto
qed

theorem backoffDelay_exact_witness: "backoffDelay (executeConfig []) 3 = 80 * millisecond"
  using backoffDelay_exact [of "[]" 3]
  by (simp add: executeConfig_def millisecond_def)

text \<open>The bound is needed: with 40 attempts and a base delay of 2^34 nanoseconds (about 17 seconds), which
  the options accept, the 64-bit product wraps around, and every retry from the 30th on, all of which the
  loop can reach, waits not at all, although the configured base delay is 17 seconds.\<close>

lemma backoffDelay_overflow:
  assumes "30 \<le> k" "2 ^ 34 \<le> d" and cfg: "cfg = executeConfig [WithExecuteMaxAttempts 40, WithExecuteBackoff (2 ^ 34) d]"
  shows "MaxAttempts cfg = 40 \<and> BaseDelay cfg = 2 ^ 34 \<and> MaxDelay cfg = d \<and> backoffDelay cfg k = 0"
proof -
  have "min k 30 = 30" using assms(1) by simp
  then show ?thesis
    using assms(2) unfolding backoffDelay_def
    by (simp add: cfg executeConfig_def WithExecuteBackoff_def WithExecuteMaxAttempts_def wrap64_def millisecond_def)
qed

end
