(* ===== verification/StoreProperties.thy ===== *)
theory StoreProperties
  imports MemoryStream Execute
begin

section \<open>Properties of the event store\<close>

text \<open>
  What saving, loading and streaming guarantee for a JetStream that behaves as documented, and the
  optimistic concurrency of \<^verbatim>\<open>Execute\<close> over the store. The examples run against the server of theory
  \<open>MemoryStream\<close>.
\<close>

subsection \<open>An example aggregate\<close>

text \<open>An order that counts its events. It has no \<^verbatim>\<open>TakeSnapshot\<close>, and its JSON has the one member count.\<close>

definition exOrderRef :: AggregateRef where
  "exOrderRef = \<lparr>AggregateScope = ''sales'', AggregateType = ''order'', AggregateID = ''o1''\<rparr>"

definition exOps :: "(nat, unit) aggregateOps" where
  "exOps = \<lparr>refOf = (\<lambda>_. exOrderRef), isESAggregate = True,
     EventTypes = (\<lambda>_. ([New exReflect (GoNamed ''OrderCreated'')], None)), Apply = (\<lambda>e n. n + 1), TakeSnapshot = None,
     aggNATSUnmarshal = None, aggUnmarshal = (\<lambda>d n. (None, case d of Json (JObj [(k, JNum i)]) \<Rightarrow> if k = ''count'' then nat i else n | _ \<Rightarrow> n)),
     aggMarshal = (\<lambda>n. Inr (JObj [(''count'', JNum (int n))]))\<rparr>"

definition exCodec :: "unit codecOps" where
  "exCodec = \<lparr>natsMarshal = (\<lambda>e. None), jsonMarshal = (\<lambda>e. Inr (Json (JObj []))), natsUnmarshal = (\<lambda>e. None),
     jsonUnmarshal = (\<lambda>d e. Inr e)\<rparr>"

definition exStore :: EventStore where
  "exStore = newStore [] 0 None"

definition exOrderEvent :: "unit Event" where
  "exOrderEvent = (New exReflect (GoNamed ''OrderCreated''))\<lparr>AggregateID := ''o1''\<rparr>"

definition exJsonErr :: goerror where "exJsonErr = ErrorString ''invalid JSON''"

lemmas ex_store_defs = exOps_def exCodec_def exStore_def exOrderRef_def newStore_def

definition exStream :: string where
  "exStream = streamFor exStore ''sales'' ''order''"

definition exWire :: "string \<times> payload" where
  "exWire = (''sales.event.order.o1.created'', Json (JObj []))"

lemma ex_o1: "validToken ''o1''" "validToken ''snapshot''"
  by (simp_all add: validToken_plain plainChar_def within_def)

lemma ex_event_valid: "validSubject (EventSubject exOrderEvent)" "belongsTo exOrderRef exOrderEvent"
  by (simp_all add: validSubject_def EventSubject_def exOrderEvent_def exReflect_def kind_defs ex_tokens ex_o1
      belongsTo_def exOrderRef_def)

lemma ex_event_wire:
  "marshalEvent exOps exCodec (Domain exOrderEvent) = Inr (Json (JObj []))"
  "SubjectString (outSubject exOps (Domain exOrderEvent)) = ''sales.event.order.o1.created''"
  by (simp_all add: marshalEvent_def exCodec_def marshalError_def outSubject_def SubjectString_def EventSubject_def
      exOrderEvent_def exReflect_def kind_defs Join.simps)

lemma ex_save:
  "Save memJS exJsonErr exOps exCodec exStore 0 0 [exOrderEvent] memEmpty = (None, 0, memAppend exStream [exWire] memEmpty)"
proof -
  have "validateEvents exOrderRef [exOrderEvent] = None"
    unfolding validateEvents_None using ex_event_valid by simp
  moreover have "memView S memEmpty = []" for S by (simp add: memView_def memEmpty_def)
  moreover have "memRoom exStream 1 memEmpty" by (simp add: memRoom_def memEmpty_def memCap_def)
  ultimately show ?thesis
    using ex_event_wire
    by (simp add: Save_def snapshotForSave_def publishOne_def memJS_def memPublish_def lastSeqFor_def matching_def
        exStream_def exWire_def ex_store_defs)
qed

subsection \<open>Saving\<close>

text \<open>C3. A save that returns nil has committed, atomically and at the expected version: the stream then ends
  with the given events in order, followed by at most one snapshot, that of the aggregate with
  the events applied, each on its subject with its marshalled data; messages of other writers may come before them but none between them; and when they
  were appended the last message of the aggregate had the expected version as its sequence.\<close>

theorem Save_commits:
  assumes "publishLaw js view" "batchLaw js view staged" "readLaw js view"
    and "Save js jsonErr ops co s agg v evts w = (None, agg', w')" "evts \<noteq> []"
    and "S = streamFor s (AggregateScope (refOf ops agg')) (AggregateType (refOf ops agg'))"
  shows "\<exists>snap others app. view S w' = view S w @ others @ app \<and> map logForm app = map (wireForm ops co) (map Domain evts @ snap) \<and>
     length snap \<le> 1 \<and> (snapshotEvery s = 0 \<longrightarrow> snap = []) \<and>
     (\<forall>e \<in> set snap. buildSnapshotEvent ops agg' = Inr e \<and> agg' = fold (Apply ops) evts agg) \<and>
     lastSeqFor (aggFilter (refOf ops agg')) (view S w @ others) = v"
  using Save_appended [OF assms(1-5)] unfolding appended_def Let_def assms(6) by blast

theorem Save_commits_witness:
  "\<exists>app. memView exStream (memAppend exStream [exWire] memEmpty) = app \<and> map logForm app = [wireForm exOps exCodec (Domain exOrderEvent)]"
proof -
  have S: "exStream = streamFor exStore (AggregateScope (refOf exOps 0)) (AggregateType (refOf exOps 0))"
    by (simp add: exStream_def exOps_def exOrderRef_def)
  have "memView exStream memEmpty = []" by (simp add: memView_def memEmpty_def)
  moreover have "snapshotEvery exStore = 0" by (simp add: exStore_def newStore_def)
  ultimately obtain others app where
    v: "memView exStream (memAppend exStream [exWire] memEmpty) = others @ app"
    and app: "map logForm app = [wireForm exOps exCodec (Domain exOrderEvent)]"
    using Save_commits [OF mem_laws(1-3) ex_save _ S] by auto
  have "length (memView exStream (memAppend exStream [exWire] memEmpty)) = 1"
    by (simp add: memView_def memAppend_def memEmpty_def memCap_def)
  moreover have "length app = 1" using app by (metis length_map length_Cons list.size(3) One_nat_def)
  ultimately have "others = []" using v by simp
  with v app show ?thesis by simp
qed

subsection \<open>Loading\<close>

definition exRegistry :: "unit registry" where
  "exRegistry = snd (RegisterMessageType exReflect exCmdReflect newRegistry (anyEvent (New exReflect (GoNamed ''OrderCreated''))))"

lemma ex_registry: "eventRegistryFor exReflect exCmdReflect exOps n = Inr exRegistry"
proof -
  have "fst (RegisterMessageType exReflect exCmdReflect newRegistry (anyEvent (New exReflect (GoNamed ''OrderCreated'')))) = None"
    by (simp add: RegisterMessageType_def anyEvent_def registerEvent_def validateTypeKey_def eventKey_def messageKind_def
        newRegistry_def exReflect_def ex_tokens kind_defs registerType_def Let_def)
  then show ?thesis
    by (cases "RegisterMessageType exReflect exCmdReflect newRegistry (anyEvent (New exReflect (GoNamed ''OrderCreated'')))")
      (simp add: eventRegistryFor_def exOps_def exRegistry_def)
qed

lemma ex_saved_view:
  "memView exStream (memAppend exStream [exWire] memEmpty) = [numberMsg 0 exWire]"
  by (simp add: memView_def memAppend_def memEmpty_def memCap_def)

definition exReadContext :: "unit aggregateReadContext" where
  "exReadContext = \<lparr>rcStreamName = exStream, rcFilter = aggFilter exOrderRef, rcRegistry = exRegistry,
     rcSnapshotSuffix = ''.snapshot'', rcSnapshottable = False\<rparr>"

lemma ex_resolve:
  "resolveReadContext memJS exReflect exCmdReflect exOps exStore n w = (Inr exReadContext, w)"
  by (simp add: resolveReadContext_def ex_registry Let_def memJS_def exReadContext_def exStream_def)
    (simp add: ex_store_defs snapshotEventName_def DefaultSnapshotEventName_def)

lemma ex_no_snapshot:
  "matching (SnapshotSubject exOps n) [numberMsg 0 exWire] = []"
  by (simp add: matching_def natsMatch_def SnapshotSubject_def exOps_def exOrderRef_def numberMsg_def exWire_def
      snapshotEventName_def DefaultSnapshotEventName_def kind_defs Join.simps Split.simps)

lemma ex_matches: "natsMatch (aggFilter exOrderRef) ''sales.event.order.o1.created''"
  by (simp add: natsMatch_def aggFilter_def AggregateMessageFilter_def exOrderRef_def kind_defs Join.simps Split.simps)

lemma ex_pending: "n \<le> 1 \<Longrightarrow> pendingFrom (aggFilter exOrderRef) n [numberMsg 0 exWire] = [numberMsg 0 exWire]"
  using ex_matches by (simp add: pendingFrom_def matching_def numberMsg_def exWire_def memSeq_def)

lemma ex_decode:
  "decodeEvent exCodec exRegistry ''sales.event.order.o1.created'' data t = Inr (New exReflect (GoNamed ''OrderCreated''))"
proof -
  have "ParseSubject ''sales.event.order.o1.created'' =
      (\<lparr>Scope = ''sales'', Kind = ''event'', AggType = ''order'', AggID = ''o1'', Name = ''created''\<rparr>, True)"
    by (simp add: ParseSubject_def Split.simps ex_tokens ex_o1 Let_def validSubject_def)
  moreover have "NewEvent exRegistry ''event'' ''sales'' ''order'' ''created'' = Inr (New exReflect (GoNamed ''OrderCreated''))"
    by (simp add: exRegistry_def RegisterMessageType_def anyEvent_def registerEvent_def validateTypeKey_def eventKey_def
        messageKind_def newRegistry_def exReflect_def ex_tokens kind_defs registerType_def Let_def NewEvent_def factoryFor_def)
  ultimately show ?thesis by (simp add: decodeEvent_def exCodec_def)
qed

lemma ex_apply:
  "applyFn exOps exCodec exReadContext (rawSubject (numberMsg 0 exWire)) (rawData (numberMsg 0 exWire)) t v n = (None, n + 1)"
  by (simp add: applyFn_def applyMessage_def exReadContext_def numberMsg_def exWire_def ex_decode HasSuffix_def Let_def)
    (simp add: exOps_def)

definition exLoaded :: memWorld where
  "exLoaded = (memAppend exStream [exWire] memEmpty)\<lparr>mwIters := [(exStream, aggFilter exOrderRef, memSeq 0 + 1)]\<rparr>"

lemma ex_seq: "rawSeq (numberMsg 0 exWire) = 1" "memSeq 0 = 1"
  by (simp_all add: numberMsg_def memSeq_def)

lemma ex_loop:
  "messageLoop memJS 0 (applyFn exOps exCodec exReadContext) 0 0
     ((memAppend exStream [exWire] memEmpty)\<lparr>mwIters := [(exStream, aggFilter exOrderRef, 1)]\<rparr>) = Some ((None, 1), 1, exLoaded)"
  by (subst messageLoop.simps)
    (simp add: messagePass_def memJS_def memNext_def ex_saved_view ex_pending ex_apply Let_def exLoaded_def ex_seq)

lemma ex_load:
  "Load memJS exReflect exCmdReflect exOps exCodec exStore 0 (memAppend exStream [exWire] memEmpty) = Some (Inr 1, 1, exLoaded)"
proof -
  let ?w = "memAppend exStream [exWire] memEmpty"
  have start: "startSeqAfterSnapshot memJS exOps exStream \<lparr>SkipSnapshotFastPath = False, IncludeSnapshots = False\<rparr> f n ?w =
      (Inr (0, None), n, ?w)" for f n
    by (simp add: startSeqAfterSnapshot_def memJS_def memLast_def ex_saved_view ex_no_snapshot)
  have opened: "openAggregateConsumer memJS exStore exStream (aggFilter exOrderRef) r 0 ?w =
      (Inr (((exStream, aggFilter exOrderRef, 1), 1), None), ?w)" for r
    by (simp add: openAggregateConsumer_def exStore_def newStore_def memJS_def memConsumer_def ex_saved_view ex_pending)
  have "forEachAggregateMessage memJS ((exStream, aggFilter exOrderRef, 1), 1) (applyFn exOps exCodec exReadContext) 0 ?w =
      Some ((None, 1), 1, exLoaded)"
    using ex_loop by (simp add: forEachAggregateMessage_def memJS_def memAppend_def memEmpty_def)
  with start opened show ?thesis
    by (simp add: Load_def ex_resolve) (simp add: exReadContext_def runCleanup_def)
qed

lemma ex_snapshot_valid: "validSubject (snapshotSubjectOf exOps n)"
  by (simp add: validSubject_def snapshotSubjectOf_def exOps_def exOrderRef_def snapshotEventName_def
      DefaultSnapshotEventName_def kind_defs ex_tokens ex_o1)

text \<open>C5. A load refines the abstract store, a log per stream: when it returns a version and an aggregate,
  the aggregate is the given one after the messages of its history in the log, in order, and the
  version is the sequence of the last message of the aggregate there, 0 if there is none. The log is
  the stream at some moment during the call: it has every message that was stored before the call. The
  history starts with the last snapshot that the log had at an earlier such moment, or with the first
  message of the aggregate when there was none.\<close>

theorem Load_refines_log:
  assumes "consumerLaw js view conPos itPos" "readLaw js view" "logLaw view" "lastMsgLaw js view" "streamLaw js view"
    and "validSubject (snapshotSubjectOf ops agg)"
    and "Load js rte rtc ops co s agg w = Some (Inr version, agg', w')"
    and "S = streamFor s (AggregateScope (refOf ops agg)) (AggregateType (refOf ops agg))"
  shows "\<exists>base later rest. view S w' = base @ later @ rest \<and> prefix (view S w) base \<and>
     version = lastSeqFor (aggFilter (refOf ops agg)) (base @ later) \<and>
     restore rte rtc ops co agg base (base @ later) = Some agg'"
  using Load_restores [OF assms(1-7)] unfolding assms(8) .

theorem Load_refines_log_witness:
  "\<exists>log. prefix [numberMsg 0 exWire] log \<and> (1 :: uint64) = lastSeqFor (aggFilter exOrderRef) log \<and>
     (\<exists>base. restore exReflect exCmdReflect exOps exCodec 0 base log = Some 1)"
proof -
  have S: "exStream = streamFor exStore (AggregateScope (refOf exOps 0)) (AggregateType (refOf exOps 0))"
    by (simp add: exStream_def exOps_def exOrderRef_def)
  have ref: "refOf exOps 0 = exOrderRef" by (simp add: exOps_def)
  from Load_refines_log [OF mem_laws(4,3,5-7) ex_snapshot_valid ex_load S] ref ex_saved_view
  obtain base later where "prefix [numberMsg 0 exWire] base" "1 = lastSeqFor (aggFilter exOrderRef) (base @ later)"
    "restore exReflect exCmdReflect exOps exCodec 0 base (base @ later) = Some 1" by auto
  then show ?thesis by (intro exI [of _ "base @ later"]) (auto intro: prefix_prefix)
qed

text \<open>C8. Loading and streaming return, even when other writers append to the stream all the time. They never
  wait for a message that may not come: an iterator is opened only if messages are pending, and after
  each message the loop goes on only if more are; and every message taken moves the iterator to a
  higher sequence.\<close>

theorem Load_and_Stream_return:
  assumes "consumerLaw js view conPos itPos" "nextLaw js view itPos" "readLaw js view" "logLaw view"
  shows "(\<exists>r. Load js rte rtc ops co s agg w = Some r) \<and>
     (\<exists>r. Stream js rte rtc v ops co s agg opts yield st w = Some r)"
  unfolding not_None_eq [symmetric] by (intro conjI Load_returns [OF assms] Stream_returns [OF assms])

theorem Load_and_Stream_return_witness:
  "\<exists>r. Load memJS exReflect exCmdReflect exOps exCodec exStore 0 memEmpty = Some r"
  using Load_and_Stream_return [OF mem_laws(4,8,3,5), of exReflect exCmdReflect exOps exCodec exStore 0 memEmpty "()"
      "\<lparr>SkipSnapshotFastPath = True, IncludeSnapshots = False\<rparr>" keepAll "[]"]
  by blast

subsection \<open>Execute over the store\<close>

lemma lastSeq_same_no_match:
  assumes log: "logLaw view" "view S w = (xs @ ys) @ zs" and "lastSeqFor flt (xs @ ys) = lastSeqFor flt xs"
  shows "matching flt ys = []"
proof (rule ccontr)
  assume ne: "matching flt ys \<noteq> []"
  have mem: "last (matching flt ys) \<in> set (view S w)"
    using last_in_set [OF ne] log(2) by (simp add: matching_def)
  have "sorted_wrt (<) (map rawSeq (matching flt xs @ matching flt ys @ matching flt zs))"
    using log_sorted [OF log(1), of flt S w] log(2) by simp
  then have "\<forall>x \<in> set (matching flt xs). \<forall>y \<in> set (matching flt ys). rawSeq x < rawSeq y"
    by (auto simp: sorted_wrt_append)
  with ne have "matching flt xs \<noteq> [] \<Longrightarrow> rawSeq (last (matching flt xs)) < rawSeq (last (matching flt ys))"
    by simp
  with assms(3) ne log_seq(1) [OF log(1) mem] show False
    by (auto simp: lastSeqFor_def split: if_splits)
qed

text \<open>
  The environment of a call of \<^verbatim>\<open>Execute\<close> over this store: its load and save are the store's, no method
  of the application changes which aggregate a value is, and the callbacks do not remove messages.
\<close>

definition storeEnv ::
  "('c, 'it, 'w) jetstream \<Rightarrow> 'v Event reflect \<Rightarrow> 'v Command reflect \<Rightarrow> goerror \<Rightarrow> ('a, 'v) aggregateOps \<Rightarrow> 'v codecOps \<Rightarrow>
   EventStore \<Rightarrow> 'w streamView \<Rightarrow> ('a, 'v Event, 'w) executeEnv \<Rightarrow> bool" where
  "storeEnv js rte rtc jsonErr ops co s view env \<longleftrightarrow>
     (\<forall>a w. Load js rte rtc ops co s a w = Some (storeLoad env a w)) \<and>
     (\<forall>a v evts w. storeSave env a v evts w = Save js jsonErr ops co s a v evts w) \<and>
     (\<forall>a w r a' w'. storeLoad env a w = (r, a', w') \<longrightarrow> refOf ops a' = refOf ops a) \<and>
     (\<forall>a v k w r a' w'. mutate env a v k w = (r, a', w') \<longrightarrow> refOf ops a' = refOf ops a \<and> grows view w w') \<and>
     (\<forall>a v evts w r a' w'. storeSave env a v evts w = (r, a', w') \<longrightarrow> refOf ops a' = refOf ops a)"

lemma storeEnv_load: "storeEnv js rte rtc jsonErr ops co s view env \<Longrightarrow> storeLoad env a w = (r, a', w') \<Longrightarrow>
    Load js rte rtc ops co s a w = Some (r, a', w') \<and> refOf ops a' = refOf ops a"
  by (simp add: storeEnv_def) metis

lemma storeEnv_mutate: "storeEnv js rte rtc jsonErr ops co s view env \<Longrightarrow> mutate env a v k w = (r, a', w') \<Longrightarrow>
    refOf ops a' = refOf ops a \<and> grows view w w'"
  by (simp add: storeEnv_def)

lemma storeEnv_save: "storeEnv js rte rtc jsonErr ops co s view env \<Longrightarrow> storeSave env a v evts w = (r, a', w') \<Longrightarrow>
    Save js jsonErr ops co s a v evts w = (r, a', w') \<and> refOf ops a' = refOf ops a"
  by (simp add: storeEnv_def) metis

lemma load_then_save:
  assumes laws: "consumerLaw js view conPos itPos" "readLaw js view" "logLaw view" "lastMsgLaw js view" "streamLaw js view"
      "publishLaw js view" "batchLaw js view staged"
    and valid: "validSubject (snapshotSubjectOf ops agg)" and refs: "refOf ops agg = ref" "refOf ops agg3 = ref"
    and load: "Load js rte rtc ops co s agg w1 = Some (Inr version, agg1, w2)" and g: "grows view w2 w3"
  obtains base later where "restore rte rtc ops co agg base (base @ later) = Some agg1"
    "version = lastSeqFor (aggFilter ref) (base @ later)"
    "prefix (base @ later) (view (streamFor s (AggregateScope ref) (AggregateType ref)) w3)"
    "evts \<noteq> [] \<Longrightarrow> Save js jsonErr ops co s agg2 version evts w3 = (None, agg3, w') \<Longrightarrow>
     \<exists>others app snap. view (streamFor s (AggregateScope ref) (AggregateType ref)) w' = (base @ later) @ others @ app \<and>
       matching (aggFilter ref) others = [] \<and> map logForm app = map (wireForm ops co) (map Domain evts @ snap) \<and> length snap \<le> 1"
proof -
  let ?S = "streamFor s (AggregateScope ref) (AggregateType ref)" and ?flt = "aggFilter ref"
  from Load_restores [OF laws(1-5) valid load] obtain base later rest where
    base: "view ?S w2 = base @ later @ rest" "version = lastSeqFor ?flt (base @ later)"
    and rest: "restore rte rtc ops co agg base (base @ later) = Some agg1"
    unfolding refs by blast
  have pre: "prefix (base @ later) (view ?S w3)" using g base(1) unfolding grows_def by (metis append.assoc prefixI)
  show thesis
  proof (rule that [OF rest base(2) pre])
    assume "evts \<noteq> []" and save: "Save js jsonErr ops co s agg2 version evts w3 = (None, agg3, w')"
    with Save_appended [OF laws(6,7,2) save] obtain snap more1 app where
      snap: "length snap \<le> 1" "map logForm app = map (wireForm ops co) (map Domain evts @ snap)"
      and w': "view ?S w' = view ?S w3 @ more1 @ app" and last: "lastSeqFor ?flt (view ?S w3 @ more1) = version"
      unfolding appended_def Let_def refs by blast
    obtain m3 where m3: "view ?S w3 = view ?S w2 @ m3" using g unfolding grows_def by blast
    let ?others = "rest @ m3 @ more1"
    have eq: "view ?S w' = ((base @ later) @ ?others) @ app" by (simp add: w' m3 base(1))
    have "matching ?flt ?others = []"
      by (rule lastSeq_same_no_match [OF laws(3) eq]) (use last base m3 in simp)
    with eq snap show "\<exists>others app snap. view ?S w' = (base @ later) @ others @ app \<and> matching ?flt others = [] \<and>
        map logForm app = map (wireForm ops co) (map Domain evts @ snap) \<and> length snap \<le> 1"
      by (intro exI [of _ ?others] exI [of _ app] exI [of _ snap]) simp
  qed
qed

text \<open>C1. No update is lost: when \<^verbatim>\<open>Execute\<close> over the event store returns nil, the events of its last attempt
  were decided on a new aggregate that its history in the log restores, at the version of that history,
  which is a prefix of the stream; and either there were none or the stream now ends with exactly them,
  with a snapshot at most, and no other message of the aggregate lies between that history and them,
  whatever other writers did meanwhile.\<close>

theorem store_execute_no_lost_update:
  assumes laws: "consumerLaw js view conPos itPos" "readLaw js view" "logLaw view" "lastMsgLaw js view" "streamLaw js view"
      "publishLaw js view" "batchLaw js view staged"
    and env: "storeEnv js rte rtc jsonErr ops co s view env"
    and new: "\<forall>w. validSubject (snapshotSubjectOf ops (fst (newAggregate env w))) \<and> refOf ops (fst (newAggregate env w)) = ref"
    and run: "Execute env opts w = (None, w')"
  shows "\<exists>w0 base later version agg1 k w2 evts agg2 w3.
     restore rte rtc ops co (fst (newAggregate env w0)) base (base @ later) = Some agg1 \<and>
     version = lastSeqFor (aggFilter ref) (base @ later) \<and>
     prefix (base @ later) (view (streamFor s (AggregateScope ref) (AggregateType ref)) w') \<and>
     mutate env agg1 version (of_nat k) w2 = (Inr evts, agg2, w3) \<and>
     (evts = [] \<or> (\<exists>others app snap. view (streamFor s (AggregateScope ref) (AggregateType ref)) w' = (base @ later) @ others @ app \<and>
        matching (aggFilter ref) others = [] \<and> map logForm app = map (wireForm ops co) (map Domain evts @ snap) \<and> length snap \<le> 1))"
proof -
  obtain k last wk w0 where "committedPass env k w0 w'"
    using Execute_nil_pass [OF run] by blast
  then obtain agg w1 version agg1 w2 evts agg2 w3 where
    new': "newAggregate env w0 = (agg, w1)" and ld: "storeLoad env agg w1 = (Inr version, agg1, w2)"
    and mu: "mutate env agg1 version (of_nat k) w2 = (Inr evts, agg2, w3)"
    and sv: "evts = [] \<and> w' = w3 \<or> evts \<noteq> [] \<and> (\<exists>agg3. storeSave env agg2 version evts w3 = (None, agg3, w'))"
    unfolding committedPass_def by blast
  have ref: "refOf ops agg = ref" and valid: "validSubject (snapshotSubjectOf ops agg)"
    using new [rule_format, of w0] new' by simp_all
  note ld = storeEnv_load [OF env ld] and mu' = storeEnv_mutate [OF env mu]
  show ?thesis
  proof (cases "evts = []")
    case True
    show ?thesis
    proof (rule load_then_save [OF laws valid ref ref ld [THEN conjunct1] mu' [THEN conjunct2]])
      fix base later assume "restore rte rtc ops co agg base (base @ later) = Some agg1"
        "version = lastSeqFor (aggFilter ref) (base @ later)"
        "prefix (base @ later) (view (streamFor s (AggregateScope ref) (AggregateType ref)) w3)"
      with True mu new' sv show ?thesis
        by (intro exI [of _ w0] exI [of _ base] exI [of _ later] exI [of _ version] exI [of _ agg1] exI [of _ k]
            exI [of _ w2] exI [of _ evts] exI [of _ agg2] exI [of _ w3]) simp
    qed
  next
    case False
    with sv obtain agg3 where sv: "storeSave env agg2 version evts w3 = (None, agg3, w')" by blast
    note save = storeEnv_save [OF env sv]
    have ref3: "refOf ops agg3 = ref" using ld mu' save ref by simp
    show ?thesis
    proof (rule load_then_save [OF laws valid ref ref3 ld [THEN conjunct1] mu' [THEN conjunct2], of evts jsonErr agg2 w'])
      fix base later
      assume restored: "restore rte rtc ops co agg base (base @ later) = Some agg1"
          "version = lastSeqFor (aggFilter ref) (base @ later)"
        and committed: "evts \<noteq> [] \<Longrightarrow> Save js jsonErr ops co s agg2 version evts w3 = (None, agg3, w') \<Longrightarrow>
          \<exists>others app snap. view (streamFor s (AggregateScope ref) (AggregateType ref)) w' = (base @ later) @ others @ app \<and>
            matching (aggFilter ref) others = [] \<and> map logForm app = map (wireForm ops co) (map Domain evts @ snap) \<and> length snap \<le> 1"
      note committed = committed [OF False save [THEN conjunct1]]
      then have "prefix (base @ later) (view (streamFor s (AggregateScope ref) (AggregateType ref)) w')" by auto
      with restored mu committed new' show ?thesis
        by (intro exI [of _ w0] exI [of _ base] exI [of _ later] exI [of _ version] exI [of _ agg1] exI [of _ k]
            exI [of _ w2] exI [of _ evts] exI [of _ agg2] exI [of _ w3]) (intro conjI disjI2, simp_all only: fst_conv)
    qed
  qed
qed

definition exStoreEnv :: "(nat, unit Event, memWorld) executeEnv" where
  "exStoreEnv = \<lparr>newAggregate = (\<lambda>w. (0, w)),
     storeLoad = (\<lambda>a w. case Load memJS exReflect exCmdReflect exOps exCodec exStore a w of Some r \<Rightarrow> r | None \<Rightarrow> (Inr 0, a, w)),
     mutate = (\<lambda>a v k w. (Inr [exOrderEvent], a, w)),
     storeSave = Save memJS exJsonErr exOps exCodec exStore,
     randInt64N = (\<lambda>n w. (0, w)), waitTimer = (\<lambda>d w. (None, w))\<rparr>"

lemma ex_storeEnv: "storeEnv memJS exReflect exCmdReflect exJsonErr exOps exCodec exStore memView exStoreEnv"
proof -
  have load: "Load memJS exReflect exCmdReflect exOps exCodec exStore a w = Some (storeLoad exStoreEnv a w)" for a w
    using Load_returns [OF mem_laws(4,8,3,5), of exReflect exCmdReflect exOps exCodec exStore a w]
    by (cases "Load memJS exReflect exCmdReflect exOps exCodec exStore a w") (simp_all add: exStoreEnv_def)
  have save: "storeSave exStoreEnv = Save memJS exJsonErr exOps exCodec exStore"
    and mut: "mutate exStoreEnv = (\<lambda>a v k w. (Inr [exOrderEvent], a, w))" by (simp_all add: exStoreEnv_def)
  have ref: "refOf exOps a = exOrderRef" for a by (simp add: exOps_def)
  show ?thesis
    unfolding storeEnv_def load save mut ref by simp
qed

lemma ex_load_empty: "Load memJS exReflect exCmdReflect exOps exCodec exStore n memEmpty = Some (Inr 0, n, memEmpty)"
proof -
  have v: "memView S memEmpty = []" for S by (simp add: memView_def memEmpty_def)
  have "startSeqAfterSnapshot memJS exOps exStream \<lparr>SkipSnapshotFastPath = False, IncludeSnapshots = False\<rparr> f n memEmpty =
      (Inr (0, None), n, memEmpty)" for f n
    by (simp add: startSeqAfterSnapshot_def memJS_def memLast_def v matching_def)
  moreover have "openAggregateConsumer memJS exStore exStream (aggFilter exOrderRef) r 0 memEmpty =
      (Inr (((exStream, aggFilter exOrderRef, 1), 0), None), memEmpty)" for r
    by (simp add: openAggregateConsumer_def exStore_def newStore_def memJS_def memConsumer_def v pendingFrom_def matching_def)
  moreover have "cachedPending memJS ((exStream, aggFilter exOrderRef, 1), 0) = Some 0" by (simp add: memJS_def)
  ultimately show ?thesis
    by (simp add: Load_def ex_resolve) (simp add: exReadContext_def runCleanup_def forEachAggregateMessage_def)
qed

theorem store_execute_no_lost_update_witness:
  "\<exists>w'. Execute exStoreEnv [] memEmpty = (None, w') \<and>
     (\<exists>base later agg1. restore exReflect exCmdReflect exOps exCodec 0 base (base @ later) = Some agg1 \<and>
        prefix (base @ later) (memView (streamFor exStore (AggregateScope exOrderRef) (AggregateType exOrderRef)) w'))"
proof -
  have max: "nat (MaxAttempts (executeConfig [])) = Suc 9"
    by (simp add: executeConfig_def millisecond_def)
  have pass: "executePass exStoreEnv cfg 0 memEmpty = (Return None, memAppend exStream [exWire] memEmpty)" for cfg
    by (simp add: executePass_def Let_def exStoreEnv_def ex_load_empty ex_save)
  have run: "Execute exStoreEnv [] memEmpty = (None, memAppend exStream [exWire] memEmpty)"
    unfolding Execute_def Let_def max executeLoop.simps pass by simp
  have new: "\<forall>w. validSubject (snapshotSubjectOf exOps (fst (newAggregate exStoreEnv w))) \<and>
      refOf exOps (fst (newAggregate exStoreEnv w)) = exOrderRef"
    using ex_snapshot_valid by (simp add: exStoreEnv_def) (simp add: exOps_def)
  have "fst (newAggregate exStoreEnv w0) = 0" for w0 by (simp add: exStoreEnv_def)
  with store_execute_no_lost_update [OF mem_laws(4,3,5-7,1,2) ex_storeEnv new run] run show ?thesis by auto
qed

end
