(* ===== verification/StoreErrors.thy ===== *)
theory StoreErrors
  imports StoreProperties
begin

section \<open>Conflicts, snapshots and streams of the event store\<close>

text \<open>
  How a rejected publish is reported, what becomes of the snapshots of an aggregate that has no
  \<^verbatim>\<open>TakeSnapshot\<close>, and what a range loop over a stream receives.
\<close>

subsection \<open>Conflicts\<close>

text \<open>C23. A publish that the server rejects because the last sequence of the aggregate is another one is
  reported as a conflict that carries both versions, the expected one and, read back from the
  description, the actual one, whatever that is; \<^verbatim>\<open>errors.Is\<close> recognises it, which is what makes
  \<^verbatim>\<open>Execute\<close> and the bus try again.\<close>

theorem publishOne_conflict:
  assumes "marshalEvent ops co evt = Inr data"
    and "jsPublishMsg js \<lparr>msgSubject = SubjectString (outSubject ops evt), msgHeader = [], msgData = data\<rparr>
      (streamFor s (AggregateScope ref) (AggregateType ref)) v (aggFilter ref) w = (Inl err, w')"
    and "asAPIError err = Some (10071, ''wrong last sequence: '' @ Itoa (uint actual))"
  shows "publishOne js ops co s ref v evt w = (Inl (ConflictError v actual), w') \<and>
     errorsIs (ConflictError v actual) ErrConflict"
  using assms scanWrongLast_exact [of actual]
  by (simp add: publishOne_def publishError_def apiPublishError_def JSErrCodeStreamWrongLastSequence_def)

theorem publishOne_conflict_witness:
  "publishOne memJS exOps exCodec exStore exOrderRef 7 (Domain exOrderEvent) (memAppend exStream [exWire] memEmpty) =
     (Inl (ConflictError 7 1), memAppend exStream [exWire] memEmpty)"
proof -
  have last: "lastSeqFor (aggFilter exOrderRef) [numberMsg 0 exWire] = 1"
    using ex_matches by (simp add: lastSeqFor_def matching_def numberMsg_def exWire_def memSeq_def)
  have S: "streamFor exStore (AggregateScope exOrderRef) (AggregateType exOrderRef) = exStream"
    by (simp add: exStream_def exOrderRef_def)
  show ?thesis
    using publishOne_conflict [OF ex_event_wire(1), where js = memJS and s = exStore and ref = exOrderRef and v = 7 and
        w = "memAppend exStream [exWire] memEmpty" and actual = 1]
    by (simp add: memJS_def memPublish_def S ex_saved_view last wrongLast_def)
qed

subsection \<open>Snapshots of aggregates without TakeSnapshot\<close>

lemma Join5_suffix: "HasSuffix (Join [a, b, c, d, n] ''.'') (CHR ''.'' # n)"
  unfolding HasSuffix_iff by (rule exI [of _ "a @ ''.'' @ b @ ''.'' @ c @ ''.'' @ d"]) (simp add: Join.simps)

text \<open>
  An aggregate that \<^verbatim>\<open>encoding/json\<close> decodes as a struct with fields of the given names: the members of an
  object that match no field, by name or up to case folding, are ignored, so an object with only such
  members leaves the value as it is, without an error.
\<close>

definition structDecoder :: "('a, 'v) aggregateOps \<Rightarrow> string list \<Rightarrow> bool" where
  "structDecoder ops names \<longleftrightarrow>
     (\<forall>ms a. (\<forall>f \<in> set names. membersOf f ms = []) \<longrightarrow> aggUnmarshal ops (Json (JObj ms)) a = (None, a))"

text \<open>C35. The implicit snapshot loses the state: take an aggregate without \<^verbatim>\<open>TakeSnapshot\<close> and without
  \<^verbatim>\<open>UnmarshalNATS\<close>, which \<^verbatim>\<open>encoding/json\<close> decodes as a struct, none of whose fields has a name that
  folds to that of AggregateRef. The snapshot that \<^verbatim>\<open>Save\<close> builds of it is an object with the one member
  AggregateRef, and applying it, as \<^verbatim>\<open>Load\<close> does before it skips every earlier event, succeeds and
  leaves any aggregate as it was, whatever the state was that was saved.\<close>

theorem implicit_snapshot_restores_nothing:
  assumes "TakeSnapshot ops = None" "aggNATSUnmarshal ops = None" "aggMarshal ops agg = Inr j"
    and "structDecoder ops names" "\<forall>f \<in> set names. foldName f \<noteq> foldName ''AggregateRef''"
  shows "\<exists>e data. buildSnapshotEvent ops agg = Inr e \<and> marshalEvent ops co e = Inr data \<and>
     (\<forall>reg t a. applyMessage ops co reg (CHR ''.'' # snapshotEventName (snd (EventTypes ops agg))) False
        (SubjectString (outSubject ops e)) data t a = (None, a))"
proof -
  let ?e = "implicitSnapshotEvent agg (snapshotEventName (snd (EventTypes ops agg)))"
  have "HasSuffix (SubjectString (outSubject ops ?e)) (CHR ''.'' # snapshotEventName (snd (EventTypes ops agg)))"
    using Join5_suffix by (simp add: outSubject_def SubjectString_def)
  moreover have "marshalEvent ops co ?e = Inr (Json (JObj [(''AggregateRef'', j)]))"
    by (simp add: marshalEvent_def assms(3) marshalError_def)
  moreover have "buildSnapshotEvent ops agg = Inr ?e" by (simp add: buildSnapshotEvent_def assms(1))
  moreover have "membersOf f [(''AggregateRef'', j)] = []" if "f \<in> set names" for f
    using assms(5) that by (auto simp: membersOf_def)
  then have "aggUnmarshal ops (Json (JObj [(''AggregateRef'', j)])) a = (None, a)" for a
    using assms(4) unfolding structDecoder_def by blast
  ultimately show ?thesis
    using assms(2) by (intro exI [of _ ?e] exI [of _ "Json (JObj [(''AggregateRef'', j)])"])
      (simp add: applyMessage_def Let_def)
qed

theorem implicit_snapshot_restores_nothing_witness:
  "\<exists>e data. buildSnapshotEvent exOps 5 = Inr e \<and> marshalEvent exOps exCodec e = Inr data \<and>
     applyMessage exOps exCodec exRegistry ''.snapshot'' False (SubjectString (outSubject exOps e)) data 0 0 = (None, 0)"
proof -
  have name: "snapshotEventName (snd (EventTypes exOps 5)) = ''snapshot''"
    by (simp add: exOps_def snapshotEventName_def DefaultSnapshotEventName_def)
  have "structDecoder exOps [''count'']"
    by (auto simp: structDecoder_def exOps_def membersOf_def split: list.split json.split prod.split)
  moreover have "foldName ''count'' \<noteq> foldName ''AggregateRef''" by (simp add: foldName_ascii within_def)
  ultimately show ?thesis
    using implicit_snapshot_restores_nothing [of exOps 5 "JObj [(''count'', JNum 5)]" "[''count'']" exCodec] name
    by (auto simp: exOps_def)
qed

text \<open>C36. For the same kind of aggregate a stream with \<^verbatim>\<open>IncludeSnapshots\<close> fails as soon as there is a snapshot:
  the consumer is given one error and not a single event, although the option is documented to add
  the snapshots to the events.\<close>

theorem include_snapshots_fails:
  assumes "resolveReadContext js rte rtc ops s agg w = (Inr read, w1)" "TakeSnapshot ops = None"
    and "IncludeSnapshots opts" "\<not> SkipSnapshotFastPath opts"
    and "jsGetLastMsg js (rcStreamName read) (SnapshotSubject ops agg) w1 = (Inr m, w2)" "rawSubject m = SnapshotSubject ops agg"
  shows "streamTyped js rte rtc ops co s agg opts yield st w =
     Some (snd (yield (Inl (ErrorString (''decode snapshot '' @ SnapshotSubject ops agg))) st), w2)"
proof -
  note rd = resolve_ok [OF assms(1)]
  have "HasSuffix (SnapshotSubject ops agg) (CHR ''.'' # snapshotEventName (snd (EventTypes ops agg)))"
    unfolding SnapshotSubject_def by (rule Join5_suffix)
  then have "storedEventFromRawSnapshot co read m = Inl (ErrorString (''decode snapshot '' @ SnapshotSubject ops agg))"
    by (simp add: storedEventFromRawSnapshot_def storedEventFromMessage_def rd assms Let_def)
  moreover have "startSeqAfterSnapshot js ops (rcStreamName read) opts None agg w1 = (Inr (rawSeq m + 1, Some m), agg, w2)"
    using assms(3-5) by (simp add: startSeqAfterSnapshot_def)
  ultimately show ?thesis using assms(1) by (simp add: streamTyped_tail)
qed

definition exSnapWire :: "string \<times> payload" where
  "exSnapWire = (SnapshotSubject exOps 1, Json (JObj [(''AggregateRef'', JObj [(''count'', JNum 1)])]))"

theorem include_snapshots_fails_witness:
  "streamTyped memJS exReflect exCmdReflect exOps exCodec exStore 0 \<lparr>SkipSnapshotFastPath = False, IncludeSnapshots = True\<rparr>
     keepAll [] (memAppend exStream [exWire, exSnapWire] memEmpty) =
   Some ([Inl (ErrorString ''decode snapshot sales.event.order.o1.snapshot'')], memAppend exStream [exWire, exSnapWire] memEmpty)"
proof -
  let ?w = "memAppend exStream [exWire, exSnapWire] memEmpty"
  have subj: "SnapshotSubject exOps n = ''sales.event.order.o1.snapshot''" for n
    by (simp add: SnapshotSubject_def exOps_def exOrderRef_def snapshotEventName_def DefaultSnapshotEventName_def
        kind_defs Join.simps)
  have "memView exStream ?w = [numberMsg 0 exWire, numberMsg 1 exSnapWire]"
    by (simp add: memView_def memAppend_def memEmpty_def memCap_def)
  moreover have "matching ''sales.event.order.o1.snapshot'' [numberMsg 0 exWire, numberMsg 1 exSnapWire] = [numberMsg 1 exSnapWire]"
    by (simp add: matching_def natsMatch_def numberMsg_def exWire_def exSnapWire_def subj Split.simps)
  ultimately have last: "jsGetLastMsg memJS exStream (SnapshotSubject exOps 0) ?w = (Inr (numberMsg 1 exSnapWire), ?w)"
    by (simp add: memJS_def memLast_def subj)
  have rd: "rcStreamName exReadContext = exStream" by (simp add: exReadContext_def)
  have none: "TakeSnapshot exOps = None" by (simp add: exOps_def)
  have "rawSubject (numberMsg 1 exSnapWire) = SnapshotSubject exOps 0"
    by (simp add: numberMsg_def exSnapWire_def subj)
  from include_snapshots_fails [OF ex_resolve none _ _ last [folded rd] this,
      where opts = "\<lparr>SkipSnapshotFastPath = False, IncludeSnapshots = True\<rparr>" and co = exCodec and yield = keepAll and st = "[]"]
  show ?thesis by (simp add: subj keepAll_def rd)
qed

subsection \<open>What a stream delivers\<close>

text \<open>No error of the client library is the sentinel with which the package stops its own loop.\<close>

definition stopLaw :: "('c, 'it, 'w) jetstream \<Rightarrow> bool" where
  "stopLaw js \<longleftrightarrow>
     (\<forall>it w e w'. itNext js it w = Some (Inl e, w') \<longrightarrow> \<not> errorsIs e errStopStream) \<and>
     (\<forall>it w msg w' e. itNext js it w = Some (Inr msg, w') \<and> jsMetadata msg = Inl e \<longrightarrow> \<not> errorsIs e errStopStream) \<and>
     (\<forall>con w e w'. consMessages js con w = (Inl e, w') \<longrightarrow> \<not> errorsIs e errStopStream) \<and>
     (\<forall>w e. ctxErr js w = Some e \<longrightarrow> \<not> errorsIs e errStopStream)"

lemma stopLaw_dest:
  "itNext js it w = Some (Inl e, w') \<Longrightarrow> stopLaw js \<Longrightarrow> \<not> errorsIs e errStopStream"
  "jsMetadata msg = Inl e \<Longrightarrow> itNext js it w = Some (Inr msg, w') \<Longrightarrow> stopLaw js \<Longrightarrow> \<not> errorsIs e errStopStream"
  "consMessages js con w = (Inl e, w') \<Longrightarrow> stopLaw js \<Longrightarrow> \<not> errorsIs e errStopStream"
  "ctxErr js w = Some e \<Longrightarrow> stopLaw js \<Longrightarrow> \<not> errorsIs e errStopStream"
  unfolding stopLaw_def by blast+

definition decNoStop :: "(string \<Rightarrow> payload \<Rightarrow> int \<Rightarrow> uint64 \<Rightarrow> goerror + 'r option) \<Rightarrow> bool" where
  "decNoStop dec \<longleftrightarrow> (\<forall>a b c d e. dec a b c d = Inl e \<longrightarrow> \<not> errorsIs e errStopStream)"

lemma messagePass_no_stop:
  assumes "stopLaw js" "decNoStop dec"
    "messagePass js it (yieldMessage dec keepAll) v acc w = Some (Inl ((Some e, v'), acc', w'))"
  shows "\<not> errorsIs e errStopStream"
  using assms(1,3)
  by (auto simp: messagePass_def yieldMessage_def keepAll_def Let_def dest: stopLaw_dest assms(2) [unfolded decNoStop_def, rule_format]
      split: option.splits prod.splits sum.splits if_splits)

lemma passes_no_stop:
  assumes "passes js it (yieldMessage dec keepAll) v acc w r"
    and "stopLaw js" "decNoStop dec" "fst (fst r) = Some e"
  shows "\<not> errorsIs e errStopStream"
  using assms(1,4)
proof (induction rule: passes.induct)
  case (last_pass v acc w r)
  then show ?case
    using messagePass_no_stop [OF assms(2,3)] by (cases r) fastforce
qed

lemma forEach_no_stop:
  assumes "stopLaw js" "decNoStop dec"
    and "forEachAggregateMessage js con (yieldMessage dec keepAll) acc w = Some ((Some e, v), acc', w')"
  shows "\<not> errorsIs e errStopStream"
proof -
  obtain io w1 where msgs: "consMessages js con w = (io, w1)" by fastforce
  show ?thesis
  proof (cases io)
    case (Inl err)
    then have "\<not> errorsIs err errStopStream" using stopLaw_dest(3) [OF _ assms(1)] msgs by blast
    with assms(3) msgs Inl show ?thesis by (auto simp: forEachAggregateMessage_def split: if_splits)
  next
    case (Inr it)
    with assms(3) msgs obtain w2 where "messageLoop js it (yieldMessage dec keepAll) 0 acc w1 = Some ((Some e, v), acc', w2)"
      by (auto simp: forEachAggregateMessage_def split: if_splits)
    then have "passes js it (yieldMessage dec keepAll) 0 acc w1 ((Some e, v), acc', w2)" by (simp add: messageLoop_passes)
    from passes_no_stop [OF this assms(1,2), where e = e] show ?thesis by simp
  qed
qed

text \<open>The records of a list of messages, without those that are passed over.\<close>

definition decoded :: "(string \<Rightarrow> payload \<Rightarrow> int \<Rightarrow> uint64 \<Rightarrow> goerror + 'r option) \<Rightarrow> rawMsg \<Rightarrow> goerror + 'r option" where
  "decoded dec m = dec (rawSubject m) (rawData m) (rawTime m) (rawSeq m)"

fun kept :: "(goerror + 'r option) list \<Rightarrow> 'r list option" where
  "kept [] = Some []"
| "kept (Inl e # xs) = None"
| "kept (Inr None # xs) = kept xs"
| "kept (Inr (Some r) # xs) = map_option (\<lambda>rs. r # rs) (kept xs)"

lemma replay_kept:
  "replay (yieldMessage dec keepAll) ms acc = (None, acc') \<Longrightarrow>
     \<exists>rs. kept (map (decoded dec) ms) = Some rs \<and> acc' = acc @ map Inr rs"
  by (induction ms arbitrary: acc)
    (fastforce simp: yieldMessage_def keepAll_def decoded_def split: sum.splits option.splits)+

lemma collected_Inr: "collected its = Inr recs \<Longrightarrow> its = map Inr recs"
  by (induction its arbitrary: recs rule: collected.induct) (auto simp: andThen_Inr)

lemma streamMessages_exact:
  assumes laws: "consumerLaw js view conPos itPos" "readLaw js view" "logLaw view" and stop: "stopLaw js"
      "decNoStop dec"
    and con: "conPos (fst opened) = (S, flt, n)" "countsPending js view (fst opened) (conPos (fst opened)) w"
    and run: "streamMessages js T opened dec keepAll [] w = Some (map Inr recs, w')"
  shows "\<exists>later. kept (map (decoded dec) (pendingFrom flt n (view S w @ later))) = Some recs \<and> prefix (view S w @ later) (view S w')"
proof -
  obtain err v acc w2 where each: "forEachAggregateMessage js (fst opened) (yieldMessage dec keepAll) [] w = Some ((err, v), acc, w2)"
    and acc: "map Inr recs = (case err of Some e \<Rightarrow> if errorsIs e errStopStream then acc else snd (keepAll (Inl e) acc) | None \<Rightarrow> acc)"
    and w': "w' = runCleanup js T (snd opened) w2"
    using run by (auto simp: streamMessages_def)
  have none: "err = None"
  proof (rule ccontr)
    assume "err \<noteq> None"
    then obtain e where e: "err = Some e" by blast
    with forEach_no_stop [OF stop each [unfolded e]] acc have "map Inr recs = acc @ [Inl e]" by (simp add: keepAll_def)
    then have "Inl e \<in> set (map Inr recs)" by (metis in_set_conv_decomp)
    then show False by auto
  qed
  from forEach_replay [OF laws con each [unfolded none]] obtain later rest where
    later: "view S w2 = view S w @ later @ rest" "replay (yieldMessage dec keepAll) (pendingFrom flt n (view S w @ later)) [] = (None, acc)"
    by blast
  have "acc = map Inr recs" using acc none by simp
  with replay_kept [OF later(2)] have "kept (map (decoded dec) (pendingFrom flt n (view S w @ later))) = Some recs"
    by (auto simp: inj_on_def dest: map_injective)
  moreover obtain tl where "view S w' = view S w2 @ tl"
    using cleanup_grows [OF laws(2), of w2 T "snd opened"] unfolding w' grows_def by blast
  ultimately show ?thesis using later(1) by (intro exI [of _ later]) (simp add: prefix_def)
qed

text \<open>A range loop over the store's stream that collects without an error, from its items.\<close>

lemma collectBody_all: "pushAll (map Inr recs) collectBody (out, None) = (True, (out @ recs, None))"
  by (induction recs arbitrary: out) (auto simp: collectBody_def)

lemma Collect_items:
  assumes "consumerLaw js view conPos itPos" "nextLaw js view itPos" "readLaw js view" "logLaw view"
    and "Collect (storeStream js rte rtc v ops co s agg opts w) = Some (Inr recs)"
  shows "\<exists>w'. Stream js rte rtc v ops co s agg opts keepAll [] w = Some (map Inr recs, w') \<and>
     Stream js rte rtc v ops co s agg opts collectBody ([], None) w = Some ((recs, None), w')"
proof -
  have "Stream js rte rtc v ops co s agg opts keepAll [] w \<noteq> None" by (rule Stream_returns [OF assms(1-4)])
  then obtain its w' where its: "Stream js rte rtc v ops co s agg opts keepAll [] w = Some (its, w')"
    by (cases "Stream js rte rtc v ops co s agg opts keepAll [] w") auto
  then have "streamItems js rte rtc v ops co s agg opts w = Some its" by (simp add: streamItems_def)
  from store_reader.Collect_collected [OF this] assms(5) have "collected its = Inr recs" by simp
  note its = its [unfolded collected_Inr [OF this]]
  from runsLike_dest [OF Stream_runs [OF its] collectBody_all] its show ?thesis by simp
qed

lemma generic_not_found:
  assumes laws: "readLaw js view" "streamLaw js view"
    and "resolveGenericReadContext js s ref w = (Inl err, w1)" "errorsIs err errStreamNotFound"
  shows "view (streamFor s (AggregateScope ref) (AggregateType ref)) w = []"
proof -
  let ?S = "streamFor s (AggregateScope ref) (AggregateType ref)"
  from assms(3) obtain e where st: "jsStream js ?S w = (Some e, w1)" and err: "err = streamError ?S e"
    by (auto simp: resolveGenericReadContext_def Let_def split: prod.splits option.splits)
  from laws(2) st have "\<not> errorsIs e errStreamNotFound" "errorsIs e jetstreamErrStreamNotFound \<longrightarrow> view ?S w1 = []"
    unfolding streamLaw_def by blast+
  with err assms(4) have "view ?S w1 = []" by (auto simp: streamError_def split: if_splits)
  with read_grows(1) [OF laws(1) st] show ?thesis unfolding grows_def by (metis append_is_Nil_conv)
qed

definition genericDec :: "'v \<Rightarrow> string \<Rightarrow> payload \<Rightarrow> int \<Rightarrow> uint64 \<Rightarrow> goerror + 'v StoredEvent option" where
  "genericDec v subject data timestamp version =
     map_sum (\<lambda>err. err) Some (genericStoredEventFromMessage v subject data timestamp version)"

lemma genericDec_no_stop: "decNoStop (genericDec v)"
  by (auto simp: decNoStop_def genericDec_def genericStoredEventFromMessage_def split: prod.splits bool.splits)

lemma streamGeneric_exact:
  fixes v :: 'v
  assumes laws: "consumerLaw js view conPos itPos" "readLaw js view" "logLaw view" "streamLaw js view" "stopLaw js"
    and run: "streamGeneric js v s ref keepAll [] w = Some (map Inr recs, w')"
    and S: "S = streamFor s (AggregateScope ref) (AggregateType ref)"
  shows "\<exists>seen. prefix (view S w) seen \<and> prefix seen (view S w') \<and>
     kept (map (decoded (genericDec v)) (matching (aggFilter ref) seen)) = Some recs"
proof -
  obtain r w1 where res: "(resolveGenericReadContext js s ref w :: (goerror + 'v aggregateReadContext) \<times> _) = (r, w1)"
    by fastforce
  have g1: "grows view w w1"
    using res read_grows(1) [OF laws(2)]
    by (auto simp: resolveGenericReadContext_def Let_def split: prod.splits option.splits)
  show ?thesis
  proof (cases r)
    case (Inl err)
    with run res have "errorsIs err errStreamNotFound" "recs = []" 
      by (auto simp: streamGeneric_def keepAll_def split: if_splits)
    with generic_not_found [OF laws(2,4) res [unfolded Inl]] show ?thesis
      by (intro exI [of _ "[]"]) (simp add: S matching_def)
  next
    case (Inr read)
    with res have rd: "rcStreamName read = S" "rcFilter read = aggFilter ref"
      by (auto simp: resolveGenericReadContext_def Let_def S split: prod.splits option.splits)
    obtain op w2 where op: "openAggregateConsumer js s S (aggFilter ref) ref 1 w1 = (op, w2)" by fastforce
    show ?thesis
    proof (cases op)
      case err: (Inl err)
      with run res Inr rd op show ?thesis by (auto simp: streamGeneric_def keepAll_def)
    next
      case opened: (Inr opened)
      obtain con cleanup where cc: "opened = (con, cleanup)" by (cases opened)
      obtain n where con: "conPos con = (S, aggFilter ref, n)" "countsPending js view con (conPos con) w2" and n: "n = 1"
        using open_pos [OF laws(1) op [unfolded opened cc]] by auto
      have "streamMessages js S opened (genericDec v) keepAll [] w2 = Some (map Inr recs, w')"
        using run res Inr rd op opened by (simp add: streamGeneric_def genericDec_def [abs_def])
      from streamMessages_exact [OF laws(1-3,5) genericDec_no_stop _ _ this, where S = S and flt = "aggFilter ref" and n = n] con cc
      obtain later where later: "kept (map (decoded (genericDec v)) (pendingFrom (aggFilter ref) n (view S w2 @ later))) = Some recs"
        "prefix (view S w2 @ later) (view S w')" by auto
      obtain rest where "view S w' = (view S w2 @ later) @ rest" using later(2) by (auto simp: prefix_def)
      note pf = pendingFrom_first [OF laws(3) _ this, of n "aggFilter ref"]
      have "prefix (view S w) (view S w2)"
        using grows_trans [OF g1 open_grows [OF laws(2) op]] by (auto simp: grows_def prefix_def)
      with later pf n show ?thesis
        by (intro exI [of _ "view S w2 @ later"]) (auto intro: prefix_prefix)
    qed
  qed
qed

text \<open>C16. A range loop over the stream of a plain aggregate reference that ends without an error has
  received the messages of the aggregate, oldest first, each exactly once, with its subject, data,
  sequence and time: all that were stored when the call began and, of those that arrived until it
  ended, a first part. Nothing is passed over and nothing is made up.\<close>

theorem Collect_generic_exact:
  assumes "consumerLaw js view conPos itPos" "nextLaw js view itPos" "readLaw js view" "logLaw view"
    and "streamLaw js view" "stopLaw js"
    and "\<not> isESAggregate ops" "Collect (storeStream js rte rtc v ops co s agg opts w) = Some (Inr recs)"
    and "S = streamFor s (AggregateScope (refOf ops agg)) (AggregateType (refOf ops agg))"
  shows "\<exists>w' seen. Stream js rte rtc v ops co s agg opts collectBody ([], None) w = Some ((recs, None), w') \<and>
     prefix (view S w) seen \<and> prefix seen (view S w') \<and>
     list_all2 (\<lambda>m rec. ParseSubject (rawSubject m) = (StoredSubject rec, True) \<and> StoredData rec = rawData m \<and>
         StoredVersion rec = rawSeq m \<and> StoredTimestamp rec = rawTime m \<and> EventName (StoredEv rec) = Name (StoredSubject rec))
       (matching (aggFilter (refOf ops agg)) seen) recs"
proof -
  obtain w' where all: "Stream js rte rtc v ops co s agg opts keepAll [] w = Some (map Inr recs, w')"
    and coll: "Stream js rte rtc v ops co s agg opts collectBody ([], None) w = Some ((recs, None), w')"
    using Collect_items [OF assms(1-4,8)] by blast
  from all assms(7) have "streamGeneric js v s (refOf ops agg) keepAll [] w = Some (map Inr recs, w')" by (simp add: Stream_def)
  from streamGeneric_exact [OF assms(1,3-6) this assms(9)] obtain seen where "prefix (view S w) seen" "prefix seen (view S w')"
    and kept: "kept (map (decoded (genericDec v)) (matching (aggFilter (refOf ops agg)) seen)) = Some recs" by blast
  moreover have "kept (map (decoded (genericDec v)) ms) = Some rs \<Longrightarrow>
      list_all2 (\<lambda>m rec. ParseSubject (rawSubject m) = (StoredSubject rec, True) \<and> StoredData rec = rawData m \<and>
         StoredVersion rec = rawSeq m \<and> StoredTimestamp rec = rawTime m \<and> EventName (StoredEv rec) = Name (StoredSubject rec)) ms rs"
    for ms rs
    by (induction ms arbitrary: rs)
      (auto simp: decoded_def genericDec_def genericStoredEventFromMessage_def GenericEvent_def split: prod.splits bool.splits)
  ultimately show ?thesis using coll by blast
qed

lemma mem_stopLaw: "stopLaw memJS"
  by (auto simp: stopLaw_def memJS_def memNext_def split: if_splits prod.splits list.splits)

definition exPlainOps :: "(nat, unit) aggregateOps" where
  "exPlainOps = exOps\<lparr>isESAggregate := False\<rparr>"

definition exSubject :: Subject where
  "exSubject = \<lparr>Scope = ''sales'', Kind = ''event'', AggType = ''order'', AggID = ''o1'', Name = ''created''\<rparr>"

definition exRecord :: "unit StoredEvent" where
  "exRecord = \<lparr>StoredEv = GenericEvent () exSubject, StoredSubject = exSubject, StoredData = Json (JObj []), StoredVersion = 1,
     StoredTimestamp = 1\<rparr>"

lemma ex_generic_stream:
  "Stream memJS exReflect exCmdReflect () exPlainOps exCodec exStore 0 opts collectBody ([], None)
     (memAppend exStream [exWire] memEmpty) = Some (([exRecord], None), exLoaded)"
proof -
  let ?w = "memAppend exStream [exWire] memEmpty"
  let ?wi = "?w\<lparr>mwIters := [(exStream, aggFilter exOrderRef, 1)]\<rparr>"
  let ?rec = "genericStoredEventFromMessage ()"
  have "ParseSubject ''sales.event.order.o1.created'' = (exSubject, True)"
    by (simp add: ParseSubject_def Split.simps ex_tokens ex_o1 Let_def validSubject_def exSubject_def)
  then have rec: "?rec (rawSubject (numberMsg 0 exWire)) (rawData (numberMsg 0 exWire)) (rawTime (numberMsg 0 exWire)) 1 = Inr exRecord"
    by (simp add: genericStoredEventFromMessage_def numberMsg_def exWire_def exRecord_def)
  have S: "streamFor exStore (AggregateScope exOrderRef) (AggregateType exOrderRef) = exStream"
    by (simp add: exStream_def exOrderRef_def)
  have opened: "openAggregateConsumer memJS exStore exStream (aggFilter exOrderRef) r 1 ?w =
      (Inr (((exStream, aggFilter exOrderRef, 1), 1), None), ?w)" for r
    by (simp add: openAggregateConsumer_def exStore_def newStore_def memJS_def memConsumer_def ex_saved_view ex_pending)
  have loop: "messageLoop memJS 0 (yieldMessage (\<lambda>a b c d. map_sum (\<lambda>err. err) Some (?rec a b c d)) collectBody) 0 ([], None) ?wi =
      Some ((None, 1), ([exRecord], None), exLoaded)"
    by (subst messageLoop.simps)
      (simp add: messagePass_def memJS_def memNext_def ex_saved_view ex_pending yieldMessage_def ex_seq rec collectBody_def
        exLoaded_def Let_def)
  have "forEachAggregateMessage memJS ((exStream, aggFilter exOrderRef, 1), 1)
      (yieldMessage (\<lambda>a b c d. map_sum (\<lambda>err. err) Some (?rec a b c d)) collectBody) ([], None) ?w =
      Some ((None, 1), ([exRecord], None), exLoaded)"
    using loop by (simp add: forEachAggregateMessage_def memJS_def memAppend_def memEmpty_def)
  then have "streamGeneric memJS () exStore exOrderRef collectBody ([], None) ?w = Some (([exRecord], None), exLoaded)"
    by (simp add: streamGeneric_def resolveGenericReadContext_def memJS_def [THEN arg_cong [of _ _ jsStream]] S opened
        streamMessages_def runCleanup_def Let_def)
  then show ?thesis by (simp add: Stream_def exPlainOps_def) (simp add: exOps_def)
qed

theorem Collect_generic_exact_witness:
  "\<exists>seen. prefix [numberMsg 0 exWire] seen \<and> prefix seen [numberMsg 0 exWire] \<and>
     length (matching (aggFilter exOrderRef) seen) = length [exRecord]"
proof -
  let ?opts = "\<lparr>SkipSnapshotFastPath = False, IncludeSnapshots = False\<rparr>"
  have plain: "\<not> isESAggregate exPlainOps" "refOf exPlainOps 0 = exOrderRef" by (simp_all add: exPlainOps_def exOps_def)
  have S: "exStream = streamFor exStore (AggregateScope (refOf exPlainOps 0)) (AggregateType (refOf exPlainOps 0))"
    by (simp add: exStream_def plain exOrderRef_def)
  have "memView exStream exLoaded = [numberMsg 0 exWire]"
    using ex_saved_view by (simp add: exLoaded_def memView_def)
  moreover have "Collect (storeStream memJS exReflect exCmdReflect () exPlainOps exCodec exStore 0 ?opts
      (memAppend exStream [exWire] memEmpty)) = Some (Inr [exRecord])"
    using ex_generic_stream [of ?opts] by (simp add: Collect_def storeStream_def)
  moreover note Collect_generic_exact [OF mem_laws(4,8,3,5,7) mem_stopLaw plain(1) _ S]
  ultimately show ?thesis
    using ex_generic_stream [of ?opts] unfolding plain(2) ex_saved_view [symmetric] by (fastforce dest: list_all2_lengthD)
qed

end
