(* ===== verification/Subscriber.thy ===== *)
theory Subscriber
  imports JetStream Registry CursorStore Execute EventRead
begin

section \<open>The NATS event subscriber\<close>

text \<open>
  \<^verbatim>\<open>src/nats/subscriber.go\<close> and \<^verbatim>\<open>src/metadata.go\<close>. A subscription is a session that handles the messages of a
  consumer one after the other. The message's own methods, the logger and the application's handler
  are parameters that act on the world; a handler may also panic, which the session recovers from. The
  client library's consume context is a flag that says whether it was set and one that says whether it
  was stopped. The function is given the registry that \<^verbatim>\<open>BindRegistry\<close> left in the subscriber.
\<close>

subsection \<open>The subscriber\<close>

record 'v subscriber =
  subStreamPattern :: string
  subRegistry :: "'v registry"
  consumerConfigHook :: "(ConsumerConfig \<Rightarrow> ConsumerConfig) option"
  orderedConfigHook :: "(OrderedConsumerConfig \<Rightarrow> OrderedConsumerConfig) option"
  heartbeatInterval :: int

definition NewSubscriber ::
  "bool \<Rightarrow> goerror option \<Rightarrow> string \<Rightarrow> (ConsumerConfig \<Rightarrow> ConsumerConfig) option \<Rightarrow>
   (OrderedConsumerConfig \<Rightarrow> OrderedConsumerConfig) option \<Rightarrow> int \<Rightarrow> goerror + 'v subscriber" where
  "NewSubscriber ncNil jsErr pattern hook ohook heartbeat =
     (if ncNil then Inl (ErrorString ''nats connection is required'')
      else case jsErr of
        Some err \<Rightarrow> Inl (Errorf ''create jetstream context: '' err [])
      | None \<Rightarrow>
          Inr \<lparr>subStreamPattern = (if pattern = [] then DefaultStreamPattern else pattern), subRegistry = newRegistry,
             consumerConfigHook = hook, orderedConfigHook = ohook,
             heartbeatInterval = (if heartbeat \<le> 0 then 15000 * millisecond else heartbeat)\<rparr>)"

definition BindRegistry :: "'v registry \<Rightarrow> 'v subscriber \<Rightarrow> 'v subscriber" where
  "BindRegistry registry s = s\<lparr>subRegistry := registry\<rparr>"

definition subscriber_RegisterMessageType ::
  "'v Event reflect \<Rightarrow> 'v Command reflect \<Rightarrow> 'v subscriber \<Rightarrow> 'v any \<Rightarrow> goerror option \<times> 'v subscriber" where
  "subscriber_RegisterMessageType rte rtc s prototype =
     (case AsEvent prototype of
        None \<Rightarrow> (Some (ErrorString (''subscriber message type '' @ AnyType prototype @ '' must implement event.Event'')), s)
      | Some evt \<Rightarrow>
          (let (err, registry) = RegisterMessageType rte rtc (subRegistry s) (anyEvent evt)
           in (err, s\<lparr>subRegistry := registry\<rparr>)))"

definition subscriber_streamFor :: "'v subscriber \<Rightarrow> string \<Rightarrow> string \<Rightarrow> string" where
  "subscriber_streamFor s scope aggregateType = StreamName (subStreamPattern s) scope aggregateType"

subsection \<open>Consumer configurations\<close>

definition cursorStart :: "string \<Rightarrow> uint64" where
  "cursorStart cursor = cursorToSeq cursor + 1"

definition orderedSubscription :: "'v subscriber \<Rightarrow> 'w EventSubscriptionConfig \<Rightarrow> string list \<Rightarrow> OrderedConsumerConfig" where
  "orderedSubscription s cfg filters =
     (let base = \<lparr>ocFilterSubjects = filters, ocDeliverPolicy = DeliverAllPolicy, ocOptStartSeq = 0,
            ocInactiveThreshold = 5000 * millisecond\<rparr>;
          start = (case Cursor cfg of
             Some cursor \<Rightarrow> base\<lparr>ocDeliverPolicy := DeliverByStartSequencePolicy, ocOptStartSeq := cursorStart cursor\<rparr>
           | None \<Rightarrow>
               if BootPolicy cfg = CursorBootAll then base\<lparr>ocDeliverPolicy := DeliverAllPolicy\<rparr>
               else base\<lparr>ocDeliverPolicy := DeliverNewPolicy\<rparr>)
      in case orderedConfigHook s of None \<Rightarrow> start | Some f \<Rightarrow> f start)"

text \<open>One pass of the loop over the filters; \<open>None\<close> is the early return.\<close>

definition instanceStep :: "(MessageKind \<times> string) option \<Rightarrow> EventSubscriptionFilter \<Rightarrow> (MessageKind \<times> string) option" where
  "instanceStep acc f = (case acc of
       None \<Rightarrow> None
     | Some (outKind, outID) \<Rightarrow>
         (case FilterIDs f of
            [aggID] \<Rightarrow>
              (let kind = defaultKind (FilterKind f) KindEvent in
               if outKind = [] then Some (kind, aggID)
               else if outKind \<noteq> kind \<or> outID \<noteq> aggID then None else Some (outKind, outID))
          | _ \<Rightarrow> None))"

definition aggregateInstanceQueueScope :: "'w EventSubscriptionConfig \<Rightarrow> (MessageKind \<times> string) option" where
  "aggregateInstanceQueueScope cfg =
     (if EvFilters cfg = [] then
        (case EvIDs cfg of
           [aggID] \<Rightarrow> Some (defaultKind (EvKind cfg) KindEvent, aggID)
         | _ \<Rightarrow> None)
      else
        (case foldl instanceStep (Some ([], [])) (EvFilters cfg) of
           Some (outKind, outID) \<Rightarrow> if outKind \<noteq> [] \<and> outID \<noteq> [] then Some (outKind, outID) else None
         | None \<Rightarrow> None))"

definition aggregateInstanceQueueFilter :: "'w EventSubscriptionConfig \<Rightarrow> string \<Rightarrow> string option" where
  "aggregateInstanceQueueFilter cfg typ =
     (case aggregateInstanceQueueScope cfg of
        None \<Rightarrow> None
      | Some (kind, aggID) \<Rightarrow> Some (Join [EvScope cfg, kind, typ, aggID, ''>''] ''.''))"

definition queueConsumerFilters :: "'w EventSubscriptionConfig \<Rightarrow> string \<Rightarrow> string list \<Rightarrow> string list" where
  "queueConsumerFilters cfg typ filters =
     (if length filters \<le> 1 then filters
      else case aggregateInstanceQueueFilter cfg typ of
        Some flt \<Rightarrow> [flt]
      | None \<Rightarrow> filters)"

text \<open>The number of deliveries is computed in a 64-bit int.\<close>

definition queueMaxDeliver :: "int \<Rightarrow> int" where
  "queueMaxDeliver retries = (if retries < 0 then - 1 else if 0 < retries then wrap64 (retries + 1) else 1)"

definition queueName :: "'w EventSubscriptionConfig \<Rightarrow> string" where
  "queueName cfg = sanitizeName (if ConsumerName cfg = [] then Queue cfg else ConsumerName cfg)"

definition queueSubscription :: "'v subscriber \<Rightarrow> 'w EventSubscriptionConfig \<Rightarrow> string list \<Rightarrow> ConsumerConfig" where
  "queueSubscription s cfg filters =
     (let base = \<lparr>ccName = queueName cfg, ccDurable = queueName cfg,
            ccFilterSubject = (case filters of [f] \<Rightarrow> f | _ \<Rightarrow> []),
            ccFilterSubjects = (case filters of [f] \<Rightarrow> [] | _ \<Rightarrow> filters), ccAckPolicy = AckExplicitPolicy,
            ccDeliverPolicy = DeliverAllPolicy, ccReplayPolicy = ReplayInstantPolicy, ccOptStartSeq = 0,
            ccAckWait = 30000 * millisecond, ccMaxDeliver = queueMaxDeliver (MaxRetries cfg), ccInactiveThreshold = 0\<rparr>;
          start = (case Cursor cfg of
             Some cursor \<Rightarrow> base\<lparr>ccDeliverPolicy := DeliverByStartSequencePolicy, ccOptStartSeq := cursorStart cursor\<rparr>
           | None \<Rightarrow> base)
      in case consumerConfigHook s of None \<Rightarrow> start | Some f \<Rightarrow> f start)"

subsection \<open>Sessions\<close>

record MessageMetadata =
  NumDelivered :: uint64
  MetadataTimestamp :: int

text \<open>
  The context a handler is given: \<^verbatim>\<open>WithMessageMetadata\<close> stores the metadata under a key of its own, and
  \<^verbatim>\<open>MessageMetadataFromContext\<close> reads it back; every other value of a context passes through.
\<close>

datatype ctxValue = MetadataValue MessageMetadata | OtherValue string

type_synonym goContext = "(string \<times> ctxValue) list"

definition metadataKey :: string where "metadataKey = ''event.metadataKey''"

definition WithMessageMetadata :: "goContext \<Rightarrow> MessageMetadata \<Rightarrow> goContext" where
  "WithMessageMetadata ctx metadata = (metadataKey, MetadataValue metadata) # ctx"

definition MessageMetadataFromContext :: "goContext \<Rightarrow> MessageMetadata option" where
  "MessageMetadataFromContext ctx = (case map_of ctx metadataKey of
     Some (MetadataValue metadata) \<Rightarrow> Some metadata
   | _ \<Rightarrow> None)"

text \<open>
  The handler and the decoder of a type are the application's and may panic; \<open>seDecodePanic\<close> is the
  panic value of the decoder, if any, on a subject and a payload. The deferred function of
  \<^verbatim>\<open>handleMessage\<close> recovers both. The error callback of the configuration is taken not to panic: a panic
  inside the deferred function would end the process.
\<close>

datatype outcome = Returned "goerror option" | Panicked string

datatype 'v decodeOutcome = Decoded "'v Event" | NotDecoded | DecodePanicked string

record ('v, 'w) sessionEnv =
  seCfg :: "'w EventSubscriptionConfig"
  seRegistry :: "'v registry"
  seCodec :: "'v codecOps"
  seDecodePanic :: "'v Event \<Rightarrow> string \<Rightarrow> payload \<Rightarrow> string option"
  seCtx :: goContext
  seHandler :: "goContext \<Rightarrow> 'v Event \<Rightarrow> string \<Rightarrow> 'w \<Rightarrow> outcome \<times> 'w"
  seAck :: "jsMsg \<Rightarrow> 'w \<Rightarrow> goerror option \<times> 'w"
  seNak :: "jsMsg \<Rightarrow> 'w \<Rightarrow> goerror option \<times> 'w"
  seInProgress :: "jsMsg \<Rightarrow> 'w \<Rightarrow> goerror option \<times> 'w"
  seLog :: "string \<Rightarrow> 'w \<Rightarrow> 'w"

record consumeSession =
  caughtUpDone :: bool
  hasConsumeContext :: bool
  consumeStopped :: bool
  cancelled :: bool

definition setConsumeContext :: "consumeSession \<Rightarrow> consumeSession" where
  "setConsumeContext ss = ss\<lparr>hasConsumeContext := True\<rparr>"

definition session_stop :: "consumeSession \<Rightarrow> consumeSession" where
  "session_stop ss = ss\<lparr>consumeStopped := (consumeStopped ss \<or> hasConsumeContext ss), cancelled := True\<rparr>"

text \<open>\<open>closed\<close> is the wait for the consume context to be closed.\<close>

definition session_Stop :: "('w \<Rightarrow> 'w) \<Rightarrow> consumeSession \<times> 'w \<Rightarrow> goerror option \<times> consumeSession \<times> 'w" where
  "session_Stop closed st =
     (let ss = session_stop (fst st) in
      if hasConsumeContext ss then (None, ss, closed (snd st)) else (None, ss, snd st))"

definition ack :: "('v, 'w) sessionEnv \<Rightarrow> jsMsg \<Rightarrow> 'w \<Rightarrow> 'w" where
  "ack env msg w =
     (if Queue (seCfg env) = [] then w
      else case seAck env msg w of
        (Some err, w1) \<Rightarrow> seLog env ''ack event failed'' w1
      | (None, w1) \<Rightarrow> w1)"

definition nak :: "('v, 'w) sessionEnv \<Rightarrow> jsMsg \<Rightarrow> 'w \<Rightarrow> 'w" where
  "nak env msg w =
     (let w0 = seLog env ''event handler failed'' w in
      if Queue (seCfg env) = [] then w0
      else case seNak env msg w0 of
        (Some err, w1) \<Rightarrow> seLog env ''nak event failed'' w1
      | (None, w1) \<Rightarrow> w1)"

text \<open>The conversion of \<^verbatim>\<open>MaxRetries\<close> to an unsigned number is \<open>of_int\<close>.\<close>

definition session_onError ::
  "('v, 'w) sessionEnv \<Rightarrow> jsMsg \<Rightarrow> goerror \<Rightarrow> 'v Event option \<Rightarrow> uint64 \<Rightarrow> consumeSession \<times> 'w \<Rightarrow> consumeSession \<times> 'w" where
  "session_onError env msg err evt numDelivered st =
     (let cfg = seCfg env; ss = fst st; w1 = nak env msg (snd st) in
      case OnError cfg of
        None \<Rightarrow> (if Queue cfg = [] then session_stop ss else ss, w1)
      | Some onErr \<Rightarrow>
          if Queue cfg \<noteq> [] \<and> (MaxRetries cfg < 0 \<or> numDelivered \<le> of_int (MaxRetries cfg)) then (ss, w1)
          else
            (let info = SubscriptionError (case evt of None \<Rightarrow> zeroSubject | Some e \<Rightarrow> EventSubject e) (Queue cfg)
                   numDelivered (Queue cfg \<noteq> []) False (Some err);
                 (go, w2) = onErr info w1
             in (if go then ss else session_stop ss, w2)))"

definition eventFilterMatchesSubject :: "EventSubscriptionFilter \<Rightarrow> Subject \<Rightarrow> bool" where
  "eventFilterMatchesSubject f subj =
     (if Kind subj \<noteq> defaultKind (FilterKind f) KindEvent then False
      else if FilterIDs f \<noteq> [] \<and> AggID subj \<notin> set (FilterIDs f) then False
      else FilterNames f = [] \<or> Name subj \<in> set (FilterNames f))"

definition subscriptionSubjectMatches :: "'w EventSubscriptionConfig \<Rightarrow> Subject \<Rightarrow> bool" where
  "subscriptionSubjectMatches cfg subj =
     (if EvFilters cfg \<noteq> [] then \<exists>f \<in> set (EvFilters cfg). eventFilterMatchesSubject f subj
      else if Kind subj \<noteq> defaultKind (EvKind cfg) KindEvent then False
      else EvNames cfg = [] \<or> Name subj \<in> set (EvNames cfg))"

definition session_decodeEvent ::
  "('v, 'w) sessionEnv \<Rightarrow> jsMsg \<Rightarrow> MsgMetadata \<Rightarrow> 'w \<Rightarrow> 'v decodeOutcome \<times> 'w" where
  "session_decodeEvent env msg meta w =
     (case ParseSubject (jsSubject msg) of
        (_, False) \<Rightarrow> (NotDecoded, ack env msg (seLog env ''invalid event subject'' w))
      | (subj, True) \<Rightarrow>
        if \<not> subscriptionSubjectMatches (seCfg env) subj then (NotDecoded, ack env msg w)
        else case NewEvent (seRegistry env) (Kind subj) (Scope subj) (AggType subj) (Name subj) of
          Inl err \<Rightarrow>
            if asUnknownEvent err then (NotDecoded, ack env msg (seLog env ''unknown event type'' w))
            else (NotDecoded, nak env msg w)
        | Inr evt \<Rightarrow>
            (case seDecodePanic env evt (jsSubject msg) (jsData msg) of
               Some p \<Rightarrow> (DecodePanicked p, w)
             | None \<Rightarrow>
               (case (case natsUnmarshal (seCodec env) evt of
                    Some unmarshal \<Rightarrow> unmarshal (jsSubject msg) (jsData msg) (metaTimestamp meta)
                  | None \<Rightarrow> jsonUnmarshal (seCodec env) (jsData msg) evt) of
                  Inl err \<Rightarrow> (NotDecoded, ack env msg (seLog env ''decode event failed'' w))
                | Inr evt' \<Rightarrow> (Decoded evt', w))))"

text \<open>\<^verbatim>\<open>caughtUpOnce.Do\<close>.\<close>

definition caughtUpOnce :: "('v, 'w) sessionEnv \<Rightarrow> consumeSession \<times> 'w \<Rightarrow> consumeSession \<times> 'w" where
  "caughtUpOnce env st = (case CaughtUp (seCfg env) of
     None \<Rightarrow> st
   | Some f \<Rightarrow> if caughtUpDone (fst st) then st else ((fst st)\<lparr>caughtUpDone := True\<rparr>, f (snd st)))"

text \<open>The body of \<^verbatim>\<open>handleMessage\<close> without its deferred call of \<^verbatim>\<open>CaughtUp\<close>.\<close>

definition handleBody ::
  "('v, 'w) sessionEnv \<Rightarrow> jsMsg \<Rightarrow> MsgMetadata \<Rightarrow> consumeSession \<times> 'w \<Rightarrow> consumeSession \<times> 'w" where
  "handleBody env msg meta st =
     (let cfg = seCfg env; (decoded, w1) = session_decodeEvent env msg meta (snd st) in
      case decoded of
        NotDecoded \<Rightarrow> (fst st, w1)
      | DecodePanicked p \<Rightarrow> session_onError env msg (ErrorString (''panic: '' @ p)) None (metaNumDelivered meta) (fst st, w1)
      | Decoded evt \<Rightarrow>
        if EvIDs cfg \<noteq> [] \<and> AggregateID evt \<notin> set (EvIDs cfg) then (fst st, ack env msg w1)
        else
          (let ctx = WithMessageMetadata (seCtx env)
                 \<lparr>NumDelivered = metaNumDelivered meta, MetadataTimestamp = metaTimestamp meta\<rparr>;
               (out, w2) = seHandler env ctx evt (cursorFromSeq (metaStreamSeq meta)) w1
           in case out of
             Panicked p \<Rightarrow> session_onError env msg (ErrorString (''panic: '' @ p)) (Some evt) (metaNumDelivered meta) (fst st, w2)
           | Returned (Some err) \<Rightarrow> session_onError env msg err (Some evt) (metaNumDelivered meta) (fst st, w2)
           | Returned None \<Rightarrow> (fst st, ack env msg w2)))"

definition handleMessage :: "('v, 'w) sessionEnv \<Rightarrow> jsMsg \<Rightarrow> consumeSession \<times> 'w \<Rightarrow> consumeSession \<times> 'w" where
  "handleMessage env msg st =
     (case jsMetadata msg of
        Inl err \<Rightarrow> (fst st, seLog env ''event metadata unavailable'' (snd st))
      | Inr meta \<Rightarrow>
          (let st1 = handleBody env msg meta st in
           if metaNumPending meta = 0 then caughtUpOnce env st1 else st1))"

text \<open>
  The heartbeat of a message that is being handled runs beside the handler: what each of its selects
  sees is its input, and it ends when the handler is done or the context is.
\<close>

datatype heartbeatEvent = HandlerDone | ContextDone | Tick

fun heartbeat :: "('v, 'w) sessionEnv \<Rightarrow> jsMsg \<Rightarrow> heartbeatEvent list \<Rightarrow> 'w \<Rightarrow> 'w" where
  "heartbeat env msg [] w = w"
| "heartbeat env msg (HandlerDone # es) w = w"
| "heartbeat env msg (ContextDone # es) w = w"
| "heartbeat env msg (Tick # es) w =
     heartbeat env msg es (case seInProgress env msg w of
         (Some err, w1) \<Rightarrow> seLog env ''event handler heartbeat failed'' w1
       | (None, w1) \<Rightarrow> w1)"

subsection \<open>Subscribing\<close>

text \<open>An error of the transport while the consumer runs, when there is a handler for it.\<close>

definition consumeErrHandler :: "('v, 'w) sessionEnv \<Rightarrow> goerror \<Rightarrow> consumeSession \<times> 'w \<Rightarrow> consumeSession \<times> 'w" where
  "consumeErrHandler env err st = (case OnError (seCfg env) of
     None \<Rightarrow> st
   | Some onErr \<Rightarrow>
       (let (go, w') = onErr (SubscriptionError zeroSubject (Queue (seCfg env)) 0 False True (Some err)) (snd st)
        in (if go then fst st else session_stop (fst st), w')))"

text \<open>
  \<open>start\<close> is \<^verbatim>\<open>consumer.Consume\<close>. The goroutine that stops the consume context when the context of
  the subscription ends is the step \<open>consumeWatcher\<close>.
\<close>

definition consume ::
  "('c \<Rightarrow> 'w \<Rightarrow> goerror option \<times> 'w) \<Rightarrow> ('c \<Rightarrow> uint64 option) \<Rightarrow> ('v, 'w) sessionEnv \<Rightarrow> 'c \<Rightarrow> 'w \<Rightarrow> (goerror + consumeSession) \<times> 'w" where
  "consume start pending env consumer w =
     (let ss0 = \<lparr>caughtUpDone = False, hasConsumeContext = False, consumeStopped = False, cancelled = False\<rparr>;
          (ss1, w1) = (if pending consumer = Some 0 then caughtUpOnce env (ss0, w) else (ss0, w))
      in case start consumer w1 of
        (Some err, w2) \<Rightarrow> (Inl (Errorf ''consume events: '' err []), w2)
      | (None, w2) \<Rightarrow> (Inr (setConsumeContext ss1), w2))"

definition consumeWatcher :: "consumeSession \<Rightarrow> consumeSession" where
  "consumeWatcher ss = (if cancelled ss then ss\<lparr>consumeStopped := True\<rparr> else ss)"

text \<open>The code indexes the one aggregate type, which \<open>SubscribeEvents\<close> has checked.\<close>

definition subscribeOrdered ::
  "('c, 'it, 'w) jetstream \<Rightarrow> ('c \<Rightarrow> 'w \<Rightarrow> goerror option \<times> 'w) \<Rightarrow> 'v subscriber \<Rightarrow> ('v, 'w) sessionEnv \<Rightarrow> string \<Rightarrow> string list \<Rightarrow> 'w \<Rightarrow>
   (goerror + consumeSession) \<times> 'w" where
  "subscribeOrdered js start s env typ filters w =
     (let cfg = seCfg env in
      case jsOrderedConsumer js (subscriber_streamFor s (EvScope cfg) typ) (orderedSubscription s cfg filters) w of
        (Inl err, w1) \<Rightarrow> (Inl (Errorf ''create ordered consumer: '' err []), w1)
      | (Inr con, w1) \<Rightarrow> consume start (cachedPending js) env con w1)"

definition subscribeQueue ::
  "('c, 'it, 'w) jetstream \<Rightarrow> ('c \<Rightarrow> 'w \<Rightarrow> goerror option \<times> 'w) \<Rightarrow> 'v subscriber \<Rightarrow> ('v, 'w) sessionEnv \<Rightarrow> string \<Rightarrow> string list \<Rightarrow> 'w \<Rightarrow>
   (goerror + consumeSession) \<times> 'w" where
  "subscribeQueue js start s env typ filters w =
     (let cfg = seCfg env in
      case jsCreateConsumer js (subscriber_streamFor s (EvScope cfg) typ)
          (queueSubscription s cfg (queueConsumerFilters cfg typ filters)) w of
        (Inl err, w1) \<Rightarrow> (Inl (Errorf (''create queue consumer '' @ queueName cfg @ '': '') err []), w1)
      | (Inr con, w1) \<Rightarrow> consume start (cachedPending js) env con w1)"

definition SubscribeEvents ::
  "('c, 'it, 'w) jetstream \<Rightarrow> ('c \<Rightarrow> 'w \<Rightarrow> goerror option \<times> 'w) \<Rightarrow> 'v subscriber \<Rightarrow> ('v, 'w) sessionEnv \<Rightarrow> 'w \<Rightarrow>
   (goerror + consumeSession) \<times> 'w" where
  "SubscribeEvents js start s env w =
     (let cfg = seCfg env in
      case EventConfigValidate cfg of
        Some err \<Rightarrow> (Inl err, w)
      | None \<Rightarrow>
        (case (EvScope cfg, EvTypes cfg, eventFilters cfg) of
           (_ # _, [typ], Some filters) \<Rightarrow>
             if Queue cfg = [] then subscribeOrdered js start s env typ filters w
             else subscribeQueue js start s env typ filters w
         | _ \<Rightarrow> (Inl (ErrorString ''nats event subscription requires one aggregate scope and one aggregate type''), w)))"

end
