(* ===== verification/SubscriberProps.thy ===== *)
theory SubscriberProps
  imports Subscriber
begin

section \<open>Properties of the event subscriber\<close>

text \<open>
  Which messages reach the handler, how each is settled, when the application hears of exhausted
  retries and of being caught up, and where an ordered subscription resumes.
\<close>

subsection \<open>Filters\<close>

lemma subscription_selects:
  assumes "validEventConfig cfg"
  shows "subscriptionSubjectMatches cfg s \<and> (EvIDs cfg = [] \<or> AggID s \<in> set (EvIDs cfg)) \<longleftrightarrow> configSelects cfg s"
proof (cases "EvFilters cfg = []")
  case True
  then show ?thesis by (auto simp: subscriptionSubjectMatches_def configSelects_def selects_def)
next
  case False
  with assms have "EvIDs cfg = []" by (auto simp: validEventConfig_def)
  with False show ?thesis
    by (auto simp: subscriptionSubjectMatches_def eventFilterMatchesSubject_def configSelects_def selects_def)
qed

lemma instanceStep_None: "foldl instanceStep None fs = None"
  by (induction fs) (simp_all add: instanceStep_def)

lemma instanceStep_Some:
  "instanceStep (Some (k0, i0)) f = Some (k, i) \<Longrightarrow>
     FilterIDs f = [i] \<and> defaultKind (FilterKind f) KindEvent = k \<and> (k0 \<noteq> [] \<longrightarrow> k = k0 \<and> i = i0)"
  by (auto simp: instanceStep_def Let_def split: list.splits if_splits)

lemma foldl_instanceStep:
  assumes "foldl instanceStep (Some (k0, i0)) fs = Some (k, i)"
  shows "(k0 \<noteq> [] \<longrightarrow> k = k0 \<and> i = i0) \<and> (\<forall>f \<in> set fs. defaultKind (FilterKind f) KindEvent = k \<and> FilterIDs f = [i])"
  using assms
proof (induction fs arbitrary: k0 i0)
  case (Cons f fs)
  then obtain k1 i1 where step: "instanceStep (Some (k0, i0)) f = Some (k1, i1)"
    by (cases "instanceStep (Some (k0, i0)) f") (auto simp: instanceStep_None)
  moreover have "k1 \<noteq> []" using instanceStep_Some [OF step] by (auto simp: defaultKind_def kind_defs split: if_splits)
  ultimately show ?case using Cons.IH [of k1 i1] Cons.prems instanceStep_Some [OF step] by auto
qed simp

lemma instanceScope_cases:
  assumes "aggregateInstanceQueueScope cfg = Some (kind, i)"
  shows "if EvFilters cfg = [] then EvIDs cfg = [i] \<and> kind = defaultKind (EvKind cfg) KindEvent
     else \<forall>f \<in> set (EvFilters cfg). defaultKind (FilterKind f) KindEvent = kind \<and> FilterIDs f = [i]"
  using assms foldl_instanceStep [of "[]" "[]" "EvFilters cfg" kind i]
  by (auto simp: aggregateInstanceQueueScope_def split: list.splits option.splits if_splits)

lemma instanceScope_selects:
  assumes "aggregateInstanceQueueScope cfg = Some (kind, i)" "configSelects cfg s"
  shows "Kind s = kind \<and> AggID s = i"
  using instanceScope_cases [OF assms(1)] assms(2)
  by (auto simp: configSelects_def selects_def split: if_splits)

lemma instanceScope_tokens:
  assumes "aggregateInstanceQueueScope cfg = Some (kind, i)" "validEventConfig cfg" "EvTypes cfg = [typ]"
  shows "validToken kind \<and> validToken i"
proof (cases "EvFilters cfg")
  case Nil
  with instanceScope_cases [OF assms(1)] validEventConfig_tokens(3) [OF assms(2,3)] assms(2) show ?thesis
    by (auto simp: validEventConfig_def)
next
  case (Cons f fs)
  then have "defaultKind (FilterKind f) KindEvent = kind" "FilterIDs f = [i]"
    using instanceScope_cases [OF assms(1)] by auto
  with Cons validEventConfig_tokens(4,5) [OF assms(2,3), of f] show ?thesis by (auto simp: validFilter_def)
qed

text \<open>C9. A queue consumer may be given one wide filter instead of several narrow ones, and still its handler
  gets exactly the messages the configuration selects: for a valid configuration and a message with a
  valid subject, the consumer's filters match and the session lets the subject and the aggregate id
  pass if and only if scope and aggregate type are those of the subscription and the configuration
  selects the subject.\<close>

theorem queue_subscription_exact:
  assumes "validEventConfig cfg" "EvTypes cfg = [typ]" "validSubject s" "eventFilters cfg = Some filters"
  shows "(\<exists>f \<in> set (queueConsumerFilters cfg typ filters). natsMatch f (SubjectString s)) \<and>
      subscriptionSubjectMatches cfg s \<and> (EvIDs cfg = [] \<or> AggID s \<in> set (EvIDs cfg)) \<longleftrightarrow>
    Scope s = EvScope cfg \<and> AggType s = typ \<and> configSelects cfg s"
proof -
  have narrow: "(\<exists>f \<in> set filters. natsMatch f (SubjectString s)) \<longleftrightarrow>
      Scope s = EvScope cfg \<and> AggType s = typ \<and> configSelects cfg s"
    by (rule eventFilters_select [OF assms(1-4)])
  have wide: "natsMatch flt (SubjectString s) \<and> configSelects cfg s \<longleftrightarrow>
      Scope s = EvScope cfg \<and> AggType s = typ \<and> configSelects cfg s"
    if flt: "aggregateInstanceQueueFilter cfg typ = Some flt" for flt
  proof -
    obtain kind i where scope: "aggregateInstanceQueueScope cfg = Some (kind, i)"
      and j: "flt = Join [EvScope cfg, kind, typ, i, ''>''] ''.''"
      using flt by (auto simp: aggregateInstanceQueueFilter_def split: option.splits)
    have tokens: "validToken (EvScope cfg)" "validToken typ" "validToken kind" "validToken i"
      using instanceScope_tokens [OF scope assms(1,2)] validEventConfig_tokens(1,2) [OF assms(1,2)] by auto
    then have "Split CHR ''.'' flt = [EvScope cfg, kind, typ, i, ''>'']"
      unfolding j by (intro Split_filter5) (auto simp: validToken_bytes)
    moreover have "p \<noteq> ''*'' \<and> p \<noteq> ''>''" if "validToken p" for p using that by auto
    ultimately have "natsMatch flt (SubjectString s) \<longleftrightarrow>
        Scope s = EvScope cfg \<and> Kind s = kind \<and> AggType s = typ \<and> AggID s = i"
      using tokens by (auto simp: natsMatch_def Split_SubjectString [OF assms(3)])
    with instanceScope_selects [OF scope] show ?thesis by blast
  qed
  show ?thesis
    using narrow wide subscription_selects [OF assms(1), of s]
    by (auto simp: queueConsumerFilters_def split: option.splits)
qed

subsection \<open>How a message is settled\<close>

text \<open>
  To observe what a session does, a projection of the world that the calls in question change in a
  known way and all others leave alone.
\<close>

datatype settlement = Acked | Naked

definition keeps :: "('w \<Rightarrow> 'o) \<Rightarrow> ('w \<Rightarrow> 'w) \<Rightarrow> bool" where
  "keeps obs f \<longleftrightarrow> (\<forall>w. obs (f w) = obs w)"

definition settleTrace :: "('v, 'w) sessionEnv \<Rightarrow> ('w \<Rightarrow> settlement list) \<Rightarrow> bool" where
  "settleTrace env tr \<longleftrightarrow>
     (\<forall>m w. tr (snd (seAck env m w)) = tr w @ [Acked]) \<and> (\<forall>m w. tr (snd (seNak env m w)) = tr w @ [Naked]) \<and>
     (\<forall>t. keeps tr (seLog env t)) \<and> (\<forall>ctx e c. keeps tr (\<lambda>w. snd (seHandler env ctx e c w))) \<and>
     (\<forall>f i. OnError (seCfg env) = Some f \<longrightarrow> keeps tr (\<lambda>w. snd (f i w))) \<and>
     (\<forall>f. CaughtUp (seCfg env) = Some f \<longrightarrow> keeps tr f)"

lemma settleTrace_calls:
  assumes "settleTrace env tr"
  shows "seAck env m w = (r1, w') \<Longrightarrow> tr w' = tr w @ [Acked]" "seNak env m w = (r1, w') \<Longrightarrow> tr w' = tr w @ [Naked]"
    "tr (seLog env t w) = tr w" "seHandler env ctx e c w = (r2, w') \<Longrightarrow> tr w' = tr w"
    "f i w = (r3, w') \<Longrightarrow> OnError (seCfg env) = Some f \<Longrightarrow> tr w' = tr w"
    "CaughtUp (seCfg env) = Some g \<Longrightarrow> tr (g w) = tr w"
  using assms unfolding settleTrace_def keeps_def by (metis snd_conv)+

lemma ack_trace:
  assumes "settleTrace env tr" "Queue (seCfg env) \<noteq> []"
  shows "tr (ack env msg w) = tr w @ [Acked]"
  using assms(2)
  by (auto simp: ack_def settleTrace_calls(3) [OF assms(1)] settleTrace_calls(1) [OF assms(1)] split: prod.split option.split)

lemma nak_trace:
  assumes "settleTrace env tr" "Queue (seCfg env) \<noteq> []"
  shows "tr (nak env msg w) = tr w @ [Naked]"
  using assms(2)
  by (auto simp: nak_def Let_def settleTrace_calls(3) [OF assms(1)] split: prod.split option.split
      dest!: settleTrace_calls(2) [OF assms(1)])

lemma onError_trace:
  assumes "settleTrace env tr" "Queue (seCfg env) \<noteq> []"
  shows "tr (snd (session_onError env msg err evt nd st)) = tr (snd st) @ [Naked]"
  using assms(2)
  by (auto simp: session_onError_def Let_def nak_trace [OF assms] split: option.split prod.split
      dest!: settleTrace_calls(5) [OF assms(1)])

lemma NewEvent_error: "NewEvent reg k sc a n = Inl err \<Longrightarrow> asUnknownEvent err"
  by (auto simp: NewEvent_def asUnknownEvent.simps split: option.splits)

lemma decode_trace:
  assumes "settleTrace env tr" "Queue (seCfg env) \<noteq> []" "session_decodeEvent env msg meta w = (r, w1)"
  shows "tr w1 = (if r = NotDecoded then tr w @ [Acked] else tr w)"
proof -
  have "tr (seLog env t w') = tr w'" for t w' using assms(1) by (simp add: settleTrace_def keeps_def)
  with assms(3) ack_trace [OF assms(1,2)] show ?thesis
    by (auto simp: session_decodeEvent_def dest: NewEvent_error
        split: prod.splits bool.splits if_splits sum.splits option.splits)
qed

text \<open>Whether the decoder of a message panics, or its handler is called and does not return nil.\<close>

definition handlerFails :: "('v, 'w) sessionEnv \<Rightarrow> jsMsg \<Rightarrow> MsgMetadata \<Rightarrow> 'w \<Rightarrow> bool" where
  "handlerFails env msg meta w = (case session_decodeEvent env msg meta w of
     (NotDecoded, _) \<Rightarrow> False
   | (DecodePanicked p, _) \<Rightarrow> True
   | (Decoded evt, w1) \<Rightarrow>
       (EvIDs (seCfg env) = [] \<or> AggregateID evt \<in> set (EvIDs (seCfg env))) \<and>
       fst (seHandler env (WithMessageMetadata (seCtx env)
           \<lparr>NumDelivered = metaNumDelivered meta, MetadataTimestamp = metaTimestamp meta\<rparr>) evt
         (cursorFromSeq (metaStreamSeq meta)) w1) \<noteq> Returned None)"

lemma handleBody_settles:
  assumes "settleTrace env tr" "Queue (seCfg env) \<noteq> []"
  shows "tr (snd (handleBody env msg meta st)) =
     tr (snd st) @ [if handlerFails env msg meta (snd st) then Naked else Acked]"
proof -
  obtain r w1 where dec: "session_decodeEvent env msg meta (snd st) = (r, w1)" by fastforce
  note tr1 = decode_trace [OF assms(1,2) dec]
  have handler: "tr (snd (seHandler env ctx e c w)) = tr w" for ctx e c w
    using assms(1) by (simp add: settleTrace_def keeps_def)
  show ?thesis
  proof (cases r)
    case NotDecoded
    with dec tr1 show ?thesis by (simp add: handleBody_def handlerFails_def)
  next
    case (DecodePanicked p)
    with dec tr1 show ?thesis by (simp add: handleBody_def handlerFails_def onError_trace [OF assms(1,2)])
  next
    case (Decoded evt)
    let ?h = "seHandler env (WithMessageMetadata (seCtx env)
       \<lparr>NumDelivered = metaNumDelivered meta, MetadataTimestamp = metaTimestamp meta\<rparr>) evt (cursorFromSeq (metaStreamSeq meta)) w1"
    have "tr (snd ?h) = tr (snd st)" using handler tr1 Decoded by simp
    with dec tr1 Decoded show ?thesis
      by (cases ?h) (auto simp: handleBody_def handlerFails_def Let_def ack_trace [OF assms(1,2)] onError_trace [OF assms(1,2)]
          split: outcome.split option.split)
  qed
qed

text \<open>C4. Every message a queue subscription receives is settled exactly once: it is rejected, to be
  delivered again, if its decoder panicked or the handler was called for it and returned an error or
  panicked, and acknowledged in every other case, be it handled, not selected, of an unknown type or
  not decodable. The one exception is a message whose metadata cannot be read: it is left unsettled.\<close>

theorem handleMessage_settles_once:
  assumes "settleTrace env tr" "Queue (seCfg env) \<noteq> []"
  shows "tr (snd (handleMessage env msg st)) = tr (snd st) @
     (case jsMetadata msg of
        Inl err \<Rightarrow> []
      | Inr meta \<Rightarrow> [if handlerFails env msg meta (snd st) then Naked else Acked])"
proof -
  have "tr (snd (caughtUpOnce env st')) = tr (snd st')" for st'
    using assms(1) by (auto simp: caughtUpOnce_def settleTrace_def keeps_def split: option.split)
  with handleBody_settles [OF assms] settleTrace_calls(3) [OF assms(1)] show ?thesis
    by (simp add: handleMessage_def Let_def split: sum.split)
qed

subsection \<open>Retries\<close>

text \<open>C15. The application hears of a failed message of a queue exactly at its last delivery: for a bound on
  retries that the 64-bit successor does not overflow, and a message delivered no more often than the
  consumer's \<^verbatim>\<open>MaxDeliver\<close>, the error handler is called if this delivery is number \<^verbatim>\<open>MaxDeliver\<close>, with
  the error, the subject of the event and the mark that the retries are exhausted, and it decides
  whether the session goes on; at an earlier delivery nothing but the rejection happens.\<close>

theorem retries_exhausted_at_last_delivery:
  assumes "OnError (seCfg env) = Some onErr" "Queue (seCfg env) \<noteq> []"
    and "0 \<le> MaxRetries (seCfg env)" "MaxRetries (seCfg env) < 2 ^ 63 - 1"
    and "uint nd \<le> queueMaxDeliver (MaxRetries (seCfg env))"
  shows "session_onError env msg err (Some evt) nd (ss, w) =
     (if uint nd = queueMaxDeliver (MaxRetries (seCfg env)) then
        (let (go, w') = onErr (SubscriptionError (EventSubject evt) (Queue (seCfg env)) nd True False (Some err)) (nak env msg w)
         in (if go then ss else session_stop ss, w'))
      else (ss, nak env msg w))"
proof -
  let ?r = "MaxRetries (seCfg env)"
  have "queueMaxDeliver ?r = ?r + 1"
    using assms(3,4) by (cases "?r = 0") (auto simp: queueMaxDeliver_def wrap64_id)
  moreover have "uint (of_int ?r :: uint64) = ?r"
    using assms(3,4) by (simp add: uint_word_of_int)
  then have "nd \<le> of_int ?r \<longleftrightarrow> uint nd \<le> ?r" by (simp add: word_le_def)
  ultimately show ?thesis using assms by (auto simp: session_onError_def Let_def)
qed

subsection \<open>Being caught up\<close>

definition caughtUpCount :: "('v, 'w) sessionEnv \<Rightarrow> ('w \<Rightarrow> nat) \<Rightarrow> bool" where
  "caughtUpCount env cu \<longleftrightarrow>
     (\<forall>f w. CaughtUp (seCfg env) = Some f \<longrightarrow> cu (f w) = Suc (cu w)) \<and>
     (\<forall>m. keeps cu (\<lambda>w. snd (seAck env m w))) \<and> (\<forall>m. keeps cu (\<lambda>w. snd (seNak env m w))) \<and>
     (\<forall>t. keeps cu (seLog env t)) \<and> (\<forall>ctx e c. keeps cu (\<lambda>w. snd (seHandler env ctx e c w))) \<and>
     (\<forall>f i. OnError (seCfg env) = Some f \<longrightarrow> keeps cu (\<lambda>w. snd (f i w)))"

lemma caughtUpCount_calls:
  assumes "caughtUpCount env cu"
  shows "CaughtUp (seCfg env) = Some g \<Longrightarrow> cu (g w) = Suc (cu w)"
    "seAck env m w = (r1, w') \<Longrightarrow> cu w' = cu w" "seNak env m w = (r1, w') \<Longrightarrow> cu w' = cu w"
    "cu (seLog env t w) = cu w" "seHandler env ctx e c w = (r2, w') \<Longrightarrow> cu w' = cu w"
    "f i w = (r3, w') \<Longrightarrow> OnError (seCfg env) = Some f \<Longrightarrow> cu w' = cu w"
  using assms unfolding caughtUpCount_def keeps_def by (metis snd_conv)+

lemma settle_count:
  assumes "caughtUpCount env cu"
  shows "cu (ack env msg w) = cu w" "cu (nak env msg w) = cu w"
  by (auto simp: ack_def nak_def Let_def caughtUpCount_calls(4) [OF assms] split: prod.split option.split
      dest!: caughtUpCount_calls(2,3) [OF assms])

lemma body_count:
  assumes "caughtUpCount env cu"
  shows "cu (snd (handleBody env msg meta st)) = cu (snd st) \<and>
    caughtUpDone (fst (handleBody env msg meta st)) = caughtUpDone (fst st)"
proof -
  note count = settle_count [OF assms] caughtUpCount_calls(4) [OF assms]
  obtain r w1 where dec: "session_decodeEvent env msg meta (snd st) = (r, w1)" by fastforce
  then have w1: "cu w1 = cu (snd st)"
    by (auto simp: session_decodeEvent_def count split: prod.splits bool.splits if_splits sum.splits option.splits)
  have err: "cu (snd (session_onError env msg e evt nd st')) = cu (snd st') \<and>
      caughtUpDone (fst (session_onError env msg e evt nd st')) = caughtUpDone (fst st')" for e evt nd st'
    by (auto simp: session_onError_def session_stop_def Let_def count split: option.split prod.split
        dest!: caughtUpCount_calls(6) [OF assms])
  show ?thesis
    using dec w1 err
    by (auto simp: handleBody_def Let_def count split: option.split prod.split outcome.split decodeOutcome.split
        dest!: caughtUpCount_calls(5) [OF assms])
qed

definition endsBacklog :: "jsMsg \<Rightarrow> bool" where
  "endsBacklog msg = (case jsMetadata msg of Inl err \<Rightarrow> False | Inr meta \<Rightarrow> metaNumPending meta = 0)"

lemma handle_count:
  assumes "caughtUpCount env cu" "handleMessage env msg st = st'"
  shows "cu (snd st') = cu (snd st) + (if CaughtUp (seCfg env) \<noteq> None \<and> endsBacklog msg \<and> \<not> caughtUpDone (fst st) then 1 else 0)"
    "caughtUpDone (fst st') \<longleftrightarrow> caughtUpDone (fst st) \<or> CaughtUp (seCfg env) \<noteq> None \<and> endsBacklog msg"
  using assms(2) body_count [OF assms(1), of msg _ st] caughtUpCount_calls(1) [OF assms(1)] caughtUpCount_calls(4) [OF assms(1)]
  by (auto simp: handleMessage_def endsBacklog_def caughtUpOnce_def Let_def split: sum.splits option.splits if_splits)

lemma fold_count:
  assumes "caughtUpCount env cu"
  shows "cu (snd (fold (handleMessage env) msgs st)) =
     cu (snd st) + (if CaughtUp (seCfg env) \<noteq> None \<and> (\<exists>m \<in> set msgs. endsBacklog m) \<and> \<not> caughtUpDone (fst st) then 1 else 0)"
proof (induction msgs arbitrary: st)
  case (Cons m msgs)
  show ?case
    using Cons.IH [of "handleMessage env m st"] handle_count [OF assms refl, of m st] by auto
qed simp

text \<open>C17. The application is told at most once that a subscription has caught up, and it is told: after the
  consumer was started and any number of messages were handled, the callback has run exactly once if
  nothing was pending at the start or one of the messages was the last pending one, whatever became of
  that message, and has not run otherwise.\<close>

theorem caught_up_once:
  assumes "caughtUpCount env cu" "keeps cu (\<lambda>w. snd (start con w))"
    and "consume start pending env con w = (Inr ss, w1)" "fold (handleMessage env) msgs (ss, w1) = (ss', w')"
  shows "cu w' = cu w +
     (if CaughtUp (seCfg env) \<noteq> None \<and> (pending con = Some 0 \<or> (\<exists>m \<in> set msgs. endsBacklog m)) then 1 else 0)"
proof -
  have "cu w1 = cu w + (if CaughtUp (seCfg env) \<noteq> None \<and> pending con = Some 0 then 1 else 0) \<and>
      (caughtUpDone ss \<longleftrightarrow> CaughtUp (seCfg env) \<noteq> None \<and> pending con = Some 0)"
  proof -
    have start: "start con w0 = (r, w0') \<Longrightarrow> cu w0' = cu w0" for w0 r w0'
      using assms(2) unfolding keeps_def by (metis snd_conv)
    show ?thesis
      using assms(3) caughtUpCount_calls(1) [OF assms(1)]
      by (auto simp: consume_def caughtUpOnce_def setConsumeContext_def Let_def split: if_splits option.splits prod.splits
          dest!: start)
  qed
  with fold_count [OF assms(1), of msgs "(ss, w1)"] assms(4) show ?thesis by auto
qed

subsection \<open>An example session\<close>

text \<open>
  A queue on one order with two event names, so two narrow filters become one wide one; the handler
  fails. The world is what was settled and how often the callback for being caught up ran.
\<close>

type_synonym exWorld = "settlement list \<times> nat"

definition exQueueCfg :: "exWorld EventSubscriptionConfig" where
  "exQueueCfg = \<lparr>EvScope = ''sales'', EvKind = [], EvTypes = [''order''], EvIDs = [''o1''], EvNames = [''created'', ''closed''],
     EvFilters = [], Queue = ''workers'', ConsumerName = [], MaxRetries = 2, Cursor = None, BootPolicy = CursorBootNew,
     CaughtUp = Some (\<lambda>w. (fst w, Suc (snd w))), OnError = Some (\<lambda>info w. (True, w))\<rparr>"

definition exSessionEnv :: "(unit, exWorld) sessionEnv" where
  "exSessionEnv = \<lparr>seCfg = exQueueCfg,
     seRegistry = snd (RegisterMessageType exReflect exCmdReflect newRegistry exAnyEvent),
     seCodec = \<lparr>natsMarshal = (\<lambda>e. None), jsonMarshal = (\<lambda>e. Inr (Json (JObj []))), natsUnmarshal = (\<lambda>e. None),
       jsonUnmarshal = (\<lambda>d e. Inr (e\<lparr>AggregateID := ''o1''\<rparr>))\<rparr>,
     seDecodePanic = (\<lambda>e subj data. None), seCtx = [], seHandler = (\<lambda>ctx e c w. (Returned (Some (ErrorString ''no'')), w)),
     seAck = (\<lambda>m w. (None, (fst w @ [Acked], snd w))), seNak = (\<lambda>m w. (None, (fst w @ [Naked], snd w))),
     seInProgress = (\<lambda>m w. (None, w)), seLog = (\<lambda>t w. w)\<rparr>"

definition exMeta :: MsgMetadata where
  "exMeta = \<lparr>metaStreamSeq = 5, metaConsumerSeq = 1, metaNumDelivered = 3, metaNumPending = 0, metaTimestamp = 9\<rparr>"

definition exMsg :: jsMsg where
  "exMsg = \<lparr>jsSubject = ''sales.event.order.o1.created'', jsData = Json (JObj []), jsMetadata = Inr exMeta\<rparr>"

definition exMsgSubject :: Subject where
  "exMsgSubject = \<lparr>Scope = ''sales'', Kind = ''event'', AggType = ''order'', AggID = ''o1'', Name = ''created''\<rparr>"

lemma exMsg_tokens: "validToken ''o1''" "validToken ''closed''"
  by (simp_all add: validToken_plain plainChar_def within_def)

lemma exQueueCfg_valid: "validEventConfig exQueueCfg" "validSubject exMsgSubject"
  by (simp_all add: validEventConfig_def exQueueCfg_def optToken_def ex_tokens exMsg_tokens validSubject_def exMsgSubject_def)

theorem queue_subscription_exact_witness:
  "\<exists>filters. eventFilters exQueueCfg = Some filters \<and>
     (\<exists>f \<in> set (queueConsumerFilters exQueueCfg ''order'' filters). natsMatch f (SubjectString exMsgSubject))"
proof -
  have "EvTypes exQueueCfg = [''order'']" by (simp add: exQueueCfg_def)
  note filters = eventFilters_raw [OF this]
  from queue_subscription_exact [OF exQueueCfg_valid(1) \<open>EvTypes exQueueCfg = [''order'']\<close> exQueueCfg_valid(2) filters]
  have "\<exists>f \<in> set (queueConsumerFilters exQueueCfg ''order'' (compactSubjectFilters (rawEventFilters exQueueCfg ''order''))).
      natsMatch f (SubjectString exMsgSubject)"
    by (simp add: configSelects_def selects_def exQueueCfg_def exMsgSubject_def defaultKind_def kind_defs)
  with filters show ?thesis by blast
qed

lemma exSession_decode:
  "session_decodeEvent exSessionEnv exMsg exMeta w = (Decoded ((New exReflect (GoNamed ''OrderCreated''))\<lparr>AggregateID := ''o1''\<rparr>), w)"
proof -
  have "ParseSubject ''sales.event.order.o1.created'' = (exMsgSubject, True)"
    by (simp add: ParseSubject_def Split.simps exMsgSubject_def ex_tokens exMsg_tokens Let_def validSubject_def)
  moreover have "NewEvent (snd (RegisterMessageType exReflect exCmdReflect newRegistry exAnyEvent)) ''event'' ''sales'' ''order'' ''created'' =
      Inr (New exReflect (GoNamed ''OrderCreated''))"
    unfolding ex_register by (simp add: NewEvent_def eventKey_def exReflect_def kind_defs factoryFor_def newRegistry_def)
  ultimately show ?thesis
    by (simp add: session_decodeEvent_def exMsg_def exSessionEnv_def subscriptionSubjectMatches_def exQueueCfg_def
        exMsgSubject_def defaultKind_def kind_defs)
qed

definition exSession :: consumeSession where
  "exSession = \<lparr>caughtUpDone = False, hasConsumeContext = True, consumeStopped = False, cancelled = False\<rparr>"

theorem handleMessage_settles_once_witness:
  "fst (snd (handleMessage exSessionEnv exMsg (exSession, ([], 0)))) = [Naked]"
proof -
  have "settleTrace exSessionEnv fst" by (simp add: settleTrace_def keeps_def exSessionEnv_def exQueueCfg_def)
  moreover have "Queue (seCfg exSessionEnv) \<noteq> []" "jsMetadata exMsg = Inr exMeta"
    by (simp_all add: exSessionEnv_def exQueueCfg_def exMsg_def)
  moreover have "handlerFails exSessionEnv exMsg exMeta ([], 0)"
    unfolding handlerFails_def exSession_decode by (simp add: exSessionEnv_def exQueueCfg_def)
  ultimately show ?thesis using handleMessage_settles_once [of exSessionEnv fst exMsg "(exSession, ([], 0))"] by simp
qed

theorem retries_exhausted_at_last_delivery_witness:
  "session_onError exSessionEnv exMsg (ErrorString ''no'') (Some (New exReflect (GoNamed ''OrderCreated''))) 3
     (exSession, ([], 0)) =
   (exSession, ([Naked], 0))"
  using retries_exhausted_at_last_delivery [of exSessionEnv "\<lambda>info w. (True, w)" 3 exMsg "ErrorString ''no''"
      "New exReflect (GoNamed ''OrderCreated'')"
      exSession "([], 0)"]
  by (simp add: exSessionEnv_def exQueueCfg_def queueMaxDeliver_def wrap64_def nak_def)

theorem caught_up_once_witness:
  "\<exists>ss w1 ss' w'. consume (\<lambda>c w. (None, w)) (\<lambda>c. Some 7) exSessionEnv () ([], 0) = (Inr ss, w1) \<and>
     fold (handleMessage exSessionEnv) [exMsg, exMsg] (ss, w1) = (ss', w') \<and> snd w' = 1"
proof -
  have count: "caughtUpCount exSessionEnv snd" by (simp add: caughtUpCount_def keeps_def exSessionEnv_def exQueueCfg_def)
  obtain ss w1 where run: "consume (\<lambda>c w. (None, w)) (\<lambda>c. Some 7) exSessionEnv () ([], 0) = (Inr ss, w1)"
    by (simp add: consume_def)
  obtain ss' w' where msgs: "fold (handleMessage exSessionEnv) [exMsg, exMsg] (ss, w1) = (ss', w')"
    by (rule prod.exhaust)
  have "endsBacklog exMsg" by (simp add: endsBacklog_def exMsg_def exMeta_def)
  moreover have "CaughtUp (seCfg exSessionEnv) \<noteq> None" by (simp add: exSessionEnv_def exQueueCfg_def)
  ultimately have "snd w' = 1"
    using caught_up_once [OF count _ run msgs] by (simp add: keeps_def)
  with run msgs show ?thesis by blast
qed

subsection \<open>Resuming\<close>

text \<open>
  An ordered subscription that is given the cursor of a message it has handled resumes after that
  message: the cursor is the sequence the session passed to the handler.
\<close>

lemma ordered_resumes_after_cursor:
  assumes "Cursor cfg = Some (cursorFromSeq seq)" "orderedConfigHook s = None"
  shows "ocDeliverPolicy (orderedSubscription s cfg filters) = DeliverByStartSequencePolicy \<and>
     ocOptStartSeq (orderedSubscription s cfg filters) = seq + 1"
  using assms by (simp add: orderedSubscription_def cursorStart_def cursorToSeq_FromSeq)

end
