(* ===== verification/CommandBus.thy ===== *)
theory CommandBus
  imports EventStore Subscriber Bus
begin

section \<open>The NATS command bus and publisher\<close>

text \<open>
  \<^verbatim>\<open>src/nats/command_bus.go\<close>, \<^verbatim>\<open>src/nats/publisher.go\<close> and \<^verbatim>\<open>src/nats/bus.go\<close>. A request and its reply are
  payloads; the connection, the handlers and the logger act on the world. How commands and results are
  encoded and decoded is a parameter, and so is whether an error of the application implements
  \<^verbatim>\<open>json.Marshaler\<close>; of the errors of the package only \<^verbatim>\<open>ResponseError\<close> does.
\<close>

subsection \<open>Envelopes\<close>

record responseEnvelope =
  envOK :: bool
  envData :: payload
  envError :: string

text \<open>A string is encoded with every invalid byte replaced, as a loop over its runes reads it.\<close>

definition validUTF8 :: "string \<Rightarrow> string" where
  "validUTF8 s = concat (map runeString (runes s))"

text \<open>\<^verbatim>\<open>json.Marshal\<close>: empty fields data and error are omitted; raw data that is not JSON is an error.\<close>

definition encodeEnvelope :: "responseEnvelope \<Rightarrow> payload option" where
  "encodeEnvelope e =
     (let err = (if envError e = [] then [] else [(''error'', JStr (validUTF8 (envError e)))]) in
      case envData e of
        Json j \<Rightarrow> Some (Json (JObj ([(''ok'', JBool (envOK e)), (''data'', j)] @ err)))
      | Raw s \<Rightarrow> if s = [] then Some (Json (JObj ([(''ok'', JBool (envOK e))] @ err))) else None)"

definition decodeEnvelope :: "payload \<Rightarrow> responseEnvelope option" where
  "decodeEnvelope p = (case p of
     Json JNull \<Rightarrow> Some \<lparr>envOK = False, envData = emptyPayload, envError = []\<rparr>
   | Json (JObj ms) \<Rightarrow>
       (case (boolField (membersOf ''ok'' ms) False, stringField (membersOf ''error'' ms) []) of
          (Some ok, Some err) \<Rightarrow> Some \<lparr>envOK = ok, envData = rawField (membersOf ''data'' ms), envError = err\<rparr>
        | _ \<Rightarrow> None)
   | _ \<Rightarrow> None)"

subsection \<open>The dispatcher\<close>

record ('v, 'w, 'r) dispatchEnv =
  dispatchTimeout :: int
  hasDeadline :: "'w \<Rightarrow> bool"
  ncRequest :: "int option \<Rightarrow> string \<Rightarrow> payload \<Rightarrow> 'w \<Rightarrow> (goerror + payload) \<times> 'w"
  commandMarshal :: "'v Command \<Rightarrow> goerror + payload"
  resultUnmarshal :: "payload \<Rightarrow> 'r \<Rightarrow> goerror option \<times> 'r"
  envelopeErr :: goerror

definition NewDispatcher :: "bool \<Rightarrow> int \<Rightarrow> goerror + int" where
  "NewDispatcher ncNil timeout =
     (if ncNil then Inl (ErrorString ''nats connection is required'')
      else Inr (if timeout \<le> 0 then 5000 * millisecond else timeout))"

text \<open>The part of \<^verbatim>\<open>request\<close> after a reply; a nil result is \<open>None\<close>, and the result is what the caller's variable holds.\<close>

definition replyResult ::
  "goerror \<Rightarrow> (payload \<Rightarrow> 'r \<Rightarrow> goerror option \<times> 'r) \<Rightarrow> payload \<Rightarrow> 'r option \<Rightarrow> goerror option \<times> 'r option" where
  "replyResult jsonErr unmarshal data result =
     (case decodeEnvelope data of
        None \<Rightarrow> (Some (Errorf ''decode response: '' jsonErr []), result)
      | Some e \<Rightarrow>
          if \<not> envOK e then
            (Some (if envData e \<noteq> emptyPayload then ResponseError (envData e)
               else if envError e = [] then ErrorString ''handler failed'' else ErrorString (envError e)), result)
          else case result of
            None \<Rightarrow> (None, None)
          | Some r \<Rightarrow>
              if envData e = emptyPayload then (None, Some r)
              else (case unmarshal (envData e) r of
                 (Some err, r') \<Rightarrow> (Some (Errorf ''decode query result: '' err []), Some r')
               | (None, r') \<Rightarrow> (None, Some r')))"

definition request ::
  "('v, 'w, 'r) dispatchEnv \<Rightarrow> string \<Rightarrow> payload \<Rightarrow> 'r option \<Rightarrow> 'w \<Rightarrow> (goerror option \<times> 'r option) \<times> 'w" where
  "request env subject data result w =
     (case ncRequest env (if hasDeadline env w then None else Some (dispatchTimeout env)) subject data w of
        (Inl err, w1) \<Rightarrow>
          ((Some (if errorsIs err gonatsErrNoResponders then ErrNoResponders
              else Errorf (''nats request '' @ subject @ '': '') err []), result), w1)
      | (Inr resp, w1) \<Rightarrow> (replyResult (envelopeErr env) (resultUnmarshal env) resp result, w1))"

definition nats_DispatchCommand :: "('v, 'w, 'r) dispatchEnv \<Rightarrow> 'v Command \<Rightarrow> 'w \<Rightarrow> goerror option \<times> 'w" where
  "nats_DispatchCommand env cmd w =
     (case commandMarshal env cmd of
        Inl err \<Rightarrow> (Some (Errorf ''marshal command: '' err []), w)
      | Inr data \<Rightarrow> (let ((err, _), w1) = request env (nats_CommandSubject cmd) data None w in (err, w1)))"

definition nats_DispatchQuery ::
  "('v, 'w, 'r) dispatchEnv \<Rightarrow> 'v Command \<Rightarrow> 'r option \<Rightarrow> 'w \<Rightarrow> (goerror option \<times> 'r option) \<times> 'w" where
  "nats_DispatchQuery env query result w =
     (case commandMarshal env query of
        Inl err \<Rightarrow> ((Some (Errorf ''marshal query: '' err []), result), w)
      | Inr data \<Rightarrow> request env (nats_QuerySubject query) data result w)"

subsection \<open>The command subscriber\<close>

record commandMsg =
  cmSubject :: string
  cmData :: payload
  cmReply :: string

datatype ('v, 'w, 'r) commandBusHandler =
    CommandH "'v Command \<Rightarrow> 'w \<Rightarrow> goerror option \<times> 'w"
  | QueryH "'v Command \<Rightarrow> 'w \<Rightarrow> (goerror + 'r) \<times> 'w"

record ('v, 'w, 'r, 'sub) commandEnv =
  cbRegistry :: "'v registry"
  cbQueue :: string
  cbUnmarshal :: "payload \<Rightarrow> 'v Command \<Rightarrow> goerror + 'v Command"
  cbResultMarshal :: "'r \<Rightarrow> goerror + json"
  cbErrMarshal :: "goerror \<Rightarrow> (goerror + json) option"
  cbRespond :: "commandMsg \<Rightarrow> payload \<Rightarrow> 'w \<Rightarrow> 'w"
  cbLog :: "string \<Rightarrow> 'w \<Rightarrow> 'w"
  cbQueueSubscribe :: "string \<Rightarrow> string \<Rightarrow> 'w \<Rightarrow> (goerror + 'sub) \<times> 'w"
  cbDrain :: "'sub \<Rightarrow> 'w \<Rightarrow> goerror option \<times> 'w"

definition commandQueue :: "string \<Rightarrow> string" where
  "commandQueue q = (if q = [] then ''goevent'' else q)"

definition NewCommandSubscriber :: "bool \<Rightarrow> string \<Rightarrow> goerror + 'v registry \<times> string" where
  "NewCommandSubscriber ncNil q =
     (if ncNil then Inl (ErrorString ''nats connection is required'') else Inr (newRegistry, commandQueue q))"

definition command_BindRegistry :: "'v registry \<Rightarrow> ('v, 'w, 'r, 'sub) commandEnv \<Rightarrow> ('v, 'w, 'r, 'sub) commandEnv" where
  "command_BindRegistry registry s = s\<lparr>cbRegistry := registry\<rparr>"

definition command_RegisterMessageType ::
  "'v Event reflect \<Rightarrow> 'v Command reflect \<Rightarrow> ('v, 'w, 'r, 'sub) commandEnv \<Rightarrow> 'v any \<Rightarrow> goerror option \<times> ('v, 'w, 'r, 'sub) commandEnv" where
  "command_RegisterMessageType rte rtc s prototype =
     (case AsCommand prototype of
        None \<Rightarrow> (Some (ErrorString (''command subscriber message type '' @ AnyType prototype @ '' must implement event.Command'')), s)
      | Some cmd \<Rightarrow>
          (let (err, registry) = RegisterMessageType rte rtc (cbRegistry s) prototype
           in (err, s\<lparr>cbRegistry := registry\<rparr>)))"

text \<open>An error that implements \<^verbatim>\<open>json.Marshaler\<close>: what marshalling it gives.\<close>

definition errMarshaler :: "(goerror \<Rightarrow> (goerror + json) option) \<Rightarrow> goerror \<Rightarrow> (goerror + json) option" where
  "errMarshaler app err = (case err of
     ResponseError (Json j) \<Rightarrow> Some (Inr j)
   | ResponseError (Raw s) \<Rightarrow> Some (Inl (ErrorString ''json: error calling MarshalJSON for type event.ResponseError''))
   | _ \<Rightarrow> app err)"

definition handlerErrorEnvelope :: "(goerror \<Rightarrow> (goerror + json) option) \<Rightarrow> goerror \<Rightarrow> responseEnvelope" where
  "handlerErrorEnvelope app err = (case errMarshaler app err of
     Some (Inr j) \<Rightarrow> \<lparr>envOK = False, envData = Json j, envError = []\<rparr>
   | _ \<Rightarrow> \<lparr>envOK = False, envData = emptyPayload, envError = Error err\<rparr>)"

definition respond :: "('v, 'w, 'r, 'sub) commandEnv \<Rightarrow> commandMsg \<Rightarrow> responseEnvelope \<Rightarrow> 'w \<Rightarrow> 'w" where
  "respond env msg e w =
     (if cmReply msg = [] then w
      else case encodeEnvelope e of None \<Rightarrow> w | Some data \<Rightarrow> cbRespond env msg data w)"

text \<open>Every path of \<^verbatim>\<open>handle\<close> ends in one response: the envelope of that response and the world before it.\<close>

definition handleEnvelope ::
  "('v, 'w, 'r, 'sub) commandEnv \<Rightarrow> MessageKind \<Rightarrow> commandMsg \<Rightarrow> ('v, 'w, 'r) commandBusHandler \<Rightarrow> 'w \<Rightarrow> responseEnvelope \<times> 'w" where
  "handleEnvelope env kind msg h w =
     (case ParseSubject (cmSubject msg) of (subj, ok) \<Rightarrow>
      if \<not> ok \<or> Kind subj \<noteq> kind then (\<lparr>envOK = False, envData = emptyPayload, envError = ''invalid subject''\<rparr>, w)
      else case DecodeCommand (cbUnmarshal env) (cbRegistry env) subj (cmData msg) of
        Inl err \<Rightarrow> (\<lparr>envOK = False, envData = emptyPayload, envError = Error err\<rparr>, cbLog env ''decode command failed'' w)
      | Inr cmd \<Rightarrow>
        (case h of
           CommandH f \<Rightarrow>
             (case f cmd w of
                (Some err, w1) \<Rightarrow> (handlerErrorEnvelope (cbErrMarshal env) err, w1)
              | (None, w1) \<Rightarrow> (\<lparr>envOK = True, envData = emptyPayload, envError = []\<rparr>, w1))
         | QueryH f \<Rightarrow>
             (case f cmd w of
                (Inl err, w1) \<Rightarrow> (handlerErrorEnvelope (cbErrMarshal env) err, w1)
              | (Inr result, w1) \<Rightarrow>
                  (case cbResultMarshal env result of
                     Inl err \<Rightarrow> (\<lparr>envOK = False, envData = emptyPayload, envError = ''marshal query result: '' @ Error err\<rparr>, w1)
                   | Inr j \<Rightarrow> (\<lparr>envOK = True, envData = Json j, envError = []\<rparr>, w1)))))"

definition handle ::
  "('v, 'w, 'r, 'sub) commandEnv \<Rightarrow> MessageKind \<Rightarrow> commandMsg \<Rightarrow> ('v, 'w, 'r) commandBusHandler \<Rightarrow> 'w \<Rightarrow> 'w" where
  "handle env kind msg h w = (let (e, w1) = handleEnvelope env kind msg h w in respond env msg e w1)"

text \<open>\<^verbatim>\<open>natsSubscriptions.Stop\<close> drains every subscription and returns the first error.\<close>

fun drainAll :: "('v, 'w, 'r, 'sub) commandEnv \<Rightarrow> 'sub list \<Rightarrow> 'w \<Rightarrow> goerror option \<times> 'w" where
  "drainAll env [] w = (None, w)"
| "drainAll env (sub # subs) w =
     (let (err, w1) = cbDrain env sub w; (err', w2) = drainAll env subs w1 in (orElse err err', w2))"

fun subscribeLoop ::
  "('v, 'w, 'r, 'sub) commandEnv \<Rightarrow> string \<Rightarrow> string list \<Rightarrow> 'sub list \<Rightarrow> 'w \<Rightarrow> (goerror + 'sub list) \<times> 'w" where
  "subscribeLoop env q [] subs w = (Inr subs, w)"
| "subscribeLoop env q (flt # flts) subs w =
     (case cbQueueSubscribe env flt q w of
        (Inl err, w1) \<Rightarrow> (Inl (Errorf (''subscribe '' @ flt @ '': '') err []), snd (drainAll env subs w1))
      | (Inr sub, w1) \<Rightarrow> subscribeLoop env q flts (subs @ [sub]) w1)"

definition command_subscribe ::
  "('v, 'w, 'r, 'sub) commandEnv \<Rightarrow> MessageKind \<Rightarrow> CommandSubscriptionConfig \<Rightarrow> 'w \<Rightarrow> (goerror + 'sub list) \<times> 'w" where
  "command_subscribe env kind cfg w =
     (case CommandConfigValidate cfg of
        Some err \<Rightarrow> (Inl err, w)
      | None \<Rightarrow> subscribeLoop env (if CmdQueue cfg = [] then cbQueue env else CmdQueue cfg) (commandFilters kind cfg) [] w)"

definition SubscribeCommand ::
  "('v, 'w, 'r, 'sub) commandEnv \<Rightarrow> CommandSubscriptionConfig \<Rightarrow> 'w \<Rightarrow> (goerror + 'sub list) \<times> 'w" where
  "SubscribeCommand env cfg w = command_subscribe env (defaultKind (CmdKind cfg) KindCommand) cfg w"

definition SubscribeQuery ::
  "('v, 'w, 'r, 'sub) commandEnv \<Rightarrow> CommandSubscriptionConfig \<Rightarrow> 'w \<Rightarrow> (goerror + 'sub list) \<times> 'w" where
  "SubscribeQuery env cfg w = command_subscribe env (defaultKind (CmdKind cfg) KindQuery) cfg w"

subsection \<open>The publisher\<close>

definition NewPublisher :: "bool \<Rightarrow> goerror option \<Rightarrow> goerror option" where
  "NewPublisher ncNil jsErr =
     (if ncNil then Some (ErrorString ''nats connection is required'')
      else case jsErr of Some err \<Rightarrow> Some (Errorf ''create jetstream context: '' err []) | None \<Rightarrow> None)"

fun nats_Publish ::
  "('c, 'it, 'w) jetstream \<Rightarrow> ('a, 'v) aggregateOps \<Rightarrow> 'v codecOps \<Rightarrow> ('a, 'v) outEvent list \<Rightarrow> 'w \<Rightarrow> goerror option \<times> 'w" where
  "nats_Publish js ops co [] w = (None, w)"
| "nats_Publish js ops co (evt # evts) w =
     (case marshalEvent ops co evt of
        Inl err \<Rightarrow> (Some err, w)
      | Inr data \<Rightarrow>
        (case SubjectValidate (outSubject ops evt) of
           Some err \<Rightarrow> (Some err, w)
         | None \<Rightarrow>
           (case jsPublish js (SubjectString (outSubject ops evt)) data w of
              (Inl err, w1) \<Rightarrow> (Some (Errorf (''publish event '' @ SubjectString (outSubject ops evt) @ '': '') err []), w1)
            | (Inr seq, w1) \<Rightarrow> nats_Publish js ops co evts w1)))"

subsection \<open>The NATS-backed bus\<close>

text \<open>
  \<open>transports\<close> is the environment with the four adapters, given the timeout of the dispatcher and the
  queue of the command subscriber; the two errors are those of creating a JetStream context.
\<close>

record ('w, 'cs) BusConfig =
  cfgQueue :: string
  cfgQueueMaxRetries :: int
  cfgRequestTimeout :: int
  cfgLogger :: "(string \<Rightarrow> Subject option \<Rightarrow> goerror option \<Rightarrow> 'w \<Rightarrow> 'w) option"
  cfgCursorStore :: "'cs CursorStoreOps option"
  cfgCursorBootPolicy :: CursorBootPolicy
  cfgOnSubscriptionError :: "(goerror \<Rightarrow> 'w \<Rightarrow> bool \<times> 'w) option"
  cfgCommandConflictRetries :: int

definition wrapError :: "string \<Rightarrow> goerror + 'x \<Rightarrow> goerror + 'x" where
  "wrapError pre r = (case r of Inl err \<Rightarrow> Inl (Errorf pre err []) | Inr x \<Rightarrow> Inr x)"

definition nats_NewBus ::
  "bool \<Rightarrow> goerror option \<Rightarrow> goerror option \<Rightarrow> (string \<Rightarrow> Subject option \<Rightarrow> goerror option \<Rightarrow> 'w \<Rightarrow> 'w) \<Rightarrow>
   (int \<Rightarrow> string \<Rightarrow> ('v, 'w, 'r, 'sub, 'cs) busEnv) \<Rightarrow> ('w, 'cs) BusConfig \<Rightarrow>
   goerror + ('v, 'w, 'r, 'sub, 'cs) busEnv \<times> ('v, 'w, 'r, 'sub) Bus" where
  "nats_NewBus ncNil publisherErr subscriberErr slogDefault transports cfg =
     andThen (wrapError ''create dispatcher: '' (NewDispatcher ncNil (cfgRequestTimeout cfg))) (\<lambda>timeout.
     andThen (wrapError ''create publisher: '' (case NewPublisher ncNil publisherErr of Some err \<Rightarrow> Inl err | None \<Rightarrow> Inr ())) (\<lambda>_.
     andThen (wrapError ''create command subscriber: '' (NewCommandSubscriber ncNil (cfgQueue cfg))) (\<lambda>(reg, q).
     andThen (wrapError ''create event subscriber: '' (NewSubscriber ncNil subscriberErr [] None None 0)) (\<lambda>sub.
       Inr (NewBus slogDefault (transports timeout q)
         \<lparr>optQueue = cfgQueue cfg, optQueueMaxRetries = cfgQueueMaxRetries cfg, optLogger = cfgLogger cfg,
          optCursorStore = cfgCursorStore cfg, optCursorBootPolicy = cfgCursorBootPolicy cfg,
          optOnSubscriptionError = cfgOnSubscriptionError cfg,
          optCommandConflictRetries = cfgCommandConflictRetries cfg, optExcludeCommandDebugNames = (\<lambda>_. False)\<rparr>)))))"

subsection \<open>Envelopes survive the wire\<close>

lemma envelope_names:
  "foldName ''ok'' = [79, 75]" "foldName ''data'' = [68, 65, 84, 65]" "foldName ''error'' = [69, 82, 82, 79, 82]"
  by (simp_all add: foldName_ascii within_def)

lemma envelope_members:
  "membersOf ''ok'' ((''ok'', a) # ms) = a # membersOf ''ok'' ms"
  "membersOf ''data'' ((''ok'', a) # ms) = membersOf ''data'' ms"
  "membersOf ''error'' ((''ok'', a) # ms) = membersOf ''error'' ms"
  "membersOf ''ok'' ((''data'', a) # ms) = membersOf ''ok'' ms"
  "membersOf ''data'' ((''data'', a) # ms) = a # membersOf ''data'' ms"
  "membersOf ''error'' ((''data'', a) # ms) = membersOf ''error'' ms"
  "membersOf ''ok'' ((''error'', a) # ms) = membersOf ''ok'' ms"
  "membersOf ''data'' ((''error'', a) # ms) = membersOf ''data'' ms"
  "membersOf ''error'' ((''error'', a) # ms) = a # membersOf ''error'' ms"
  "membersOf name [] = []"
  by (simp_all add: membersOf_def envelope_names)

lemma validUTF8_Nil [simp]: "validUTF8 [] = []"
  by (simp add: validUTF8_def runes_all_ascii)

lemma decode_encode:
  assumes "encodeEnvelope e = Some data"
  shows "decodeEnvelope data = Some (e\<lparr>envError := validUTF8 (envError e)\<rparr>)"
  using assms
  by (cases e) (auto simp: encodeEnvelope_def decodeEnvelope_def envelope_members rawField_def emptyPayload_def Let_def
      split: payload.splits if_splits)

text \<open>What the dispatcher on the other side makes of a handler's error.\<close>

definition textError :: "string \<Rightarrow> goerror" where
  "textError s = (if validUTF8 s = [] then ErrorString ''handler failed'' else ErrorString (validUTF8 s))"

definition remoteError :: "(goerror \<Rightarrow> (goerror + json) option) \<Rightarrow> goerror \<Rightarrow> goerror" where
  "remoteError app err = (case errMarshaler app err of
     Some (Inr j) \<Rightarrow> ResponseError (Json j)
   | _ \<Rightarrow> textError (Error err))"

lemma textError_reply:
  "\<exists>data. encodeEnvelope \<lparr>envOK = False, envData = emptyPayload, envError = s\<rparr> = Some data \<and>
     replyResult jsonErr unmarshal data result = (Some (textError s), result)"
proof -
  obtain data where data: "encodeEnvelope \<lparr>envOK = False, envData = emptyPayload, envError = s\<rparr> = Some data"
    by (simp add: encodeEnvelope_def emptyPayload_def Let_def)
  with decode_encode [OF data] show ?thesis by (auto simp: replyResult_def textError_def)
qed

lemma handlerError_reply:
  "\<exists>data. encodeEnvelope (handlerErrorEnvelope app err) = Some data \<and>
     replyResult jsonErr unmarshal data result = (Some (remoteError app err), result)"
proof (cases "\<exists>j. errMarshaler app err = Some (Inr j)")
  case True
  then obtain j where j: "handlerErrorEnvelope app err = \<lparr>envOK = False, envData = Json j, envError = []\<rparr>"
    "remoteError app err = ResponseError (Json j)"
    by (auto simp: handlerErrorEnvelope_def remoteError_def)
  then obtain data where data: "encodeEnvelope (handlerErrorEnvelope app err) = Some data"
    by (simp add: encodeEnvelope_def)
  with decode_encode [OF data] j show ?thesis by (auto simp: replyResult_def emptyPayload_def)
next
  case False
  then have "handlerErrorEnvelope app err = \<lparr>envOK = False, envData = emptyPayload, envError = Error err\<rparr>"
    "remoteError app err = textError (Error err)"
    by (auto simp: handlerErrorEnvelope_def remoteError_def split: option.splits sum.splits)
  with textError_reply [of "Error err"] show ?thesis by simp
qed

subsection \<open>A request and its reply\<close>

text \<open>
  What NATS documents of request and reply: a request fails, because nobody listens, the time is up or
  for any other reason, or it returns a message that was sent to its reply subject. The law says who
  sends it, for one subject: a subscriber with this kind and handler, whose \<^verbatim>\<open>handle\<close> was run on the
  request in some world \<open>wh\<close>; the relation \<open>served\<close> between the worlds before and after the request
  and \<open>wh\<close> is a parameter. The observable \<open>replied\<close> is the last response sent. Nothing is said of
  requests that fail, whether their handler ran or not.
\<close>

definition requestReplyLaw ::
  "('v, 'w, 'r) dispatchEnv \<Rightarrow> ('v, 'w, 'r, 'sub) commandEnv \<Rightarrow> MessageKind \<Rightarrow> ('v, 'w, 'r) commandBusHandler \<Rightarrow> string \<Rightarrow>
   ('w \<Rightarrow> payload) \<Rightarrow> ('w \<Rightarrow> 'w \<Rightarrow> 'w \<Rightarrow> bool) \<Rightarrow> bool" where
  "requestReplyLaw denv env kind h subj replied served \<longleftrightarrow>
     (\<forall>t data w resp w1. ncRequest denv t subj data w = (Inr resp, w1) \<longrightarrow>
        (\<exists>inbox wh. inbox \<noteq> [] \<and> served w w1 wh \<and>
           resp = replied (handle env kind \<lparr>cmSubject = subj, cmData = data, cmReply = inbox\<rparr> h wh))) \<and>
     (\<forall>msg data w. replied (cbRespond env msg data w) = data)"

text \<open>The deadline of a request, and what a request that fails returns.\<close>

definition requestTimeout :: "('v, 'w, 'r) dispatchEnv \<Rightarrow> 'w \<Rightarrow> int option" where
  "requestTimeout denv w = (if hasDeadline denv w then None else Some (dispatchTimeout denv))"

definition transportError :: "string \<Rightarrow> goerror \<Rightarrow> goerror" where
  "transportError subj err = (if errorsIs err gonatsErrNoResponders then ErrNoResponders
     else Errorf (''nats request '' @ subj @ '': '') err [])"

lemma request_outcome:
  "ncRequest denv (requestTimeout denv w) subj data w = (Inl err, w1) \<Longrightarrow>
     request denv subj data result w = ((Some (transportError subj err), result), w1)"
  "ncRequest denv (requestTimeout denv w) subj data w = (Inr resp, w1) \<Longrightarrow>
     request denv subj data result w = (replyResult (envelopeErr denv) (resultUnmarshal denv) resp result, w1)"
  by (simp_all add: request_def requestTimeout_def transportError_def)

lemma request_runs_handler:
  assumes law: "requestReplyLaw denv env kind h subj replied served"
    and ok: "ncRequest denv (requestTimeout denv w) subj data w = (Inr resp, w1)"
    and e: "\<And>inbox wh. fst (handleEnvelope env kind \<lparr>cmSubject = subj, cmData = data, cmReply = inbox\<rparr> h wh) = e wh"
    and res: "\<And>wh. \<exists>reply. encodeEnvelope (e wh) = Some reply \<and>
      replyResult (envelopeErr denv) (resultUnmarshal denv) reply result = out wh"
  shows "\<exists>wh. served w w1 wh \<and> request denv subj data result w = (out wh, w1)"
proof -
  obtain inbox wh where inbox: "inbox \<noteq> []" "served w w1 wh"
    and resp: "resp = replied (handle env kind \<lparr>cmSubject = subj, cmData = data, cmReply = inbox\<rparr> h wh)"
    using law ok unfolding requestReplyLaw_def by blast
  obtain reply where reply: "encodeEnvelope (e wh) = Some reply"
    "replyResult (envelopeErr denv) (resultUnmarshal denv) reply result = out wh" using res by blast
  let ?msg = "\<lparr>cmSubject = subj, cmData = data, cmReply = inbox\<rparr>"
  have "handle env kind ?msg h wh = cbRespond env ?msg reply (snd (handleEnvelope env kind ?msg h wh))"
    using inbox(1) reply(1) e [of inbox wh] by (simp add: handle_def respond_def case_prod_beta Let_def)
  moreover have "replied (cbRespond env ?msg reply w2) = reply" for w2
    using law unfolding requestReplyLaw_def by blast
  ultimately have "resp = reply" using resp by simp
  with request_outcome(2) [OF ok] reply(2) inbox(2) show ?thesis by auto
qed

end
