(* ===== verification/CommandBusProps.thy ===== *)
theory CommandBusProps
  imports CommandBus StoreProperties
begin

section \<open>Properties of the command bus and the publisher\<close>

text \<open>
  What a caller learns of a remote handler's result, what remains of a subscription that fails half way,
  and what a publish that fails half way has published.
\<close>

subsection \<open>A connection to itself\<close>

text \<open>
  The examples use a connection whose requests are handled at once when there is a subscription and
  have no responders otherwise; its world is the last response and the open subscriptions, of which it
  allows one. Results are JSON.
\<close>

definition exCommandEnv :: "(unit, payload \<times> string list, json, string) commandEnv" where
  "exCommandEnv = \<lparr>cbRegistry = snd (RegisterMessageType exReflect exCmdReflect newRegistry exAnyCommand), cbQueue = ''goevent'',
     cbUnmarshal = (\<lambda>d c. Inr c), cbResultMarshal = Inr, cbErrMarshal = (\<lambda>_. None),
     cbRespond = (\<lambda>msg data w. (data, snd w)), cbLog = (\<lambda>_ w. w),
     cbQueueSubscribe = (\<lambda>flt q w. if snd w = [] then (Inr flt, fst w, [flt]) else (Inl (ErrorString ''limit''), w)),
     cbDrain = (\<lambda>sub w. (None, fst w, remove1 sub (snd w)))\<rparr>"

definition exDispatchEnv ::
  "MessageKind \<Rightarrow> (unit, payload \<times> string list, json) commandBusHandler \<Rightarrow> (unit, payload \<times> string list, json) dispatchEnv" where
  "exDispatchEnv kind h = \<lparr>dispatchTimeout = 5000 * millisecond, hasDeadline = (\<lambda>_. False),
     ncRequest = (\<lambda>t subj data w. if snd w = [] then (Inl gonatsErrNoResponders, w) else
       (let w1 = handle exCommandEnv kind \<lparr>cmSubject = subj, cmData = data, cmReply = ''inbox''\<rparr> h w in (Inr (fst w1), w1))),
     commandMarshal = (\<lambda>_. Inr (Json (JObj []))),
     resultUnmarshal = (\<lambda>d r. case d of Json j \<Rightarrow> (None, j) | Raw _ \<Rightarrow> (Some exJsonErr, r)), envelopeErr = exJsonErr\<rparr>"

definition exOrderCommand :: "unit Command" where
  "exOrderCommand = (New exCmdReflect (GoNamed ''OrderCreate''))\<lparr>AggregateID := ''o1''\<rparr>"

lemma ex_requestReplyLaw: "requestReplyLaw (exDispatchEnv kind h) exCommandEnv kind h subj fst (\<lambda>w w1 wh. wh = w)"
  by (auto simp: requestReplyLaw_def exDispatchEnv_def exCommandEnv_def Let_def split: if_splits)

lemma ex_command_subjects:
  "validSubject (CommandSubject exOrderCommand)" "Kind (CommandSubject exOrderCommand) = ''command''"
  "validSubject (QuerySubject exOrderCommand)" "Kind (QuerySubject exOrderCommand) = ''query''"
  by (simp_all add: validSubject_def CommandSubject_def QuerySubject_def exOrderCommand_def exCmdReflect_def kind_defs
      messageKind_def ex_tokens ex_o1)

lemma ex_command_decodes:
  "DecodeCommand (cbUnmarshal exCommandEnv) (cbRegistry exCommandEnv) (CommandSubject exOrderCommand) data =
     Inr (New exCmdReflect (GoNamed ''OrderCreate''))"
  "DecodeCommand (cbUnmarshal exCommandEnv) (cbRegistry exCommandEnv) (QuerySubject exOrderCommand) data =
     Inr (New exCmdReflect (GoNamed ''OrderCreate''))"
  by (simp_all add: DecodeCommand_def NewCommand_def exCommandEnv_def CommandSubject_def QuerySubject_def exOrderCommand_def
      RegisterMessageType_def registerCommand_def validateTypeKey_def commandKey_def registerType_def factoryFor_def
      ex_defs ex_tokens kind_defs messageKind_def newRegistry_def Let_def)

subsection \<open>Requests\<close>

lemma ParseSubject_valid: "validSubject s \<Longrightarrow> ParseSubject (SubjectString s) = (s, True)"
  by (simp add: ParseSubject_def Split_SubjectString Let_def validSubject_def)

text \<open>C12. A command sent over NATS returns what its handler returned: for a command whose subject is valid
  and which decodes at the subscriber, a request that fails is reported as \<^verbatim>\<open>ErrNoResponders\<close> when nobody
  listens and otherwise as the wrapped error of the connection; when the subscriber's reply arrives,
  the dispatcher returns nil exactly if the handler that answered did; an error that can be marshalled
  arrives as a \<^verbatim>\<open>ResponseError\<close> with the same JSON, which makes a \<^verbatim>\<open>ResponseError\<close> survive any number
  of hops unchanged, and any other error arrives with its text.\<close>

theorem dispatched_command_result:
  assumes law: "requestReplyLaw denv env (Kind (CommandSubject cmd)) (CommandH f) (nats_CommandSubject cmd) replied served"
    and "commandMarshal denv cmd = Inr data" "validSubject (CommandSubject cmd)"
    and "DecodeCommand (cbUnmarshal env) (cbRegistry env) (CommandSubject cmd) data = Inr cmd'"
  shows "(case ncRequest denv (requestTimeout denv w) (nats_CommandSubject cmd) data w of
       (Inl err, w1) \<Rightarrow> nats_DispatchCommand denv cmd w = (Some (transportError (nats_CommandSubject cmd) err), w1)
     | (Inr resp, w1) \<Rightarrow> \<exists>wh. served w w1 wh \<and>
         nats_DispatchCommand denv cmd w = (map_option (remoteError (cbErrMarshal env)) (fst (f cmd' wh)), w1)) \<and>
     remoteError (cbErrMarshal env) (ResponseError (Json j)) = ResponseError (Json j)"
proof -
  define e where "e wh = (case fst (f cmd' wh) of Some err \<Rightarrow> handlerErrorEnvelope (cbErrMarshal env) err
    | None \<Rightarrow> \<lparr>envOK = True, envData = emptyPayload, envError = []\<rparr>)" for wh
  have h: "fst (handleEnvelope env (Kind (CommandSubject cmd)) \<lparr>cmSubject = nats_CommandSubject cmd, cmData = data, cmReply = inbox\<rparr>
      (CommandH f) wh) = e wh" for inbox wh
    using assms(3,4)
    by (simp add: handleEnvelope_def nats_CommandSubject_def ParseSubject_valid e_def split: option.split prod.split)
  have res: "\<exists>reply. encodeEnvelope (e wh) = Some reply \<and> replyResult (envelopeErr denv) (resultUnmarshal denv) reply None =
      (map_option (remoteError (cbErrMarshal env)) (fst (f cmd' wh)), None)" for wh
  proof (cases "fst (f cmd' wh)")
    case None
    then obtain reply where "encodeEnvelope (e wh) = Some reply" by (simp add: e_def encodeEnvelope_def emptyPayload_def)
    with decode_encode [OF this] None show ?thesis by (simp add: e_def replyResult_def)
  next
    case (Some err)
    with handlerError_reply [of "cbErrMarshal env" err "envelopeErr denv" "resultUnmarshal denv" None] show ?thesis
      by (simp add: e_def)
  qed
  obtain r w1 where nc: "ncRequest denv (requestTimeout denv w) (nats_CommandSubject cmd) data w = (r, w1)" by fastforce
  have "remoteError (cbErrMarshal env) (ResponseError (Json j)) = ResponseError (Json j)"
    by (simp add: remoteError_def errMarshaler_def)
  then show ?thesis
    using nc assms(2) request_outcome(1) [of denv w _ data _ w1 None] request_runs_handler [OF law _ h res, where w = w and ?w1.0 = w1]
    by (cases r) (fastforce simp: nats_DispatchCommand_def)+
qed

theorem dispatched_command_result_witness:
  "fst (nats_DispatchCommand (exDispatchEnv ''command'' (CommandH (\<lambda>c w. (Some ErrConflict, w)))) exOrderCommand (emptyPayload, [''sub''])) =
     Some (remoteError (cbErrMarshal exCommandEnv) ErrConflict) \<and>
   fst (nats_DispatchCommand (exDispatchEnv ''command'' (CommandH (\<lambda>c w. (Some ErrConflict, w)))) exOrderCommand (emptyPayload, [])) =
     Some (transportError (nats_CommandSubject exOrderCommand) gonatsErrNoResponders)"
proof -
  let ?f = "\<lambda>(c :: unit Command) (w :: payload \<times> string list). (Some ErrConflict, w)"
  let ?d = "exDispatchEnv ''command'' (CommandH ?f)"
  have "requestReplyLaw ?d exCommandEnv (Kind (CommandSubject exOrderCommand)) (CommandH ?f) (nats_CommandSubject exOrderCommand) fst
      (\<lambda>w w1 wh. wh = w)"
    using ex_requestReplyLaw by (simp add: ex_command_subjects)
  note res = dispatched_command_result [OF this _ ex_command_subjects(1) ex_command_decodes(1), where data = "Json (JObj [])"]
  from res [where w = "(emptyPayload, [''sub''])"] res [where w = "(emptyPayload, [])"] show ?thesis
    by (auto simp: exDispatchEnv_def Let_def)
qed

text \<open>C13. A query sent over NATS gives the caller the handler's result: for a query whose subject is valid
  and which decodes at the subscriber, a request that fails is reported as for a command; when the
  subscriber's reply arrives and the handler that answered succeeded, the caller's variable holds what
  decoding the JSON of the result into it gives, with an error of that decoding; a result that cannot
  be marshalled is an error, and when the handler fails the error arrives as for a command; in both
  cases the variable is left alone.\<close>

theorem dispatched_query_result:
  assumes law: "requestReplyLaw denv env (Kind (QuerySubject query)) (QueryH f) (nats_QuerySubject query) replied served"
    and "commandMarshal denv query = Inr data" "validSubject (QuerySubject query)"
    and "DecodeCommand (cbUnmarshal env) (cbRegistry env) (QuerySubject query) data = Inr query'"
  shows "case ncRequest denv (requestTimeout denv w) (nats_QuerySubject query) data w of
       (Inl err, w1) \<Rightarrow> nats_DispatchQuery denv query (Some r0) w =
         ((Some (transportError (nats_QuerySubject query) err), Some r0), w1)
     | (Inr resp, w1) \<Rightarrow> \<exists>wh. served w w1 wh \<and> nats_DispatchQuery denv query (Some r0) w =
         ((case fst (f query' wh) of
             Inl err \<Rightarrow> (Some (remoteError (cbErrMarshal env) err), Some r0)
           | Inr r \<Rightarrow> (case cbResultMarshal env r of
               Inl err \<Rightarrow> (Some (textError (''marshal query result: '' @ Error err)), Some r0)
             | Inr j \<Rightarrow> (case resultUnmarshal denv (Json j) r0 of
                 (None, r1) \<Rightarrow> (None, Some r1)
               | (Some err, r1) \<Rightarrow> (Some (Errorf ''decode query result: '' err []), Some r1)))), w1)"
proof -
  define e where "e wh = (case fst (f query' wh) of Inl err \<Rightarrow> handlerErrorEnvelope (cbErrMarshal env) err
    | Inr r \<Rightarrow> (case cbResultMarshal env r of
        Inl err \<Rightarrow> \<lparr>envOK = False, envData = emptyPayload, envError = ''marshal query result: '' @ Error err\<rparr>
      | Inr j \<Rightarrow> \<lparr>envOK = True, envData = Json j, envError = []\<rparr>))" for wh
  let ?out = "\<lambda>wh. case fst (f query' wh) of
      Inl err \<Rightarrow> (Some (remoteError (cbErrMarshal env) err), Some r0)
    | Inr r \<Rightarrow> (case cbResultMarshal env r of
        Inl err \<Rightarrow> (Some (textError (''marshal query result: '' @ Error err)), Some r0)
      | Inr j \<Rightarrow> (case resultUnmarshal denv (Json j) r0 of
          (None, r1) \<Rightarrow> (None, Some r1)
        | (Some err, r1) \<Rightarrow> (Some (Errorf ''decode query result: '' err []), Some r1)))"
  have h: "fst (handleEnvelope env (Kind (QuerySubject query)) \<lparr>cmSubject = nats_QuerySubject query, cmData = data, cmReply = inbox\<rparr>
      (QueryH f) wh) = e wh" for inbox wh
    using assms(3,4)
    by (simp add: handleEnvelope_def nats_QuerySubject_def ParseSubject_valid e_def split: sum.split prod.split)
  have res: "\<exists>reply. encodeEnvelope (e wh) = Some reply \<and>
      replyResult (envelopeErr denv) (resultUnmarshal denv) reply (Some r0) = ?out wh" for wh
  proof (cases "fst (f query' wh)")
    case (Inl err)
    with handlerError_reply [of "cbErrMarshal env" err "envelopeErr denv" "resultUnmarshal denv" "Some r0"] show ?thesis
      by (simp add: e_def)
  next
    case (Inr r)
    show ?thesis
    proof (cases "cbResultMarshal env r")
      case err: (Inl err)
      with Inr textError_reply [of "''marshal query result: '' @ Error err"] show ?thesis by (simp add: e_def)
    next
      case j: (Inr j)
      with Inr obtain reply where "encodeEnvelope (e wh) = Some reply" by (simp add: e_def encodeEnvelope_def)
      with decode_encode [OF this] Inr j show ?thesis
        by (simp add: e_def replyResult_def emptyPayload_def split: prod.split option.split)
    qed
  qed
  obtain r w1 where nc: "ncRequest denv (requestTimeout denv w) (nats_QuerySubject query) data w = (r, w1)" by fastforce
  show ?thesis
  proof (cases r)
    case (Inl err)
    with nc assms(2) request_outcome(1) [of denv w _ data _ w1 "Some r0"] show ?thesis by (simp add: nats_DispatchQuery_def)
  next
    case (Inr resp)
    with nc assms(2) request_runs_handler [OF law _ h res, where w = w and resp = resp and ?w1.0 = w1] show ?thesis by (simp add: nats_DispatchQuery_def)
  qed
qed

theorem dispatched_query_result_witness:
  "fst (nats_DispatchQuery (exDispatchEnv ''query'' (QueryH (\<lambda>c w. (Inr (JNum 7), w)))) exOrderCommand (Some JNull) (emptyPayload, [''sub''])) =
     (None, Some (JNum 7))"
proof -
  let ?f = "\<lambda>(c :: unit Command) (w :: payload \<times> string list). (Inr (JNum 7) :: goerror + json, w)"
  let ?d = "exDispatchEnv ''query'' (QueryH ?f)"
  have "requestReplyLaw ?d exCommandEnv (Kind (QuerySubject exOrderCommand)) (QueryH ?f) (nats_QuerySubject exOrderCommand) fst
      (\<lambda>w w1 wh. wh = w)"
    using ex_requestReplyLaw by (simp add: ex_command_subjects)
  from dispatched_query_result [OF this _ ex_command_subjects(3) ex_command_decodes(2), where data = "Json (JObj [])"
      and w = "(emptyPayload, [''sub''])" and ?r0.0 = JNull]
  show ?thesis by (auto simp: exDispatchEnv_def exCommandEnv_def Let_def)
qed

subsection \<open>Subscriptions\<close>

text \<open>The open subscriptions of the connection: subscribing adds one, draining removes it, also when it fails.\<close>

definition subscriptionLaw :: "('v, 'w, 'r, 'sub) commandEnv \<Rightarrow> ('w \<Rightarrow> 'sub multiset) \<Rightarrow> bool" where
  "subscriptionLaw env opened \<longleftrightarrow>
     (\<forall>flt q w sub w'. cbQueueSubscribe env flt q w = (Inr sub, w') \<longrightarrow> opened w' = add_mset sub (opened w)) \<and>
     (\<forall>flt q w err w'. cbQueueSubscribe env flt q w = (Inl err, w') \<longrightarrow> opened w' = opened w) \<and>
     (\<forall>sub w. opened (snd (cbDrain env sub w)) = opened w - {#sub#})"

lemma drainAll_opened:
  assumes "subscriptionLaw env opened"
  shows "opened (snd (drainAll env subs w)) = opened w - mset subs"
proof (induction subs arbitrary: w)
  case (Cons sub subs)
  obtain err w1 where d: "cbDrain env sub w = (err, w1)" by fastforce
  have "opened w1 = opened w - {#sub#}" using assms d unfolding subscriptionLaw_def by (metis snd_conv)
  with Cons.IH [of w1] d show ?case by (cases "drainAll env subs w1") simp
qed simp

lemma subscribeLoop_opened:
  assumes law: "subscriptionLaw env opened" and "opened w = base + mset subs"
    and "subscribeLoop env q flts subs w = (r, w')"
  shows "case r of Inl err \<Rightarrow> opened w' = base
     | Inr subs' \<Rightarrow> opened w' = base + mset subs' \<and> length subs' = length subs + length flts"
  using assms(2,3)
proof (induction flts arbitrary: subs w)
  case (Cons flt flts)
  obtain s w1 where sub: "cbQueueSubscribe env flt q w = (s, w1)" by fastforce
  show ?case
  proof (cases s)
    case (Inl err)
    then have "opened w1 = base + mset subs" using law sub Cons.prems(1) unfolding subscriptionLaw_def by metis
    with Inl sub Cons.prems(2) drainAll_opened [OF law, of subs w1] show ?thesis by auto
  next
    case (Inr s')
    then have "opened w1 = base + mset (subs @ [s'])" using law sub Cons.prems(1) unfolding subscriptionLaw_def by fastforce
    from Cons.IH [OF this] Inr sub Cons.prems(2) show ?thesis by (auto split: sum.splits)
  qed
qed auto

text \<open>C18. Subscribing is all or nothing: it leaves one subscription per filter of the configuration, or, when
  it fails, none: those made before the failing one are drained.\<close>

theorem command_subscribe_all_or_nothing:
  assumes "subscriptionLaw env opened" "command_subscribe env kind cfg w = (r, w')"
  shows "case r of Inl err \<Rightarrow> opened w' = opened w
     | Inr subs \<Rightarrow> opened w' = opened w + mset subs \<and> length subs = length (commandFilters kind cfg)"
  using assms subscribeLoop_opened [OF assms(1), of w "opened w" "[]"]
  by (fastforce simp: command_subscribe_def split: option.splits sum.splits)

theorem command_subscribe_all_or_nothing_witness:
  "case command_subscribe exCommandEnv KindCommand (exCmdConfig\<lparr>CmdNames := [''create'', ''created'']\<rparr>) (emptyPayload, []) of (r, w') \<Rightarrow>
     case r of Inl err \<Rightarrow> mset (snd w') = {#}
     | Inr subs \<Rightarrow> mset (snd w') = mset subs \<and>
         length subs = length (commandFilters KindCommand (exCmdConfig\<lparr>CmdNames := [''create'', ''created'']\<rparr>))"
proof -
  have "subscriptionLaw exCommandEnv (\<lambda>w. mset (snd w))"
    by (auto simp: subscriptionLaw_def exCommandEnv_def split: if_splits)
  from command_subscribe_all_or_nothing [OF this, where w = "(emptyPayload, [])"] show ?thesis
    by (fastforce split: prod.split sum.split)
qed

subsection \<open>Publishing\<close>

text \<open>
  \<open>log\<close> is what the publisher's messages have left in the stream. A publish that is acknowledged is
  stored; one that fails may have been stored or not, because the acknowledgement can be lost.
\<close>

definition publisherLaw :: "('c, 'it, 'w) jetstream \<Rightarrow> ('w \<Rightarrow> (string \<times> payload) list) \<Rightarrow> bool" where
  "publisherLaw js log \<longleftrightarrow>
     (\<forall>subj data w seq w'. jsPublish js subj data w = (Inr seq, w') \<longrightarrow> log w' = log w @ [(subj, data)]) \<and>
     (\<forall>subj data w err w'. jsPublish js subj data w = (Inl err, w') \<longrightarrow> log w' = log w \<or> log w' = log w @ [(subj, data)])"

text \<open>Where a publish ends: at event \<open>j\<close>, with the first \<open>k\<close> events stored.\<close>

definition publishEnds :: "('a, 'v) aggregateOps \<Rightarrow> 'v codecOps \<Rightarrow> ('a, 'v) outEvent list \<Rightarrow> goerror option \<Rightarrow> nat \<Rightarrow> nat \<Rightarrow> bool" where
  "publishEnds ops co evts err j k \<longleftrightarrow> (case err of
     None \<Rightarrow> j = length evts \<and> k = j
   | Some e \<Rightarrow> j < length evts \<and>
       (k = j \<and> (marshalEvent ops co (evts ! j) = Inl e \<or> SubjectValidate (outSubject ops (evts ! j)) = Some e) \<or>
        (k = j \<or> k = Suc j) \<and>
          (\<exists>pubErr. e = Errorf (''publish event '' @ SubjectString (outSubject ops (evts ! j)) @ '': '') pubErr [])))"

lemma publishEnds_Suc: "publishEnds ops co evts err j k \<Longrightarrow> publishEnds ops co (evt # evts) err (Suc j) (Suc k)"
  by (auto simp: publishEnds_def split: option.splits)

text \<open>C25. Publishing is in order and stops at the first error: what was published is the first events of the
  list, each once on its subject with its marshalled data, and every subject published to is valid. If
  nil is returned it is all of them. If an error is returned it is that of one event, which could not
  be marshalled, had an invalid subject or was not acknowledged: the events before it were published,
  those after it were not, and the event itself was published only if its acknowledgement is what was
  missing.\<close>

theorem nats_Publish_prefix:
  assumes "publisherLaw js log" "nats_Publish js ops co evts w = (err, w')"
  shows "\<exists>j k. publishEnds ops co evts err j k \<and> (\<forall>e \<in> set (take k evts). validSubject (outSubject ops e)) \<and>
     map (\<lambda>(s, d). (s, Inr d)) (log w') = map (\<lambda>(s, d). (s, Inr d)) (log w) @ map (wireForm ops co) (take k evts)"
  using assms(2)
proof (induction evts arbitrary: w)
  case Nil
  then show ?case by (intro exI [of _ 0]) (simp add: publishEnds_def)
next
  case (Cons evt evts)
  let ?s = "outSubject ops evt"
  show ?case
  proof (cases "\<exists>data. marshalEvent ops co evt = Inr data \<and> validSubject ?s")
    case False
    then have "w' = w \<and> (\<exists>e. err = Some e \<and> (marshalEvent ops co evt = Inl e \<or> SubjectValidate ?s = Some e))"
      using Cons.prems by (auto split: sum.splits option.splits dest: sym)
    then show ?thesis by (intro exI [of _ 0]) (auto simp: publishEnds_def)
  next
    case True
    then obtain data where data: "marshalEvent ops co evt = Inr data" "validSubject ?s" by blast
    obtain r w1 where pub: "jsPublish js (SubjectString ?s) data w = (r, w1)" by fastforce
    show ?thesis
    proof (cases r)
      case (Inr seq)
      then have "log w1 = log w @ [(SubjectString ?s, data)]" using assms(1) pub unfolding publisherLaw_def by blast
      moreover have "nats_Publish js ops co evts w1 = (err, w')" using Cons.prems data pub Inr by simp
      note Cons.IH [OF this]
      ultimately show ?thesis
        using data publishEnds_Suc [of ops co evts err _ _ evt]
        by (elim exE conjE) (intro exI [of _ "Suc j" for j] exI [of _ "Suc k" for k], auto simp: wireForm_def)
    next
      case (Inl pubErr)
      with Cons.prems data pub have
        "err = Some (Errorf (''publish event '' @ SubjectString ?s @ '': '') pubErr []) \<and> w' = w1" by simp
      moreover have "log w1 = log w \<or> log w1 = log w @ [(SubjectString ?s, data)]"
        using assms(1) pub Inl unfolding publisherLaw_def by blast
      ultimately show ?thesis
        using data
        by (intro exI [of _ 0] exI [of _ "if log w1 = log w then 0 else 1"]) (auto simp: publishEnds_def wireForm_def)
    qed
  qed
qed

definition exPublisherJS :: "(position \<times> uint64, nat, memWorld) jetstream" where
  "exPublisherJS = memJS\<lparr>jsPublish := (\<lambda>subj data w. (Inr 0, memAppend exStream [(subj, data)] w))\<rparr>"

definition exLostAckJS :: "(position \<times> uint64, nat, memWorld) jetstream" where
  "exLostAckJS = memJS\<lparr>jsPublish := (\<lambda>subj data w. (Inl ContextDeadlineExceeded, memAppend exStream [(subj, data)] w))\<rparr>"

theorem nats_Publish_prefix_witness:
  "(\<exists>j k. publishEnds exOps exCodec [Domain exOrderEvent] None j k \<and>
     map (\<lambda>(s, d). (s, Inr d)) (mwLog (snd (nats_Publish exPublisherJS exOps exCodec [Domain exOrderEvent] memEmpty)) exStream) =
       map (wireForm exOps exCodec) (take k [Domain exOrderEvent])) \<and>
   (\<exists>j k. publishEnds exOps exCodec [Domain exOrderEvent]
       (Some (Errorf (''publish event '' @ SubjectString (EventSubject exOrderEvent) @ '': '') ContextDeadlineExceeded [])) j k)"
proof -
  have law: "publisherLaw exPublisherJS (\<lambda>w. mwLog w exStream)" "publisherLaw exLostAckJS (\<lambda>w. mwLog w exStream)"
    by (auto simp: publisherLaw_def exPublisherJS_def exLostAckJS_def memAppend_def)
  have "outSubject exOps (Domain exOrderEvent) = EventSubject exOrderEvent"
    by (simp add: outSubject_def)
  then have run: "nats_Publish exPublisherJS exOps exCodec [Domain exOrderEvent] memEmpty = (None, memAppend exStream [exWire] memEmpty)"
    "nats_Publish exLostAckJS exOps exCodec [Domain exOrderEvent] memEmpty =
      (Some (Errorf (''publish event '' @ SubjectString (EventSubject exOrderEvent) @ '': '') ContextDeadlineExceeded []),
       memAppend exStream [exWire] memEmpty)"
    using ex_event_valid ex_event_wire by (simp_all add: exPublisherJS_def exLostAckJS_def exWire_def)
  from nats_Publish_prefix [OF law(1) run(1)] nats_Publish_prefix [OF law(2) run(2)] run show ?thesis
    by (fastforce simp: memEmpty_def)
qed

end
