(* ===== verification/Testkit.thy ===== *)
theory Testkit
  imports Bus StoreProperties
begin

section \<open>The test doubles\<close>

text \<open>
  \<^verbatim>\<open>src/testkit/stub.go\<close>: transports that record what they are given and a harness that plays the wire
  by hand. A recorded handler has an arbitrary type \<open>'h\<close>; what calling it does is an argument of the
  functions that call it, so that it may act on any state, the harness included. The configurations'
  callbacks act on the world \<open>'w\<close>.
\<close>

subsection \<open>Dispatcher and publisher\<close>

record ('v, 'w, 'r) StubDispatcher =
  stubCommands :: "'v Command list"
  stubQueries :: "'v Command list"
  QueryFn :: "('v Command \<Rightarrow> 'r \<Rightarrow> 'w \<Rightarrow> goerror option \<times> 'r \<times> 'w) option"
  dispErr :: "goerror option"

definition stub_DispatchCommand ::
  "('v, 'w, 'r) StubDispatcher \<Rightarrow> 'v Command \<Rightarrow> goerror option \<times> ('v, 'w, 'r) StubDispatcher" where
  "stub_DispatchCommand s cmd =
     (if dispErr s \<noteq> None then (dispErr s, s) else (None, s\<lparr>stubCommands := stubCommands s @ [cmd]\<rparr>))"

definition stub_DispatchQuery ::
  "('v, 'w, 'r) StubDispatcher \<Rightarrow> 'v Command \<Rightarrow> 'r \<Rightarrow> 'w \<Rightarrow> goerror option \<times> ('v, 'w, 'r) StubDispatcher \<times> 'r \<times> 'w" where
  "stub_DispatchQuery s query result w =
     (if dispErr s \<noteq> None then (dispErr s, s, result, w)
      else let s1 = s\<lparr>stubQueries := stubQueries s @ [query]\<rparr> in
        case QueryFn s of
          None \<Rightarrow> (None, s1, result, w)
        | Some f \<Rightarrow> (let (err, result', w') = f query result w in (err, s1, result', w')))"

record 'v StubPublisher =
  stubEvents :: "'v Event list"
  pubErr :: "goerror option"

definition stub_Publish :: "'v StubPublisher \<Rightarrow> 'v Event list \<Rightarrow> goerror option \<times> 'v StubPublisher" where
  "stub_Publish s evts =
     (if pubErr s \<noteq> None then (pubErr s, s) else (None, s\<lparr>stubEvents := stubEvents s @ evts\<rparr>))"

subsection \<open>Subscribers\<close>

record ('h, 'w) EventSubscription =
  esHandler :: 'h
  esConfig :: "'w EventSubscriptionConfig"

record ('h, 'w) StubEventSubscriber =
  Subscriptions :: "('h, 'w) EventSubscription list"
  evtErr :: "goerror option"

definition stub_SubscribeEvents ::
  "('h, 'w) StubEventSubscriber \<Rightarrow> 'h \<Rightarrow> 'w EventSubscriptionConfig \<Rightarrow> 'w \<Rightarrow> goerror option \<times> ('h, 'w) StubEventSubscriber \<times> 'w" where
  "stub_SubscribeEvents s fn cfg w =
     (if evtErr s \<noteq> None then (evtErr s, s, w)
      else (None, s\<lparr>Subscriptions := Subscriptions s @ [\<lparr>esHandler = fn, esConfig = cfg\<rparr>]\<rparr>,
        case CaughtUp cfg of Some f \<Rightarrow> if Queue cfg = [] then f w else w | None \<Rightarrow> w))"

text \<open>A command subscription and a query subscription are the same record with different handlers.\<close>

record 'h CommandSubscription =
  csHandler :: 'h
  csConfig :: CommandSubscriptionConfig

record ('h, 'q) StubCommandSubscriber =
  CommandSubscriptions :: "'h CommandSubscription list"
  QuerySubscriptions :: "'q CommandSubscription list"
  subErr :: "goerror option"

definition stub_SubscribeCommand ::
  "('h, 'q) StubCommandSubscriber \<Rightarrow> 'h \<Rightarrow> CommandSubscriptionConfig \<Rightarrow> goerror option \<times> ('h, 'q) StubCommandSubscriber" where
  "stub_SubscribeCommand s fn cfg =
     (if subErr s \<noteq> None then (subErr s, s)
      else (None, s\<lparr>CommandSubscriptions := CommandSubscriptions s @ [\<lparr>csHandler = fn, csConfig = cfg\<rparr>]\<rparr>))"

definition stub_SubscribeQuery ::
  "('h, 'q) StubCommandSubscriber \<Rightarrow> 'q \<Rightarrow> CommandSubscriptionConfig \<Rightarrow> goerror option \<times> ('h, 'q) StubCommandSubscriber" where
  "stub_SubscribeQuery s fn cfg =
     (if subErr s \<noteq> None then (subErr s, s)
      else (None, s\<lparr>QuerySubscriptions := QuerySubscriptions s @ [\<lparr>csHandler = fn, csConfig = cfg\<rparr>]\<rparr>))"

subsection \<open>Matching\<close>

fun contains :: "string list \<Rightarrow> string \<Rightarrow> bool" where
  "contains [] x = False"
| "contains (v # vs) x = (v = x \<or> contains vs x)"

definition eventFilterMatches :: "EventSubscriptionFilter \<Rightarrow> 'v Event \<Rightarrow> bool" where
  "eventFilterMatches flt evt =
     (let kind = (if FilterKind flt = [] then KindEvent else FilterKind flt) in
      if kind \<noteq> Kind (EventSubject evt) then False
      else if FilterIDs flt \<noteq> [] \<and> \<not> contains (FilterIDs flt) (AggregateID evt) then False
      else FilterNames flt = [] \<or> contains (FilterNames flt) (EventName evt))"

definition eventConfigMatches :: "'w EventSubscriptionConfig \<Rightarrow> 'v Event \<Rightarrow> bool" where
  "eventConfigMatches cfg evt =
     (if EvScope cfg \<noteq> [] \<and> EvScope cfg \<noteq> AggregateScope evt then False
      else if EvFilters cfg \<noteq> [] then
        (if EvTypes cfg \<noteq> [] \<and> \<not> contains (EvTypes cfg) (AggregateType evt) then False
         else list_ex (\<lambda>flt. eventFilterMatches flt evt) (EvFilters cfg))
      else
        (let kind = (if EvKind cfg = [] then KindEvent else EvKind cfg) in
         if kind \<noteq> Kind (EventSubject evt) then False
         else if EvTypes cfg \<noteq> [] \<and> \<not> contains (EvTypes cfg) (AggregateType evt) then False
         else if EvIDs cfg \<noteq> [] \<and> \<not> contains (EvIDs cfg) (AggregateID evt) then False
         else if EvNames cfg \<noteq> [] \<and> \<not> contains (EvNames cfg) (EventName evt) then False
         else True))"

definition commandConfigMatches :: "CommandSubscriptionConfig \<Rightarrow> 'v Command \<Rightarrow> bool" where
  "commandConfigMatches cfg cmd =
     (if CmdScope cfg \<noteq> [] \<and> CmdScope cfg \<noteq> AggregateScope cmd then False
      else let kind = (if CmdKind cfg = [] then KindCommand else CmdKind cfg) in
        if kind \<noteq> Kind (CommandSubject cmd) \<and> kind \<noteq> Kind (QuerySubject cmd) then False
        else if CmdTypes cfg \<noteq> [] \<and> \<not> contains (CmdTypes cfg) (AggregateType cmd) then False
        else if CmdIDs cfg \<noteq> [] \<and> \<not> contains (CmdIDs cfg) (AggregateID cmd) then False
        else if CmdNames cfg \<noteq> [] \<and> \<not> contains (CmdNames cfg) (CommandName cmd) then False
        else True)"

subsection \<open>The harness\<close>

record ('v, 'w, 'r, 'h, 'c, 'q) BusHarness =
  harnessDispatcher :: "('v, 'w, 'r) StubDispatcher"
  harnessPublisher :: "'v StubPublisher"
  harnessCommands :: "('c, 'q) StubCommandSubscriber"
  harnessEvents :: "('h, 'w) StubEventSubscriber"

text \<open>\<open>transports\<close> is the environment with the stubs as the four transports.\<close>

definition NewBusHarness ::
  "(string \<Rightarrow> Subject option \<Rightarrow> goerror option \<Rightarrow> 'w \<Rightarrow> 'w) \<Rightarrow> ('v, 'w, 'r, 'sub, 'cs) busEnv \<Rightarrow> string \<Rightarrow> ('w, 'cs) BusOptions \<Rightarrow>
   (('v, 'w, 'r, 'sub, 'cs) busEnv \<times> ('v, 'w, 'r, 'sub) Bus) \<times> ('v, 'w2, 'r, 'h, 'c, 'q) BusHarness" where
  "NewBusHarness slogDefault transports q opts =
     (NewBus slogDefault transports (opts\<lparr>optQueue := q\<rparr>),
      \<lparr>harnessDispatcher = \<lparr>stubCommands = [], stubQueries = [], QueryFn = None, dispErr = None\<rparr>,
       harnessPublisher = \<lparr>stubEvents = [], pubErr = None\<rparr>,
       harnessCommands = \<lparr>CommandSubscriptions = [], QuerySubscriptions = [], subErr = None\<rparr>,
       harnessEvents = \<lparr>Subscriptions = [], evtErr = None\<rparr>\<rparr>)"

definition TriggerEvent ::
  "('h \<Rightarrow> 'v Event \<Rightarrow> string option \<Rightarrow> 'st \<Rightarrow> goerror option \<times> 'st) \<Rightarrow> ('v, 'w, 'r, 'h, 'c, 'q) BusHarness \<Rightarrow>
   'v Event \<Rightarrow> string option \<Rightarrow> 'st \<Rightarrow> goerror option \<times> 'st" where
  "TriggerEvent call h evt cursor st =
     (case find (\<lambda>sub. eventConfigMatches (esConfig sub) evt) (Subscriptions (harnessEvents h)) of
        Some sub \<Rightarrow> call (esHandler sub) evt cursor st
      | None \<Rightarrow> (Some (ErrorString (''no event subscription for '' @ SubjectString (EventSubject evt))), st))"

definition TriggerCommand ::
  "('c \<Rightarrow> 'v Command \<Rightarrow> 'st \<Rightarrow> goerror option \<times> 'st) \<Rightarrow> ('v, 'w, 'r, 'h, 'c, 'q) BusHarness \<Rightarrow>
   'v Command \<Rightarrow> 'st \<Rightarrow> goerror option \<times> 'st" where
  "TriggerCommand call h cmd st =
     (case find (\<lambda>sub. commandConfigMatches (csConfig sub) cmd) (CommandSubscriptions (harnessCommands h)) of
        Some sub \<Rightarrow> call (csHandler sub) cmd st
      | None \<Rightarrow> (Some (ErrorString (''no command subscription for '' @ SubjectString (CommandSubject cmd))), st))"

text \<open>A result that is nil is \<open>None\<close>.\<close>

definition TriggerQuery ::
  "('q \<Rightarrow> 'v Command \<Rightarrow> 'st \<Rightarrow> ('r option \<times> goerror option) \<times> 'st) \<Rightarrow> ('v, 'w, 'r, 'h, 'c, 'q) BusHarness \<Rightarrow>
   'v Command \<Rightarrow> 'st \<Rightarrow> ('r option \<times> goerror option) \<times> 'st" where
  "TriggerQuery call h query st =
     (case find (\<lambda>sub. commandConfigMatches (csConfig sub) query) (QuerySubscriptions (harnessCommands h)) of
        Some sub \<Rightarrow> call (csHandler sub) query st
      | None \<Rightarrow> ((None, Some (ErrorString (''no query subscription for '' @ SubjectString (QuerySubject query)))), st))"

subsection \<open>The doubles match what the wire matches\<close>

lemma contains_set [simp]: "contains vs x \<longleftrightarrow> x \<in> set vs"
  by (induction vs) auto

lemma eventFilterMatches_selects:
  "eventFilterMatches flt evt \<longleftrightarrow> selects (defaultKind (FilterKind flt) KindEvent) (FilterIDs flt) (FilterNames flt) (EventSubject evt)"
  by (auto simp: eventFilterMatches_def selects_def defaultKind_def EventSubject_def Let_def)

lemma eventConfigMatches_wire:
  assumes "EventConfigValidate cfg = None" "length (EvTypes cfg) = 1" "SubjectValidate (EventSubject evt) = None"
  shows "eventConfigMatches cfg evt \<longleftrightarrow> (\<exists>f \<in> set (the (eventFilters cfg)). natsMatch f (SubjectString (EventSubject evt)))"
proof -
  obtain ty where t: "EvTypes cfg = [ty]" using assms(2) by (auto simp: length_Suc_conv)
  have cfg: "validEventConfig cfg" using assms(1) by (simp add: EventConfigValidate_None)
  have "EvScope cfg \<noteq> []" using cfg t by (simp add: validEventConfig_def)
  moreover have "list_ex (\<lambda>flt. eventFilterMatches flt evt) (EvFilters cfg) \<longleftrightarrow>
      (\<exists>flt \<in> set (EvFilters cfg). selects (defaultKind (FilterKind flt) KindEvent) (FilterIDs flt) (FilterNames flt) (EventSubject evt))"
    by (simp add: list_ex_iff eventFilterMatches_selects)
  ultimately have "eventConfigMatches cfg evt \<longleftrightarrow>
      Scope (EventSubject evt) = EvScope cfg \<and> AggType (EventSubject evt) = ty \<and> configSelects cfg (EventSubject evt)"
    using t by (auto simp: eventConfigMatches_def configSelects_def selects_def defaultKind_def EventSubject_def Let_def)
  with eventFilters_select [OF cfg t, of "EventSubject evt" "the (eventFilters cfg)"] assms(3) show ?thesis
    by (simp add: eventFilters_raw [OF t])
qed

lemma commandConfigMatches_wire:
  assumes "CommandConfigValidate cfg = None" "CmdKind cfg \<noteq> KindQuery" "SubjectValidate (CommandSubject cmd) = None"
  shows "commandConfigMatches cfg cmd \<longleftrightarrow>
     (\<exists>f \<in> set (commandFilters KindCommand cfg). natsMatch f (SubjectString (CommandSubject cmd)))"
proof -
  have cfg: "validCommandConfig cfg" using assms(1) by (simp add: CommandConfigValidate_None)
  have kind: "validToken KindCommand" by (simp add: kind_defs ex_tokens)
  have subj: "validSubject (CommandSubject cmd)" using assms(3) by simp
  have "(\<exists>f \<in> set (commandFilters KindCommand cfg). natsMatch f (SubjectString (CommandSubject cmd))) \<longleftrightarrow>
      commandSelects KindCommand cfg (CommandSubject cmd)"
    using commandFilters_select [OF cfg kind subj] commandFilters_star [OF cfg kind] by (simp cong: bex_cong)
  also have "\<dots> \<longleftrightarrow> commandConfigMatches cfg cmd"
    using assms(2) by (auto simp: commandSelects_def commandConfigMatches_def CommandSubject_def QuerySubject_def messageKind_def
        kind_defs Let_def split: option.splits)
  finally show ?thesis by simp
qed

text \<open>
  A query subscription must name its kind, and not the kind command: with an empty kind the wire takes
  query where the doubles take command, and with the kind command the doubles match a query by the
  command subject it could have had.
\<close>

lemma queryConfigMatches_wire:
  assumes "CommandConfigValidate cfg = None" "CmdKind cfg \<noteq> []" "CmdKind cfg \<noteq> KindCommand"
    and "SubjectValidate (QuerySubject query) = None"
  shows "commandConfigMatches cfg query \<longleftrightarrow>
     (\<exists>f \<in> set (commandFilters KindQuery cfg). natsMatch f (SubjectString (QuerySubject query)))"
proof -
  have cfg: "validCommandConfig cfg" using assms(1) by (simp add: CommandConfigValidate_None)
  have kind: "validToken KindQuery" by (simp add: kind_defs ex_tokens)
  have subj: "validSubject (QuerySubject query)" using assms(4) by simp
  have "(\<exists>f \<in> set (commandFilters KindQuery cfg). natsMatch f (SubjectString (QuerySubject query))) \<longleftrightarrow>
      commandSelects KindQuery cfg (QuerySubject query)"
    using commandFilters_select [OF cfg kind subj] commandFilters_star [OF cfg kind] by (simp cong: bex_cong)
  also have "\<dots> \<longleftrightarrow> commandConfigMatches cfg query"
    using assms(2,3) by (auto simp: commandSelects_def commandConfigMatches_def CommandSubject_def QuerySubject_def messageKind_def
        kind_defs Let_def split: option.splits)
  finally show ?thesis by simp
qed

text \<open>Without that condition the doubles do differ: a plain command matches a configuration of kind query.\<close>

lemma command_matches_query_config:
  assumes "CommandConfigValidate cfg = None" "CmdKind cfg = KindQuery" "MessageKindOverride cmd = None"
    and "SubjectValidate (CommandSubject cmd) = None" "commandSelects KindQuery cfg (QuerySubject cmd)"
  shows "commandConfigMatches cfg cmd \<and>
     \<not> (\<exists>f \<in> set (commandFilters KindCommand cfg). natsMatch f (SubjectString (CommandSubject cmd)))"
proof -
  have cfg: "validCommandConfig cfg" using assms(1) by (simp add: CommandConfigValidate_None)
  have kind: "validToken KindCommand" by (simp add: kind_defs ex_tokens)
  have subj: "validSubject (CommandSubject cmd)" using assms(4) by simp
  have "\<not> commandSelects KindCommand cfg (CommandSubject cmd)"
    using assms(2,3) by (simp add: commandSelects_def CommandSubject_def messageKind_def kind_defs)
  then show ?thesis
    using commandFilters_select [OF cfg kind subj] commandFilters_star [OF cfg kind] assms(2,3,5)
    by (auto simp: commandSelects_def commandConfigMatches_def CommandSubject_def QuerySubject_def messageKind_def kind_defs
        cong: bex_cong)
qed

lemma find_cong_set: "(\<And>x. x \<in> set xs \<Longrightarrow> P x = Q x) \<Longrightarrow> find P xs = find Q xs"
  by (induction xs) auto

text \<open>C32. The test harness delivers as the wire does, within limits: when every configuration passes
  validation, event configurations have one aggregate type, no command subscription has the kind query
  and every query subscription names a kind other than command, a triggered event, command or query
  goes to the first subscription one of whose wire filters matches its subject, and is an error if no
  filter of any subscription does. The conditions on the kinds are needed: the doubles compare the
  kind of a configuration with both the command and the query subject of a message.\<close>

theorem harness_follows_wire:
  assumes "\<forall>sub \<in> set (Subscriptions (harnessEvents h)). EventConfigValidate (esConfig sub) = None \<and> length (EvTypes (esConfig sub)) = 1"
    and "\<forall>sub \<in> set (CommandSubscriptions (harnessCommands h)). CommandConfigValidate (csConfig sub) = None \<and> CmdKind (csConfig sub) \<noteq> KindQuery"
    and "\<forall>sub \<in> set (QuerySubscriptions (harnessCommands h)). CommandConfigValidate (csConfig sub) = None \<and>
      CmdKind (csConfig sub) \<noteq> [] \<and> CmdKind (csConfig sub) \<noteq> KindCommand"
    and "SubjectValidate (EventSubject evt) = None" "SubjectValidate (CommandSubject cmd) = None"
    and "SubjectValidate (QuerySubject query) = None"
  shows "TriggerEvent call h evt cursor st =
     (case find (\<lambda>sub. \<exists>f \<in> set (the (eventFilters (esConfig sub))). natsMatch f (SubjectString (EventSubject evt))) (Subscriptions (harnessEvents h)) of
        Some sub \<Rightarrow> call (esHandler sub) evt cursor st
      | None \<Rightarrow> (Some (ErrorString (''no event subscription for '' @ SubjectString (EventSubject evt))), st)) \<and>
    TriggerCommand callC h cmd st =
     (case find (\<lambda>sub. \<exists>f \<in> set (commandFilters KindCommand (csConfig sub)). natsMatch f (SubjectString (CommandSubject cmd))) (CommandSubscriptions (harnessCommands h)) of
        Some sub \<Rightarrow> callC (csHandler sub) cmd st
      | None \<Rightarrow> (Some (ErrorString (''no command subscription for '' @ SubjectString (CommandSubject cmd))), st)) \<and>
    TriggerQuery callQ h query st =
     (case find (\<lambda>sub. \<exists>f \<in> set (commandFilters KindQuery (csConfig sub)). natsMatch f (SubjectString (QuerySubject query))) (QuerySubscriptions (harnessCommands h)) of
        Some sub \<Rightarrow> callQ (csHandler sub) query st
      | None \<Rightarrow> ((None, Some (ErrorString (''no query subscription for '' @ SubjectString (QuerySubject query)))), st))"
proof -
  have "find (\<lambda>sub. eventConfigMatches (esConfig sub) evt) (Subscriptions (harnessEvents h)) =
      find (\<lambda>sub. \<exists>f \<in> set (the (eventFilters (esConfig sub))). natsMatch f (SubjectString (EventSubject evt))) (Subscriptions (harnessEvents h))"
    using assms(1,4) eventConfigMatches_wire by (intro find_cong_set) blast
  moreover have "find (\<lambda>sub. commandConfigMatches (csConfig sub) cmd) (CommandSubscriptions (harnessCommands h)) =
      find (\<lambda>sub. \<exists>f \<in> set (commandFilters KindCommand (csConfig sub)). natsMatch f (SubjectString (CommandSubject cmd))) (CommandSubscriptions (harnessCommands h))"
    using assms(2,5) commandConfigMatches_wire by (intro find_cong_set) blast
  moreover have "find (\<lambda>sub. commandConfigMatches (csConfig sub) query) (QuerySubscriptions (harnessCommands h)) =
      find (\<lambda>sub. \<exists>f \<in> set (commandFilters KindQuery (csConfig sub)). natsMatch f (SubjectString (QuerySubject query))) (QuerySubscriptions (harnessCommands h))"
    using assms(3,6) queryConfigMatches_wire by (intro find_cong_set) blast
  ultimately show ?thesis by (simp only: TriggerEvent_def TriggerCommand_def TriggerQuery_def)
qed

definition exHarnessCommand :: "unit Command" where
  "exHarnessCommand = (New exCmdReflect (GoNamed ''OrderCreate''))\<lparr>AggregateID := ''o1''\<rparr>"

definition exHarness :: "(unit, unit, unit, nat, nat, nat) BusHarness" where
  "exHarness = \<lparr>harnessDispatcher = \<lparr>stubCommands = [], stubQueries = [], QueryFn = None, dispErr = None\<rparr>,
     harnessPublisher = \<lparr>stubEvents = [], pubErr = None\<rparr>,
     harnessCommands = \<lparr>CommandSubscriptions = [\<lparr>csHandler = 4, csConfig = exCmdConfig\<rparr>], 
       QuerySubscriptions = [\<lparr>csHandler = 5, csConfig = exCmdConfig\<lparr>CmdKind := KindQuery\<rparr>\<rparr>], subErr = None\<rparr>,
     harnessEvents = \<lparr>Subscriptions = [\<lparr>esHandler = 3, esConfig =
       \<lparr>EvScope = ''sales'', EvKind = [], EvTypes = [''order''], EvIDs = [], EvNames = [''created''], EvFilters = [],
        Queue = [], ConsumerName = [], MaxRetries = 0, Cursor = None, BootPolicy = CursorBootNew, CaughtUp = None, OnError = None\<rparr>\<rparr>],
       evtErr = None\<rparr>\<rparr>"

theorem harness_follows_wire_witness:
  "find (\<lambda>sub. \<exists>f \<in> set (the (eventFilters (esConfig sub))). natsMatch f (SubjectString (EventSubject exOrderEvent)))
     (Subscriptions (harnessEvents exHarness)) \<noteq> None \<and>
   TriggerEvent (\<lambda>n evt cursor st. (None, n)) exHarness exOrderEvent None 0 = (None, 3) \<and>
   TriggerCommand (\<lambda>n cmd st. (None, n)) exHarness exHarnessCommand 0 = (None, 4) \<and>
   TriggerQuery (\<lambda>n cmd st. ((Some (), None), n)) exHarness exHarnessCommand 0 = ((Some (), None), 5)"
proof -
  have run: "TriggerEvent (\<lambda>n evt cursor st. (None, n)) exHarness exOrderEvent None 0 = (None, 3)"
    "TriggerCommand (\<lambda>n cmd st. (None, n)) exHarness exHarnessCommand 0 = (None, 4)"
    "TriggerQuery (\<lambda>n cmd st. ((Some (), None), n)) exHarness exHarnessCommand 0 = ((Some (), None), 5)"
    by (simp_all add: TriggerEvent_def TriggerCommand_def TriggerQuery_def exHarness_def exCmdConfig_def eventConfigMatches_def
        commandConfigMatches_def exOrderEvent_def exHarnessCommand_def exReflect_def exCmdReflect_def EventSubject_def
        CommandSubject_def QuerySubject_def messageKind_def kind_defs)
  have valid: "\<forall>sub \<in> set (Subscriptions (harnessEvents exHarness)). EventConfigValidate (esConfig sub) = None \<and> length (EvTypes (esConfig sub)) = 1"
    "\<forall>sub \<in> set (CommandSubscriptions (harnessCommands exHarness)). CommandConfigValidate (csConfig sub) = None \<and> CmdKind (csConfig sub) \<noteq> KindQuery"
    "\<forall>sub \<in> set (QuerySubscriptions (harnessCommands exHarness)). CommandConfigValidate (csConfig sub) = None \<and>
      CmdKind (csConfig sub) \<noteq> [] \<and> CmdKind (csConfig sub) \<noteq> KindCommand"
    by (simp_all add: exHarness_def exCmdConfig_def EventConfigValidate_None CommandConfigValidate_None validEventConfig_def
        validCommandConfig_def optToken_def ex_tokens kind_defs)
  have subjects: "SubjectValidate (EventSubject exOrderEvent) = None" "SubjectValidate (CommandSubject exHarnessCommand) = None"
    "SubjectValidate (QuerySubject exHarnessCommand) = None"
    using ex_event_valid
    by (simp_all add: validSubject_def CommandSubject_def QuerySubject_def exHarnessCommand_def exCmdReflect_def messageKind_def
        kind_defs ex_tokens ex_o1)
  from harness_follows_wire [OF valid subjects, of "\<lambda>n evt cursor st. (None, n)" None 0 "\<lambda>n cmd st. (None, n)"
      "\<lambda>n cmd st. ((Some (), None), n)"] run
  show ?thesis by (auto split: option.splits)
qed

end
