(* ===== verification/Spec2Isabelle.thy ===== *)
theory Spec2Isabelle
  imports BusLifecycle StoreErrors SubscriberProps CommandBusProps Testkit
begin

text \<open>
  go-event is a Go library for event-sourced programs. This development models its code and proves
  what makes it correct. File names below are relative to \<^verbatim>\<open>src\<close>.

  \<^bold>\<open>The program.\<close> A message (event, command, query) belongs to an aggregate and travels on a subject of
  five tokens. A program registers handlers with a \<^verbatim>\<open>Bus\<close> and connects it; the bus turns handlers into
  subscription configurations, hands them to its transports and dispatches what they deliver. The
  package \<^verbatim>\<open>nats\<close> has the transports: an event subscriber over JetStream consumers, a command bus over
  requests and replies, and an event store that appends the events of an aggregate with optimistic
  concurrency. \<^verbatim>\<open>Execute\<close> runs a decision against a store and tries again on a conflict. The package
  \<^verbatim>\<open>testkit\<close> has transports for tests.

  \<^bold>\<open>Foundations.\<close>
  \<^item> \<open>Prelude\<close>: the generic lemmas and the collections of simplification rules.
  \<^item> \<open>UnicodeTables\<close>, \<open>GoStrings\<close>, \<open>GoJson\<close>, \<open>Sha1\<close>: what the code uses of Go's standard library:
    strings as bytes and runes, formatting, \<^verbatim>\<open>strings.Split\<close> and \<^verbatim>\<open>Join\<close>, JSON values and how struct
    fields are found in them, SHA-1.
  \<^item> \<open>Contracts\<close> (\<^verbatim>\<open>contracts.go\<close>), \<open>Errors\<close> (\<^verbatim>\<open>errors.go\<close>), \<open>Subjects\<close> (\<^verbatim>\<open>subject.go\<close>): messages as
    records, error values with \<^verbatim>\<open>errors.Is\<close> and \<^verbatim>\<open>errors.As\<close>, subjects and the grammar of tokens.

  \<^bold>\<open>Components.\<close>
  \<^item> \<open>PubSub\<close> (\<^verbatim>\<open>pubsub.go\<close>): configurations and what their validation accepts.
  \<^item> \<open>Registry\<close> (\<^verbatim>\<open>registry.go\<close>): the type registry, over the locale \<open>typed_map\<close>; what it answers after a
    registration, and what a registration that fails leaves behind.
  \<^item> \<open>Compaction\<close>: dropping covered filters, once for both compactions of the code (locale
    \<open>covering\<close>), interpreted in \<open>NatsSubjects\<close> and \<open>BusFilters\<close>.
  \<^item> \<open>NatsSubjects\<close> (\<^verbatim>\<open>nats/subjects.go\<close>, \<^verbatim>\<open>nats/stream.go\<close>): wire subjects and filters; parsing inverts printing,
    filters select exactly what a configuration names.
  \<^item> \<open>BusFilters\<close>, \<open>Bus\<close> (\<^verbatim>\<open>bus.go\<close>): filters and dispatch of a group of handlers; registration, connecting,
    disconnecting, retry and error policy, each locked section a function; the registry is shared with
    the transports by reference (\<open>bindRegistry\<close>), and what a handler's registration makes of the events
    decoded with it.
  \<^item> \<open>BusLifecycle\<close> (\<^verbatim>\<open>bus.go\<close>): the step relation that interleaves those sections with the transports,
    goroutines and any number of other calls of \<^verbatim>\<open>Connect\<close> and \<^verbatim>\<open>Disconnect\<close>; each caught-up token is
    attributed to its group; invariants by rule induction on reachable states.
  \<^item> \<open>CursorStore\<close> (\<^verbatim>\<open>cursor_store.go\<close>, \<^verbatim>\<open>nats/cursor.go\<close>), \<open>Execute\<close> (\<^verbatim>\<open>execute.go\<close>), \<open>ReaderApi\<close> (\<^verbatim>\<open>reader.go\<close>): the
    memory store and the locale \<open>cursor_store\<close>; the retry loop; push iterators and the locale \<open>reader\<close>
    with its clients \<^verbatim>\<open>Collect\<close> and \<^verbatim>\<open>FindFirst\<close>.
  \<^item> \<open>JetStream\<close>: the client library as a record of operations, with the laws below.
  \<^item> \<open>EventStore\<close>, \<open>EventRead\<close> (\<^verbatim>\<open>nats/event_store.go\<close>, \<^verbatim>\<open>nats/read.go\<close>): saving, snapshots, consumers; loading
    and streaming. \<open>EventStream\<close> shows that a stream is a \<open>reader\<close>; \<open>EventLoad\<close> states the abstract log,
    in which an aggregate is the replay of its messages from the last snapshot on, and shows that
    loading refines it and returns. \<open>StoreProperties\<close>, \<open>StoreErrors\<close>: atomic commits, no lost update
    through \<^verbatim>\<open>Execute\<close>, conflicts, snapshots, exact streams.
  \<^item> \<open>Subscriber\<close>, \<open>SubscriberProps\<close> (\<^verbatim>\<open>nats/subscriber.go\<close>, \<^verbatim>\<open>metadata.go\<close>): consumer configurations and
    sessions; which messages reach the handler, how each is settled, when retries are exhausted, that
    catching up is reported once.
  \<^item> \<open>CommandBus\<close>, \<open>CommandBusProps\<close> (\<^verbatim>\<open>nats/command_bus.go\<close>, \<^verbatim>\<open>nats/publisher.go\<close>, \<^verbatim>\<open>nats/bus.go\<close>): envelopes,
    dispatching, handling, subscribing, publishing; what a caller learns of a remote result.
  \<^item> \<open>Testkit\<close> (\<^verbatim>\<open>testkit/stub.go\<close>): the test doubles, which match what the wire filters match.
  \<^item> This theory: the path from the handlers of a group to the filters on the wire.

  \<^bold>\<open>State and effects.\<close> A struct is a record, an optional interface an option, an error a value of type
  \<open>goerror\<close>, a panic of a registration function \<open>Inl\<close>. Handlers, callbacks, loggers, transports and
  the NATS client are parameters that act on a world of type \<open>'w\<close>; the world after a call contains
  what other processes did during it. Sequences and versions are 64-bit words; Go's \<^verbatim>\<open>int\<close> is an integer
  with its wrap-around written out where it can occur.

  \<^bold>\<open>Laws of the NATS client.\<close> Theory \<open>JetStream\<close> states what the event store relies on, over the messages
  that each stream shows: a stream only grows and numbers its messages upwards (\<open>logLaw\<close>, \<open>readLaw\<close>), a
  publish with an expected sequence appends only if that is the last one of the filter
  (\<open>publishLaw\<close>), a batch is appended as a whole (\<open>batchLaw\<close>), the last message of a subject and the
  existence of a stream are reported truly (\<open>lastMsgLaw\<close>, \<open>streamLaw\<close>), a consumer delivers the
  matching messages in order from its position (\<open>consumerLaw\<close>), and the next message of an iterator,
  which may never come (\<open>itNext\<close> is then \<open>None\<close>), does come while one is pending (\<open>nextLaw\<close>).
  \<open>MemoryStream\<close> implements them all. For the command bus and the publisher: a request fails or returns
  what the handler of its subject responded (\<open>requestReplyLaw\<close>), a drained subscription is gone
  (\<open>subscriptionLaw\<close>), and a publish that fails may have been stored nevertheless (\<open>publisherLaw\<close>). Of
  the application, \<open>unmarshalLaw\<close> says that decoding keeps the dynamic type of a value, \<open>reflectLaws\<close>
  what \<^verbatim>\<open>reflect\<close> makes, and \<open>structDecoder\<close> that \<^verbatim>\<open>encoding/json\<close> ignores unknown members.

  \<^bold>\<open>Loops, bounds and fuel.\<close> The loop over a consumer's messages is a partial function whose value
  \<open>None\<close> means that it runs or waits forever; it is shown to return for every consumer that obeys the
  laws: it stops at the last pending message, before a call that could block, and a stream has fewer
  than 2 to the 64 messages, whatever other writers do. Every other loop is structural: retries count
  down from their bound, and iteration over a Go map is an arbitrary permutation. The example server
  holds at most \<open>memCap\<close> (1000) messages per stream, which its examples stay far below.

  \<^bold>\<open>Not modelled.\<close> \<^verbatim>\<open>testkit/natstest/server.go\<close> starts an embedded server: process and network I/O. Debug
  log lines of the publisher and log attributes, which nothing reads, are left out. Panics of
  application code other than event handlers, event decoders and registration (the error callback of
  a subscription among them), and cancellation inside a handler, are outside the model.
\<close>

section \<open>From handlers to wire filters\<close>

text \<open>
  A group of the bus whose names are valid tokens, as the registry enforces when a handler is
  registered (an event name may be empty: a prototype for every name).
\<close>

definition wellNamedGroup :: "('h, 'sub) eventGroup \<Rightarrow> bool" where
  "wellNamedGroup g \<longleftrightarrow> validToken (grpScope g) \<and> validToken (grpAgg g) \<and> groupHandlers g \<noteq> [] \<and>
     (\<forall>h \<in> set (groupHandlers g). validToken (eventKind h) \<and> optToken (eventName h) \<and>
        list_all validToken (aggregateIDs h))"

lemma groupEventFilters_elim:
  assumes "f \<in> set (groupEventFilters rng g)" "rangeOrder rng"
  obtains h spec where "h \<in> set (groupHandlers g)" "spec \<in> set (handlerSpecs h)" "f = specFilter spec"
proof -
  have "set (groupEventFilters rng g) \<subseteq> specFilter ` (\<Union>h \<in> set (groupHandlers g). set (handlerSpecs h))"
    using spec_filters.compact_subset [of "concat (map handlerSpecs (rng (groupHandlers g)))"] assms(2)
    by (auto simp: groupEventFilters_def compactEventFilterSpecs_def)
  with assms(1) that show thesis by blast
qed

lemma groupEventFilters_valid:
  assumes "wellNamedGroup g" "rangeOrder rng" "f \<in> set (groupEventFilters rng g)"
  shows "validFilter f" "FilterKind f \<noteq> []"
proof -
  obtain h spec where h: "h \<in> set (groupHandlers g)" and spec: "spec \<in> set (handlerSpecs h)"
    and f: "f = specFilter spec"
    using groupEventFilters_elim [OF assms(3,2)] .
  from h assms(1) have "validToken (eventKind h)" "optToken (eventName h)" "list_all validToken (aggregateIDs h)"
    by (auto simp: wellNamedGroup_def)
  with spec show "validFilter f" "FilterKind f \<noteq> []"
    by (auto simp: f validFilter_def specFilter_def handlerSpecs_def optToken_def list_all_iff split: if_splits)
qed

lemma groupEventFilters_nonempty:
  assumes "wellNamedGroup g" "rangeOrder rng"
  shows "groupEventFilters rng g \<noteq> []"
proof -
  obtain h where h: "h \<in> set (groupHandlers g)"
    using assms(1) by (cases "groupHandlers g") (auto simp: wellNamedGroup_def)
  obtain spec where "spec \<in> set (handlerSpecs h)"
    by (cases "aggregateIDs h") (auto simp: handlerSpecs_def)
  with h assms(2) have "spec \<in> set (concat (map handlerSpecs (rng (groupHandlers g))))" by auto
  from spec_filters.compact_covers [OF this]
  obtain c where "c \<in> set (compactEventFilterSpecs (concat (map handlerSpecs (rng (groupHandlers g)))))"
    unfolding compactEventFilterSpecs_def by blast
  then show ?thesis by (auto simp: groupEventFilters_def)
qed

lemma orderedConfig_valid:
  assumes "wellNamedGroup g" "rangeOrder (handlerRange env)"
  shows "validEventConfig (orderedConfig env g cursor)"
  using assms groupEventFilters_valid(1) [OF assms]
  by (auto simp: validEventConfig_def orderedConfig_def wellNamedGroup_def optToken_def list_all_iff)

lemma orderedConfig_selects:
  assumes "wellNamedGroup g" "rangeOrder (handlerRange env)"
  shows "configSelects (orderedConfig env g cursor) s \<longleftrightarrow>
     (\<exists>f \<in> set (groupEventFilters (handlerRange env) g). filterAccepts f s)"
proof -
  have "selects (defaultKind (FilterKind f) KindEvent) (FilterIDs f) (FilterNames f) s = filterAccepts f s"
    if "f \<in> set (groupEventFilters (handlerRange env) g)" for f
    using groupEventFilters_valid(2) [OF assms that] by (auto simp: selects_def filterAccepts_def defaultKind_def)
  with groupEventFilters_nonempty [OF assms] show ?thesis
    by (simp add: configSelects_def orderedConfig_def)
qed

text \<open>C2. End to end, an ordered group receives exactly the events it handles: the wire filters that the
  NATS transport derives from the configuration of a group match the subject of a valid event if and
  only if the event has the group's scope and aggregate type and dispatch hands it to some handler.
  This spans the compaction of specifications in the bus, the configuration, and the compaction of
  subjects in the transport.\<close>

theorem ordered_subscription_exact:
  assumes "wellNamedGroup g" "rangeOrder (handlerRange env)" "validSubject (EventSubject evt)"
    and "eventFilters (orderedConfig env g cursor) = Some fs"
  shows "(\<exists>f \<in> set fs. natsMatch f (SubjectString (EventSubject evt))) \<longleftrightarrow>
     AggregateScope evt = grpScope g \<and> AggregateType evt = grpAgg g \<and>
     (\<exists>h \<in> set (groupHandlers g). \<not> skipsHandler h (Kind (EventSubject evt)) evt)"
proof -
  have types: "EvTypes (orderedConfig env g cursor) = [grpAgg g]" "EvScope (orderedConfig env g cursor) = grpScope g"
    by (simp_all add: orderedConfig_def)
  have ids: "eventKind h \<noteq> [] \<and> [] \<notin> set (aggregateIDs h)" if "h \<in> set (groupHandlers g)" for h
    using assms(1) that validToken_not_wildcard(3) by (metis wellNamedGroup_def list_all_iff)
  have "(\<exists>f \<in> set (groupEventFilters (handlerRange env) g). filterAccepts f (EventSubject evt)) \<longleftrightarrow>
      (\<exists>h \<in> set (groupHandlers g). \<not> skipsHandler h (Kind (EventSubject evt)) evt)"
    unfolding groupEventFilters_accept [OF assms(2)] using ids handlerSpecs_match by blast
  then show ?thesis
    using eventFilters_select [OF orderedConfig_valid [OF assms(1,2)] types(1) assms(3,4)]
    by (simp add: types orderedConfig_selects [OF assms(1,2)] EventSubject_def)
qed

definition exOrderCreated :: "unit Event" where
  "exOrderCreated = (New exReflect (GoNamed ''OrderCreated''))\<lparr>AggregateID := ''o1''\<rparr>"

theorem ordered_subscription_exact_witness:
  "\<exists>fs. eventFilters (orderedConfig exTransports exAppGroup None) = Some fs \<and>
     (\<exists>f \<in> set fs. natsMatch f (SubjectString (EventSubject exOrderCreated)))"
proof -
  have o1: "validToken ''o1''" by (simp add: validToken_plain plainChar_def within_def)
  have "wellNamedGroup exAppGroup"
    by (simp add: wellNamedGroup_def groupHandlers_def exAppGroup_def ex_tokens optToken_def)
  moreover have "rangeOrder (handlerRange exTransports)"
    by (simp add: exTransports_def rangeOrder_def)
  moreover have "validSubject (EventSubject exOrderCreated)"
    by (simp add: validSubject_def EventSubject_def exOrderCreated_def exReflect_def kind_defs ex_tokens o1)
  moreover obtain fs where "eventFilters (orderedConfig exTransports exAppGroup None) = Some fs"
    by (simp add: eventFilters_raw orderedConfig_def)
  moreover have "AggregateScope exOrderCreated = grpScope exAppGroup \<and> AggregateType exOrderCreated = grpAgg exAppGroup \<and>
      (\<exists>h \<in> set (groupHandlers exAppGroup). \<not> skipsHandler h (Kind (EventSubject exOrderCreated)) exOrderCreated)"
    by (simp add: exOrderCreated_def exReflect_def exAppGroup_def groupHandlers_def skipsHandler_def
        EventSubject_def kind_defs)
  ultimately show ?thesis
    using ordered_subscription_exact [of exAppGroup exTransports exOrderCreated None] by blast
qed

end
